(* ===== verification/UPS_Prelude.thy ===== *)
theory UPS_Prelude
  imports Main "HOL-Library.Word" "HOL-Library.List_Lexorder"
begin

text \<open>
  Shared notions of the development: identifiers, instants and text as the service
  has them, the result and state-passing combinators in which every fallible or
  stateful operation is written, and the lemmas about them that the component
  theories use through the simplifier.
\<close>

section \<open>Base types\<close>

type_synonym uuid = "128 word"

text \<open>A timezone-aware Python \<open>datetime\<close> is its instant, in microseconds since the epoch.\<close>

type_synonym datetime = int

text \<open>
  A Python \<open>str\<close> is the list of its Unicode code points, so that \<open>length\<close> is \<open>len\<close>
  and the lexicographic order of lists is the order of \<open>str\<close>.
\<close>

type_synonym pystr = "nat list"

definition ustr :: "string \<Rightarrow> pystr" where
  "ustr s = map of_char s"

lemma ustr_Nil [simp]: "ustr [] = []"
  by (simp add: ustr_def)

lemma ustr_Cons [simp]: "ustr (c # s) = of_char c # ustr s"
  by (simp add: ustr_def)

lemma length_ustr [simp]: "length (ustr s) = length s"
  by (simp add: ustr_def)

lemma ustr_inject [simp]: "ustr s = ustr t \<longleftrightarrow> s = t"
  unfolding ustr_def by (rule inj_map_eq_map) (simp add: inj_def)

section \<open>Pure results\<close>

fun rthen :: "'e + 'a \<Rightarrow> ('a \<Rightarrow> 'e + 'b) \<Rightarrow> 'e + 'b" where
  "rthen (Inl e) f = Inl e"
| "rthen (Inr x) f = f x"

lemma rthen_eq_Inr [simp]: "rthen r f = Inr y \<longleftrightarrow> (\<exists>x. r = Inr x \<and> f x = Inr y)"
  by (cases r) auto

lemma rthen_eq_Inl: "rthen r f = Inl e \<longleftrightarrow> r = Inl e \<or> (\<exists>x. r = Inr x \<and> f x = Inl e)"
  by (cases r) auto

lemma rthen_Inr_right [simp]: "rthen r Inr = r"
  by (cases r) auto

lemma rthen_assoc: "rthen (rthen r f) g = rthen r (\<lambda>x. rthen (f x) g)"
  by (cases r) auto

definition rguard :: "bool \<Rightarrow> 'e \<Rightarrow> 'e + unit" where
  "rguard b e = (if b then Inr () else Inl e)"

lemma rguard_simps [simp]: "rguard True e = Inr ()" "rguard False e = Inl e"
  by (simp_all add: rguard_def)

lemma rguard_eq_Inr [simp]: "rguard b e = Inr u \<longleftrightarrow> b"
  by (simp add: rguard_def)

lemma rguard_eq_Inl [simp]: "rguard b e = Inl e' \<longleftrightarrow> \<not> b \<and> e' = e"
  by (auto simp: rguard_def)

section \<open>Results with state\<close>

text \<open>
  An operation on a state \<open>'s\<close> that can raise: the state is threaded through the error
  case too, since a raise does not undo what happened before it.
\<close>

type_synonym ('s, 'e, 'a) proc = "'s \<Rightarrow> ('e + 'a) \<times> 's"

definition sret :: "'a \<Rightarrow> ('s, 'e, 'a) proc" where
  "sret x s = (Inr x, s)"

definition sraise :: "'e \<Rightarrow> ('s, 'e, 'a) proc" where
  "sraise e s = (Inl e, s)"

definition slift :: "'e + 'a \<Rightarrow> ('s, 'e, 'a) proc" where
  "slift r s = (r, s)"

definition sthen :: "('s, 'e, 'a) proc \<Rightarrow> ('a \<Rightarrow> ('s, 'e, 'b) proc) \<Rightarrow> ('s, 'e, 'b) proc" where
  "sthen m f s = (case m s of (Inl e, t) \<Rightarrow> (Inl e, t) | (Inr x, t) \<Rightarrow> f x t)"

text \<open>\<open>except\<close>: the handler says, per exception, what runs instead.\<close>

definition scatch :: "('s, 'e, 'a) proc \<Rightarrow> ('e \<Rightarrow> ('s, 'e, 'a) proc) \<Rightarrow> ('s, 'e, 'a) proc" where
  "scatch m h s = (case m s of (Inl e, t) \<Rightarrow> h e t | (Inr x, t) \<Rightarrow> (Inr x, t))"

lemmas proc_defs = sret_def sraise_def slift_def sthen_def scatch_def

lemma sret_simp [simp]: "sret x s = (Inr x, s)"
  by (simp add: sret_def)

lemma sraise_simp [simp]: "sraise e s = (Inl e, s)"
  by (simp add: sraise_def)

lemma slift_simp [simp]: "slift r s = (r, s)"
  by (simp add: slift_def)

lemma sthen_Inr [simp]: "m s = (Inr x, t) \<Longrightarrow> sthen m f s = f x t"
  by (simp add: sthen_def)

lemma sthen_Inl [simp]: "m s = (Inl e, t) \<Longrightarrow> sthen m f s = (Inl e, t)"
  by (simp add: sthen_def)

lemma sthen_cases:
  "sthen m f s = (r, u) \<longleftrightarrow>
     (\<exists>e. m s = (Inl e, u) \<and> r = Inl e) \<or> (\<exists>x t. m s = (Inr x, t) \<and> f x t = (r, u))"
  by (auto simp: sthen_def split: prod.splits sum.splits)

lemma sthen_eq_Inr:
  "sthen m f s = (Inr y, u) \<longleftrightarrow> (\<exists>x t. m s = (Inr x, t) \<and> f x t = (Inr y, u))"
  by (auto simp: sthen_def split: prod.splits sum.splits)

lemma scatch_Inr [simp]: "m s = (Inr x, t) \<Longrightarrow> scatch m h s = (Inr x, t)"
  by (simp add: scatch_def)

lemma scatch_Inl [simp]: "m s = (Inl e, t) \<Longrightarrow> scatch m h s = h e t"
  by (simp add: scatch_def)

lemma scatch_cases:
  "scatch m h s = (r, u) \<longleftrightarrow>
     (\<exists>x. m s = (Inr x, u) \<and> r = Inr x) \<or> (\<exists>e t. m s = (Inl e, t) \<and> h e t = (r, u))"
  by (auto simp: scatch_def split: prod.splits sum.splits)

lemma sthen_assoc: "sthen (sthen m f) g = sthen m (\<lambda>x. sthen (f x) g)"
  by (auto simp: sthen_def fun_eq_iff split: prod.splits sum.splits)

text \<open>A relation between the state before and after, kept by every run of an operation.\<close>

definition keeps :: "('s \<Rightarrow> 's \<Rightarrow> bool) \<Rightarrow> ('s, 'e, 'a) proc \<Rightarrow> bool" where
  "keeps R m \<longleftrightarrow> (\<forall>s. R s (snd (m s)))"

lemma keepsD: "keeps R m \<Longrightarrow> m s = (r, t) \<Longrightarrow> R s t"
  unfolding keeps_def by (metis snd_conv)

lemma keepsI: "(\<And>s r t. m s = (r, t) \<Longrightarrow> R s t) \<Longrightarrow> keeps R m"
  unfolding keeps_def by (metis prod.collapse)

lemma keeps_sret: "reflp R \<Longrightarrow> keeps R (sret x)"
  by (simp add: keeps_def reflp_def)

lemma keeps_sraise: "reflp R \<Longrightarrow> keeps R (sraise e)"
  by (simp add: keeps_def reflp_def)

lemma keeps_slift: "reflp R \<Longrightarrow> keeps R (slift r)"
  by (simp add: keeps_def reflp_def)

lemma keeps_sthen:
  assumes "transp R" "keeps R m" "\<And>x. keeps R (f x)"
  shows "keeps R (sthen m f)"
proof (rule keepsI)
  fix s r u
  assume "sthen m f s = (r, u)"
  then show "R s u"
    using assms by (auto simp: sthen_cases dest: keepsD transpD)
qed

lemma keeps_scatch:
  assumes "transp R" "keeps R m" "\<And>e. keeps R (h e)"
  shows "keeps R (scatch m h)"
proof (rule keepsI)
  fix s r u
  assume "scatch m h s = (r, u)"
  then show "R s u"
    using assms by (auto simp: scatch_cases dest: keepsD transpD)
qed

lemma keeps_case_option:
  "keeps R m \<Longrightarrow> (\<And>x. keeps R (k x)) \<Longrightarrow> keeps R (case v of None \<Rightarrow> m | Some x \<Rightarrow> k x)"
  by (cases v) simp_all

lemma keeps_if: "keeps R m \<Longrightarrow> keeps R m' \<Longrightarrow> keeps R (if b then m else m')"
  by simp

lemmas keeps_intros = keeps_sret keeps_sraise keeps_slift keeps_sthen keeps_scatch

end
