(* ===== verification/Errors.thy ===== *)
theory Errors
  imports UPS_Prelude
begin

text \<open>
  The exceptions of the service. A base class of the source is a constructor that
  carries the class of its subclasses, so an \<open>except\<close> clause for a base class is a
  pattern on that constructor. \<open>SqlError\<close> stands for what the database driver raises
  and \<open>RedisError\<close> for what the Redis client raises; the last constructors are the
  built-in exceptions of Python that the code raises itself.
\<close>

section \<open>Domain\<close>

datatype user_profile_error =
    UsernameAlreadyTakenError
  | InvalidUsernameError
  | ReservedUsernameError
  | InvalidDisplayNameError
  | InvalidBioError
  | UserProfileNotFoundError
  | ProfileVersionMismatchError "int option"
  | InvalidProfileStatusError

datatype user_settings_error =
    InvalidThemeError
  | InvalidLocaleError
  | InvalidTimezoneError
  | InvalidPrivacyScopeError
  | UserSettingsNotFoundError
  | SettingsVersionMismatchError "int option"

datatype domain_error =
    InvalidTimestampError
  | UserProfileError user_profile_error
  | UserSettingsError user_settings_error

section \<open>Application\<close>

datatype idempotency_error =
    IdempotencyKeyRequiredError
  | IdempotencyUnavailableError
  | IdempotencyConflictError
  | IdempotencyInProgressError
  | StoredReplayUnavailableError
  | IdempotencyScopeRequiredError
  | IdempotencyResultNotStoredError

datatype persistence_error =
    TransactionConflictError
  | PersistenceUnavailableError

section \<open>Infrastructure\<close>

datatype transaction_error =
    TransactionRequiredError
  | NestedTransactionNotAllowedError
  | TransactionNotStartedError

text \<open>
  What SQLAlchemy raises: the class of the error, the SQLSTATE the driver reports, whether
  the connection was invalidated, and the violated constraint. \<open>IntegrityError\<close> is a
  subclass of \<open>DBAPIError\<close>.
\<close>

datatype sql_error_class =
    IntegrityError
  | OtherDBAPIError
  | DisconnectionError
  | TimeoutError
  | OtherSQLAlchemyError

record sql_error =
  sql_class :: sql_error_class
  sqlstate :: "string option"
  connection_invalidated :: bool
  constraint_name :: "string option"

section \<open>All exceptions\<close>

datatype exn =
    DomainError domain_error
  | IdempotencyError idempotency_error
  | PersistenceError persistence_error
  | TransactionError transaction_error
  | SqlError sql_error
  | RedisError
  | CircuitBreakerError
  | ConcurrentWinnerCommitted
  | ValidationError
  | SettingsError
  | ValueError
  | TypeError
  | KeyError
  | RuntimeError
  | AssertionError
  | CancelledError

abbreviation profile_error :: "user_profile_error \<Rightarrow> exn" where
  "profile_error e \<equiv> DomainError (UserProfileError e)"

abbreviation settings_error :: "user_settings_error \<Rightarrow> exn" where
  "settings_error e \<equiv> DomainError (UserSettingsError e)"

text \<open>
  \<open>CancelledError\<close> is a \<open>BaseException\<close> that is no \<open>Exception\<close>: an \<open>except Exception\<close>
  clause lets it through.
\<close>

definition is_exception :: "exn \<Rightarrow> bool" where
  "is_exception e = (e \<noteq> CancelledError)"

type_synonym 'a result = "exn + 'a"

end
