(* ===== verification/Value_Objects.thy ===== *)
theory Value_Objects
  imports Errors
begin

text \<open>
  The value objects of \<open>src/src/app/domain/value_objects\<close>: usernames, display names,
  biographies, time zones, the enumerations and the privacy settings, each with its
  validator, the invariant the validator establishes, and the fact that a validated value
  passes its validator unchanged (the aggregates validate stored values again on every
  change).
\<close>

section \<open>The text operations of Python\<close>

text \<open>\<open>str.isspace\<close> on one code point, which is what \<open>str.strip\<close> removes.\<close>

definition is_space :: "nat \<Rightarrow> bool" where
  "is_space c \<longleftrightarrow> (9 \<le> c \<and> c \<le> 13) \<or> (28 \<le> c \<and> c \<le> 32) \<or> c = 133 \<or> c = 160 \<or> c = 5760
     \<or> (8192 \<le> c \<and> c \<le> 8202) \<or> c = 8232 \<or> c = 8233 \<or> c = 8239 \<or> c = 8287 \<or> c = 12288"

definition strip :: "pystr \<Rightarrow> pystr" where
  "strip s = rev (dropWhile is_space (rev (dropWhile is_space s)))"

text \<open>
  \<open>str.lower\<close> is needed only for usernames, whose pattern admits ASCII. Two code points
  outside ASCII have an ASCII letter in their lower case: the Kelvin sign (\<open>k\<close>) and the
  dotted capital I (\<open>i\<close> and a combining dot). Every other code point outside ASCII
  lowers to code points outside ASCII, of which nothing more is used; it stands for itself.
\<close>

definition lower_char :: "nat \<Rightarrow> pystr" where
  "lower_char c =
     (if 65 \<le> c \<and> c \<le> 90 then [c + 32]
      else if c = 8490 then [107]
      else if c = 304 then [105, 775]
      else [c])"

definition lower :: "pystr \<Rightarrow> pystr" where
  "lower s = concat (map lower_char s)"

lemma strip_subset: "set (strip s) \<subseteq> set s"
  unfolding strip_def by (metis set_dropWhileD set_rev subsetI)

lemma length_dropWhile_le_self: "length (dropWhile P xs) \<le> length xs"
  by (induction xs) auto

lemma length_strip: "length (strip s) \<le> length s"
proof -
  have "length (strip s) \<le> length (dropWhile is_space s)"
    unfolding strip_def by (metis length_dropWhile_le_self length_rev)
  also have "\<dots> \<le> length s" by (rule length_dropWhile_le_self)
  finally show ?thesis .
qed

text \<open>A text whose ends are no white space; \<open>strip\<close> returns exactly these.\<close>

definition stripped :: "pystr \<Rightarrow> bool" where
  "stripped s \<longleftrightarrow> s = [] \<or> (\<not> is_space (hd s) \<and> \<not> is_space (last s))"

lemma strip_stripped: "stripped s \<Longrightarrow> strip s = s"
proof (cases "s = []")
  case False
  assume "stripped s"
  with False have h: "\<not> is_space (hd s)" and l: "\<not> is_space (last s)"
    by (auto simp: stripped_def)
  from False h have d: "dropWhile is_space s = s"
    by (simp add: dropWhile_eq_self_iff)
  from False l have "dropWhile is_space (rev s) = rev s"
    by (simp add: dropWhile_eq_self_iff hd_rev)
  with d show ?thesis by (simp add: strip_def)
qed (simp add: strip_def)

lemma stripped_strip: "stripped (strip s)"
proof (cases "strip s = []")
  case False
  let ?t = "dropWhile is_space s" and ?u = "dropWhile is_space (rev (dropWhile is_space s))"
  have t: "?t \<noteq> []" and u: "?u \<noteq> []"
    using False by (auto simp: strip_def dest: set_dropWhileD)
  have "\<not> is_space (hd ?u)" using u by (rule hd_dropWhile)
  then have l: "\<not> is_space (last (strip s))"
    using u by (simp add: strip_def last_rev)
  obtain ws where ws: "rev ?t = ws @ ?u"
    by (metis takeWhile_dropWhile_id)
  then have "?t = rev ?u @ rev ws" by (metis rev_append rev_rev_ident)
  then have "hd ?t = hd (strip s)"
    using u by (metis hd_append2 rev_is_Nil_conv strip_def)
  moreover have "\<not> is_space (hd ?t)" using t by (rule hd_dropWhile)
  ultimately show ?thesis using l by (simp add: stripped_def)
qed (simp add: stripped_def)

lemma strip_idem [simp]: "strip (strip s) = strip s"
  by (rule strip_stripped) (rule stripped_strip)


section \<open>Untyped values\<close>

text \<open>
  A Python value whose type a validator still has to check: a keyword argument, a column of
  a row, a decoded JSON document.
\<close>

datatype pyobj =
    PyNone
  | PyBool bool
  | PyInt int
  | PyStr pystr
  | PyList "pyobj list"
  | PyDict "(pystr \<times> pyobj) list"

section \<open>Username\<close>

definition RESERVED_USERNAMES :: "pystr list" where
  "RESERVED_USERNAMES = map ustr
     [''admin'', ''administrator'', ''root'', ''system'', ''support'', ''help'', ''api'',
      ''bot'', ''official'', ''andruha'', ''moderator'', ''service'', ''null'', ''undefined'']"

text \<open>The character class of \<open>_USERNAME_REGEX\<close>, and a full match of it.\<close>

definition username_char :: "nat \<Rightarrow> bool" where
  "username_char c \<longleftrightarrow> (97 \<le> c \<and> c \<le> 122) \<or> (48 \<le> c \<and> c \<le> 57) \<or> c = 95"

definition username_fullmatch :: "pystr \<Rightarrow> bool" where
  "username_fullmatch s \<longleftrightarrow> 3 \<le> length s \<and> length s \<le> 32 \<and> list_all username_char s"

definition Username :: "pyobj \<Rightarrow> pystr result" where
  "Username value =
     (case value of
        PyStr s \<Rightarrow>
          (let normalized = lower (strip s) in
           if \<not> username_fullmatch normalized then Inl (profile_error InvalidUsernameError)
           else if normalized \<in> set RESERVED_USERNAMES
             then Inl (profile_error ReservedUsernameError)
           else Inr normalized)
      | _ \<Rightarrow> Inl (profile_error InvalidUsernameError))"

text \<open>The invariant of a username value.\<close>

definition valid_username :: "pystr \<Rightarrow> bool" where
  "valid_username s \<longleftrightarrow> username_fullmatch s \<and> s \<notin> set RESERVED_USERNAMES"

lemma username_char_not_space: "username_char c \<Longrightarrow> \<not> is_space c"
  by (auto simp: username_char_def is_space_def)

lemma username_char_lower: "username_char c \<Longrightarrow> lower_char c = [c]"
  by (auto simp: username_char_def lower_char_def)

lemma lower_username: "list_all username_char s \<Longrightarrow> lower s = s"
  by (induction s) (auto simp: lower_def username_char_lower)

lemma strip_username: "list_all username_char s \<Longrightarrow> strip s = s"
  by (rule strip_stripped)
    (auto simp: stripped_def list_all_iff dest!: username_char_not_space)

lemma Username_valid: "Username v = Inr u \<Longrightarrow> valid_username u"
  by (auto simp: Username_def valid_username_def Let_def split: pyobj.splits if_splits)

lemma valid_username_fixed [simp]: "valid_username u \<Longrightarrow> Username (PyStr u) = Inr u"
  by (simp add: Username_def valid_username_def username_fullmatch_def lower_username
      strip_username Let_def)

section \<open>Display name\<close>

definition DEFAULT_DISPLAY_NAME :: pystr where
  "DEFAULT_DISPLAY_NAME =
     [1055, 1086, 1083, 1100, 1079, 1086, 1074, 1072, 1090, 1077, 1083, 1100]"

text \<open>The character class of \<open>_EMOJI_REGEX\<close>.\<close>

definition emoji_char :: "nat \<Rightarrow> bool" where
  "emoji_char c \<longleftrightarrow> (0x2600 \<le> c \<and> c \<le> 0x27BF) \<or> (0x1F000 \<le> c \<and> c \<le> 0x1FFFF)"

text \<open>\<open>max(text)\<close> raises on the empty text.\<close>

definition contains_emoji :: "pystr \<Rightarrow> bool result" where
  "contains_emoji text =
     (if text = [] then Inl ValueError
      else if Max (set text) < 0x2000 then Inr False
      else Inr (list_ex emoji_char text))"

definition validate_display_name :: "pyobj \<Rightarrow> pystr result" where
  "validate_display_name value =
     (case value of
        PyStr s \<Rightarrow>
          (let trimmed = strip s in
           if \<not> (1 \<le> length trimmed \<and> length trimmed \<le> 64)
             then Inl (profile_error InvalidDisplayNameError)
           else rthen (contains_emoji trimmed) (\<lambda>emoji.
             if emoji then Inl (profile_error InvalidDisplayNameError)
             else Inr trimmed))
      | _ \<Rightarrow> Inl (profile_error InvalidDisplayNameError))"

definition valid_display_name :: "pystr \<Rightarrow> bool" where
  "valid_display_name s \<longleftrightarrow>
     stripped s \<and> 1 \<le> length s \<and> length s \<le> 64 \<and> \<not> list_ex emoji_char s"

lemma contains_emoji_eq:
  assumes "text \<noteq> []"
  shows "contains_emoji text = Inr (list_ex emoji_char text)"
proof (cases "Max (set text) < 0x2000")
  case True
  then have "\<forall>c \<in> set text. c < 0x2000"
    using assms by (simp add: Max_less_iff)
  then have "\<not> list_ex emoji_char text"
    by (auto simp: list_ex_iff emoji_char_def)
  with True assms show ?thesis by (simp add: contains_emoji_def)
next
  case False
  with assms show ?thesis by (auto simp: contains_emoji_def)
qed

lemma validate_display_name_eq:
  "validate_display_name (PyStr s) =
     (if valid_display_name (strip s) then Inr (strip s)
      else Inl (profile_error InvalidDisplayNameError))"
proof (cases "strip s = []")
  case True
  then show ?thesis
    by (simp add: validate_display_name_def valid_display_name_def)
next
  case False
  then have "contains_emoji (strip s) = Inr (list_ex emoji_char (strip s))"
    by (rule contains_emoji_eq)
  with False show ?thesis
    by (simp add: validate_display_name_def valid_display_name_def stripped_strip Let_def
        Suc_le_eq)
qed

lemma validate_display_name_valid:
  "validate_display_name v = Inr d \<Longrightarrow> valid_display_name d"
proof (cases v)
  case (PyStr s)
  moreover assume "validate_display_name v = Inr d"
  ultimately show ?thesis
    by (auto simp: validate_display_name_eq split: if_splits)
qed (simp_all add: validate_display_name_def)

lemma valid_display_name_fixed [simp]:
  "valid_display_name d \<Longrightarrow> validate_display_name (PyStr d) = Inr d"
  by (simp add: validate_display_name_eq valid_display_name_def strip_stripped)

lemma default_display_name_valid [simp]: "valid_display_name DEFAULT_DISPLAY_NAME"
  by (simp add: valid_display_name_def DEFAULT_DISPLAY_NAME_def stripped_def is_space_def
      emoji_char_def)

section \<open>Biography\<close>

definition validate_bio :: "pyobj \<Rightarrow> pystr result" where
  "validate_bio value =
     (case value of
        PyStr s \<Rightarrow>
          if length s > 255 then Inl (profile_error InvalidBioError)
          else if 10 \<in> set s \<or> 13 \<in> set s then Inl (profile_error InvalidBioError)
          else Inr s
      | _ \<Rightarrow> Inl (profile_error InvalidBioError))"

definition valid_bio :: "pystr \<Rightarrow> bool" where
  "valid_bio s \<longleftrightarrow> length s \<le> 255 \<and> 10 \<notin> set s \<and> 13 \<notin> set s"

lemma validate_bio_eq:
  "validate_bio (PyStr s) = (if valid_bio s then Inr s else Inl (profile_error InvalidBioError))"
  by (simp add: validate_bio_def valid_bio_def)

lemma validate_bio_valid: "validate_bio v = Inr b \<Longrightarrow> valid_bio b"
  by (auto simp: validate_bio_def valid_bio_def split: pyobj.splits if_splits)

lemma valid_bio_fixed [simp]: "valid_bio b \<Longrightarrow> validate_bio (PyStr b) = Inr b"
  by (simp add: validate_bio_eq)

section \<open>Time zone\<close>

text \<open>
  The time zone database is data outside the repository: \<open>zone_ok\<close> says which keys
  \<open>zoneinfo.ZoneInfo\<close> accepts.
\<close>

definition DEFAULT_TIMEZONE :: pystr where
  "DEFAULT_TIMEZONE = ustr ''Europe/Moscow''"

definition validate_timezone :: "(pystr \<Rightarrow> bool) \<Rightarrow> pyobj \<Rightarrow> pystr result" where
  "validate_timezone zone_ok value =
     (case value of
        PyStr s \<Rightarrow>
          (let normalized = strip s in
           if zone_ok normalized then Inr normalized
           else Inl (settings_error InvalidTimezoneError))
      | _ \<Rightarrow> Inl (settings_error InvalidTimezoneError))"

definition valid_timezone :: "(pystr \<Rightarrow> bool) \<Rightarrow> pystr \<Rightarrow> bool" where
  "valid_timezone zone_ok s \<longleftrightarrow> stripped s \<and> zone_ok s"

lemma validate_timezone_valid: "validate_timezone zone_ok v = Inr z \<Longrightarrow> valid_timezone zone_ok z"
  by (auto simp: validate_timezone_def valid_timezone_def stripped_strip Let_def
      split: pyobj.splits if_splits)

lemma valid_timezone_fixed [simp]:
  "valid_timezone zone_ok z \<Longrightarrow> validate_timezone zone_ok (PyStr z) = Inr z"
  by (simp add: validate_timezone_def valid_timezone_def strip_stripped)

lemma default_timezone_stripped [simp]: "stripped DEFAULT_TIMEZONE"
  by (simp add: DEFAULT_TIMEZONE_def stripped_def is_space_def)

section \<open>Enumerations\<close>

text \<open>
  A \<open>StrEnum\<close> is a datatype with the string of each member. Calling the class looks the
  value up and reaches \<open>_missing_\<close>, which raises, when no member has it.
\<close>

datatype Theme = SYSTEM | LIGHT | DARK

fun theme_value :: "Theme \<Rightarrow> pystr" where
  "theme_value SYSTEM = ustr ''system''"
| "theme_value LIGHT = ustr ''light''"
| "theme_value DARK = ustr ''dark''"

definition theme_of :: "pyobj \<Rightarrow> Theme result" where
  "theme_of value =
     (if value = PyStr (theme_value SYSTEM) then Inr SYSTEM
      else if value = PyStr (theme_value LIGHT) then Inr LIGHT
      else if value = PyStr (theme_value DARK) then Inr DARK
      else Inl (settings_error InvalidThemeError))"

definition theme_default :: Theme where
  "theme_default = SYSTEM"

datatype Locale = RU | EN

fun locale_value :: "Locale \<Rightarrow> pystr" where
  "locale_value RU = ustr ''ru''"
| "locale_value EN = ustr ''en''"

definition locale_of :: "pyobj \<Rightarrow> Locale result" where
  "locale_of value =
     (if value = PyStr (locale_value RU) then Inr RU
      else if value = PyStr (locale_value EN) then Inr EN
      else Inl (settings_error InvalidLocaleError))"

definition locale_default :: Locale where
  "locale_default = RU"

datatype UserProfileStatus = ACTIVE | DISABLED | BLOCKED

fun status_value :: "UserProfileStatus \<Rightarrow> pystr" where
  "status_value ACTIVE = ustr ''ACTIVE''"
| "status_value DISABLED = ustr ''DISABLED''"
| "status_value BLOCKED = ustr ''BLOCKED''"

definition status_of :: "pyobj \<Rightarrow> UserProfileStatus result" where
  "status_of value =
     (if value = PyStr (status_value ACTIVE) then Inr ACTIVE
      else if value = PyStr (status_value DISABLED) then Inr DISABLED
      else if value = PyStr (status_value BLOCKED) then Inr BLOCKED
      else Inl (profile_error InvalidProfileStatusError))"

datatype PrivacyScope = SCOPE_ALL | SCOPE_NOBODY

fun scope_value :: "PrivacyScope \<Rightarrow> pystr" where
  "scope_value SCOPE_ALL = ustr ''ALL''"
| "scope_value SCOPE_NOBODY = ustr ''NOBODY''"

definition scope_of :: "pyobj \<Rightarrow> PrivacyScope result" where
  "scope_of value =
     (if value = PyStr (scope_value SCOPE_ALL) then Inr SCOPE_ALL
      else if value = PyStr (scope_value SCOPE_NOBODY) then Inr SCOPE_NOBODY
      else Inl (settings_error InvalidPrivacyScopeError))"

lemma enum_roundtrips [simp]:
  "theme_of (PyStr (theme_value t)) = Inr t"
  "locale_of (PyStr (locale_value l)) = Inr l"
  "status_of (PyStr (status_value st)) = Inr st"
  "scope_of (PyStr (scope_value sc)) = Inr sc"
  by (cases t, simp_all add: theme_of_def)
    (cases l, simp_all add: locale_of_def, cases st, simp_all add: status_of_def,
      cases sc, simp_all add: scope_of_def)

section \<open>Privacy settings\<close>

record PrivacySettings =
  who_can_see_avatar :: PrivacyScope
  who_can_find_by_username :: PrivacyScope
  who_can_see_bio :: PrivacyScope

definition privacy_default :: PrivacySettings where
  "privacy_default =
     \<lparr>who_can_see_avatar = SCOPE_ALL, who_can_find_by_username = SCOPE_ALL, who_can_see_bio = SCOPE_ALL\<rparr>"

definition privacy_keys :: "pystr list" where
  "privacy_keys =
     map ustr [''who_can_see_avatar'', ''who_can_find_by_username'', ''who_can_see_bio'']"

definition privacy_dump :: "PrivacySettings \<Rightarrow> pyobj" where
  "privacy_dump p = PyDict
     [(ustr ''who_can_see_avatar'', PyStr (scope_value (who_can_see_avatar p))),
      (ustr ''who_can_find_by_username'', PyStr (scope_value (who_can_find_by_username p))),
      (ustr ''who_can_see_bio'', PyStr (scope_value (who_can_see_bio p)))]"

text \<open>
  Validation of a dictionary: each field in declaration order, its default \<open>SCOPE_ALL\<close> when the
  key is absent; \<open>extra="forbid"\<close> refuses any other key after the fields.
\<close>

definition scope_field :: "(pystr \<times> pyobj) list \<Rightarrow> string \<Rightarrow> PrivacyScope result" where
  "scope_field kvs name =
     (case map_of kvs (ustr name) of None \<Rightarrow> Inr SCOPE_ALL | Some v \<Rightarrow> scope_of v)"

definition privacy_of :: "pyobj \<Rightarrow> PrivacySettings result" where
  "privacy_of value =
     (case value of
        PyDict kvs \<Rightarrow>
          rthen (scope_field kvs ''who_can_see_avatar'') (\<lambda>a.
          rthen (scope_field kvs ''who_can_find_by_username'') (\<lambda>f.
          rthen (scope_field kvs ''who_can_see_bio'') (\<lambda>b.
          if list_all (\<lambda>kv. fst kv \<in> set privacy_keys) kvs
            then Inr \<lparr>who_can_see_avatar = a, who_can_find_by_username = f, who_can_see_bio = b\<rparr>
            else Inl ValidationError)))
      | _ \<Rightarrow> Inl ValidationError)"

lemma privacy_roundtrip [simp]: "privacy_of (privacy_dump p) = Inr p"
  by (cases p) (simp add: privacy_of_def privacy_dump_def scope_field_def privacy_keys_def)

end
