(* ===== verification/Aggregates.thy ===== *)
theory Aggregates
  imports Value_Objects
begin

text \<open>
  The entity base classes (\<open>src/src/app/domain/base.py\<close>) and the two aggregates
  (\<open>src/src/app/domain/aggregates\<close>). A method that mutates the object returns the object
  after the call beside its result; an exception returns the object too, so that "the
  object is left as it was" is a statement about the model. What the base class promises
  its subclasses is the locale \<open>versioned_aggregate\<close>, proved once and interpreted on both
  aggregates.
\<close>

section \<open>Entities\<close>

record Entity =
  entity_id :: uuid
  created_at :: datetime

record MutableEntity = Entity +
  updated_at :: "datetime option"

record VersionedMutableEntity = MutableEntity +
  version :: int

text \<open>The model validator: \<open>updated_at\<close> is strictly after \<open>created_at\<close>, if there is one.\<close>

definition timestamps_ok :: "'a MutableEntity_scheme \<Rightarrow> bool" where
  "timestamps_ok self = (case updated_at self of None \<Rightarrow> True | Some t \<Rightarrow> \<not> t \<le> created_at self)"

definition validate_timestamps :: "'a MutableEntity_scheme \<Rightarrow> unit result" where
  "validate_timestamps self =
     (case updated_at self of
        None \<Rightarrow> Inr ()
      | Some t \<Rightarrow> if t \<le> created_at self then Inl (DomainError InvalidTimestampError) else Inr ())"

lemma validate_timestamps_eq:
  "validate_timestamps self = rguard (timestamps_ok self) (DomainError InvalidTimestampError)"
  by (simp add: validate_timestamps_def timestamps_ok_def split: option.splits)

text \<open>
  The methods of \<open>VersionedMutableEntity\<close>, over the class's \<open>model_validate\<close> and
  \<open>model_dump\<close>. \<open>changes\<close> overwrites entries of the dumped dictionary.
\<close>

definition mark_updated ::
  "('i VersionedMutableEntity_scheme \<Rightarrow> 'e VersionedMutableEntity_scheme result) \<Rightarrow>
   ('e VersionedMutableEntity_scheme \<Rightarrow> 'i VersionedMutableEntity_scheme) \<Rightarrow>
   datetime \<Rightarrow> ('e VersionedMutableEntity_scheme, exn, unit) proc" where
  "mark_updated model_validate model_dump now self =
     (case model_validate
             ((model_dump self)\<lparr>updated_at := Some now, version := version self + 1\<rparr>) of
        Inl e \<Rightarrow> (Inl e, self)
      | Inr candidate \<Rightarrow> (Inr (), candidate))"

definition apply_changes ::
  "('i VersionedMutableEntity_scheme \<Rightarrow> 'e VersionedMutableEntity_scheme result) \<Rightarrow>
   ('e VersionedMutableEntity_scheme \<Rightarrow> 'i VersionedMutableEntity_scheme) \<Rightarrow>
   datetime \<Rightarrow> ('i VersionedMutableEntity_scheme \<Rightarrow> 'i VersionedMutableEntity_scheme) \<Rightarrow>
   ('e VersionedMutableEntity_scheme, exn, bool) proc" where
  "apply_changes model_validate model_dump now changes self =
     (case model_validate (changes (model_dump self)) of
        Inl e \<Rightarrow> (Inl e, self)
      | Inr candidate \<Rightarrow>
          if candidate = self then (Inr False, self)
          else (case mark_updated model_validate model_dump now candidate of
                  (Inl e, candidate') \<Rightarrow> (Inl e, self)
                | (Inr u, candidate') \<Rightarrow> (Inr True, candidate')))"

section \<open>The contract of a versioned aggregate\<close>

text \<open>Changes of business fields, which leave identity, times and version alone.\<close>

definition keeps_base ::
  "('i VersionedMutableEntity_scheme \<Rightarrow> 'i VersionedMutableEntity_scheme) \<Rightarrow> bool" where
  "keeps_base changes \<longleftrightarrow>
     (\<forall>i. entity_id (changes i) = entity_id i \<and> created_at (changes i) = created_at i
        \<and> updated_at (changes i) = updated_at i \<and> version (changes i) = version i)"

text \<open>
  The outcome of a business operation at time \<open>now\<close> that did not raise: either nothing
  moved, or version and time moved together.
\<close>

definition stamped ::
  "datetime \<Rightarrow> bool \<Rightarrow> 'e VersionedMutableEntity_scheme \<Rightarrow> 'e VersionedMutableEntity_scheme \<Rightarrow> bool"
where
  "stamped now changed self self' \<longleftrightarrow>
     (if changed
      then version self' = version self + 1 \<and> updated_at self' = Some now \<and> created_at self < now
        \<and> entity_id self' = entity_id self \<and> created_at self' = created_at self
      else self' = self)"

locale versioned_aggregate =
  fixes validate :: "'i VersionedMutableEntity_scheme \<Rightarrow> 'e VersionedMutableEntity_scheme result"
    and dump :: "'e VersionedMutableEntity_scheme \<Rightarrow> 'i VersionedMutableEntity_scheme"
    and invar :: "'e VersionedMutableEntity_scheme \<Rightarrow> bool"
  assumes validate_dump: "invar e \<Longrightarrow> validate (dump e) = Inr e"
    and validate_invar: "validate i = Inr e \<Longrightarrow> invar e"
    and validate_base: "validate i = Inr e \<Longrightarrow>
      entity_id e = entity_id i \<and> created_at e = created_at i \<and> updated_at e = updated_at i
      \<and> version e = version i"
    and dump_base: "entity_id (dump e) = entity_id e \<and> created_at (dump e) = created_at e
      \<and> updated_at (dump e) = updated_at e \<and> version (dump e) = version e"
    and restamp: "invar e \<Longrightarrow> 1 \<le> v \<Longrightarrow>
      validate ((dump e)\<lparr>updated_at := Some now, version := v\<rparr>) =
        (if now \<le> created_at e then Inl (DomainError InvalidTimestampError)
         else Inr (e\<lparr>updated_at := Some now, version := v\<rparr>))"
    and invar_version: "invar e \<Longrightarrow> 1 \<le> version e"
begin

abbreviation apply_ch where
  "apply_ch \<equiv> apply_changes validate dump"

lemma mark_updated_eq:
  "invar e \<Longrightarrow> mark_updated validate dump now e =
     (if now \<le> created_at e then (Inl (DomainError InvalidTimestampError), e)
      else (Inr (), e\<lparr>updated_at := Some now, version := version e + 1\<rparr>))"
  using restamp [of e "version e + 1" now] invar_version [of e]
  by (simp add: mark_updated_def)

lemma apply_changes_eq:
  "apply_ch now changes self =
     (case validate (changes (dump self)) of
        Inl e \<Rightarrow> (Inl e, self)
      | Inr c \<Rightarrow>
          if c = self then (Inr False, self)
          else if now \<le> created_at c then (Inl (DomainError InvalidTimestampError), self)
          else (Inr True, c\<lparr>updated_at := Some now, version := version c + 1\<rparr>))"
  by (auto simp: apply_changes_def mark_updated_eq dest: validate_invar split: sum.splits)

lemma apply_changes_error: "apply_ch now changes self = (Inl e, self') \<Longrightarrow> self' = self"
  by (auto simp: apply_changes_eq split: sum.splits if_splits)

lemma apply_changes_unchanged: "apply_ch now changes self = (Inr False, self') \<Longrightarrow> self' = self"
  by (auto simp: apply_changes_eq split: sum.splits if_splits)

text \<open>A change that leaves the base fields alone moves version and time together.\<close>

lemma apply_changes_changed:
  assumes "apply_ch now changes self = (Inr True, self')"
    and "keeps_base changes"
  shows "version self' = version self + 1 \<and> updated_at self' = Some now
    \<and> created_at self < now \<and> entity_id self' = entity_id self
    \<and> created_at self' = created_at self"
proof -
  obtain c where c: "validate (changes (dump self)) = Inr c" and "c \<noteq> self"
    and now: "\<not> now \<le> created_at c"
    and self': "self' = c\<lparr>updated_at := Some now, version := version c + 1\<rparr>"
    using assms(1) by (auto simp: apply_changes_eq split: sum.splits if_splits)
  have "entity_id c = entity_id self \<and> created_at c = created_at self \<and> version c = version self"
    using validate_base [OF c] assms(2) dump_base [of self] by (simp add: keeps_base_def)
  with now self' show ?thesis by simp
qed

lemma apply_changes_stamped:
  "apply_ch now changes self = (Inr changed, self') \<Longrightarrow> keeps_base changes \<Longrightarrow>
   stamped now changed self self'"
  using apply_changes_changed [of now changes self self'] apply_changes_unchanged [of now changes self self']
  by (cases changed) (simp_all add: stamped_def)

lemma apply_changes_invar:
  assumes "invar self" "apply_ch now changes self = (r, self')"
  shows "invar self'"
proof -
  have "invar (c\<lparr>updated_at := Some now, version := version c + 1\<rparr>)"
    if "validate i = Inr c" "\<not> now \<le> created_at c" for i c
    using restamp [of c "version c + 1" now] that validate_invar invar_version [of c]
    by fastforce
  with assms show ?thesis
    by (auto simp: apply_changes_eq split: sum.splits if_splits)
qed

text \<open>Rewriting the dump with nothing is no change.\<close>

lemma apply_changes_noop: "invar self \<Longrightarrow> apply_ch now (\<lambda>i. i) self = (Inr False, self)"
  by (simp add: apply_changes_eq validate_dump)

end

section \<open>The profile aggregate\<close>

record UserProfile = VersionedMutableEntity +
  username :: "pystr option"
  display_name :: pystr
  bio :: "pystr option"
  avatar_key :: "pystr option"
  status :: UserProfileStatus
  is_verified :: bool

text \<open>
  The dictionary that \<open>model_validate\<close> reads: text before validation, and an enumeration
  field that holds a member already or the string of one. pydantic turns whatever the lookup of a
  member raises into a \<open>ValidationError\<close>.
\<close>

datatype 'a field_input = Member 'a | Raw pyobj

fun read_field :: "(pyobj \<Rightarrow> 'a result) \<Rightarrow> 'a field_input \<Rightarrow> 'a result" where
  "read_field f (Member x) = Inr x"
| "read_field f (Raw v) = (case f v of Inl e \<Rightarrow> Inl ValidationError | Inr x \<Rightarrow> Inr x)"

fun read_optional :: "(pyobj \<Rightarrow> pystr result) \<Rightarrow> pystr option \<Rightarrow> pystr option result" where
  "read_optional f None = Inr None"
| "read_optional f (Some s) = rthen (f (PyStr s)) (\<lambda>x. Inr (Some x))"

record ProfileInput = VersionedMutableEntity +
  in_username :: "pystr option"
  in_display_name :: pystr
  in_bio :: "pystr option"
  in_avatar_key :: "pystr option"
  in_status :: "UserProfileStatus field_input"
  in_is_verified :: bool

definition profile_validate :: "ProfileInput \<Rightarrow> UserProfile result" where
  "profile_validate i =
     rthen (read_optional Username (in_username i)) (\<lambda>u.
     rthen (validate_display_name (PyStr (in_display_name i))) (\<lambda>d.
     rthen (read_optional validate_bio (in_bio i)) (\<lambda>b.
     rthen (read_field status_of (in_status i)) (\<lambda>st.
     rthen (rguard (1 \<le> version i) ValidationError) (\<lambda>_.
     rthen (validate_timestamps i) (\<lambda>_.
       Inr \<lparr>entity_id = entity_id i, created_at = created_at i, updated_at = updated_at i,
            version = version i, username = u, display_name = d, bio = b,
            avatar_key = in_avatar_key i, status = st, is_verified = in_is_verified i\<rparr>))))))"

definition profile_dump :: "UserProfile \<Rightarrow> ProfileInput" where
  "profile_dump p =
     \<lparr>entity_id = entity_id p, created_at = created_at p, updated_at = updated_at p,
      version = version p, in_username = username p, in_display_name = display_name p,
      in_bio = bio p, in_avatar_key = avatar_key p, in_status = Member (status p),
      in_is_verified = is_verified p\<rparr>"

definition valid_profile :: "UserProfile \<Rightarrow> bool" where
  "valid_profile p \<longleftrightarrow> pred_option valid_username (username p) \<and> valid_display_name (display_name p)
     \<and> pred_option valid_bio (bio p) \<and> 1 \<le> version p \<and> timestamps_ok p"

lemma read_optional_valid:
  assumes "\<And>v x. f v = Inr x \<Longrightarrow> P x" "read_optional f s = Inr t"
  shows "pred_option P t"
  using assms by (cases s) auto

lemma read_optional_Username: "read_optional Username s = Inr t \<Longrightarrow> pred_option valid_username t"
  by (rule read_optional_valid [OF Username_valid])

lemma read_optional_bio: "read_optional validate_bio s = Inr t \<Longrightarrow> pred_option valid_bio t"
  by (rule read_optional_valid [OF validate_bio_valid])

lemma read_optional_fixed:
  "(\<And>x. P x \<Longrightarrow> f (PyStr x) = Inr x) \<Longrightarrow> pred_option P s \<Longrightarrow> read_optional f s = Inr s"
  by (cases s) auto

interpretation profile: versioned_aggregate profile_validate profile_dump valid_profile
proof
  fix e :: UserProfile and i :: ProfileInput and v now :: int
  show "profile_validate (profile_dump e) = Inr e" if "valid_profile e"
    using that
    by (simp add: profile_validate_def profile_dump_def valid_profile_def validate_timestamps_eq
        read_optional_fixed [where P = valid_username] read_optional_fixed [where P = valid_bio]
        timestamps_ok_def split: option.splits)
  show "valid_profile e" if "profile_validate i = Inr e"
    using that
    by (auto simp: profile_validate_def valid_profile_def validate_timestamps_eq timestamps_ok_def
        dest: read_optional_Username read_optional_bio validate_display_name_valid
        split: option.splits)
  show "entity_id e = entity_id i \<and> created_at e = created_at i \<and> updated_at e = updated_at i
      \<and> version e = version i" if "profile_validate i = Inr e"
    using that by (auto simp: profile_validate_def)
  show "entity_id (profile_dump e) = entity_id e \<and> created_at (profile_dump e) = created_at e
      \<and> updated_at (profile_dump e) = updated_at e \<and> version (profile_dump e) = version e"
    by (simp add: profile_dump_def)
  show "profile_validate ((profile_dump e)\<lparr>updated_at := Some now, version := v\<rparr>) =
        (if now \<le> created_at e then Inl (DomainError InvalidTimestampError)
         else Inr (e\<lparr>updated_at := Some now, version := v\<rparr>))" if "valid_profile e" "1 \<le> v"
    using that
    by (simp add: profile_validate_def profile_dump_def valid_profile_def validate_timestamps_def
        read_optional_fixed [where P = valid_username] read_optional_fixed [where P = valid_bio])
  show "1 \<le> version e" if "valid_profile e"
    using that by (simp add: valid_profile_def)
qed

subsection \<open>Operations\<close>

definition profile_apply :: "datetime \<Rightarrow> (ProfileInput \<Rightarrow> ProfileInput) \<Rightarrow> (UserProfile, exn, bool) proc" where
  "profile_apply now changes = apply_changes profile_validate profile_dump now changes"

definition is_active :: "UserProfile \<Rightarrow> bool" where
  "is_active self = (status self = ACTIVE)"

definition is_blocked :: "UserProfile \<Rightarrow> bool" where
  "is_blocked self = (status self = BLOCKED)"

definition deactivate :: "datetime \<Rightarrow> (UserProfile, exn, unit) proc" where
  "deactivate now =
     sthen (profile_apply now (\<lambda>i. i\<lparr>in_status := Member DISABLED\<rparr>)) (\<lambda>_. sret ())"

definition block :: "datetime \<Rightarrow> (UserProfile, exn, unit) proc" where
  "block now =
     sthen (profile_apply now (\<lambda>i. i\<lparr>in_status := Member BLOCKED\<rparr>)) (\<lambda>_. sret ())"

definition activate :: "datetime \<Rightarrow> (UserProfile, exn, unit) proc" where
  "activate now =
     sthen (profile_apply now (\<lambda>i. i\<lparr>in_status := Member ACTIVE\<rparr>)) (\<lambda>_. sret ())"

definition profile_create_default :: "uuid \<Rightarrow> datetime \<Rightarrow> UserProfile result" where
  "profile_create_default user_id now =
     profile_validate
       \<lparr>entity_id = user_id, created_at = now, updated_at = None, version = 1,
        in_username = None, in_display_name = DEFAULT_DISPLAY_NAME, in_bio = None,
        in_avatar_key = None, in_status = Member ACTIVE, in_is_verified = False\<rparr>"

definition update_profile ::
  "datetime \<Rightarrow> pystr option \<Rightarrow> pystr option \<Rightarrow> pystr option \<Rightarrow> (UserProfile, exn, bool) proc" where
  "update_profile now new_display_name new_bio new_username self =
     profile_apply now
       (\<lambda>i. i\<lparr>in_display_name := (case new_display_name of None \<Rightarrow> display_name self | Some d \<Rightarrow> d),
             in_bio := (case new_bio of None \<Rightarrow> bio self
                        | Some b \<Rightarrow> if b = [] then None else Some b),
             in_username := (case new_username of None \<Rightarrow> username self | Some u \<Rightarrow> Some u)\<rparr>)
       self"

definition update_avatar :: "pystr option \<Rightarrow> datetime \<Rightarrow> (UserProfile, exn, bool) proc" where
  "update_avatar new_key now = profile_apply now (\<lambda>i. i\<lparr>in_avatar_key := new_key\<rparr>)"

definition verify :: "datetime \<Rightarrow> (UserProfile, exn, unit) proc" where
  "verify now = sthen (profile_apply now (\<lambda>i. i\<lparr>in_is_verified := True\<rparr>)) (\<lambda>_. sret ())"

definition unverify :: "datetime \<Rightarrow> (UserProfile, exn, unit) proc" where
  "unverify now = sthen (profile_apply now (\<lambda>i. i\<lparr>in_is_verified := False\<rparr>)) (\<lambda>_. sret ())"

lemma profile_create_default_eq:
  "profile_create_default user_id now = Inr
     \<lparr>entity_id = user_id, created_at = now, updated_at = None, version = 1,
      username = None, display_name = DEFAULT_DISPLAY_NAME, bio = None, avatar_key = None,
      status = ACTIVE, is_verified = False\<rparr>"
  by (simp add: profile_create_default_def profile_validate_def validate_timestamps_def)

lemma profile_create_default_valid:
  "profile_create_default user_id now = Inr p \<Longrightarrow> valid_profile p"
  unfolding profile_create_default_def by (rule profile.validate_invar)

section \<open>The settings aggregate\<close>

record UserSettings = VersionedMutableEntity +
  theme :: Theme
  ui_locale :: Locale
  timezone :: pystr
  privacy :: PrivacySettings


record SettingsInput = VersionedMutableEntity +
  in_theme :: "Theme field_input"
  in_locale :: "Locale field_input"
  in_timezone :: pystr
  in_privacy :: "PrivacySettings field_input"

definition settings_validate :: "(pystr \<Rightarrow> bool) \<Rightarrow> SettingsInput \<Rightarrow> UserSettings result" where
  "settings_validate zone_ok i =
     rthen (read_field theme_of (in_theme i)) (\<lambda>t.
     rthen (read_field locale_of (in_locale i)) (\<lambda>l.
     rthen (validate_timezone zone_ok (PyStr (in_timezone i))) (\<lambda>z.
     rthen (read_field privacy_of (in_privacy i)) (\<lambda>p.
     rthen (rguard (1 \<le> version i) ValidationError) (\<lambda>_.
     rthen (validate_timestamps i) (\<lambda>_.
       Inr \<lparr>entity_id = entity_id i, created_at = created_at i, updated_at = updated_at i,
            version = version i, theme = t, ui_locale = l, timezone = z, privacy = p\<rparr>))))))"

text \<open>\<open>model_dump\<close> keeps the enumeration members and dumps the nested model to a dictionary.\<close>

definition settings_dump :: "UserSettings \<Rightarrow> SettingsInput" where
  "settings_dump s =
     \<lparr>entity_id = entity_id s, created_at = created_at s, updated_at = updated_at s,
      version = version s, in_theme = Member (theme s), in_locale = Member (ui_locale s),
      in_timezone = timezone s, in_privacy = Raw (privacy_dump (privacy s))\<rparr>"

definition valid_settings :: "(pystr \<Rightarrow> bool) \<Rightarrow> UserSettings \<Rightarrow> bool" where
  "valid_settings zone_ok s \<longleftrightarrow> valid_timezone zone_ok (timezone s) \<and> 1 \<le> version s \<and> timestamps_ok s"

interpretation settings: versioned_aggregate "settings_validate zone_ok" settings_dump "valid_settings zone_ok"
  for zone_ok
proof
  fix e :: UserSettings and i :: SettingsInput and v now :: int
  show "settings_validate zone_ok (settings_dump e) = Inr e" if "valid_settings zone_ok e"
    using that
    by (simp add: settings_validate_def settings_dump_def valid_settings_def validate_timestamps_eq
        timestamps_ok_def split: option.splits)
  show "valid_settings zone_ok e" if "settings_validate zone_ok i = Inr e"
    using that
    by (auto simp: settings_validate_def valid_settings_def validate_timestamps_eq timestamps_ok_def
        dest: validate_timezone_valid split: option.splits)
  show "entity_id e = entity_id i \<and> created_at e = created_at i \<and> updated_at e = updated_at i
      \<and> version e = version i" if "settings_validate zone_ok i = Inr e"
    using that by (auto simp: settings_validate_def)
  show "entity_id (settings_dump e) = entity_id e \<and> created_at (settings_dump e) = created_at e
      \<and> updated_at (settings_dump e) = updated_at e \<and> version (settings_dump e) = version e"
    by (simp add: settings_dump_def)
  show "settings_validate zone_ok ((settings_dump e)\<lparr>updated_at := Some now, version := v\<rparr>) =
        (if now \<le> created_at e then Inl (DomainError InvalidTimestampError)
         else Inr (e\<lparr>updated_at := Some now, version := v\<rparr>))"
    if "valid_settings zone_ok e" "1 \<le> v"
    using that
    by (simp add: settings_validate_def settings_dump_def valid_settings_def validate_timestamps_def)
  show "1 \<le> version e" if "valid_settings zone_ok e"
    using that by (simp add: valid_settings_def)
qed

definition settings_apply ::
  "(pystr \<Rightarrow> bool) \<Rightarrow> datetime \<Rightarrow> (SettingsInput \<Rightarrow> SettingsInput) \<Rightarrow> (UserSettings, exn, bool) proc" where
  "settings_apply zone_ok now changes =
     apply_changes (settings_validate zone_ok) settings_dump now changes"

definition settings_create_default ::
  "(pystr \<Rightarrow> bool) \<Rightarrow> uuid \<Rightarrow> datetime \<Rightarrow> UserSettings result" where
  "settings_create_default zone_ok user_id now =
     settings_validate zone_ok
       \<lparr>entity_id = user_id, created_at = now, updated_at = None, version = 1,
        in_theme = Member theme_default, in_locale = Member locale_default,
        in_timezone = DEFAULT_TIMEZONE, in_privacy = Member privacy_default\<rparr>"

definition update_settings ::
  "(pystr \<Rightarrow> bool) \<Rightarrow> Theme field_input option \<Rightarrow> Locale field_input option \<Rightarrow> pystr option \<Rightarrow>
   PrivacySettings field_input option \<Rightarrow> datetime \<Rightarrow> (UserSettings, exn, bool) proc" where
  "update_settings zone_ok new_theme new_locale new_timezone new_privacy now self =
     settings_apply zone_ok now
       (\<lambda>i. i\<lparr>in_theme := (case new_theme of None \<Rightarrow> Member (theme self) | Some t \<Rightarrow> t),
             in_locale := (case new_locale of None \<Rightarrow> Member (ui_locale self) | Some l \<Rightarrow> l),
             in_timezone := (case new_timezone of None \<Rightarrow> timezone self | Some z \<Rightarrow> z),
             in_privacy := (case new_privacy of None \<Rightarrow> Member (privacy self) | Some p \<Rightarrow> p)\<rparr>)
       self"

definition reset_to_defaults :: "(pystr \<Rightarrow> bool) \<Rightarrow> datetime \<Rightarrow> (UserSettings, exn, bool) proc" where
  "reset_to_defaults zone_ok now =
     update_settings zone_ok (Some (Member theme_default)) (Some (Member locale_default))
       (Some DEFAULT_TIMEZONE) (Some (Member privacy_default)) now"

lemma settings_create_default_eq:
  "settings_create_default zone_ok user_id now =
     (if zone_ok DEFAULT_TIMEZONE
      then Inr \<lparr>entity_id = user_id, created_at = now, updated_at = None, version = 1,
                theme = SYSTEM, ui_locale = RU, timezone = DEFAULT_TIMEZONE,
                privacy = privacy_default\<rparr>
      else Inl (settings_error InvalidTimezoneError))"
  by (simp add: settings_create_default_def settings_validate_def validate_timestamps_def
      validate_timezone_def strip_stripped theme_default_def locale_default_def)

lemma settings_create_default_valid:
  "settings_create_default zone_ok user_id now = Inr s \<Longrightarrow> valid_settings zone_ok s"
  unfolding settings_create_default_def by (rule settings.validate_invar)

section \<open>What the operations do\<close>

text \<open>
  The base fields are untouched by the changes the operations make, so the contract's
  lemmas apply to each of them.
\<close>

lemma update_profile_stamped:
  "update_profile now d b u self = (Inr changed, self') \<Longrightarrow> stamped now changed self self'"
  unfolding update_profile_def profile_apply_def
  by (erule profile.apply_changes_stamped) (simp add: keeps_base_def)

lemma update_avatar_stamped:
  "update_avatar k now self = (Inr changed, self') \<Longrightarrow> stamped now changed self self'"
  unfolding update_avatar_def profile_apply_def
  by (erule profile.apply_changes_stamped) (simp add: keeps_base_def)

lemma update_settings_stamped:
  "update_settings zone_ok t l z p now self = (Inr changed, self') \<Longrightarrow> stamped now changed self self'"
  unfolding update_settings_def settings_apply_def
  by (erule settings.apply_changes_stamped) (simp add: keeps_base_def)

lemma reset_to_defaults_stamped:
  "reset_to_defaults zone_ok now self = (Inr changed, self') \<Longrightarrow> stamped now changed self self'"
  unfolding reset_to_defaults_def by (rule update_settings_stamped)

lemmas operations_stamped = update_profile_stamped update_avatar_stamped update_settings_stamped
  reset_to_defaults_stamped

lemma update_profile_error: "update_profile now d b u self = (Inl e, self') \<Longrightarrow> self' = self"
  unfolding update_profile_def profile_apply_def by (rule profile.apply_changes_error)

lemma update_avatar_error: "update_avatar k now self = (Inl e, self') \<Longrightarrow> self' = self"
  unfolding update_avatar_def profile_apply_def by (rule profile.apply_changes_error)

lemma update_settings_error: "update_settings zone_ok t l z p now self = (Inl e, self') \<Longrightarrow> self' = self"
  unfolding update_settings_def settings_apply_def by (rule settings.apply_changes_error)

lemma reset_to_defaults_error: "reset_to_defaults zone_ok now self = (Inl e, self') \<Longrightarrow> self' = self"
  unfolding reset_to_defaults_def by (rule update_settings_error)

lemma update_profile_invar:
  "update_profile now d b u self = (r, self') \<Longrightarrow> valid_profile self \<Longrightarrow> valid_profile self'"
  unfolding update_profile_def profile_apply_def by (erule (1) profile.apply_changes_invar [rotated])

lemma update_avatar_invar:
  "update_avatar k now self = (r, self') \<Longrightarrow> valid_profile self \<Longrightarrow> valid_profile self'"
  unfolding update_avatar_def profile_apply_def by (erule (1) profile.apply_changes_invar [rotated])

lemma update_settings_invar:
  "update_settings zone_ok t l z p now self = (r, self') \<Longrightarrow> valid_settings zone_ok self \<Longrightarrow>
   valid_settings zone_ok self'"
  unfolding update_settings_def settings_apply_def by (erule (1) settings.apply_changes_invar [rotated])

lemma reset_to_defaults_invar:
  "reset_to_defaults zone_ok now self = (r, self') \<Longrightarrow> valid_settings zone_ok self \<Longrightarrow>
   valid_settings zone_ok self'"
  unfolding reset_to_defaults_def by (rule update_settings_invar)

lemmas operations_invar = update_profile_invar update_avatar_invar update_settings_invar
  reset_to_defaults_invar

end
