(* ===== verification/Privacy_DTO.thy ===== *)
theory Privacy_DTO
  imports Aggregates
begin

text \<open>
  The privacy policy (\<open>src/src/app/domain/policies/privacy.py\<close>) and the read models that
  leave the application layer (\<open>src/src/app/application/dto\<close>). The lemmas say what a viewer
  can learn from a public read model.
\<close>

section \<open>The privacy policy\<close>

definition can_view_bio :: "uuid \<Rightarrow> UserSettings \<Rightarrow> uuid option \<Rightarrow> bool" where
  "can_view_bio target_user_id settings viewer_id =
     (if viewer_id \<noteq> None \<and> viewer_id = Some target_user_id then True
      else who_can_see_bio (privacy settings) = SCOPE_ALL)"

definition can_view_avatar :: "uuid \<Rightarrow> UserSettings \<Rightarrow> uuid option \<Rightarrow> bool" where
  "can_view_avatar target_user_id settings viewer_id =
     (if viewer_id \<noteq> None \<and> viewer_id = Some target_user_id then True
      else who_can_see_avatar (privacy settings) = SCOPE_ALL)"

definition can_find_by_username :: "uuid \<Rightarrow> UserSettings \<Rightarrow> uuid option \<Rightarrow> bool" where
  "can_find_by_username target_user_id settings viewer_id =
     (if viewer_id \<noteq> None \<and> viewer_id = Some target_user_id then True
      else who_can_find_by_username (privacy settings) = SCOPE_ALL)"

named_theorems policy_defs

lemmas [policy_defs] = can_view_bio_def can_view_avatar_def can_find_by_username_def

text \<open>
  Who may see what: the owner everything, and anybody what the owner's scope for it opens to all.
  This is the specification; the policy has to meet it for each of its three questions.
\<close>

definition permits :: "uuid option \<Rightarrow> uuid \<Rightarrow> PrivacyScope \<Rightarrow> bool" where
  "permits viewer owner scope \<longleftrightarrow> viewer = Some owner \<or> scope = SCOPE_ALL"

lemma policy_permits:
  "can_view_bio u s viewer \<longleftrightarrow> permits viewer u (who_can_see_bio (privacy s))"
  "can_view_avatar u s viewer \<longleftrightarrow> permits viewer u (who_can_see_avatar (privacy s))"
  "can_find_by_username u s viewer \<longleftrightarrow> permits viewer u (who_can_find_by_username (privacy s))"
  by (auto simp: policy_defs permits_def)

lemma owner_sees_all [simp]:
  "can_view_bio u s (Some u)" "can_view_avatar u s (Some u)" "can_find_by_username u s (Some u)"
  by (simp_all add: policy_defs)

section \<open>Read models\<close>

record ProfileDTO =
  dto_user_id :: uuid
  dto_username :: "pystr option"
  dto_display_name :: pystr
  dto_bio :: "pystr option"
  dto_avatar_key :: "pystr option"
  dto_status :: UserProfileStatus
  dto_is_verified :: bool
  dto_version :: int
  dto_created_at :: datetime
  dto_updated_at :: "datetime option"

record PublicProfileDTO =
  pub_user_id :: uuid
  pub_username :: "pystr option"
  pub_display_name :: pystr
  pub_bio :: "pystr option"
  pub_avatar_key :: "pystr option"
  pub_is_verified :: bool

record SettingsDTO =
  sdto_user_id :: uuid
  sdto_theme :: Theme
  sdto_locale :: Locale
  sdto_timezone :: pystr
  sdto_privacy :: PrivacySettings
  sdto_version :: int
  sdto_created_at :: datetime
  sdto_updated_at :: "datetime option"

text \<open>\<open>from_domain\<close> reads the attributes of the aggregate by name.\<close>

definition profile_dto :: "UserProfile \<Rightarrow> ProfileDTO" where
  "profile_dto p =
     \<lparr>dto_user_id = entity_id p, dto_username = username p, dto_display_name = display_name p,
      dto_bio = bio p, dto_avatar_key = avatar_key p, dto_status = status p,
      dto_is_verified = is_verified p, dto_version = version p,
      dto_created_at = created_at p, dto_updated_at = updated_at p\<rparr>"

definition settings_dto :: "UserSettings \<Rightarrow> SettingsDTO" where
  "settings_dto s =
     \<lparr>sdto_user_id = entity_id s, sdto_theme = theme s, sdto_locale = ui_locale s,
      sdto_timezone = timezone s, sdto_privacy = privacy s, sdto_version = version s,
      sdto_created_at = created_at s, sdto_updated_at = updated_at s\<rparr>"

text \<open>An optional string is true in a Boolean context when it is there and not empty.\<close>

definition truthy :: "pystr option \<Rightarrow> bool" where
  "truthy s = (case s of None \<Rightarrow> False | Some t \<Rightarrow> t \<noteq> [])"

definition from_domain_with_policy ::
  "UserProfile \<Rightarrow> UserSettings \<Rightarrow> uuid option \<Rightarrow> PublicProfileDTO" where
  "from_domain_with_policy profile settings viewer_id =
     (let can_bio = can_view_bio (entity_id profile) settings viewer_id;
          can_avatar = can_view_avatar (entity_id profile) settings viewer_id in
      \<lparr>pub_user_id = entity_id profile,
       pub_username = (if truthy (username profile) then username profile else None),
       pub_display_name = display_name profile,
       pub_bio = (if truthy (bio profile) \<and> can_bio then bio profile else None),
       pub_avatar_key = (if can_avatar then avatar_key profile else None),
       pub_is_verified = is_verified profile\<rparr>)"

lemma valid_profile_username_truthy:
  "valid_profile p \<Longrightarrow> (if truthy (username p) then username p else None) = username p"
  by (auto simp: valid_profile_def truthy_def valid_username_def username_fullmatch_def
      split: option.splits)

text \<open>
  The part of a profile that a given viewer is entitled to: two profiles that agree on it
  are the same profile to that viewer.
\<close>

definition agree_for :: "uuid option \<Rightarrow> UserSettings \<Rightarrow> UserProfile \<Rightarrow> UserProfile \<Rightarrow> bool" where
  "agree_for viewer settings p q \<longleftrightarrow>
     entity_id p = entity_id q \<and> username p = username q \<and> display_name p = display_name q
     \<and> is_verified p = is_verified q
     \<and> (permits viewer (entity_id p) (who_can_see_bio (privacy settings)) \<longrightarrow> bio p = bio q)
     \<and> (permits viewer (entity_id p) (who_can_see_avatar (privacy settings)) \<longrightarrow> avatar_key p = avatar_key q)"

text \<open>
  Privacy as non-interference: the public read model depends on the hidden fields in no
  way. Two profiles that differ only in fields the viewer may not see (status, version and
  times never leave; the biography and the avatar only if \<open>permits\<close> says so) give the
  same read model, whatever the settings and whoever the viewer.
\<close>

lemma public_profile_noninterference:
  "agree_for viewer settings p q \<Longrightarrow>
   from_domain_with_policy p settings viewer = from_domain_with_policy q settings viewer"
  by (auto simp: agree_for_def from_domain_with_policy_def Let_def policy_permits)

definition sample_profile :: "uuid \<Rightarrow> UserProfile" where
  "sample_profile u =
     \<lparr>entity_id = u, created_at = 0, updated_at = None, version = 1,
      username = Some (ustr ''alice''), display_name = ustr ''Alice'', bio = Some (ustr ''hi''),
      avatar_key = Some (ustr ''k''), status = ACTIVE, is_verified = False\<rparr>"

definition sample_settings :: "uuid \<Rightarrow> PrivacySettings \<Rightarrow> UserSettings" where
  "sample_settings u p =
     \<lparr>entity_id = u, created_at = 0, updated_at = None, version = 1, theme = SYSTEM,
      ui_locale = RU, timezone = DEFAULT_TIMEZONE, privacy = p\<rparr>"

definition hidden_privacy :: PrivacySettings where
  "hidden_privacy = \<lparr>who_can_see_avatar = SCOPE_NOBODY, who_can_find_by_username = SCOPE_NOBODY,
     who_can_see_bio = SCOPE_NOBODY\<rparr>"

text \<open>
  The owner is never shown less than there is: for the owner of a valid profile the
  public read model carries the username, the biography (an empty one reads as absent) and
  the avatar, whatever the privacy settings say.
\<close>

lemma owner_sees_own_profile:
  assumes "valid_profile p"
  shows "from_domain_with_policy p settings (Some (entity_id p)) =
    \<lparr>pub_user_id = entity_id p, pub_username = username p, pub_display_name = display_name p,
     pub_bio = (if bio p = Some [] then None else bio p), pub_avatar_key = avatar_key p,
     pub_is_verified = is_verified p\<rparr>"
  using valid_profile_username_truthy [OF assms]
  by (auto simp: from_domain_with_policy_def Let_def truthy_def split: option.splits)

lemma sample_profile_valid [simp]: "valid_profile (sample_profile u)"
  by (simp add: valid_profile_def sample_profile_def valid_username_def username_fullmatch_def
      username_char_def RESERVED_USERNAMES_def valid_display_name_def stripped_def is_space_def
      emoji_char_def valid_bio_def timestamps_ok_def)

text \<open>A profile as a read model can show it: an empty biography is an absent one.\<close>

definition shown :: "UserProfile \<Rightarrow> UserProfile" where
  "shown p = p\<lparr>bio := (if bio p = Some [] then None else bio p)\<rparr>"

lemma read_model_determines:
  assumes "valid_profile p" "valid_profile q"
    and "from_domain_with_policy p settings viewer = from_domain_with_policy q settings viewer"
  shows "agree_for viewer settings (shown p) (shown q)"
  using assms(3) valid_profile_username_truthy [OF assms(1)] valid_profile_username_truthy [OF assms(2)]
  by (auto simp: from_domain_with_policy_def Let_def policy_permits agree_for_def shown_def truthy_def split: if_splits option.splits)

lemma shown_read_model:
  "from_domain_with_policy (shown p) settings viewer = from_domain_with_policy p settings viewer"
  by (auto simp: from_domain_with_policy_def Let_def shown_def truthy_def)

text \<open>
  C1. The public read model shows exactly what the viewer is entitled to. It depends on the
  hidden fields in no way: two profiles that differ only in fields the viewer may not see (status,
  version and times never leave; the biography only to its owner or if its scope is open to all,
  and the avatar only to its owner or if its own scope is) give the same read model, whatever the
  settings and whoever the viewer. And it hides nothing else: valid profiles that give the same read model agree on everything the viewer may see, and the
  owner is shown the whole profile whatever the privacy settings say.
\<close>

theorem public_profile_is_what_is_allowed:
  "(agree_for viewer settings p q \<longrightarrow>
      from_domain_with_policy p settings viewer = from_domain_with_policy q settings viewer)
   \<and> (valid_profile p \<longrightarrow> valid_profile q \<longrightarrow>
      (from_domain_with_policy p settings viewer = from_domain_with_policy q settings viewer
        \<longleftrightarrow> agree_for viewer settings (shown p) (shown q)))
   \<and> (valid_profile p \<longrightarrow> viewer = Some (entity_id p) \<longrightarrow>
      from_domain_with_policy p settings viewer =
        \<lparr>pub_user_id = entity_id p, pub_username = username p, pub_display_name = display_name p,
         pub_bio = (if bio p = Some [] then None else bio p), pub_avatar_key = avatar_key p,
         pub_is_verified = is_verified p\<rparr>)"
proof (intro conjI impI)
  assume "agree_for viewer settings p q"
  then show "from_domain_with_policy p settings viewer = from_domain_with_policy q settings viewer"
    by (rule public_profile_noninterference)
next
  assume valid: "valid_profile p" "valid_profile q"
  show "from_domain_with_policy p settings viewer = from_domain_with_policy q settings viewer
      \<longleftrightarrow> agree_for viewer settings (shown p) (shown q)"
  proof
    assume "agree_for viewer settings (shown p) (shown q)"
    from public_profile_noninterference [OF this]
    show "from_domain_with_policy p settings viewer = from_domain_with_policy q settings viewer"
      unfolding shown_read_model .
  qed (rule read_model_determines [OF valid])
qed (simp add: owner_sees_own_profile)

theorem public_profile_is_what_is_allowed_witness:
  "from_domain_with_policy (sample_profile 1) (sample_settings 1 hidden_privacy) (Some 2) =
     from_domain_with_policy ((sample_profile 1)\<lparr>bio := None, avatar_key := None, version := 7\<rparr>)
       (sample_settings 1 hidden_privacy) (Some 2)
   \<and> pub_bio (from_domain_with_policy (sample_profile 1) (sample_settings 1 hidden_privacy) (Some 1))
       = Some (ustr ''hi'')"
proof -
  have "agree_for (Some 2) (sample_settings 1 hidden_privacy) (sample_profile 1)
      ((sample_profile 1)\<lparr>bio := None, avatar_key := None, version := 7\<rparr>)"
    by (simp add: agree_for_def permits_def sample_profile_def sample_settings_def hidden_privacy_def)
  with public_profile_is_what_is_allowed [THEN conjunct1]
  have hidden: "from_domain_with_policy (sample_profile 1) (sample_settings 1 hidden_privacy) (Some 2) =
     from_domain_with_policy ((sample_profile 1)\<lparr>bio := None, avatar_key := None, version := 7\<rparr>)
       (sample_settings 1 hidden_privacy) (Some 2)" by blast
  have "entity_id (sample_profile 1) = 1" "bio (sample_profile 1) = Some (ustr ''hi'')"
    by (simp_all add: sample_profile_def)
  with public_profile_is_what_is_allowed [THEN conjunct2, THEN conjunct2, rule_format,
      of "sample_profile 1" "Some 1" "sample_settings 1 hidden_privacy"]
  show ?thesis using hidden by simp
qed

end
