(* ===== verification/Idem_Models.thy ===== *)
theory Idem_Models
  imports Value_Objects
begin

text \<open>
  The data of the idempotency layer (\<open>src/src/app/application/idempotency/models.py\<close> and
  \<open>policy.py\<close>): identities, stored results, decisions and policies, each with the validator
  its class runs on construction. A \<open>_new\<close> function is the constructor of the class: it
  returns the value or raises \<open>ValidationError\<close>.
\<close>

type_synonym bytes = "8 word list"

section \<open>Identity\<close>

record IdempotencyKey =
  subject_id :: pystr
  operation :: pystr
  key_digest :: bytes

definition idempotency_key_new :: "pystr \<Rightarrow> pystr \<Rightarrow> bytes \<Rightarrow> IdempotencyKey result" where
  "idempotency_key_new subject op digest =
     (if 1 \<le> length subject \<and> length subject \<le> 255 \<and> 1 \<le> length op \<and> length op \<le> 100
         \<and> length digest = 32
      then Inr \<lparr>subject_id = subject, operation = op, key_digest = digest\<rparr>
      else Inl ValidationError)"

section \<open>Stored results\<close>

datatype ClaimStatus = ACQUIRED | CLAIM_REPLAY | CLAIM_CONFLICT | CLAIM_IN_PROGRESS

datatype ExecutionStatus = EXECUTED | REPLAY | CONFLICT | IN_PROGRESS

datatype HotDegradationStage =
  BEGIN | LEASE | COMPLETE | RELEASE | LEASE_LOST_ON_COMPLETE | LEASE_LOST_ON_RELEASE

record StoredResult =
  result_type :: pystr
  result_payload :: "(pystr \<times> pyobj) list option"
  result_version :: int
  resource_type :: "pystr option"
  resource_id :: "pystr option"
  resource_version :: "int option"

definition is_completion_only :: "'a StoredResult_scheme \<Rightarrow> bool" where
  "is_completion_only self = (result_type self = ustr ''completion'')"

definition validate_replayability :: "'a StoredResult_scheme \<Rightarrow> unit result" where
  "validate_replayability self =
     (if is_completion_only self then
        (if result_payload self \<noteq> None \<or> resource_type self \<noteq> None \<or> resource_id self \<noteq> None
            \<or> resource_version self \<noteq> None
         then Inl ValidationError else Inr ())
      else
        (let has_type = resource_type self \<noteq> None; has_id = resource_id self \<noteq> None in
         if has_type \<noteq> has_id then Inl ValidationError
         else if result_payload self = None \<and> \<not> has_id then Inl ValidationError
         else if resource_version self \<noteq> None \<and> \<not> has_id then Inl ValidationError
         else Inr ()))"

definition stored_fields_ok :: "'a StoredResult_scheme \<Rightarrow> bool" where
  "stored_fields_ok s \<longleftrightarrow>
     1 \<le> length (result_type s) \<and> length (result_type s) \<le> 100 \<and> 0 < result_version s
     \<and> pred_option (\<lambda>t. 1 \<le> length t \<and> length t \<le> 100) (resource_type s)
     \<and> pred_option (\<lambda>v. 0 < v) (resource_version s)"

definition stored_validate :: "'a StoredResult_scheme \<Rightarrow> 'a StoredResult_scheme result" where
  "stored_validate s =
     rthen (rguard (stored_fields_ok s) ValidationError) (\<lambda>_.
     rthen (validate_replayability s) (\<lambda>_. Inr s))"

definition stored_completion :: StoredResult where
  "stored_completion =
     \<lparr>result_type = ustr ''completion'', result_payload = None, result_version = 1,
      resource_type = None, resource_id = None, resource_version = None\<rparr>"

record CompletedIdempotencyResult = StoredResult +
  expires_at :: datetime
  request_fingerprint :: bytes

text \<open>\<open>CompletedIdempotencyResult(request_fingerprint=..., expires_at=..., **stored.model_dump())\<close>\<close>

definition completed_new :: "StoredResult \<Rightarrow> datetime \<Rightarrow> bytes \<Rightarrow> CompletedIdempotencyResult result" where
  "completed_new s expires fingerprint =
     rthen (rguard (length fingerprint = 32) ValidationError) (\<lambda>_.
     stored_validate
       \<lparr>result_type = result_type s, result_payload = result_payload s,
        result_version = result_version s, resource_type = resource_type s,
        resource_id = resource_id s, resource_version = resource_version s,
        expires_at = expires, request_fingerprint = fingerprint\<rparr>)"

text \<open>The stored part of a completed result.\<close>

definition stored_of :: "CompletedIdempotencyResult \<Rightarrow> StoredResult" where
  "stored_of c =
     \<lparr>result_type = result_type c, result_payload = result_payload c,
      result_version = result_version c, resource_type = resource_type c,
      resource_id = resource_id c, resource_version = resource_version c\<rparr>"

definition valid_completed :: "CompletedIdempotencyResult \<Rightarrow> bool" where
  "valid_completed c \<longleftrightarrow> length (request_fingerprint c) = 32 \<and> stored_fields_ok c
     \<and> validate_replayability c = Inr ()"

lemma completed_new_eq:
  "completed_new s expires fingerprint = Inr c \<Longrightarrow>
   valid_completed c \<and> expires_at c = expires \<and> request_fingerprint c = fingerprint \<and> stored_of c = s"
  by (auto simp: completed_new_def stored_validate_def valid_completed_def stored_of_def)

lemma completed_new_fails:
  "completed_new s expires fingerprint = Inl e \<Longrightarrow> e = ValidationError"
  by (auto simp: completed_new_def stored_validate_def validate_replayability_def rthen_eq_Inl
      Let_def split: if_splits)

text \<open>A stored result whose fields and shape are right completes under any full fingerprint.\<close>

lemma completed_new_total:
  assumes "stored_validate s = Inr s'" "length fingerprint = 32"
  shows "\<exists>c. completed_new s expires fingerprint = Inr c"
  using assms
  by (auto simp: completed_new_def stored_validate_def stored_fields_ok_def
      validate_replayability_def is_completion_only_def Let_def split: if_splits)

section \<open>Decisions\<close>

record ClaimResult =
  claim_status :: ClaimStatus
  claim_completed :: "CompletedIdempotencyResult option"

definition claim_result_new ::
  "ClaimStatus \<Rightarrow> CompletedIdempotencyResult option \<Rightarrow> ClaimResult result" where
  "claim_result_new st c =
     (if st = CLAIM_REPLAY \<and> c = None then Inl ValidationError
      else if st \<noteq> CLAIM_REPLAY \<and> c \<noteq> None then Inl ValidationError
      else Inr \<lparr>claim_status = st, claim_completed = c\<rparr>)"

record IdempotencyResult =
  exec_status :: ExecutionStatus
  exec_completed :: "CompletedIdempotencyResult option"

definition idempotency_result_new ::
  "ExecutionStatus \<Rightarrow> CompletedIdempotencyResult option \<Rightarrow> IdempotencyResult result" where
  "idempotency_result_new st c =
     (let carries_result = st \<in> {EXECUTED, REPLAY} in
      if carries_result \<noteq> (c \<noteq> None) then Inl ValidationError
      else Inr \<lparr>exec_status = st, exec_completed = c\<rparr>)"

definition carries :: "IdempotencyResult \<Rightarrow> bool" where
  "carries r \<longleftrightarrow> (exec_status r \<in> {EXECUTED, REPLAY}) = (exec_completed r \<noteq> None)"

lemma idempotency_result_new_simps [simp]:
  "idempotency_result_new EXECUTED (Some c) = Inr \<lparr>exec_status = EXECUTED, exec_completed = Some c\<rparr>"
  "idempotency_result_new REPLAY (Some c) = Inr \<lparr>exec_status = REPLAY, exec_completed = Some c\<rparr>"
  "idempotency_result_new CONFLICT None = Inr \<lparr>exec_status = CONFLICT, exec_completed = None\<rparr>"
  "idempotency_result_new IN_PROGRESS None = Inr \<lparr>exec_status = IN_PROGRESS, exec_completed = None\<rparr>"
  by (simp_all add: idempotency_result_new_def)

lemma idempotency_result_new_carries:
  "idempotency_result_new st c = Inr r \<Longrightarrow> carries r \<and> exec_status r = st \<and> exec_completed r = c"
  by (auto simp: idempotency_result_new_def carries_def Let_def split: if_splits)

section \<open>Policy\<close>

datatype IdempotencyMode = HOT_ONLY | HOT_DURABLE

record IdempotencyPolicy =
  mode :: IdempotencyMode
  lease_seconds :: int
  retention_seconds :: int
  hot_cache_seconds :: int

definition policy_new :: "IdempotencyMode \<Rightarrow> int \<Rightarrow> int \<Rightarrow> int \<Rightarrow> IdempotencyPolicy result" where
  "policy_new m lease retention hot_cache =
     (if \<not> (0 < lease \<and> 0 < retention \<and> 0 < hot_cache) then Inl ValidationError
      else if m = HOT_DURABLE \<and> hot_cache > retention then Inl ValidationError
      else Inr \<lparr>mode = m, lease_seconds = lease, retention_seconds = retention,
                hot_cache_seconds = hot_cache\<rparr>)"

definition hot_result_ttl_seconds :: "IdempotencyPolicy \<Rightarrow> int" where
  "hot_result_ttl_seconds self =
     (if mode self = HOT_ONLY then retention_seconds self else hot_cache_seconds self)"

definition valid_policy :: "IdempotencyPolicy \<Rightarrow> bool" where
  "valid_policy p \<longleftrightarrow> 0 < lease_seconds p \<and> 0 < retention_seconds p \<and> 0 < hot_cache_seconds p
     \<and> (mode p = HOT_DURABLE \<longrightarrow> hot_cache_seconds p \<le> retention_seconds p)"

lemma policy_new_valid: "policy_new m l r h = Inr p \<Longrightarrow> valid_policy p"
  by (auto simp: policy_new_def valid_policy_def split: if_splits)

lemma hot_ttl_bounds:
  "valid_policy p \<Longrightarrow> 0 < hot_result_ttl_seconds p \<and> hot_result_ttl_seconds p \<le> retention_seconds p"
  by (cases "mode p") (auto simp: valid_policy_def hot_result_ttl_seconds_def)

end
