(* ===== verification/Session.thy ===== *)
theory Session
  imports Idem_Models
begin

text \<open>
  The database as one session of the service sees it, and the unit of work
  (\<open>src/src/app/infrastructure/database/unit_of_work.py\<close>). PostgreSQL and SQLAlchemy are not
  part of the repository; what the code relies on is written out here: a table is a list
  of rows in no promised order, a statement sees what is committed at that moment together
  with the session's own writes (READ COMMITTED), a failed statement leaves its transaction
  aborted, and a commit makes the session's writes visible at once. What the other sessions
  and the network do is not chosen by the model: it is the \<open>script\<close> of the session, one
  event for each coming round trip.
\<close>

section \<open>Tables\<close>

record profile_row =
  col_user_id :: uuid
  col_username :: "pystr option"
  col_display_name :: pystr
  col_bio :: "pystr option"
  col_avatar_key :: "pystr option"
  col_status :: pystr
  col_is_verified :: bool
  col_version :: int
  col_created_at :: datetime
  col_updated_at :: "datetime option"

record settings_row =
  scol_user_id :: uuid
  scol_theme :: pystr
  scol_locale :: pystr
  scol_timezone :: pystr
  scol_privacy :: pyobj
  scol_version :: int
  scol_created_at :: datetime
  scol_updated_at :: "datetime option"

record record_row =
  rec_subject_id :: pystr
  rec_operation :: pystr
  rec_key_digest :: bytes
  rec_request_fingerprint :: bytes
  rec_fingerprint_version :: int
  rec_result_type :: pystr
  rec_result_payload :: "(pystr \<times> pyobj) list option"
  rec_result_version :: int
  rec_resource_type :: "pystr option"
  rec_resource_id :: "pystr option"
  rec_resource_version :: "int option"
  rec_created_at :: datetime
  rec_completed_at :: datetime
  rec_expires_at :: datetime

record db =
  profiles :: "profile_row list"
  user_settings :: "settings_row list"
  idempotency_records :: "record_row list"

section \<open>A session\<close>

text \<open>
  A round trip to the server is undisturbed (\<open>Quiet\<close>), or other sessions commit a change
  just before it (\<open>Others\<close>), or it fails (\<open>Fails\<close>), or, for a commit, it succeeds on the
  server and its answer is lost (\<open>Lost\<close>).
\<close>

datatype db_event = Quiet | Others "db \<Rightarrow> db" | Fails sql_error | Lost sql_error

record session =
  committed :: db
  view :: db
  in_transaction :: bool
  aborted :: bool
  uow_open :: bool
  script :: "db_event list"
  now :: datetime
  ticks :: "int list"

text \<open>
  \<open>utc_now\<close>: \<open>ticks\<close> holds how much the clock will have moved at each coming reading.
\<close>

definition utc_now :: "('a session_scheme, exn, datetime) proc" where
  "utc_now s =
     (case ticks s of
        [] \<Rightarrow> (Inr (now s), s)
      | d # ds \<Rightarrow> (Inr (now s + d), s\<lparr>now := now s + d, ticks := ds\<rparr>))"

definition next_event :: "'a session_scheme \<Rightarrow> db_event" where
  "next_event s = (case script s of [] \<Rightarrow> Quiet | e # _ \<Rightarrow> e)"

definition advance :: "'a session_scheme \<Rightarrow> 'a session_scheme" where
  "advance s = s\<lparr>script := tl (script s)\<rparr>"

fun others_change :: "db_event \<Rightarrow> db \<Rightarrow> db" where
  "others_change (Others f) d = f d"
| "others_change _ d = d"

text \<open>The error of a statement in an aborted transaction.\<close>

definition in_failed_transaction :: sql_error where
  "in_failed_transaction =
     \<lparr>sql_class = OtherDBAPIError, sqlstate = Some ''25P02'', connection_invalidated = False,
      constraint_name = None\<rparr>"

text \<open>
  Executing a statement: a transaction begins on its own if none is open; the statement
  runs on the view, and its error aborts the transaction and changes nothing.
\<close>

definition execute :: "(db \<Rightarrow> (sql_error + 'r) \<times> db) \<Rightarrow> ('a session_scheme, exn, 'r) proc" where
  "execute stmt s =
     (let ev = next_event s;
          s1 = (advance s)\<lparr>in_transaction := True, committed := others_change ev (committed s),
                           view := others_change ev (view s)\<rparr> in
      case ev of
        Fails e \<Rightarrow> (Inl (SqlError e), s1\<lparr>aborted := True\<rparr>)
      | Lost e \<Rightarrow> (Inl (SqlError e), s1\<lparr>aborted := True\<rparr>)
      | _ \<Rightarrow>
          if aborted s then (Inl (SqlError in_failed_transaction), s1)
          else (case stmt (view s1) of
                  (Inl e, _) \<Rightarrow> (Inl (SqlError e), s1\<lparr>aborted := True\<rparr>)
                | (Inr r, d) \<Rightarrow> (Inr r, s1\<lparr>view := d\<rparr>)))"

section \<open>The unit of work\<close>

text \<open>
  \<open>_raise_persistence_error\<close>: serialization failures and deadlocks are conflicts, lost
  connections and timeouts are unavailability, and anything else is raised as it is.
\<close>

definition is_dbapi_error :: "sql_error \<Rightarrow> bool" where
  "is_dbapi_error e \<longleftrightarrow> sql_class e = IntegrityError \<or> sql_class e = OtherDBAPIError"

definition raise_persistence_error :: "sql_error \<Rightarrow> exn" where
  "raise_persistence_error e =
     (if is_dbapi_error e \<and> sqlstate e \<in> {Some ''40001'', Some ''40P01''}
        then PersistenceError TransactionConflictError
      else if is_dbapi_error e
          \<and> (connection_invalidated e \<or> (case sqlstate e of None \<Rightarrow> False | Some st \<Rightarrow> take 2 st = ''08''))
        then PersistenceError PersistenceUnavailableError
      else if sql_class e = DisconnectionError \<or> sql_class e = TimeoutError
        then PersistenceError PersistenceUnavailableError
      else SqlError e)"

definition uow_enter :: "('a session_scheme, exn, unit) proc" where
  "uow_enter s =
     (if uow_open s \<or> in_transaction s
        then (Inl (TransactionError NestedTransactionNotAllowedError), s)
      else (Inr (), s\<lparr>uow_open := True, in_transaction := True, aborted := False,
                       view := committed s\<rparr>))"

text \<open>The end of a transaction, on the server and in the session object.\<close>

definition close_with :: "db \<Rightarrow> 'a session_scheme \<Rightarrow> 'a session_scheme" where
  "close_with d s =
     s\<lparr>committed := d, view := d, in_transaction := False, aborted := False, uow_open := False\<rparr>"

definition commit_transaction :: "('a session_scheme, exn, unit) proc" where
  "commit_transaction s =
     (let ev = next_event s;
          c = others_change ev (committed s);
          v = (if aborted s then c else others_change ev (view s)) in
      case ev of
        Fails e \<Rightarrow> (Inl (SqlError e), close_with c (advance s))
      | Lost e \<Rightarrow> (Inl (SqlError e), close_with v (advance s))
      | _ \<Rightarrow> (Inr (), close_with v (advance s)))"

definition rollback_transaction :: "('a session_scheme, exn, unit) proc" where
  "rollback_transaction s =
     (let ev = next_event s; c = others_change ev (committed s) in
      case ev of
        Fails e \<Rightarrow> (Inl (SqlError e), close_with c (advance s))
      | Lost e \<Rightarrow> (Inl (SqlError e), close_with c (advance s))
      | _ \<Rightarrow> (Inr (), close_with c (advance s)))"

fun translate :: "exn \<Rightarrow> exn" where
  "translate (SqlError e) = raise_persistence_error e"
| "translate e = e"

text \<open>
  \<open>__aexit__\<close>: commit without an exception, roll back with one; a database error on the way
  out is translated, and so is a database error that came from the body.
\<close>

definition uow_exit :: "exn option \<Rightarrow> ('a session_scheme, exn, unit) proc" where
  "uow_exit exc s =
     (if \<not> uow_open s then (Inl (TransactionError TransactionNotStartedError), s)
      else (case (case exc of None \<Rightarrow> commit_transaction s | Some _ \<Rightarrow> rollback_transaction s) of
              (Inl e, t) \<Rightarrow> (Inl (translate e), t)
            | (Inr _, t) \<Rightarrow>
                (case exc of Some (SqlError e) \<Rightarrow> (Inl (raise_persistence_error e), t)
                 | _ \<Rightarrow> (Inr (), t))))"

text \<open>\<open>async with uow: body\<close>\<close>

definition with_uow :: "('a session_scheme, exn, 'r) proc \<Rightarrow> ('a session_scheme, exn, 'r) proc" where
  "with_uow body s =
     (case uow_enter s of
        (Inl e, t) \<Rightarrow> (Inl e, t)
      | (Inr _, t) \<Rightarrow>
          (case body t of
             (Inr x, u) \<Rightarrow>
               (case uow_exit None u of (Inl e, v) \<Rightarrow> (Inl e, v) | (Inr _, v) \<Rightarrow> (Inr x, v))
           | (Inl e, u) \<Rightarrow>
               (case uow_exit (Some e) u of (Inl e', v) \<Rightarrow> (Inl e', v) | (Inr _, v) \<Rightarrow> (Inl e, v))))"

section \<open>What a body may do\<close>

text \<open>
  What other sessions did between two states of a session: the events consumed on the way,
  folded over the committed database.
\<close>

definition others :: "db_event list \<Rightarrow> db \<Rightarrow> db" where
  "others evs d = fold others_change evs d"

lemma others_simps [simp]:
  "others [] d = d"
  "others (ev # evs) d = others evs (others_change ev d)"
  "others (evs @ evs') d = others evs' (others evs d)"
  by (simp_all add: others_def)

text \<open>
  A step of a transaction body: it consumes events, leaves the unit of work open and moves
  the committed database only as the other sessions do.
\<close>

definition within :: "'a session_scheme \<Rightarrow> 'a session_scheme \<Rightarrow> bool" where
  "within s t \<longleftrightarrow>
     (\<exists>evs. script s = evs @ script t \<and> committed t = others evs (committed s))
     \<and> uow_open t = uow_open s \<and> (in_transaction s \<longrightarrow> in_transaction t)"

lemma within_refl [simp]: "within s s"
  by (simp add: within_def)

lemma within_trans: "within s t \<Longrightarrow> within t u \<Longrightarrow> within s u"
  unfolding within_def by (metis append.assoc others_simps(3))

lemma reflp_within: "reflp within"
  by (simp add: reflp_def)

lemma transp_within: "transp within"
  unfolding transp_def by (blast intro: within_trans)

lemmas keeps_within = keeps_sret [OF reflp_within] keeps_sraise [OF reflp_within]
  keeps_slift [OF reflp_within] keeps_sthen [OF transp_within] keeps_scatch [OF transp_within]

lemma utc_now_keeps: "keeps within utc_now"
  by (rule keepsI) (auto simp: utc_now_def within_def split: list.splits)

lemma advance_fields [simp]:
  "committed (advance s) = committed s" "view (advance s) = view s" "aborted (advance s) = aborted s"
  "uow_open (advance s) = uow_open s" "in_transaction (advance s) = in_transaction s"
  "now (advance s) = now s" "script (advance s) = tl (script s)"
  by (simp_all add: advance_def)

text \<open>The events one round trip consumes.\<close>

definition consumed :: "'a session_scheme \<Rightarrow> db_event list" where
  "consumed s = (if script s = [] then [] else [next_event s])"

lemma consumed_script [simp]: "consumed s @ tl (script s) = script s"
  by (cases "script s") (simp_all add: consumed_def next_event_def)

lemma others_consumed [simp]: "others (consumed s) d = others_change (next_event s) d"
  by (cases "script s") (simp_all add: consumed_def next_event_def)

lemma round_trip:
  "script t = tl (script s) \<Longrightarrow> d = others_change (next_event s) e \<Longrightarrow>
   script s = consumed s @ script t \<and> d = others (consumed s) e"
  by simp

lemma execute_cases:
  assumes "execute stmt s = (r, t)"
  shows "script t = tl (script s) \<and> committed t = others_change (next_event s) (committed s)
    \<and> uow_open t = uow_open s \<and> in_transaction t"
  using assms
  by (auto simp: execute_def Let_def split: db_event.splits if_splits prod.splits sum.splits)

lemma execute_keeps: "keeps within (execute stmt)"
proof (rule keepsI)
  fix s t :: "'a session_scheme" and r
  assume "execute stmt s = (r, t)"
  from execute_cases [OF this] round_trip [of t s] show "within s t"
    unfolding within_def by blast
qed

section \<open>Atomicity of the unit of work\<close>

definition idle :: "'a session_scheme \<Rightarrow> bool" where
  "idle s \<longleftrightarrow> \<not> uow_open s \<and> \<not> in_transaction s \<and> view s = committed s \<and> \<not> aborted s"

definition begin_state :: "'a session_scheme \<Rightarrow> 'a session_scheme" where
  "begin_state s = s\<lparr>uow_open := True, in_transaction := True, aborted := False, view := committed s\<rparr>"

lemma uow_enter_idle: "idle s \<Longrightarrow> uow_enter s = (Inr (), begin_state s)"
  by (simp add: uow_enter_def idle_def begin_state_def)

lemma idle_close_with [simp]: "idle (close_with d s)"
  by (simp add: idle_def close_with_def)

text \<open>Rolling back leaves what others committed, and nothing else.\<close>

lemma uow_exit_error:
  assumes "uow_open s" "uow_exit (Some exc) s = (r, t)"
  shows "idle t \<and> (\<exists>evs. script s = evs @ script t \<and> committed t = others evs (committed s))"
proof -
  have "idle t \<and> script t = tl (script s) \<and> committed t = others_change (next_event s) (committed s)"
    using assms
    by (auto simp: uow_exit_def rollback_transaction_def close_with_def idle_def Let_def
        split: db_event.splits exn.splits)
  with round_trip [of t s] show ?thesis by blast
qed

text \<open>A commit publishes the view entirely or not at all; if it returns, entirely.\<close>

lemma uow_exit_commit:
  assumes "uow_open s" "\<not> aborted s" "uow_exit None s = (r, t)"
  shows "idle t \<and> (\<exists>evs. script s = evs @ script t \<and>
    (committed t = others evs (view s) \<or> (\<exists>e. r = Inl e) \<and> committed t = others evs (committed s)))"
proof -
  have "idle t \<and> script t = tl (script s) \<and>
    (committed t = others_change (next_event s) (view s)
     \<or> (\<exists>e. r = Inl e) \<and> committed t = others_change (next_event s) (committed s))"
    using assms
    by (auto simp: uow_exit_def commit_transaction_def close_with_def idle_def Let_def
        split: db_event.splits)
  with round_trip [of t s] show ?thesis by blast
qed


text \<open>A body that never returns normally out of an aborted transaction.\<close>

definition honest :: "('a session_scheme, exn, 'r) proc \<Rightarrow> bool" where
  "honest m \<longleftrightarrow> (\<forall>s x t. m s = (Inr x, t) \<longrightarrow> \<not> aborted s \<longrightarrow> \<not> aborted t)"

lemma honest_sret [simp]: "honest (sret x)"
  by (simp add: honest_def)

lemma honest_sraise [simp]: "honest (sraise e)"
  by (simp add: honest_def)

lemma honest_slift [simp]: "honest (slift r)"
  by (simp add: honest_def)

lemma honest_sthen: "honest m \<Longrightarrow> (\<And>x. honest (f x)) \<Longrightarrow> honest (sthen m f)"
  unfolding honest_def sthen_eq_Inr by blast

text \<open>An \<open>except\<close> clause that only raises again.\<close>

lemma honest_scatch: "honest m \<Longrightarrow> (\<And>e s x t. h e s \<noteq> (Inr x, t)) \<Longrightarrow> honest (scatch m h)"
  unfolding honest_def scatch_cases by (metis sum.distinct(1))

lemma honest_utc_now: "honest utc_now"
  by (auto simp: honest_def utc_now_def split: list.splits)

lemma honest_execute: "honest (execute stmt)"
  by (auto simp: honest_def execute_def Let_def
      split: db_event.splits if_splits prod.splits sum.splits)

lemma begin_state_fields [simp]:
  "uow_open (begin_state s)" "in_transaction (begin_state s)" "\<not> aborted (begin_state s)"
  "view (begin_state s) = committed s" "committed (begin_state s) = committed s"
  "script (begin_state s) = script s" "now (begin_state s) = now s"
  by (simp_all add: begin_state_def)

lemma honest_if: "honest m \<Longrightarrow> honest m' \<Longrightarrow> honest (if b then m else m')"
  by simp

lemma honest_case_option:
  "honest m \<Longrightarrow> (\<And>x. honest (k x)) \<Longrightarrow> honest (case v of None \<Rightarrow> m | Some x \<Rightarrow> k x)"
  by (cases v) simp_all

lemmas honest_intros = honest_sthen honest_if honest_case_option honest_sret honest_sraise
  honest_slift honest_utc_now honest_execute

text \<open>
  The unit of work, for any body that stays within its transaction: it ends idle; an error
  of the body undoes the body's writes; and the body's writes become visible all together
  or, when the block raises, possibly not at all.
\<close>

lemma with_uow_body_error:
  assumes "idle s" "keeps within body" "body (begin_state s) = (Inl e, u)"
    and "with_uow body s = (r, t)"
  shows "idle t \<and> (\<exists>e'. r = Inl e')
    \<and> (\<exists>evs. script s = evs @ script t \<and> committed t = others evs (committed s))"
proof -
  from keepsD [OF assms(2,3)] obtain evs where "script s = evs @ script u"
    and "committed u = others evs (committed s)" and isopen: "uow_open u"
    by (auto simp: within_def)
  moreover obtain r' where exit: "uow_exit (Some e) u = (r', t)" and "\<exists>e'. r = Inl e'"
    using assms by (auto simp: with_uow_def uow_enter_idle split: prod.splits sum.splits)
  moreover from uow_exit_error [OF isopen exit] obtain evs' where "idle t"
    "script u = evs' @ script t" "committed t = others evs' (committed u)" by blast
  ultimately show ?thesis
    by (auto intro!: exI [of _ "evs @ evs'"])
qed

lemma with_uow_body_returns:
  assumes "idle s" "keeps within body" "honest body" "body (begin_state s) = (Inr x, u)"
    and "with_uow body s = (r, t)"
  shows "idle t \<and> (\<exists>evs evs'. script s = evs @ script u \<and> script u = evs' @ script t \<and>
      (r = Inr x \<and> committed t = others evs' (view u)
       \<or> (\<exists>e. r = Inl e) \<and> (committed t = others evs' (view u)
            \<or> committed t = others (evs @ evs') (committed s))))"
proof -
  from keepsD [OF assms(2,4)] obtain evs where evs: "script s = evs @ script u"
    "committed u = others evs (committed s)" and isopen: "uow_open u"
    by (auto simp: within_def)
  from assms(3,4) have ok: "\<not> aborted u"
    unfolding honest_def by (metis begin_state_fields(3))
  obtain r' where exit: "uow_exit None u = (r', t)"
    and r: "r = (case r' of Inl e \<Rightarrow> Inl e | Inr _ \<Rightarrow> Inr x)"
    using assms(1,4,5)
    by (auto simp: with_uow_def uow_enter_idle split: prod.splits sum.splits)
  from uow_exit_commit [OF isopen ok exit] obtain evs' where "idle t" "script u = evs' @ script t"
    "committed t = others evs' (view u)
     \<or> (\<exists>e. r' = Inl e) \<and> committed t = others evs' (committed u)" by blast
  with evs r show ?thesis
    by (intro conjI exI [of _ evs] exI [of _ evs']) (auto split: sum.splits)
qed

text \<open>
  C2. Atomicity of the unit of work: whatever the body does within its transaction, and
  whatever fails on the way, after the block the session is idle again and the committed
  database is, up to what other sessions committed, either the one before or the whole of
  the body's view; if the block returns, it is the body's view, and if the body raised, it
  is the one before.
\<close>

theorem with_uow_atomic:
  assumes "idle s" "keeps within body" "honest body" "with_uow body s = (r, t)"
  shows "idle t \<and> (\<exists>evs evs'. script s = evs @ evs' @ script t \<and>
    (case body (begin_state s) of
       (Inl e, u) \<Rightarrow> (\<exists>e'. r = Inl e') \<and> committed t = others (evs @ evs') (committed s)
     | (Inr x, u) \<Rightarrow>
         (r = Inr x \<and> committed t = others evs' (view u))
         \<or> ((\<exists>e. r = Inl e) \<and> (committed t = others evs' (view u)
              \<or> committed t = others (evs @ evs') (committed s)))))"
proof (cases "body (begin_state s)")
  case (Pair b u)
  show ?thesis
  proof (cases b)
    case (Inl e)
    with with_uow_body_error [OF assms(1,2) _ assms(4)] Pair obtain evs where
      "idle t" "\<exists>e'. r = Inl e'" "script s = evs @ script t" "committed t = others evs (committed s)"
      by blast
    with Pair Inl show ?thesis by (intro conjI exI [of _ evs] exI [of _ "[]"]) simp_all
  next
    case (Inr x)
    with with_uow_body_returns [OF assms(1,2,3) _ assms(4)] Pair obtain evs evs' where
      "idle t" "script s = evs @ evs' @ script t"
      "(r = Inr x \<and> committed t = others evs' (view u))
       \<or> ((\<exists>e. r = Inl e) \<and> (committed t = others evs' (view u)
            \<or> committed t = others (evs @ evs') (committed s)))" by auto
    with Pair Inr show ?thesis by (intro conjI exI [of _ evs] exI [of _ evs']) simp_all
  qed
qed

definition empty_db :: db where
  "empty_db = \<lparr>profiles = [], user_settings = [], idempotency_records = []\<rparr>"

definition fresh_session :: "db \<Rightarrow> db_event list \<Rightarrow> session" where
  "fresh_session d evs =
     \<lparr>committed = d, view = d, in_transaction = False, aborted = False, uow_open = False,
      script = evs, now = 0, ticks = []\<rparr>"

lemma idle_fresh [simp]: "idle (fresh_session d evs)"
  by (simp add: idle_def fresh_session_def)

text \<open>Two statements and a commit whose answer is lost.\<close>

definition sample_body :: "(session, exn, unit) proc" where
  "sample_body = sthen (execute (\<lambda>d. (Inr (), d\<lparr>user_settings := []\<rparr>)))
     (\<lambda>_. execute (\<lambda>d. (Inr (), d\<lparr>profiles := []\<rparr>)))"

definition lost_answer :: "db_event list" where
  "lost_answer = [Quiet, Others (\<lambda>d. d), Lost \<lparr>sql_class = DisconnectionError, sqlstate = None,
     connection_invalidated = True, constraint_name = None\<rparr>]"

theorem with_uow_atomic_witness:
  "fst (with_uow sample_body (fresh_session empty_db lost_answer))
     = Inl (PersistenceError PersistenceUnavailableError)
   \<and> idle (snd (with_uow sample_body (fresh_session empty_db lost_answer)))"
proof
  let ?s = "fresh_session empty_db lost_answer"
  have "keeps within sample_body" "honest sample_body"
    unfolding sample_body_def
    by (intro keeps_within execute_keeps honest_sthen honest_execute)+
  from with_uow_atomic [OF idle_fresh this, of empty_db lost_answer "fst (with_uow sample_body ?s)"
      "snd (with_uow sample_body ?s)"]
  show "idle (snd (with_uow sample_body ?s))" by simp
qed (simp add: with_uow_def uow_enter_def uow_exit_def commit_transaction_def sample_body_def
    fresh_session_def sthen_def execute_def next_event_def lost_answer_def advance_def Let_def
    close_with_def raise_persistence_error_def is_dbapi_error_def)

end
