(* ===== verification/Database.thy ===== *)
theory Database
  imports Privacy_DTO Session
begin

text \<open>
  Tables, constraints, repositories and readers (\<open>src/src/app/infrastructure/database\<close> and
  the schema of \<open>src/alembic/versions\<close>). A repository is generic in its table, as
  \<open>BasePostgresRepository\<close> is: the record \<open>table_ops\<close> holds what the subclass, the
  \<open>Table\<close> and the aggregate class provide. The locale \<open>table_adapter\<close> states what the
  generic code needs of them and is interpreted on both tables.
\<close>

section \<open>What a table provides\<close>

record ('r, 'e) table_ops =
  t_get :: "db \<Rightarrow> 'r list"
  t_put :: "'r list \<Rightarrow> db \<Rightarrow> db"
  t_pk :: "'r \<Rightarrow> uuid"
  t_version :: "'r \<Rightarrow> int"
  t_check :: "'r \<Rightarrow> sql_error option"
  t_pkey :: string
  t_unique :: "'r list \<Rightarrow> 'r \<Rightarrow> sql_error option"
  t_id :: "'e \<Rightarrow> uuid"
  t_row :: "'e \<Rightarrow> 'r"
  t_assign :: "'e \<Rightarrow> 'r \<Rightarrow> 'r"
  t_hydrate :: "'r \<Rightarrow> 'e result"
  t_missing :: exn
  t_conflict :: exn

definition integrity_error :: "string \<Rightarrow> sql_error" where
  "integrity_error name =
     \<lparr>sql_class = IntegrityError, sqlstate = Some (if take 3 name = ''ck_'' then ''23514'' else ''23505''),
      connection_invalidated = False, constraint_name = Some name\<rparr>"

text \<open>A value the column type cannot hold.\<close>

definition data_error :: sql_error where
  "data_error = \<lparr>sql_class = OtherDBAPIError, sqlstate = Some ''22000'',
     connection_invalidated = False, constraint_name = None\<rparr>"

definition multiple_results :: sql_error where
  "multiple_results = \<lparr>sql_class = OtherSQLAlchemyError, sqlstate = None,
     connection_invalidated = False, constraint_name = None\<rparr>"

section \<open>Statements\<close>

definition select_pk :: "('r, 'e) table_ops \<Rightarrow> uuid \<Rightarrow> db \<Rightarrow> (sql_error + 'r list) \<times> db" where
  "select_pk tb pk d = (Inr (filter (\<lambda>r. t_pk tb r = pk) (t_get tb d)), d)"

definition select_exists :: "('r, 'e) table_ops \<Rightarrow> uuid \<Rightarrow> db \<Rightarrow> (sql_error + bool) \<times> db" where
  "select_exists tb pk d = (Inr (list_ex (\<lambda>r. t_pk tb r = pk) (t_get tb d)), d)"

definition select_in :: "('r, 'e) table_ops \<Rightarrow> uuid list \<Rightarrow> db \<Rightarrow> (sql_error + 'r list) \<times> db" where
  "select_in tb pks d = (Inr (filter (\<lambda>r. t_pk tb r \<in> set pks) (t_get tb d)), d)"

text \<open>
  \<open>INSERT ... RETURNING\<close>, with \<open>ON CONFLICT (pk) DO NOTHING\<close> or without: check constraints
  come before the indexes, and a skipped row returns nothing.
\<close>

definition insert_row ::
  "('r, 'e) table_ops \<Rightarrow> bool \<Rightarrow> 'r \<Rightarrow> db \<Rightarrow> (sql_error + 'r list) \<times> db" where
  "insert_row tb do_nothing row d =
     (let rows = t_get tb d in
      case t_check tb row of
        Some e \<Rightarrow> (Inl e, d)
      | None \<Rightarrow>
          if list_ex (\<lambda>r. t_pk tb r = t_pk tb row) rows
            then (if do_nothing then (Inr [], d) else (Inl (integrity_error (t_pkey tb)), d))
          else (case t_unique tb rows row of
                  Some e \<Rightarrow> (Inl e, d)
                | None \<Rightarrow> (Inr [row], t_put tb (rows @ [row]) d)))"

text \<open>\<open>UPDATE ... WHERE pk = ... [AND version = ...] RETURNING\<close>\<close>

definition update_hit :: "('r, 'e) table_ops \<Rightarrow> uuid \<Rightarrow> int option \<Rightarrow> 'r \<Rightarrow> bool" where
  "update_hit tb pk expected r \<longleftrightarrow>
     t_pk tb r = pk \<and> (case expected of None \<Rightarrow> True | Some v \<Rightarrow> t_version tb r = v)"

fun first_error :: "sql_error option list \<Rightarrow> sql_error option" where
  "first_error [] = None"
| "first_error (Some e # es) = Some e"
| "first_error (None # es) = first_error es"

definition update_rows ::
  "('r, 'e) table_ops \<Rightarrow> 'e \<Rightarrow> int option \<Rightarrow> db \<Rightarrow> (sql_error + 'r list) \<times> db" where
  "update_rows tb entity expected d =
     (let rows = t_get tb d;
          hit = update_hit tb (t_id tb entity) expected;
          new = map (t_assign tb entity) (filter hit rows);
          rest = filter (\<lambda>r. \<not> hit r) rows in
      case first_error (map (t_check tb) new @ map (t_unique tb rest) new) of
        Some e \<Rightarrow> (Inl e, d)
      | None \<Rightarrow>
          (Inr new, t_put tb (map (\<lambda>r. if hit r then t_assign tb entity r else r) rows) d))"

definition delete_rows :: "('r, 'e) table_ops \<Rightarrow> uuid \<Rightarrow> db \<Rightarrow> (sql_error + uuid list) \<times> db" where
  "delete_rows tb pk d =
     (let rows = t_get tb d in
      (Inr (map (t_pk tb) (filter (\<lambda>r. t_pk tb r = pk) rows)),
       t_put tb (filter (\<lambda>r. t_pk tb r \<noteq> pk) rows) d))"

fun one_or_none :: "'r list \<Rightarrow> 'r option result" where
  "one_or_none [] = Inr None"
| "one_or_none [r] = Inr (Some r)"
| "one_or_none (r # r' # rs) = Inl (SqlError multiple_results)"

fun one :: "'r list \<Rightarrow> 'r result" where
  "one [r] = Inr r"
| "one _ = Inl (SqlError multiple_results)"

section \<open>The generic repository\<close>

definition require_transaction :: "('a session_scheme, exn, unit) proc" where
  "require_transaction s =
     (if in_transaction s then (Inr (), s) else (Inl (TransactionError TransactionRequiredError), s))"

definition hydrate_optional :: "('r, 'e) table_ops \<Rightarrow> 'r option \<Rightarrow> 'e option result" where
  "hydrate_optional tb row =
     (case row of None \<Rightarrow> Inr None | Some r \<Rightarrow> rthen (t_hydrate tb r) (\<lambda>e. Inr (Some e)))"

definition repo_get_by_id ::
  "('r, 'e) table_ops \<Rightarrow> uuid \<Rightarrow> ('a session_scheme, exn, 'e option) proc" where
  "repo_get_by_id tb uid =
     sthen require_transaction (\<lambda>_.
     sthen (execute (select_pk tb uid)) (\<lambda>rows.
     slift (rthen (one_or_none rows) (hydrate_optional tb))))"

definition repo_exists ::
  "('r, 'e) table_ops \<Rightarrow> uuid \<Rightarrow> ('a session_scheme, exn, bool) proc" where
  "repo_exists tb uid =
     sthen require_transaction (\<lambda>_. execute (select_exists tb uid))"

definition repo_create ::
  "('r, 'e) table_ops \<Rightarrow> 'e \<Rightarrow> ('a session_scheme, exn, 'e) proc" where
  "repo_create tb entity =
     sthen require_transaction (\<lambda>_.
     sthen (execute (insert_row tb False (t_row tb entity))) (\<lambda>rows.
     slift (rthen (one rows) (t_hydrate tb))))"

definition repo_update ::
  "('r, 'e) table_ops \<Rightarrow> 'e \<Rightarrow> int option \<Rightarrow> ('a session_scheme, exn, 'e) proc" where
  "repo_update tb entity expected_version =
     sthen require_transaction (\<lambda>_.
     sthen (execute (update_rows tb entity expected_version)) (\<lambda>rows.
     sthen (slift (one_or_none rows)) (\<lambda>row.
     case row of
       None \<Rightarrow>
         sthen (repo_exists tb (t_id tb entity)) (\<lambda>found.
         if \<not> found then sraise (t_missing tb) else sraise (t_conflict tb))
     | Some r \<Rightarrow> slift (t_hydrate tb r))))"

definition repo_delete ::
  "('r, 'e) table_ops \<Rightarrow> uuid \<Rightarrow> ('a session_scheme, exn, bool) proc" where
  "repo_delete tb uid =
     sthen require_transaction (\<lambda>_.
     sthen (execute (delete_rows tb uid)) (\<lambda>deleted. sret (deleted \<noteq> [])))"

text \<open>
  \<open>create_default_if_absent\<close>, the same in both subclasses: after a skipped insert a new
  statement looks for the competing row.
\<close>

definition repo_create_default_if_absent ::
  "('r, 'e) table_ops \<Rightarrow> 'e result \<Rightarrow> uuid \<Rightarrow> ('a session_scheme, exn, 'e) proc" where
  "repo_create_default_if_absent tb default_result user_id =
     sthen require_transaction (\<lambda>_.
     sthen (slift default_result) (\<lambda>default_entity.
     sthen (execute (insert_row tb True (t_row tb default_entity))) (\<lambda>rows.
     sthen (slift (one_or_none rows)) (\<lambda>row.
     case row of
       Some r \<Rightarrow> slift (t_hydrate tb r)
     | None \<Rightarrow>
         sthen (repo_get_by_id tb user_id) (\<lambda>existing.
         case existing of
           None \<Rightarrow> sraise (t_missing tb)
         | Some e \<Rightarrow> sret e)))))"

section \<open>The generic reader\<close>

definition reader_get_by_id ::
  "('r, 'e) table_ops \<Rightarrow> uuid \<Rightarrow> ('a session_scheme, exn, 'e option) proc" where
  "reader_get_by_id tb uid =
     sthen (execute (select_pk tb uid)) (\<lambda>rows.
     slift (rthen (one_or_none rows) (hydrate_optional tb)))"

definition reader_exists ::
  "('r, 'e) table_ops \<Rightarrow> uuid \<Rightarrow> ('a session_scheme, exn, bool) proc" where
  "reader_exists tb uid = execute (select_exists tb uid)"

fun hydrate_all :: "('r \<Rightarrow> 'e result) \<Rightarrow> 'r list \<Rightarrow> 'e list result" where
  "hydrate_all f [] = Inr []"
| "hydrate_all f (r # rs) = rthen (f r) (\<lambda>e. rthen (hydrate_all f rs) (\<lambda>es. Inr (e # es)))"

definition reader_get_batch ::
  "('r, 'e) table_ops \<Rightarrow> uuid list \<Rightarrow> ('a session_scheme, exn, 'e list) proc" where
  "reader_get_batch tb uids =
     (if uids = [] then sret []
      else sthen (execute (select_in tb uids)) (\<lambda>rows. slift (hydrate_all (t_hydrate tb) rows)))"

section \<open>The contract of a table\<close>

text \<open>The entity a database holds under an identifier, and what makes a table sound.\<close>

definition lookup :: "('r, 'e) table_ops \<Rightarrow> db \<Rightarrow> uuid \<Rightarrow> 'e option" where
  "lookup tb d u =
     (case filter (\<lambda>r. t_pk tb r = u) (t_get tb d) of
        [] \<Rightarrow> None
      | r # _ \<Rightarrow> (case t_hydrate tb r of Inl _ \<Rightarrow> None | Inr e \<Rightarrow> Some e))"

definition table_ok :: "('r, 'e) table_ops \<Rightarrow> db \<Rightarrow> bool" where
  "table_ok tb d \<longleftrightarrow> distinct (map (t_pk tb) (t_get tb d))
     \<and> list_all (\<lambda>r. \<exists>e. t_hydrate tb r = Inr e) (t_get tb d)"

lemma distinct_filter_key:
  "distinct (map f xs) \<Longrightarrow> x \<in> set xs \<Longrightarrow> filter (\<lambda>y. f y = f x) xs = [x]"
  by (induction xs) (auto simp: filter_empty_conv image_iff)

lemma first_error_None [simp]: "first_error es = None \<longleftrightarrow> set es \<subseteq> {None}"
  by (induction es rule: first_error.induct) auto

locale table_adapter =
  fixes tb :: "('r, 'e) table_ops"
    and invar :: "'e \<Rightarrow> bool"
    and ver :: "'e \<Rightarrow> int"
    and created :: "'e \<Rightarrow> datetime"
  assumes get_put: "t_get tb (t_put tb rows d) = rows"
    and put_get: "t_put tb (t_get tb d) d = d"
    and row_pk: "t_pk tb (t_row tb e) = t_id tb e"
    and assign_pk: "t_pk tb (t_assign tb e r) = t_pk tb r"
    and hydrate_row: "invar e \<Longrightarrow> t_hydrate tb (t_row tb e) = Inr e"
    and hydrate_base: "t_hydrate tb r = Inr e \<Longrightarrow> t_id tb e = t_pk tb r \<and> ver e = t_version tb r"
    and hydrate_invar: "t_hydrate tb r = Inr e \<Longrightarrow> invar e"
    and hydrate_assign: "invar e \<Longrightarrow> t_hydrate tb r = Inr old \<Longrightarrow> t_id tb old = t_id tb e \<Longrightarrow>
      created old = created e \<Longrightarrow> t_hydrate tb (t_assign tb e r) = Inr e"
begin

lemma lookup_row:
  assumes "table_ok tb d" "r \<in> set (t_get tb d)" "t_hydrate tb r = Inr e"
  shows "lookup tb d (t_pk tb r) = Some e"
  using assms distinct_filter_key [of "t_pk tb" "t_get tb d" r]
  by (simp add: lookup_def table_ok_def)

lemma lookup_None: "table_ok tb d \<Longrightarrow> lookup tb d u = None \<longleftrightarrow> u \<notin> t_pk tb ` set (t_get tb d)"
proof -
  assume ok: "table_ok tb d"
  show ?thesis
  proof (cases "u \<in> t_pk tb ` set (t_get tb d)")
    case True
    then obtain r where r: "r \<in> set (t_get tb d)" "u = t_pk tb r" by auto
    with ok obtain e where "t_hydrate tb r = Inr e"
      by (auto simp: table_ok_def list_all_iff)
    with ok r lookup_row show ?thesis by auto
  next
    case False
    then have "filter (\<lambda>r. t_pk tb r = u) (t_get tb d) = []"
      by (auto simp: filter_empty_conv)
    with False show ?thesis by (simp add: lookup_def)
  qed
qed

lemma lookup_Some:
  assumes "table_ok tb d" "lookup tb d u = Some e"
  obtains r where "r \<in> set (t_get tb d)" "t_pk tb r = u" "t_hydrate tb r = Inr e"
    "filter (\<lambda>r. t_pk tb r = u) (t_get tb d) = [r]"
proof -
  from assms(2) obtain r rs where f: "filter (\<lambda>r. t_pk tb r = u) (t_get tb d) = r # rs"
    and h: "t_hydrate tb r = Inr e"
    by (auto simp: lookup_def split: list.splits sum.splits)
  then have "r \<in> set (filter (\<lambda>r. t_pk tb r = u) (t_get tb d))" by simp
  then have r: "r \<in> set (t_get tb d)" "t_pk tb r = u" by auto
  with assms(1) distinct_filter_key [of "t_pk tb" "t_get tb d" r] f h that show thesis
    by (simp add: table_ok_def)
qed

lemma lookup_invar: "table_ok tb d \<Longrightarrow> lookup tb d u = Some e \<Longrightarrow> invar e \<and> t_id tb e = u"
  by (erule (1) lookup_Some) (auto dest: hydrate_invar hydrate_base)


text \<open>
  Writing rows that keep their key changes the lookup of exactly the written ones. \<open>rewrite\<close>
  is the table after an update of the rows that satisfy \<open>hit\<close>.
\<close>

lemma table_ok_rewrite:
  assumes "table_ok tb d" "\<And>r. r \<in> set (t_get tb d) \<Longrightarrow> hit r \<Longrightarrow> \<exists>e'. t_hydrate tb (t_assign tb e r) = Inr e'"
  shows "table_ok tb (t_put tb (map (\<lambda>r. if hit r then t_assign tb e r else r) (t_get tb d)) d)"
proof -
  have "map (t_pk tb) (map (\<lambda>r. if hit r then t_assign tb e r else r) (t_get tb d))
      = map (t_pk tb) (t_get tb d)"
    by (simp add: assign_pk)
  then show ?thesis
    using assms unfolding table_ok_def get_put list_all_iff by (auto simp del: map_map)
qed

lemma lookup_rewrite:
  assumes ok: "table_ok tb d" and r: "r \<in> set (t_get tb d)" "t_pk tb r = t_id tb e"
    and hit: "\<And>r'. r' \<in> set (t_get tb d) \<Longrightarrow> hit r' \<longleftrightarrow> r' = r"
    and h: "t_hydrate tb (t_assign tb e r) = Inr e"
  shows "lookup tb (t_put tb (map (\<lambda>r. if hit r then t_assign tb e r else r) (t_get tb d)) d)
    = (lookup tb d)(t_id tb e \<mapsto> e)"
proof
  fix u
  let ?rows = "t_get tb d" and ?f = "\<lambda>r. if hit r then t_assign tb e r else r"
  have f: "filter (\<lambda>r. t_pk tb r = u) (map ?f ?rows) = map ?f (filter (\<lambda>r. t_pk tb r = u) ?rows)"
    by (simp add: filter_map comp_def assign_pk)
  show "lookup tb (t_put tb (map ?f ?rows) d) u = ((lookup tb d)(t_id tb e \<mapsto> e)) u"
  proof (cases "u = t_id tb e")
    case True
    then have "filter (\<lambda>r. t_pk tb r = u) ?rows = [r]"
      using ok r distinct_filter_key [of "t_pk tb" ?rows r] by (simp add: table_ok_def)
    with True f h hit [OF r(1)] show ?thesis by (simp add: lookup_def get_put)
  next
    case False
    have "map ?f (filter (\<lambda>r. t_pk tb r = u) ?rows) = filter (\<lambda>r. t_pk tb r = u) ?rows"
      using False hit r(2) by (auto intro!: map_idI)
    with False f show ?thesis by (simp add: lookup_def get_put)
  qed
qed

text \<open>The versioned update: the whole optimistic check of the repository.\<close>

lemma update_rows_versioned:
  assumes ok: "table_ok tb d" and inv: "invar e"
    and run: "update_rows tb e (Some v) d = (Inr new, d')"
  shows "(new = [] \<and> d' = d \<and> (case lookup tb d (t_id tb e) of None \<Rightarrow> True | Some old \<Rightarrow> ver old \<noteq> v))
    \<or> (\<exists>old r. lookup tb d (t_id tb e) = Some old \<and> ver old = v \<and> new = [t_assign tb e r]
        \<and> t_hydrate tb r = Inr old \<and> r \<in> set (t_get tb d)
        \<and> (created old = created e \<longrightarrow> t_hydrate tb (t_assign tb e r) = Inr e
             \<and> table_ok tb d' \<and> lookup tb d' = (lookup tb d)(t_id tb e \<mapsto> e)))"
proof -
  let ?rows = "t_get tb d"
  let ?hit = "\<lambda>r. t_pk tb r = t_id tb e \<and> t_version tb r = v"
  have hit: "update_hit tb (t_id tb e) (Some v) = ?hit"
    by (simp add: update_hit_def fun_eq_iff)
  from run have new: "new = map (t_assign tb e) (filter ?hit ?rows)"
    and d': "d' = t_put tb (map (\<lambda>r. if ?hit r then t_assign tb e r else r) ?rows) d"
    by (auto simp: update_rows_def hit Let_def split: option.splits)
  show ?thesis
  proof (cases "lookup tb d (t_id tb e)")
    case None
    then have "\<forall>r \<in> set ?rows. \<not> ?hit r"
      using lookup_None [OF ok, of "t_id tb e"] by (auto simp: image_iff)
    then have "new = []" "map (\<lambda>r. if ?hit r then t_assign tb e r else r) ?rows = ?rows"
      by (auto simp: new filter_empty_conv intro!: map_idI)
    with None d' put_get show ?thesis by simp
  next
    case (Some old)
    with ok obtain r where r: "r \<in> set ?rows" "t_pk tb r = t_id tb e" "t_hydrate tb r = Inr old"
      and only: "filter (\<lambda>r. t_pk tb r = t_id tb e) ?rows = [r]"
      by (rule lookup_Some)
    have ver: "ver old = t_version tb r" using hydrate_base [OF r(3)] by simp
    have uniq: "r' = r" if "r' \<in> set ?rows" "t_pk tb r' = t_id tb e" for r'
    proof -
      from that have "r' \<in> set (filter (\<lambda>r. t_pk tb r = t_id tb e) ?rows)" by simp
      with only show ?thesis by simp
    qed
    show ?thesis
    proof (cases "ver old = v")
      case True
      then have "filter ?hit ?rows = filter (\<lambda>r. t_pk tb r = t_id tb e) ?rows"
        using uniq ver by (auto intro: filter_cong)
      with only new have n: "new = [t_assign tb e r]" by simp
      have h: "t_hydrate tb (t_assign tb e r) = Inr e" if "created old = created e"
      proof (rule hydrate_assign [OF inv r(3) _ that])
        show "t_id tb old = t_id tb e" using lookup_invar [OF ok Some] by simp
      qed
      have ex: "?hit r' \<longleftrightarrow> r' = r" if "r' \<in> set ?rows" for r'
        using uniq [OF that] r(2) ver True by metis
      have "table_ok tb d'" if "created old = created e"
        unfolding d' using h [OF that] ex by (intro table_ok_rewrite ok) auto
      moreover have "lookup tb d' = (lookup tb d)(t_id tb e \<mapsto> e)" if "created old = created e"
        unfolding d' using ok r(1,2) ex h [OF that] by (rule lookup_rewrite)
      ultimately show ?thesis using Some True n r h by blast
    next
      case False
      then have "\<forall>r \<in> set ?rows. \<not> ?hit r" using uniq ver by auto
      then have "new = []" "map (\<lambda>r. if ?hit r then t_assign tb e r else r) ?rows = ?rows"
        by (auto simp: new filter_empty_conv intro!: map_idI)
      with Some False d' put_get show ?thesis by simp
    qed
  qed
qed

text \<open>The insert of a default row: skipped exactly when the key is taken.\<close>

lemma insert_row_default:
  assumes ok: "table_ok tb d" and inv: "invar e"
    and run: "insert_row tb True (t_row tb e) d = (Inr new, d')"
  shows "(new = [] \<and> d' = d \<and> lookup tb d (t_id tb e) \<noteq> None)
    \<or> (new = [t_row tb e] \<and> lookup tb d (t_id tb e) = None
        \<and> table_ok tb d' \<and> lookup tb d' = (lookup tb d)(t_id tb e \<mapsto> e))"
proof (cases "list_ex (\<lambda>r. t_pk tb r = t_pk tb (t_row tb e)) (t_get tb d)")
  case True
  with run have "new = []" "d' = d"
    by (auto simp: insert_row_def Let_def split: option.splits)
  moreover have "lookup tb d (t_id tb e) \<noteq> None"
  proof -
    from True obtain r where "r \<in> set (t_get tb d)" "t_pk tb r = t_id tb e"
      by (auto simp: list_ex_iff row_pk)
    then have "t_id tb e \<in> t_pk tb ` set (t_get tb d)" by (metis image_eqI)
    with lookup_None [OF ok, of "t_id tb e"] show ?thesis by blast
  qed
  ultimately show ?thesis by simp
next
  case False
  with run have new: "new = [t_row tb e]" and d': "d' = t_put tb (t_get tb d @ [t_row tb e]) d"
    by (auto simp: insert_row_def Let_def split: option.splits)
  from False have free: "\<forall>r \<in> set (t_get tb d). t_pk tb r \<noteq> t_id tb e"
    by (auto simp: list_ex_iff row_pk)
  then have none: "lookup tb d (t_id tb e) = None"
    using lookup_None [OF ok, of "t_id tb e"] by (metis imageE)
  have "table_ok tb d'"
    using ok free by (auto simp: table_ok_def d' get_put row_pk hydrate_row [OF inv])
  moreover have "lookup tb d' u = ((lookup tb d)(t_id tb e \<mapsto> e)) u" for u
  proof (cases "u = t_id tb e")
    case True
    with free have "filter (\<lambda>r. t_pk tb r = u) (t_get tb d) = []"
      by (auto simp: filter_empty_conv)
    with True show ?thesis by (simp add: lookup_def d' get_put row_pk hydrate_row [OF inv])
  qed (simp add: lookup_def d' get_put row_pk)
  ultimately show ?thesis using new none by auto
qed

end

end
