(* ===== verification/Ports.thy ===== *)
theory Ports
  imports Database
begin

text \<open>
  The persistence ports (\<open>src/src/app/application/ports/persistence\<close>) as interfaces: what a
  handler may rely on when it calls a repository or a reader. The locales speak of the
  contents of a database, an entity per identifier, and no longer of rows; \<open>Tables\<close>
  interprets them on the PostgreSQL adapters. Other sessions run between the calls, so the
  laws are stated by rely and guarantee: \<open>evolves\<close> is what every session keeps.
\<close>

section \<open>Statements seen from outside\<close>

text \<open>A piece of a transaction that wrote nothing: what it leaves in view is others' work.\<close>

definition reads :: "'a session_scheme \<Rightarrow> 'a session_scheme \<Rightarrow> bool" where
  "reads s t \<longleftrightarrow> (\<exists>evs. script s = evs @ script t \<and> view t = others evs (view s))"

lemma reads_refl [simp]: "reads s s"
  by (simp add: reads_def)

lemma reads_trans [trans]: "reads s t \<Longrightarrow> reads t u \<Longrightarrow> reads s u"
  unfolding reads_def by (metis append.assoc others_simps(3))

lemma reads_round_trip:
  "script t = tl (script s) \<Longrightarrow> view t = others_change (next_event s) (view s) \<Longrightarrow> reads s t"
  unfolding reads_def using round_trip by blast

lemma execute_Inl:
  assumes "execute stmt s = (Inl e, t)"
  shows "reads s t \<and> (\<exists>e'. e = SqlError e')"
proof -
  have "script t = tl (script s) \<and> view t = others_change (next_event s) (view s) \<and> (\<exists>e'. e = SqlError e')"
    using assms
    by (auto simp: execute_def Let_def split: db_event.splits if_splits prod.splits sum.splits)
  then show ?thesis using reads_round_trip by blast
qed

lemma execute_Inr:
  assumes "execute stmt s = (Inr x, t)"
  obtains evs where "script s = evs @ script t" "stmt (others evs (view s)) = (Inr x, view t)"
proof -
  have "script t = tl (script s) \<and> stmt (others_change (next_event s) (view s)) = (Inr x, view t)"
    using assms
    by (auto simp: execute_def Let_def split: db_event.splits if_splits prod.splits sum.splits)
  then have "script s = consumed s @ script t"
    "stmt (others (consumed s) (view s)) = (Inr x, view t)" by simp_all
  with that show thesis by blast
qed

lemma execute_query:
  assumes "execute stmt s = (Inr x, t)" "\<And>d y d'. stmt d = (Inr y, d') \<Longrightarrow> d' = d"
  shows "reads s t \<and> stmt (view t) = (Inr x, view t)"
proof -
  from assms(1) obtain evs where "script s = evs @ script t"
    "stmt (others evs (view s)) = (Inr x, view t)" by (rule execute_Inr)
  with assms(2) show ?thesis unfolding reads_def by metis
qed

lemma require_transaction_eq:
  "require_transaction s = (r, t) \<Longrightarrow> t = s \<and> (r = Inr () \<or> r = Inl (TransactionError TransactionRequiredError))"
  by (auto simp: require_transaction_def split: if_splits)

lemma utc_now_reads: "utc_now s = (r, t) \<Longrightarrow> reads s t \<and> view t = view s"
  by (auto simp: utc_now_def reads_def intro: exI [of _ "[]"] split: list.splits)

section \<open>What other sessions keep\<close>

text \<open>Every change by another session that the script still holds keeps \<open>R\<close>.\<close>

definition rely :: "(db \<Rightarrow> db \<Rightarrow> bool) \<Rightarrow> 'a session_scheme \<Rightarrow> bool" where
  "rely R s \<longleftrightarrow> (\<forall>f. Others f \<in> set (script s) \<longrightarrow> (\<forall>d. R d (f d)))"

lemma rely_others:
  assumes "reflp R" "transp R" "\<forall>f. Others f \<in> set evs \<longrightarrow> (\<forall>d. R d (f d))"
  shows "R d (others evs d)"
  using assms(3)
proof (induction evs arbitrary: d)
  case Nil
  with assms(1) show ?case by (simp add: reflp_def)
next
  case (Cons ev evs)
  then have "R (others_change ev d) (others evs (others_change ev d))" by simp
  moreover have "R d (others_change ev d)"
    using Cons.prems assms(1) by (cases ev) (auto simp: reflp_def)
  ultimately show ?case using assms(2) by (simp add: transpD)
qed

lemma rely_suffix: "rely R s \<Longrightarrow> script s = evs @ script t \<Longrightarrow> rely R t"
  by (simp add: rely_def)

lemma rely_reads: "rely R s \<Longrightarrow> reads s t \<Longrightarrow> rely R t"
  unfolding reads_def by (auto intro: rely_suffix)

lemma rely_view:
  "rely R s \<Longrightarrow> reflp R \<Longrightarrow> transp R \<Longrightarrow> script s = evs @ script t \<Longrightarrow> R d (others evs d)"
  by (rule rely_others) (auto simp: rely_def)

text \<open>
  How the contents may evolve. Entities are not deleted and keep their time of creation;
  a version never goes back, and under one version there is one content.
\<close>

definition evolves ::
  "(db \<Rightarrow> bool) \<Rightarrow> (db \<Rightarrow> uuid \<Rightarrow> 'e option) \<Rightarrow> ('e \<Rightarrow> int) \<Rightarrow> ('e \<Rightarrow> datetime) \<Rightarrow> db \<Rightarrow> db \<Rightarrow> bool" where
  "evolves ok look ver created d d' \<longleftrightarrow>
     (ok d \<longrightarrow> ok d')
     \<and> (\<forall>u e. look d u = Some e \<longrightarrow>
          (\<exists>e'. look d' u = Some e' \<and> created e' = created e \<and> ver e \<le> ver e'
              \<and> (ver e' = ver e \<longrightarrow> e' = e)))"

lemma evolves_refl [simp]: "evolves ok look ver created d d"
  by (simp add: evolves_def)

lemma evolves_reflp: "reflp (evolves ok look ver created)"
  by (simp add: reflp_def)

lemma evolves_trans:
  assumes "evolves ok look ver created d1 d2" "evolves ok look ver created d2 d3"
  shows "evolves ok look ver created d1 d3"
  unfolding evolves_def
proof (intro conjI allI impI)
  show "ok d3" if "ok d1" using that assms by (simp add: evolves_def)
next
  fix u e
  assume "look d1 u = Some e"
  with assms(1) obtain e2 where 2: "look d2 u = Some e2" "created e2 = created e" "ver e \<le> ver e2"
    "ver e2 = ver e \<longrightarrow> e2 = e" unfolding evolves_def by blast
  with assms(2) obtain e3 where 3: "look d3 u = Some e3" "created e3 = created e2" "ver e2 \<le> ver e3"
    "ver e3 = ver e2 \<longrightarrow> e3 = e2" unfolding evolves_def by blast
  with 2 show "\<exists>e'. look d3 u = Some e' \<and> created e' = created e \<and> ver e \<le> ver e'
      \<and> (ver e' = ver e \<longrightarrow> e' = e)"
    by (intro exI [of _ e3]) auto
qed

lemma evolves_transp: "transp (evolves ok look ver created)"
  unfolding transp_def by (blast intro: evolves_trans)

text \<open>
  The guarantee of a piece of a transaction: it keeps \<open>R\<close> from the view before to the view
  after, as long as the other sessions do.
\<close>

definition guar :: "(db \<Rightarrow> db \<Rightarrow> bool) \<Rightarrow> 'a session_scheme \<Rightarrow> 'a session_scheme \<Rightarrow> bool" where
  "guar R s t \<longleftrightarrow> (\<exists>evs. script s = evs @ script t) \<and> (rely R s \<longrightarrow> R (view s) (view t))"

lemma reflp_guar: "reflp R \<Longrightarrow> reflp (guar R)"
  by (auto simp: reflp_def guar_def)

lemma transp_guar:
  assumes "transp R"
  shows "transp (guar R)"
proof (rule transpI)
  fix s t u :: "'a session_scheme"
  assume st: "guar R s t" and tu: "guar R t u"
  then obtain evs evs' where evs: "script s = evs @ script t" "script t = evs' @ script u"
    by (auto simp: guar_def)
  moreover have "R (view s) (view u)" if "rely R s"
  proof -
    from that evs(1) have "rely R t" by (rule rely_suffix)
    with st tu that assms show ?thesis by (auto simp: guar_def elim: transpE)
  qed
  ultimately show "guar R s u" by (auto simp: guar_def)
qed

lemmas keeps_guar = keeps_sret [OF reflp_guar] keeps_sraise [OF reflp_guar]
  keeps_slift [OF reflp_guar] keeps_sthen [OF transp_guar] keeps_scatch [OF transp_guar] keeps_case_option keeps_if

lemma reads_guar: "reflp R \<Longrightarrow> transp R \<Longrightarrow> reads s t \<Longrightarrow> guar R s t"
  unfolding reads_def guar_def using rely_view by metis

lemma execute_guar:
  assumes "reflp R" "transp R" "\<And>d x d'. stmt d = (Inr x, d') \<Longrightarrow> R d d'"
  shows "keeps (guar R) (execute stmt :: ('a session_scheme, exn, 'r) proc)"
proof (rule keepsI)
  fix s t :: "'a session_scheme" and r
  assume run: "execute stmt s = (r, t)"
  show "guar R s t"
  proof (cases r)
    case (Inl e)
    with run execute_Inl [of stmt s e t] show ?thesis by (auto intro: reads_guar assms(1,2))
  next
    case (Inr x)
    with run obtain evs where evs: "script s = evs @ script t"
      and stmt: "stmt (others evs (view s)) = (Inr x, view t)" by (auto elim: execute_Inr)
    have "R (view s) (view t)" if "rely R s"
      using rely_view [OF that assms(1,2) evs] assms(3) [OF stmt] assms(2) by (blast dest: transpD)
    with evs show ?thesis by (auto simp: guar_def)
  qed
qed

lemma require_transaction_guar: "reflp R \<Longrightarrow> keeps (guar R) require_transaction"
  by (rule keepsI) (auto dest!: require_transaction_eq simp: reflp_guar [THEN reflpD])

lemma repo_get_guar:
  "reflp R \<Longrightarrow> transp R \<Longrightarrow> keeps (guar R) (repo_get_by_id tb u)"
  unfolding repo_get_by_id_def
  by (intro keeps_guar require_transaction_guar execute_guar) (auto simp: select_pk_def reflp_def)

text \<open>A statement that leaves a table alone keeps every relation on the rows of that table.\<close>

lemma provide_guar:
  assumes "reflp R" "transp R" "\<And>rows d. R d (t_put tb rows d)"
  shows "keeps (guar R) (repo_create_default_if_absent tb def u)"
proof -
  have "keeps (guar R) (execute (insert_row tb True row))" for row
    using assms
    by (intro execute_guar) (auto simp: insert_row_def Let_def reflp_def split: option.splits if_splits)
  then show ?thesis
    unfolding repo_create_default_if_absent_def
    by (intro keeps_guar require_transaction_guar repo_get_guar assms(1,2))
qed

lemma update_guar:
  assumes "reflp R" "transp R" "\<And>rows d. R d (t_put tb rows d)"
  shows "keeps (guar R) (repo_update tb e v)"
proof -
  have "keeps (guar R) (execute (update_rows tb e v))"
    using assms by (intro execute_guar) (auto simp: update_rows_def Let_def split: option.splits)
  moreover have "keeps (guar R) (execute (select_exists tb u))" for u
    using assms(1,2) by (intro execute_guar) (auto simp: select_exists_def reflp_def)
  ultimately show ?thesis
    unfolding repo_update_def repo_exists_def
    by (intro keeps_guar require_transaction_guar assms(1,2))
qed

lemma utc_now_guar: "reflp R \<Longrightarrow> transp R \<Longrightarrow> keeps (guar R) utc_now"
  by (rule keepsI) (auto intro: reads_guar dest: utc_now_reads)

section \<open>The reader port\<close>

locale reader_port =
  fixes look :: "db \<Rightarrow> uuid \<Rightarrow> 'e option"
    and ok :: "db \<Rightarrow> bool"
    and ident :: "'e \<Rightarrow> uuid"
    and invar :: "'e \<Rightarrow> bool"
    and get :: "uuid \<Rightarrow> (session, exn, 'e option) proc"
    and batch :: "uuid list \<Rightarrow> (session, exn, 'e list) proc"
  assumes look_sound: "ok d \<Longrightarrow> look d u = Some e \<Longrightarrow> invar e \<and> ident e = u"
    and get_reads: "get u s = (got, t) \<Longrightarrow> reads s t"
    and get_sees: "get u s = (Inr r, t) \<Longrightarrow> ok (view t) \<Longrightarrow> r = look (view t) u"
    and batch_reads: "batch us s = (gots, t) \<Longrightarrow> reads s t"
    and batch_sees: "batch us s = (Inr es, t) \<Longrightarrow> ok (view t) \<Longrightarrow>
      distinct (map ident es) \<and> (\<forall>e. e \<in> set es \<longleftrightarrow> ident e \<in> set us \<and> look (view t) (ident e) = Some e)"

section \<open>The repository port\<close>

locale repository_port =
  fixes look :: "db \<Rightarrow> uuid \<Rightarrow> 'e option"
    and ok :: "db \<Rightarrow> bool"
    and ident :: "'e \<Rightarrow> uuid"
    and invar :: "'e \<Rightarrow> bool"
    and ver :: "'e \<Rightarrow> int"
    and created :: "'e \<Rightarrow> datetime"
    and get :: "uuid \<Rightarrow> (session, exn, 'e option) proc"
    and upd :: "'e \<Rightarrow> int option \<Rightarrow> (session, exn, 'e) proc"
    and provide :: "'e result \<Rightarrow> uuid \<Rightarrow> (session, exn, 'e) proc"
  assumes look_sound: "ok d \<Longrightarrow> look d u = Some e \<Longrightarrow> invar e \<and> ident e = u"
    and get_reads: "get u s = (got, t) \<Longrightarrow> reads s t"
    and get_sees: "get u s = (Inr r, t) \<Longrightarrow> ok (view t) \<Longrightarrow> r = look (view t) u"
    and upd_writes: "upd e (Some v) s = (Inr e', t) \<Longrightarrow> invar e \<Longrightarrow>
      (\<And>evs. script s = evs @ script t \<Longrightarrow> ok (others evs (view s))) \<Longrightarrow>
      \<exists>evs old. script s = evs @ script t \<and> look (others evs (view s)) (ident e) = Some old
        \<and> ver old = v
        \<and> (created old = created e \<longrightarrow> e' = e \<and> ok (view t)
             \<and> look (view t) = (look (others evs (view s)))(ident e \<mapsto> e))"
    and provide_writes: "provide (Inr e) u s = (Inr e', t) \<Longrightarrow> invar e \<Longrightarrow> ident e = u \<Longrightarrow>
      ok (view s) \<Longrightarrow> rely (evolves ok look ver created) s \<Longrightarrow>
      ok (view t) \<and> look (view t) u = Some e'
      \<and> (reads s t \<or> e' = e \<and> (\<exists>evs. script s = evs @ script t \<and> look (others evs (view s)) u = None
           \<and> look (view t) = (look (others evs (view s)))(u \<mapsto> e)))"
begin

abbreviation evolve where
  "evolve \<equiv> evolves ok look ver created"

lemma rely_ok:
  "rely evolve s \<Longrightarrow> ok (view s) \<Longrightarrow> script s = evs @ script t \<Longrightarrow> ok (others evs (view s))"
  using rely_view [OF _ evolves_reflp evolves_transp, of ok look ver created s evs t "view s"]
  by (simp add: evolves_def)

lemma reads_evolves: "rely evolve s \<Longrightarrow> reads s t \<Longrightarrow> evolve (view s) (view t)"
  unfolding reads_def using rely_view [OF _ evolves_reflp evolves_transp] by metis

lemma reads_ok: "rely evolve s \<Longrightarrow> ok (view s) \<Longrightarrow> reads s t \<Longrightarrow> ok (view t)"
  using reads_evolves by (auto simp: evolves_def)

text \<open>Writing a later version of an entity is an evolution.\<close>

lemma write_evolves:
  assumes "look d u = Some old" "look d' = (look d)(u \<mapsto> new)" "ok d'"
    and "created new = created old" "ver old < ver new"
  shows "evolve d d'"
  using assms by (auto simp: evolves_def)

lemma insert_evolves:
  assumes "look d u = None" "look d' = (look d)(u \<mapsto> new)" "ok d'"
  shows "evolve d d'"
  using assms by (auto simp: evolves_def)

lemma provide_evolves:
  assumes run: "provide (Inr e) u s = (Inr e', t)" and e: "invar e" "ident e = u"
    and ok: "ok (view s)" and rely: "rely evolve s"
  shows "ok (view t) \<and> look (view t) u = Some e' \<and> evolve (view s) (view t)"
proof -
  note w = provide_writes [OF run e ok rely]
  have "evolve (view s) (view t)"
  proof (cases "reads s t")
    case True
    then show ?thesis by (rule reads_evolves [OF rely])
  next
    case False
    with w obtain evs where evs: "script s = evs @ script t" "look (others evs (view s)) u = None"
      "look (view t) = (look (others evs (view s)))(u \<mapsto> e)" by blast
    then have "evolve (others evs (view s)) (view t)" using w by (intro insert_evolves) auto
    with rely_view [OF rely evolves_reflp evolves_transp evs(1)] show ?thesis
      by (rule evolves_trans)
  qed
  with w show ?thesis by blast
qed

text \<open>With no other session at work, exactly the absent entity is added.\<close>

lemma provide_quiet:
  assumes run: "provide (Inr e) u s = (Inr e', t)" and e: "invar e" "ident e = u"
    and ok: "ok (view s)" and quiet: "script s = []"
  shows "look (view t) = (if look (view s) u = None then (look (view s))(u \<mapsto> e) else look (view s))"
proof -
  from quiet have "rely evolve s" by (simp add: rely_def)
  from provide_writes [OF run e ok this] quiet show ?thesis by (auto simp: reads_def)
qed

end

end
