(* ===== verification/Tables.thy ===== *)
theory Tables
  imports Ports
begin

text \<open>
  The generic repository and reader of \<open>Database\<close> keep the laws of the persistence ports,
  whatever the table: lemmas inside the locale \<open>table_adapter\<close>, which \<open>Schema\<close> interprets.
\<close>

section \<open>Reading\<close>

lemma select_pk_pure [simp]: "select_pk tb u d = (Inr rows, d') \<longleftrightarrow>
    d' = d \<and> rows = filter (\<lambda>r. t_pk tb r = u) (t_get tb d)"
  by (auto simp: select_pk_def)

lemma select_exists_pure [simp]: "select_exists tb u d = (Inr b, d') \<longleftrightarrow>
    d' = d \<and> b = list_ex (\<lambda>r. t_pk tb r = u) (t_get tb d)"
  by (auto simp: select_exists_def)

lemma select_in_pure [simp]: "select_in tb us d = (Inr rows, d') \<longleftrightarrow>
    d' = d \<and> rows = filter (\<lambda>r. t_pk tb r \<in> set us) (t_get tb d)"
  by (auto simp: select_in_def)

lemma execute_reads:
  assumes "execute stmt s = (r, t)" "\<And>d y d'. stmt d = (Inr y, d') \<Longrightarrow> d' = d"
  shows "reads s t"
proof (cases r)
  case (Inl e)
  with assms(1) execute_Inl [of stmt s e t] show ?thesis by simp
next
  case (Inr x)
  with assms(1) execute_query [OF _ assms(2), of stmt s x t] show ?thesis by simp
qed

lemma exists_reads: "repo_exists tb u s = (r, t) \<Longrightarrow> reads s t"
  by (auto simp: repo_exists_def sthen_cases dest!: require_transaction_eq
      elim!: execute_reads split: if_splits)

lemma get_by_id_reads: "repo_get_by_id tb u s = (r, t) \<Longrightarrow> reads s t"
  by (auto simp: repo_get_by_id_def sthen_cases dest!: require_transaction_eq
      elim!: execute_reads)

lemma reader_get_reads: "reader_get_by_id tb u s = (r, t) \<Longrightarrow> reads s t"
  by (auto simp: reader_get_by_id_def sthen_cases elim!: execute_reads)

lemma reader_batch_reads: "reader_get_batch tb us s = (r, t) \<Longrightarrow> reads s t"
  by (auto simp: reader_get_batch_def sthen_cases elim!: execute_reads split: if_splits)

lemma hydrate_all_eq:
  "hydrate_all f rows = Inr es \<longleftrightarrow> list_all2 (\<lambda>r e. f r = Inr e) rows es"
  by (induction rows arbitrary: es) (auto simp: list_all2_Cons1)

lemma execute_select_pk:
  "execute (select_pk tb u) s = (Inr rows, t) \<Longrightarrow>
   rows = filter (\<lambda>r. t_pk tb r = u) (t_get tb (view t))"
  by (drule execute_query) auto

lemma execute_select_in:
  "execute (select_in tb us) s = (Inr rows, t) \<Longrightarrow>
   rows = filter (\<lambda>r. t_pk tb r \<in> set us) (t_get tb (view t))"
  by (drule execute_query) auto

lemma list_all2_left: "list_all2 P xs ys \<Longrightarrow> y \<in> set ys \<Longrightarrow> \<exists>x \<in> set xs. P x y"
  by (induction rule: list_all2_induct) auto

lemma list_all2_right: "list_all2 P xs ys \<Longrightarrow> x \<in> set xs \<Longrightarrow> \<exists>y \<in> set ys. P x y"
  by (induction rule: list_all2_induct) auto

context table_adapter
begin

lemma one_row:
  "table_ok tb d \<Longrightarrow> rthen (one_or_none (filter (\<lambda>r. t_pk tb r = u) (t_get tb d))) (hydrate_optional tb)
     = Inr (lookup tb d u)"
proof (cases "lookup tb d u")
  case None
  assume ok: "table_ok tb d"
  with None have "filter (\<lambda>r. t_pk tb r = u) (t_get tb d) = []"
    using lookup_None [OF ok, of u] by (auto simp: filter_empty_conv image_iff)
  with None show ?thesis by (simp add: hydrate_optional_def)
next
  case (Some e)
  assume "table_ok tb d"
  from lookup_Some [OF this Some] obtain r where
    "filter (\<lambda>r. t_pk tb r = u) (t_get tb d) = [r]" "t_hydrate tb r = Inr e" by blast
  with Some show ?thesis by (simp add: hydrate_optional_def)
qed

lemma get_by_id_sees:
  "repo_get_by_id tb u s = (Inr x, t) \<Longrightarrow> table_ok tb (view t) \<Longrightarrow> x = lookup tb (view t) u"
  by (auto simp: repo_get_by_id_def sthen_eq_Inr one_row dest!: require_transaction_eq execute_select_pk
      simp del: rthen_eq_Inr)

lemma reader_get_sees:
  "reader_get_by_id tb u s = (Inr x, t) \<Longrightarrow> table_ok tb (view t) \<Longrightarrow> x = lookup tb (view t) u"
  by (auto simp: reader_get_by_id_def sthen_eq_Inr one_row dest!: execute_select_pk
      simp del: rthen_eq_Inr)

lemma batch_rows:
  assumes ok: "table_ok tb d"
    and es: "list_all2 (\<lambda>r e. t_hydrate tb r = Inr e) (filter (\<lambda>r. t_pk tb r \<in> set us) (t_get tb d)) es"
  shows "map (t_id tb) es = map (t_pk tb) (filter (\<lambda>r. t_pk tb r \<in> set us) (t_get tb d))
    \<and> (\<forall>e. e \<in> set es \<longleftrightarrow> t_id tb e \<in> set us \<and> lookup tb d (t_id tb e) = Some e)"
proof (intro conjI allI iffI)
  show "map (t_id tb) es = map (t_pk tb) (filter (\<lambda>r. t_pk tb r \<in> set us) (t_get tb d))"
    using es by (induction rule: list_all2_induct) (auto dest: hydrate_base)
next
  fix e
  assume "e \<in> set es"
  with es obtain r where "r \<in> set (filter (\<lambda>r. t_pk tb r \<in> set us) (t_get tb d))"
    and h: "t_hydrate tb r = Inr e"
    using list_all2_left [OF es] by blast
  then have r: "r \<in> set (t_get tb d)" "t_pk tb r \<in> set us" "t_hydrate tb r = Inr e" by simp_all
  with hydrate_base [OF r(3)] lookup_row [OF ok r(1,3)]
  show "t_id tb e \<in> set us" "lookup tb d (t_id tb e) = Some e" by simp_all
next
  fix e
  assume e: "t_id tb e \<in> set us \<and> lookup tb d (t_id tb e) = Some e"
  with ok obtain r where r: "r \<in> set (t_get tb d)" "t_pk tb r = t_id tb e" "t_hydrate tb r = Inr e"
    by (blast elim: lookup_Some)
  with e have "r \<in> set (filter (\<lambda>r. t_pk tb r \<in> set us) (t_get tb d))" by simp
  from list_all2_right [OF es this] r(3) show "e \<in> set es" by auto
qed

lemma batch_sees:
  assumes run: "reader_get_batch tb us s = (Inr es, t)" and ok: "table_ok tb (view t)"
  shows "distinct (map (t_id tb) es)
    \<and> (\<forall>e. e \<in> set es \<longleftrightarrow> t_id tb e \<in> set us \<and> lookup tb (view t) (t_id tb e) = Some e)"
proof (cases "us = []")
  case True
  with run show ?thesis by (simp add: reader_get_batch_def)
next
  case False
  with run obtain rows where "execute (select_in tb us) s = (Inr rows, t)"
    and "hydrate_all (t_hydrate tb) rows = Inr es"
    by (auto simp: reader_get_batch_def sthen_eq_Inr)
  moreover from this(1) have "rows = filter (\<lambda>r. t_pk tb r \<in> set us) (t_get tb (view t))"
    by (rule execute_select_in)
  ultimately have "list_all2 (\<lambda>r e. t_hydrate tb r = Inr e)
      (filter (\<lambda>r. t_pk tb r \<in> set us) (t_get tb (view t))) es"
    by (simp add: hydrate_all_eq)
  from batch_rows [OF ok this] ok show ?thesis
    by (simp add: table_ok_def distinct_map_filter)
qed

section \<open>Writing\<close>

text \<open>An update that returns wrote one row, and it found the expected version there.\<close>

lemma update_writes:
  assumes run: "repo_update tb e (Some v) s = (Inr e', t)" and inv: "invar e"
    and ok: "\<And>evs. script s = evs @ script t \<Longrightarrow> table_ok tb (others evs (view s))"
  shows "\<exists>evs old. script s = evs @ script t \<and> lookup tb (others evs (view s)) (t_id tb e) = Some old
    \<and> ver old = v
    \<and> (created old = created e \<longrightarrow> e' = e \<and> table_ok tb (view t)
         \<and> lookup tb (view t) = (lookup tb (others evs (view s)))(t_id tb e \<mapsto> e))"
proof -
  from run obtain rows u where ex: "execute (update_rows tb e (Some v)) s = (Inr rows, u)"
    and rest: "(case one_or_none rows of Inl x \<Rightarrow> False
      | Inr None \<Rightarrow> False | Inr (Some r) \<Rightarrow> t_hydrate tb r = Inr e' \<and> t = u)"
    by (auto simp: repo_update_def sthen_eq_Inr dest!: require_transaction_eq
        split: option.splits if_splits)
  then obtain r where rows: "rows = [r]" and h: "t_hydrate tb r = Inr e'" and t: "t = u"
    by (cases rows rule: one_or_none.cases) auto
  from ex obtain evs where evs: "script s = evs @ script u"
    and up: "update_rows tb e (Some v) (others evs (view s)) = (Inr rows, view u)"
    by (rule execute_Inr)
  from update_rows_versioned [OF ok inv up] evs t rows h show ?thesis
    by auto
qed

lemma provide_writes:
  assumes run: "repo_create_default_if_absent tb (Inr e) u s = (Inr e', t)"
    and inv: "invar e" and ident: "t_id tb e = u" and ok: "table_ok tb (view s)"
    and rely: "rely (evolves (table_ok tb) (lookup tb) ver created) s"
  shows "table_ok tb (view t) \<and> lookup tb (view t) u = Some e'
    \<and> (reads s t \<or> e' = e \<and> (\<exists>evs. script s = evs @ script t \<and> lookup tb (others evs (view s)) u = None
         \<and> lookup tb (view t) = (lookup tb (others evs (view s)))(u \<mapsto> e)))"
proof -
  from run obtain rows w where ex: "execute (insert_row tb True (t_row tb e)) s = (Inr rows, w)"
    and rest: "(case one_or_none rows of Inl x \<Rightarrow> False
      | Inr None \<Rightarrow> repo_get_by_id tb u w = (Inr (Some e'), t)
      | Inr (Some r) \<Rightarrow> t_hydrate tb r = Inr e' \<and> t = w)"
    by (auto simp: repo_create_default_if_absent_def sthen_eq_Inr dest!: require_transaction_eq
        split: option.splits)
  from ex obtain evs where evs: "script s = evs @ script w"
    and ins: "insert_row tb True (t_row tb e) (others evs (view s)) = (Inr rows, view w)"
    by (rule execute_Inr)
  have ok': "table_ok tb (others evs (view s))"
    using rely_view [OF rely evolves_reflp evolves_transp evs, of "view s"] ok
    by (simp add: evolves_def)
  from insert_row_default [OF ok' inv ins] show ?thesis
  proof (elim disjE conjE)
    assume new: "rows = []" "view w = others evs (view s)"
    with rest have get: "repo_get_by_id tb u w = (Inr (Some e'), t)" by simp
    from evs new have "reads s w" by (auto simp: reads_def)
    with get_by_id_reads [OF get] have r: "reads s t" by (blast intro: reads_trans)
    then have "table_ok tb (view t)"
      using ok rely rely_view [OF rely evolves_reflp evolves_transp]
      unfolding reads_def evolves_def by metis
    with get_by_id_sees [OF get] r show ?thesis by simp
  next
    assume "rows = [t_row tb e]" "lookup tb (others evs (view s)) (t_id tb e) = None"
      "table_ok tb (view w)" "lookup tb (view w) = (lookup tb (others evs (view s)))(t_id tb e \<mapsto> e)"
    with rest evs ident hydrate_row [OF inv] show ?thesis by auto
  qed
qed

end

end
