(* ===== verification/Schema.thy ===== *)
theory Schema
  imports Tables
begin

text \<open>
  The tables of the two aggregates: columns and constraints
  (\<open>src/src/app/infrastructure/database/models/profiles.py\<close> and \<open>settings.py\<close>, created by
  \<open>src/alembic/versions/0001_profile_storage.py\<close>), the repositories and readers over them, and
  the interpretations of the persistence ports on these adapters.
\<close>

section \<open>Column types\<close>

text \<open>
  What a column of PostgreSQL can hold: no NUL and no lone surrogate in a text, at most n
  code points in a \<open>VARCHAR(n)\<close>, 64 bits in a \<open>BIGINT\<close>. A statement with any other
  value fails before a constraint is looked at.
\<close>

definition storable_char :: "nat \<Rightarrow> bool" where
  "storable_char c \<longleftrightarrow> c \<noteq> 0 \<and> \<not> (0xD800 \<le> c \<and> c \<le> 0xDFFF)"

definition text_ok :: "pystr \<Rightarrow> bool" where
  "text_ok s \<longleftrightarrow> list_all storable_char s"

definition varchar_ok :: "nat \<Rightarrow> pystr \<Rightarrow> bool" where
  "varchar_ok n s \<longleftrightarrow> text_ok s \<and> length s \<le> n"

definition bigint_ok :: "int \<Rightarrow> bool" where
  "bigint_ok v \<longleftrightarrow> - (2 ^ 63) \<le> v \<and> v < 2 ^ 63"

text \<open>\<open>btrim\<close> removes spaces only.\<close>

definition btrim :: "pystr \<Rightarrow> pystr" where
  "btrim s = rev (dropWhile (\<lambda>c. c = 32) (rev (dropWhile (\<lambda>c. c = 32) s)))"

text \<open>The first violated constraint, in the order of the names, in which they are checked.\<close>

definition check_all :: "bool \<Rightarrow> (string \<times> bool) list \<Rightarrow> sql_error option" where
  "check_all columns constraints =
     (if \<not> columns then Some data_error
      else first_error (map (\<lambda>(name, holds). if holds then None else Some (integrity_error name)) constraints))"

lemma check_all_None [simp]: "check_all columns cs = None \<longleftrightarrow> columns \<and> list_all snd cs"
  by (auto simp: check_all_def list_all_iff split: if_splits)

section \<open>The table of profiles\<close>

definition profile_row_of :: "UserProfile \<Rightarrow> profile_row" where
  "profile_row_of p =
     \<lparr>col_user_id = entity_id p, col_username = username p, col_display_name = display_name p,
      col_bio = bio p, col_avatar_key = avatar_key p, col_status = status_value (status p),
      col_is_verified = is_verified p, col_version = version p,
      col_created_at = created_at p, col_updated_at = updated_at p\<rparr>"

text \<open>The columns an update sets: all but the key and the time of creation.\<close>

definition profile_assign :: "UserProfile \<Rightarrow> profile_row \<Rightarrow> profile_row" where
  "profile_assign p r =
     (profile_row_of p)\<lparr>col_user_id := col_user_id r, col_created_at := col_created_at r\<rparr>"

definition profile_columns_ok :: "profile_row \<Rightarrow> bool" where
  "profile_columns_ok r \<longleftrightarrow> pred_option (varchar_ok 32) (col_username r)
     \<and> varchar_ok 64 (col_display_name r) \<and> pred_option (varchar_ok 255) (col_bio r)
     \<and> pred_option text_ok (col_avatar_key r) \<and> varchar_ok 8 (col_status r)
     \<and> bigint_ok (col_version r)"

definition profile_check :: "profile_row \<Rightarrow> sql_error option" where
  "profile_check r = check_all (profile_columns_ok r)
     [(''ck_profiles_bio'',
       case col_bio r of None \<Rightarrow> True | Some b \<Rightarrow> length b \<le> 255 \<and> 10 \<notin> set b \<and> 13 \<notin> set b),
      (''ck_profiles_display_name'',
       1 \<le> length (btrim (col_display_name r)) \<and> length (btrim (col_display_name r)) \<le> 64),
      (''ck_profiles_status'',
       col_status r \<in> {ustr ''ACTIVE'', ustr ''DISABLED'', ustr ''BLOCKED''}),
      (''ck_profiles_timestamps'',
       case col_updated_at r of None \<Rightarrow> True | Some t \<Rightarrow> t > col_created_at r),
      (''ck_profiles_username'',
       case col_username r of None \<Rightarrow> True | Some u \<Rightarrow> username_fullmatch u),
      (''ck_profiles_version'', col_version r > 0)]"

definition profile_unique :: "profile_row list \<Rightarrow> profile_row \<Rightarrow> sql_error option" where
  "profile_unique rows r =
     (if col_username r \<noteq> None \<and> list_ex (\<lambda>r'. col_username r' = col_username r) rows
      then Some (integrity_error ''profiles_username_key'') else None)"

text \<open>\<open>UserProfile.model_validate(dict(row))\<close>\<close>

definition profile_hydrate :: "profile_row \<Rightarrow> UserProfile result" where
  "profile_hydrate r = profile_validate
     \<lparr>entity_id = col_user_id r, created_at = col_created_at r, updated_at = col_updated_at r,
      version = col_version r, in_username = col_username r,
      in_display_name = col_display_name r, in_bio = col_bio r,
      in_avatar_key = col_avatar_key r, in_status = Raw (PyStr (col_status r)),
      in_is_verified = col_is_verified r\<rparr>"

definition profile_table :: "(profile_row, UserProfile) table_ops" where
  "profile_table =
     \<lparr>t_get = profiles, t_put = (\<lambda>rows d. d\<lparr>profiles := rows\<rparr>), t_pk = col_user_id,
      t_version = col_version, t_check = profile_check, t_pkey = ''profiles_pkey'',
      t_unique = profile_unique, t_id = entity_id, t_row = profile_row_of,
      t_assign = profile_assign, t_hydrate = profile_hydrate,
      t_missing = profile_error UserProfileNotFoundError,
      t_conflict = profile_error (ProfileVersionMismatchError None)\<rparr>"

section \<open>The table of settings\<close>

definition settings_row_of :: "UserSettings \<Rightarrow> settings_row" where
  "settings_row_of s =
     \<lparr>scol_user_id = entity_id s, scol_theme = theme_value (theme s),
      scol_locale = locale_value (ui_locale s), scol_timezone = timezone s,
      scol_privacy = privacy_dump (privacy s), scol_version = version s,
      scol_created_at = created_at s, scol_updated_at = updated_at s\<rparr>"

definition settings_assign :: "UserSettings \<Rightarrow> settings_row \<Rightarrow> settings_row" where
  "settings_assign s r =
     (settings_row_of s)\<lparr>scol_user_id := scol_user_id r, scol_created_at := scol_created_at r\<rparr>"

definition settings_columns_ok :: "settings_row \<Rightarrow> bool" where
  "settings_columns_ok r \<longleftrightarrow> varchar_ok 6 (scol_theme r) \<and> varchar_ok 2 (scol_locale r)
     \<and> text_ok (scol_timezone r) \<and> bigint_ok (scol_version r)"

definition privacy_check :: "pyobj \<Rightarrow> bool" where
  "privacy_check v \<longleftrightarrow>
     (case v of
        PyDict kvs \<Rightarrow>
          list_all (\<lambda>k. map_of kvs k \<in> {Some (PyStr (ustr ''ALL'')), Some (PyStr (ustr ''NOBODY''))}) privacy_keys
          \<and> list_all (\<lambda>kv. fst kv \<in> set privacy_keys) kvs
      | _ \<Rightarrow> False)"

definition settings_check :: "settings_row \<Rightarrow> sql_error option" where
  "settings_check r = check_all (settings_columns_ok r)
     [(''ck_settings_locale'', scol_locale r \<in> {ustr ''ru'', ustr ''en''}),
      (''ck_settings_privacy'', privacy_check (scol_privacy r)),
      (''ck_settings_theme'', scol_theme r \<in> {ustr ''light'', ustr ''dark'', ustr ''system''}),
      (''ck_user_settings_timestamps'',
       case scol_updated_at r of None \<Rightarrow> True | Some t \<Rightarrow> t > scol_created_at r),
      (''ck_user_settings_version'', scol_version r > 0)]"

definition settings_hydrate :: "(pystr \<Rightarrow> bool) \<Rightarrow> settings_row \<Rightarrow> UserSettings result" where
  "settings_hydrate zone_ok r = settings_validate zone_ok
     \<lparr>entity_id = scol_user_id r, created_at = scol_created_at r, updated_at = scol_updated_at r,
      version = scol_version r, in_theme = Raw (PyStr (scol_theme r)),
      in_locale = Raw (PyStr (scol_locale r)), in_timezone = scol_timezone r,
      in_privacy = Raw (scol_privacy r)\<rparr>"

definition settings_table :: "(pystr \<Rightarrow> bool) \<Rightarrow> (settings_row, UserSettings) table_ops" where
  "settings_table zone_ok =
     \<lparr>t_get = user_settings, t_put = (\<lambda>rows d. d\<lparr>user_settings := rows\<rparr>), t_pk = scol_user_id,
      t_version = scol_version, t_check = settings_check, t_pkey = ''user_settings_pkey'',
      t_unique = (\<lambda>rows r. None), t_id = entity_id, t_row = settings_row_of,
      t_assign = settings_assign, t_hydrate = settings_hydrate zone_ok,
      t_missing = settings_error UserSettingsNotFoundError,
      t_conflict = settings_error (SettingsVersionMismatchError None)\<rparr>"

section \<open>The repositories and readers\<close>

text \<open>Both writes of \<open>PostgresProfileRepository\<close> turn a taken username into a domain error.\<close>

definition username_taken :: "exn \<Rightarrow> ('s, exn, 'a) proc" where
  "username_taken e =
     (case e of
        SqlError err \<Rightarrow>
          if sql_class err = IntegrityError \<and> constraint_name err = Some ''profiles_username_key''
            then sraise (profile_error UsernameAlreadyTakenError)
          else sraise (SqlError err)
      | _ \<Rightarrow> sraise e)"

definition profile_repo_get_by_id :: "uuid \<Rightarrow> ('a session_scheme, exn, UserProfile option) proc" where
  "profile_repo_get_by_id = repo_get_by_id profile_table"

definition profile_repo_create :: "UserProfile \<Rightarrow> ('a session_scheme, exn, UserProfile) proc" where
  "profile_repo_create entity = scatch (repo_create profile_table entity) username_taken"

definition profile_repo_update ::
  "UserProfile \<Rightarrow> int option \<Rightarrow> ('a session_scheme, exn, UserProfile) proc" where
  "profile_repo_update entity expected_version =
     scatch (repo_update profile_table entity expected_version) username_taken"

definition profile_repo_create_default_if_absent ::
  "uuid \<Rightarrow> datetime \<Rightarrow> ('a session_scheme, exn, UserProfile) proc" where
  "profile_repo_create_default_if_absent user_id created =
     repo_create_default_if_absent profile_table (profile_create_default user_id created) user_id"

definition settings_repo_get_by_id ::
  "(pystr \<Rightarrow> bool) \<Rightarrow> uuid \<Rightarrow> ('a session_scheme, exn, UserSettings option) proc" where
  "settings_repo_get_by_id zone_ok = repo_get_by_id (settings_table zone_ok)"

definition settings_repo_update ::
  "(pystr \<Rightarrow> bool) \<Rightarrow> UserSettings \<Rightarrow> int option \<Rightarrow> ('a session_scheme, exn, UserSettings) proc" where
  "settings_repo_update zone_ok = repo_update (settings_table zone_ok)"

definition settings_repo_create_default_if_absent ::
  "(pystr \<Rightarrow> bool) \<Rightarrow> uuid \<Rightarrow> datetime \<Rightarrow> ('a session_scheme, exn, UserSettings) proc" where
  "settings_repo_create_default_if_absent zone_ok user_id created =
     repo_create_default_if_absent (settings_table zone_ok)
       (settings_create_default zone_ok user_id created) user_id"

text \<open>\<open>PostgresProfileReader.get_by_username\<close>: NULL equals nothing.\<close>

definition select_username :: "pystr \<Rightarrow> db \<Rightarrow> (sql_error + profile_row list) \<times> db" where
  "select_username u d = (Inr (filter (\<lambda>r. col_username r = Some u) (profiles d)), d)"

definition reader_get_by_username :: "pystr \<Rightarrow> ('a session_scheme, exn, UserProfile option) proc" where
  "reader_get_by_username value =
     sthen (slift (Username (PyStr value))) (\<lambda>u.
     sthen (execute (select_username u)) (\<lambda>rows.
     slift (rthen (one_or_none rows) (hydrate_optional profile_table))))"

section \<open>The adapters meet the contract of a table\<close>

lemma profile_hydrate_row: "valid_profile e \<Longrightarrow> profile_hydrate (profile_row_of e) = Inr e"
  by (simp add: profile_hydrate_def profile_row_of_def profile_validate_def valid_profile_def
      validate_timestamps_eq timestamps_ok_def read_optional_fixed [where P = valid_username]
      read_optional_fixed [where P = valid_bio] split: option.splits)

lemma settings_hydrate_row:
  "valid_settings zone_ok e \<Longrightarrow> settings_hydrate zone_ok (settings_row_of e) = Inr e"
  by (simp add: settings_hydrate_def settings_row_of_def settings_validate_def valid_settings_def
      validate_timestamps_eq timestamps_ok_def split: option.splits)

lemma profile_hydrate_base:
  "profile_hydrate r = Inr e \<Longrightarrow> entity_id e = col_user_id r \<and> created_at e = col_created_at r
     \<and> updated_at e = col_updated_at r \<and> version e = col_version r"
  unfolding profile_hydrate_def by (drule profile.validate_base) simp

lemma settings_hydrate_base:
  "settings_hydrate zone_ok r = Inr e \<Longrightarrow> entity_id e = scol_user_id r \<and> created_at e = scol_created_at r
     \<and> updated_at e = scol_updated_at r \<and> version e = scol_version r"
  unfolding settings_hydrate_def by (drule settings.validate_base) simp

text \<open>An update of the row of the same entity writes the whole row.\<close>

lemma profile_assign_row:
  "entity_id e = col_user_id r \<Longrightarrow> created_at e = col_created_at r \<Longrightarrow> profile_assign e r = profile_row_of e"
  by (simp add: profile_assign_def profile_row_of_def)

lemma settings_assign_row:
  "entity_id e = scol_user_id r \<Longrightarrow> created_at e = scol_created_at r \<Longrightarrow> settings_assign e r = settings_row_of e"
  by (simp add: settings_assign_def settings_row_of_def)

interpretation profile_adapter: table_adapter profile_table valid_profile version created_at
proof
  fix e old :: UserProfile and r :: profile_row
  show "t_hydrate profile_table (t_row profile_table e) = Inr e" if "valid_profile e"
    using that by (simp add: profile_table_def profile_hydrate_row)
  show "t_id profile_table e = t_pk profile_table r \<and> version e = t_version profile_table r"
    if "t_hydrate profile_table r = Inr e"
    using that by (auto simp: profile_table_def dest: profile_hydrate_base)
  show "valid_profile e" if "t_hydrate profile_table r = Inr e"
    using that profile.validate_invar by (simp add: profile_table_def profile_hydrate_def)
  show "t_hydrate profile_table (t_assign profile_table e r) = Inr e"
    if "valid_profile e" "t_hydrate profile_table r = Inr old"
      "t_id profile_table old = t_id profile_table e" "created_at old = created_at e"
    using that profile_hydrate_base [of r old]
    by (simp add: profile_table_def profile_assign_row profile_hydrate_row)
qed (simp_all add: profile_table_def profile_row_of_def profile_assign_def)

interpretation settings_adapter:
  table_adapter "settings_table zone_ok" "valid_settings zone_ok" version created_at for zone_ok
proof
  fix e old :: UserSettings and r :: settings_row
  let ?tb = "settings_table zone_ok"
  show "t_hydrate ?tb (t_row ?tb e) = Inr e" if "valid_settings zone_ok e"
    using that by (simp add: settings_table_def settings_hydrate_row)
  show "t_id ?tb e = t_pk ?tb r \<and> version e = t_version ?tb r" if "t_hydrate ?tb r = Inr e"
    using that by (auto simp: settings_table_def dest: settings_hydrate_base)
  show "valid_settings zone_ok e" if "t_hydrate ?tb r = Inr e"
    using that settings.validate_invar by (simp add: settings_table_def settings_hydrate_def)
  show "t_hydrate ?tb (t_assign ?tb e r) = Inr e"
    if "valid_settings zone_ok e" "t_hydrate ?tb r = Inr old" "t_id ?tb old = t_id ?tb e"
      "created_at old = created_at e"
    using that settings_hydrate_base [of zone_ok r old]
    by (simp add: settings_table_def settings_assign_row settings_hydrate_row)
qed (simp_all add: settings_table_def settings_row_of_def settings_assign_def)

section \<open>The adapters implement the ports\<close>

lemma scatch_username_taken:
  "scatch m username_taken s = (Inr x, t) \<longleftrightarrow> m s = (Inr x, t)"
proof -
  have "username_taken e u \<noteq> (Inr x, t)" for e u
    by (cases e) (simp_all add: username_taken_def)
  then show ?thesis by (auto simp: scatch_cases)
qed

abbreviation profile_at :: "db \<Rightarrow> uuid \<Rightarrow> UserProfile option" where
  "profile_at \<equiv> lookup profile_table"

abbreviation profiles_ok :: "db \<Rightarrow> bool" where
  "profiles_ok \<equiv> table_ok profile_table"

abbreviation settings_at :: "(pystr \<Rightarrow> bool) \<Rightarrow> db \<Rightarrow> uuid \<Rightarrow> UserSettings option" where
  "settings_at zone_ok \<equiv> lookup (settings_table zone_ok)"

abbreviation settings_ok :: "(pystr \<Rightarrow> bool) \<Rightarrow> db \<Rightarrow> bool" where
  "settings_ok zone_ok \<equiv> table_ok (settings_table zone_ok)"

lemma table_ids [simp]: "t_id profile_table = entity_id" "t_id (settings_table zone_ok) = entity_id"
  by (simp_all add: profile_table_def settings_table_def)

interpretation profiles_port: repository_port profile_at profiles_ok entity_id valid_profile version
  created_at profile_repo_get_by_id profile_repo_update "repo_create_default_if_absent profile_table"
proof (unfold_locales, goal_cases)
  case 1
  then show ?case using profile_adapter.lookup_invar by simp
next
  case 2
  then show ?case by (simp add: profile_repo_get_by_id_def get_by_id_reads)
next
  case 3
  then show ?case by (simp add: profile_repo_get_by_id_def profile_adapter.get_by_id_sees)
next
  case (4 e v s e' t)
  from 4(1) have "repo_update profile_table e (Some v) s = (Inr e', t)"
    by (simp add: profile_repo_update_def scatch_username_taken)
  from profile_adapter.update_writes [OF this 4(2,3)] show ?case by simp
next
  case (5 e u s e' t)
  with profile_adapter.provide_writes [OF 5(1,2) _ 5(4,5)] show ?case by simp
qed

interpretation settings_port: repository_port "settings_at zone_ok" "settings_ok zone_ok" entity_id
  "valid_settings zone_ok" version created_at "settings_repo_get_by_id zone_ok" "settings_repo_update zone_ok"
  "repo_create_default_if_absent (settings_table zone_ok)" for zone_ok
proof (unfold_locales, goal_cases)
  case 1
  then show ?case using settings_adapter.lookup_invar by simp
next
  case 2
  then show ?case by (simp add: settings_repo_get_by_id_def get_by_id_reads)
next
  case 3
  then show ?case by (simp add: settings_repo_get_by_id_def settings_adapter.get_by_id_sees)
next
  case (4 e v s e' t)
  from 4(1) have "repo_update (settings_table zone_ok) e (Some v) s = (Inr e', t)"
    by (simp add: settings_repo_update_def)
  from settings_adapter.update_writes [OF this 4(2,3)] show ?case by simp
next
  case (5 e u s e' t)
  with settings_adapter.provide_writes [OF 5(1,2) _ 5(4,5)] show ?case by simp
qed

interpretation profiles_reader: reader_port profile_at profiles_ok entity_id valid_profile
  "reader_get_by_id profile_table" "reader_get_batch profile_table"
proof (unfold_locales, goal_cases)
  case 1
  then show ?case using profile_adapter.lookup_invar by simp
next
  case 2
  then show ?case by (rule reader_get_reads)
next
  case 3
  then show ?case by (rule profile_adapter.reader_get_sees)
next
  case 4
  then show ?case by (rule reader_batch_reads)
next
  case (5 us s es t)
  from profile_adapter.batch_sees [OF this] show ?case by simp
qed

interpretation settings_reader: reader_port "settings_at zone_ok" "settings_ok zone_ok" entity_id
  "valid_settings zone_ok" "reader_get_by_id (settings_table zone_ok)"
  "reader_get_batch (settings_table zone_ok)" for zone_ok
proof (unfold_locales, goal_cases)
  case 1
  then show ?case using settings_adapter.lookup_invar by simp
next
  case 2
  then show ?case by (rule reader_get_reads)
next
  case 3
  then show ?case by (rule settings_adapter.reader_get_sees)
next
  case 4
  then show ?case by (rule reader_batch_reads)
next
  case (5 us s es t)
  from settings_adapter.batch_sees [OF this] show ?case by simp
qed

section \<open>The schema accepts what the domain accepts\<close>

lemma btrim_stripped: "stripped s \<Longrightarrow> btrim s = s"
proof (cases "s = []")
  case False
  assume "stripped s"
  with False have "\<not> is_space (hd s)" and "\<not> is_space (last s)"
    by (auto simp: stripped_def)
  moreover have "is_space 32" by (simp add: is_space_def)
  ultimately have "hd s \<noteq> 32" "hd (rev s) \<noteq> 32" by (auto simp: hd_rev)
  with False have "dropWhile (\<lambda>c. c = 32) s = s" "dropWhile (\<lambda>c. c = 32) (rev s) = rev s"
    by (simp_all add: dropWhile_eq_self_iff)
  then show ?thesis by (simp add: btrim_def)
qed (simp add: btrim_def)

lemma valid_username_columns: "valid_username u \<Longrightarrow> varchar_ok 32 u \<and> username_fullmatch u"
  by (auto simp: valid_username_def username_fullmatch_def varchar_ok_def text_ok_def list_all_iff
      username_char_def storable_char_def)

lemma valid_display_name_columns:
  "valid_display_name d \<Longrightarrow> btrim d = d \<and> 1 \<le> length d \<and> length d \<le> 64 \<and> varchar_ok 64 d = text_ok d"
  by (auto simp: valid_display_name_def varchar_ok_def btrim_stripped)

lemma valid_bio_columns: "valid_bio b \<Longrightarrow> varchar_ok 255 b = text_ok b"
  by (simp add: valid_bio_def varchar_ok_def)

lemma status_column [simp]:
  "varchar_ok 8 (status_value st) \<and> status_value st \<in> {ustr ''ACTIVE'', ustr ''DISABLED'', ustr ''BLOCKED''}"
  by (cases st) (simp_all add: varchar_ok_def text_ok_def storable_char_def)

lemma theme_column [simp]:
  "varchar_ok 6 (theme_value t) \<and> theme_value t \<in> {ustr ''light'', ustr ''dark'', ustr ''system''}"
  by (cases t) (simp_all add: varchar_ok_def text_ok_def storable_char_def)

lemma locale_column [simp]:
  "varchar_ok 2 (locale_value l) \<and> locale_value l \<in> {ustr ''ru'', ustr ''en''}"
  by (cases l) (simp_all add: varchar_ok_def text_ok_def storable_char_def)

lemmas enum_columns = status_column theme_column locale_column

lemma privacy_check_dump [simp]: "privacy_check (privacy_dump p)"
  by (cases "who_can_see_avatar p"; cases "who_can_find_by_username p"; cases "who_can_see_bio p")
    (simp_all add: privacy_check_def privacy_dump_def privacy_keys_def)

definition profile_texts_ok :: "UserProfile \<Rightarrow> bool" where
  "profile_texts_ok p \<longleftrightarrow> text_ok (display_name p) \<and> pred_option text_ok (bio p)
     \<and> pred_option text_ok (avatar_key p)"

lemma profile_columns_row:
  assumes "valid_profile p"
  shows "profile_columns_ok (profile_row_of p) \<longleftrightarrow> profile_texts_ok p \<and> version p < 2 ^ 63"
proof -
  from assms have "pred_option (varchar_ok 32) (username p)" "varchar_ok 64 (display_name p) = text_ok (display_name p)"
    "pred_option (varchar_ok 255) (bio p) = pred_option text_ok (bio p)" "1 \<le> version p"
    using valid_username_columns valid_display_name_columns [of "display_name p"] valid_bio_columns
    by (cases "username p"; cases "bio p"; simp add: valid_profile_def)+
  then show ?thesis
    using status_column [of "status p"]
    by (simp add: profile_columns_ok_def profile_row_of_def profile_texts_ok_def bigint_ok_def)
qed

text \<open>
  The domain and the schema agree on profiles: whatever the aggregate's validators
  accept satisfies every check constraint of the table. The only value of a valid profile
  the table can refuse is one that its column types cannot represent (a NUL in a text, or a
  version of 64 bits), and then it is refused as such, never as a violated constraint.
\<close>

lemma valid_profile_meets_schema:
  assumes "valid_profile p"
  shows "profile_check (profile_row_of p)
    = (if profile_texts_ok p \<and> version p < 2 ^ 63 then None else Some data_error)"
proof (cases "profile_columns_ok (profile_row_of p)")
  case True
  have "profile_check (profile_row_of p) = None"
    unfolding profile_check_def check_all_None
    using True assms valid_username_columns valid_display_name_columns [of "display_name p"]
      status_column [of "status p"]
    by (auto simp: profile_row_of_def valid_profile_def valid_bio_def timestamps_ok_def
        split: option.splits)
  with True profile_columns_row [OF assms] show ?thesis by simp
next
  case False
  then have "profile_check (profile_row_of p) = Some data_error"
    by (simp add: profile_check_def check_all_def)
  with False profile_columns_row [OF assms] show ?thesis by (simp split: if_splits)
qed

text \<open>
  The same for settings: a valid settings aggregate satisfies every check constraint,
  the JSON one included, and can be refused only for its column types.
\<close>

lemma valid_settings_meet_schema:
  assumes "valid_settings zone_ok s"
  shows "settings_check (settings_row_of s)
    = (if text_ok (timezone s) \<and> version s < 2 ^ 63 then None else Some data_error)"
proof (cases "text_ok (timezone s) \<and> version s < 2 ^ 63")
  case True
  with assms have "settings_columns_ok (settings_row_of s)"
    by (simp add: settings_columns_ok_def settings_row_of_def bigint_ok_def valid_settings_def)
  then have "settings_check (settings_row_of s) = None"
    unfolding settings_check_def check_all_None
    using assms enum_columns(2) [of "theme s"] enum_columns(3) [of "ui_locale s"]
    by (auto simp: settings_row_of_def valid_settings_def timestamps_ok_def split: option.splits)
  with True show ?thesis by simp
next
  case False
  then have "\<not> settings_columns_ok (settings_row_of s)"
    by (auto simp: settings_columns_ok_def settings_row_of_def bigint_ok_def)
  with False show ?thesis by (auto simp: settings_check_def check_all_def)
qed

lemma sample_settings_valid [simp]: "valid_settings (\<lambda>z. z = DEFAULT_TIMEZONE) (sample_settings u p)"
  by (simp add: valid_settings_def sample_settings_def valid_timezone_def timestamps_ok_def)

text \<open>
  C23. What is written is what is read: the row of a valid aggregate, read back and validated
  again, is the same aggregate, for both tables.
\<close>

theorem rows_roundtrip:
  "(valid_profile p \<longrightarrow> profile_hydrate (profile_row_of p) = Inr p)
   \<and> (valid_settings zone_ok s \<longrightarrow> settings_hydrate zone_ok (settings_row_of s) = Inr s)"
  by (simp add: profile_hydrate_row settings_hydrate_row)

theorem rows_roundtrip_witness:
  "profile_hydrate (profile_row_of (sample_profile 1)) = Inr (sample_profile 1)
   \<and> settings_hydrate (\<lambda>z. z = DEFAULT_TIMEZONE) (settings_row_of (sample_settings 1 hidden_privacy))
     = Inr (sample_settings 1 hidden_privacy)"
  using rows_roundtrip [of "sample_profile 1" "\<lambda>z. z = DEFAULT_TIMEZONE" "sample_settings 1 hidden_privacy"]
  by simp

text \<open>
  C24. The domain is within the schema. A valid profile satisfies every check constraint of its
  table, and valid settings those of theirs, the one on the JSON object of the privacy settings
  included: the only way the tables can refuse them is by the types of their columns, a text that
  PostgreSQL cannot store or a version beyond 64 bits.
\<close>

theorem valid_aggregates_meet_schema:
  "(valid_profile p \<longrightarrow> profile_check (profile_row_of p)
      = (if profile_texts_ok p \<and> version p < 2 ^ 63 then None else Some data_error))
   \<and> (valid_settings zone_ok s \<longrightarrow> settings_check (settings_row_of s)
      = (if text_ok (timezone s) \<and> version s < 2 ^ 63 then None else Some data_error))"
  using valid_profile_meets_schema valid_settings_meet_schema by blast

theorem valid_aggregates_meet_schema_witness:
  "profile_check (profile_row_of (sample_profile 1)) = None
   \<and> settings_check (settings_row_of (sample_settings 1 hidden_privacy)) = None"
proof -
  have texts: "profile_texts_ok (sample_profile 1)" "version (sample_profile 1) < 2 ^ 63"
    "text_ok (timezone (sample_settings 1 hidden_privacy))" "version (sample_settings 1 hidden_privacy) < 2 ^ 63"
    by (simp_all add: sample_profile_def sample_settings_def profile_texts_ok_def text_ok_def storable_char_def
        DEFAULT_TIMEZONE_def)
  with valid_aggregates_meet_schema [of "sample_profile 1" "\<lambda>z. z = DEFAULT_TIMEZONE" "sample_settings 1 hidden_privacy"]
    sample_profile_valid [of 1] sample_settings_valid [of 1 hidden_privacy]
  show ?thesis by simp
qed

end
