(* ===== verification/Commands.thy ===== *)
theory Commands
  imports Schema
begin

text \<open>
  The commands and their handlers (\<open>src/src/app/application/commands\<close>). A handler runs inside
  a transaction that its caller opened; what it may use of the database is the repository
  port, and its correctness is proved once, over the port, for the load-change-save pattern
  that four of the five handlers share.
\<close>

section \<open>Commands\<close>

record CreateDefaultProfileCommand =
  cd_user_id :: uuid
  cd_registered_at :: datetime

record UpdateProfileCommand =
  up_user_id :: uuid
  up_expected_version :: int
  up_display_name :: "pystr option"
  up_bio :: "pystr option"
  up_username :: "pystr option"

record UpdateAvatarCommand =
  ua_user_id :: uuid
  ua_expected_version :: int
  ua_avatar_key :: "pystr option"

record UpdateSettingsCommand =
  us_user_id :: uuid
  us_expected_version :: int
  us_theme :: "Theme option"
  us_locale :: "Locale option"
  us_timezone :: "pystr option"
  us_who_can_see_avatar :: "PrivacyScope option"
  us_who_can_find_by_username :: "PrivacyScope option"
  us_who_can_see_bio :: "PrivacyScope option"

record ResetSettingsCommand =
  rs_user_id :: uuid
  rs_expected_version :: int

text \<open>The field constraints of the commands; construction raises \<open>ValidationError\<close> without them.\<close>

definition length_between :: "nat \<Rightarrow> nat \<Rightarrow> pystr option \<Rightarrow> bool" where
  "length_between lo hi s \<longleftrightarrow> pred_option (\<lambda>t. lo \<le> length t \<and> length t \<le> hi) s"

definition update_profile_command_new :: "UpdateProfileCommand \<Rightarrow> UpdateProfileCommand result" where
  "update_profile_command_new c =
     (if 1 \<le> up_expected_version c \<and> length_between 1 64 (up_display_name c)
         \<and> length_between 0 255 (up_bio c) \<and> length_between 3 32 (up_username c)
      then Inr c else Inl ValidationError)"

definition update_avatar_command_new :: "UpdateAvatarCommand \<Rightarrow> UpdateAvatarCommand result" where
  "update_avatar_command_new c =
     (if 1 \<le> ua_expected_version c \<and> length_between 1 512 (ua_avatar_key c)
      then Inr c else Inl ValidationError)"

definition update_settings_command_new :: "UpdateSettingsCommand \<Rightarrow> UpdateSettingsCommand result" where
  "update_settings_command_new c =
     (if 1 \<le> us_expected_version c \<and> length_between 1 64 (us_timezone c)
      then Inr c else Inl ValidationError)"

definition reset_settings_command_new :: "ResetSettingsCommand \<Rightarrow> ResetSettingsCommand result" where
  "reset_settings_command_new c =
     (if 1 \<le> rs_expected_version c then Inr c else Inl ValidationError)"

section \<open>Handlers\<close>

definition CreateDefaultProfileHandler ::
  "(pystr \<Rightarrow> bool) \<Rightarrow> CreateDefaultProfileCommand \<Rightarrow> (session, exn, unit) proc" where
  "CreateDefaultProfileHandler zone_ok command =
     sthen (profile_repo_create_default_if_absent (cd_user_id command) (cd_registered_at command)) (\<lambda>_.
     sthen (settings_repo_create_default_if_absent zone_ok (cd_user_id command) (cd_registered_at command)) (\<lambda>_.
     sret ()))"

definition UpdateProfileHandler :: "UpdateProfileCommand \<Rightarrow> (session, exn, ProfileDTO) proc" where
  "UpdateProfileHandler command =
     sthen (profile_repo_get_by_id (up_user_id command)) (\<lambda>found.
     case found of
       None \<Rightarrow> sraise (profile_error UserProfileNotFoundError)
     | Some profile \<Rightarrow>
         if version profile \<noteq> up_expected_version command
           then sraise (profile_error (ProfileVersionMismatchError (Some (version profile))))
         else sthen utc_now (\<lambda>clock.
           case update_profile clock (up_display_name command) (up_bio command) (up_username command)
                  profile of
             (Inl e, _) \<Rightarrow> sraise e
           | (Inr changed, profile) \<Rightarrow>
               if changed
                 then sthen (profile_repo_update profile (Some (up_expected_version command)))
                        (\<lambda>profile. sret (profile_dto profile))
               else sret (profile_dto profile)))"

definition UpdateAvatarHandler :: "UpdateAvatarCommand \<Rightarrow> (session, exn, ProfileDTO) proc" where
  "UpdateAvatarHandler command =
     sthen (profile_repo_get_by_id (ua_user_id command)) (\<lambda>found.
     case found of
       None \<Rightarrow> sraise (profile_error UserProfileNotFoundError)
     | Some profile \<Rightarrow>
         if version profile \<noteq> ua_expected_version command
           then sraise (profile_error (ProfileVersionMismatchError None))
         else sthen utc_now (\<lambda>clock.
           case update_avatar (ua_avatar_key command) clock profile of
             (Inl e, _) \<Rightarrow> sraise e
           | (Inr changed, profile) \<Rightarrow>
               if changed
                 then sthen (profile_repo_update profile (Some (ua_expected_version command)))
                        (\<lambda>profile. sret (profile_dto profile))
               else sret (profile_dto profile)))"

text \<open>The privacy settings an update asks for: the stored scope where the command has none.\<close>

definition merged_privacy :: "UpdateSettingsCommand \<Rightarrow> UserSettings \<Rightarrow> PrivacySettings" where
  "merged_privacy command settings =
     \<lparr>who_can_see_avatar =
        (case us_who_can_see_avatar command of Some s \<Rightarrow> s
         | None \<Rightarrow> who_can_see_avatar (privacy settings)),
      who_can_find_by_username =
        (case us_who_can_find_by_username command of Some s \<Rightarrow> s
         | None \<Rightarrow> who_can_find_by_username (privacy settings)),
      who_can_see_bio =
        (case us_who_can_see_bio command of Some s \<Rightarrow> s
         | None \<Rightarrow> who_can_see_bio (privacy settings))\<rparr>"

definition UpdateSettingsHandler ::
  "(pystr \<Rightarrow> bool) \<Rightarrow> UpdateSettingsCommand \<Rightarrow> (session, exn, SettingsDTO) proc" where
  "UpdateSettingsHandler zone_ok command =
     sthen (settings_repo_get_by_id zone_ok (us_user_id command)) (\<lambda>found.
     case found of
       None \<Rightarrow> sraise (settings_error UserSettingsNotFoundError)
     | Some settings \<Rightarrow>
         if version settings \<noteq> us_expected_version command
           then sraise (settings_error (SettingsVersionMismatchError (Some (version settings))))
         else sthen utc_now (\<lambda>clock.
           case update_settings zone_ok (map_option Member (us_theme command))
                  (map_option Member (us_locale command)) (us_timezone command)
                  (Some (Member (merged_privacy command settings))) clock settings of
             (Inl e, _) \<Rightarrow> sraise e
           | (Inr changed, settings) \<Rightarrow>
               if changed
                 then sthen (settings_repo_update zone_ok settings (Some (us_expected_version command)))
                        (\<lambda>settings. sret (settings_dto settings))
               else sret (settings_dto settings)))"

definition ResetSettingsHandler ::
  "(pystr \<Rightarrow> bool) \<Rightarrow> ResetSettingsCommand \<Rightarrow> (session, exn, SettingsDTO) proc" where
  "ResetSettingsHandler zone_ok command =
     sthen (settings_repo_get_by_id zone_ok (rs_user_id command)) (\<lambda>found.
     case found of
       None \<Rightarrow> sraise (settings_error UserSettingsNotFoundError)
     | Some settings \<Rightarrow>
         if version settings \<noteq> rs_expected_version command
           then sraise (settings_error (SettingsVersionMismatchError None))
         else sthen utc_now (\<lambda>clock.
           case reset_to_defaults zone_ok clock settings of
             (Inl e, _) \<Rightarrow> sraise e
           | (Inr changed, settings) \<Rightarrow>
               if changed
                 then sthen (settings_repo_update zone_ok settings (Some (rs_expected_version command)))
                        (\<lambda>settings. sret (settings_dto settings))
               else sret (settings_dto settings)))"

section \<open>Load, change, save\<close>

text \<open>
  The pattern of the four handlers. \<open>change\<close> is the aggregate's method, \<open>mismatch\<close> the error
  of a stale version.
\<close>

definition load_change_save ::
  "(uuid \<Rightarrow> (session, exn, 'e option) proc) \<Rightarrow> ('e \<Rightarrow> int option \<Rightarrow> (session, exn, 'e) proc) \<Rightarrow>
   ('e \<Rightarrow> int) \<Rightarrow> exn \<Rightarrow> ('e \<Rightarrow> exn) \<Rightarrow> (datetime \<Rightarrow> ('e, exn, bool) proc) \<Rightarrow> uuid \<Rightarrow> int \<Rightarrow>
   (session, exn, 'e) proc" where
  "load_change_save get upd ver missing mismatch change uid expected =
     sthen (get uid) (\<lambda>found.
     case found of
       None \<Rightarrow> sraise missing
     | Some e \<Rightarrow>
         if ver e \<noteq> expected then sraise (mismatch e)
         else sthen utc_now (\<lambda>clock.
           case change clock e of
             (Inl x, _) \<Rightarrow> sraise x
           | (Inr changed, e) \<Rightarrow> if changed then upd e (Some expected) else sret e))"

text \<open>The change of each command.\<close>

definition profile_change :: "UpdateProfileCommand \<Rightarrow> datetime \<Rightarrow> (UserProfile, exn, bool) proc" where
  "profile_change c clock = update_profile clock (up_display_name c) (up_bio c) (up_username c)"

definition avatar_change :: "UpdateAvatarCommand \<Rightarrow> datetime \<Rightarrow> (UserProfile, exn, bool) proc" where
  "avatar_change c = update_avatar (ua_avatar_key c)"

definition settings_change ::
  "(pystr \<Rightarrow> bool) \<Rightarrow> UpdateSettingsCommand \<Rightarrow> datetime \<Rightarrow> (UserSettings, exn, bool) proc" where
  "settings_change zone_ok c clock s =
     update_settings zone_ok (map_option Member (us_theme c)) (map_option Member (us_locale c))
       (us_timezone c) (Some (Member (merged_privacy c s))) clock s"

lemma sthen_if: "sthen (if b then m else m') f = (if b then sthen m f else sthen m' f)"
  by simp

lemma sthen_case_option:
  "sthen (case x of None \<Rightarrow> m | Some y \<Rightarrow> k y) f = (case x of None \<Rightarrow> sthen m f | Some y \<Rightarrow> sthen (k y) f)"
  by (cases x) simp_all

lemma sthen_case_outcome:
  "sthen (case r of (Inl x, z) \<Rightarrow> m x z | (Inr y, z) \<Rightarrow> k y z) f
     = (case r of (Inl x, z) \<Rightarrow> sthen (m x z) f | (Inr y, z) \<Rightarrow> sthen (k y z) f)"
  by (auto split: prod.splits sum.splits)

lemma sthen_sraise [simp]: "sthen (sraise e) f = sraise e"
  by (simp add: fun_eq_iff sthen_def)

lemma sthen_sret [simp]: "sthen (sret x) f = f x"
  by (simp add: fun_eq_iff sthen_def)

lemmas sthen_push = sthen_assoc sthen_if sthen_case_option sthen_case_outcome

lemma UpdateProfileHandler_eq:
  "UpdateProfileHandler c = sthen
     (load_change_save profile_repo_get_by_id profile_repo_update version (profile_error UserProfileNotFoundError)
        (\<lambda>p. profile_error (ProfileVersionMismatchError (Some (version p)))) (profile_change c)
        (up_user_id c) (up_expected_version c))
     (\<lambda>p. sret (profile_dto p))"
  by (simp add: UpdateProfileHandler_def load_change_save_def profile_change_def sthen_push
      cong: option.case_cong sum.case_cong prod.case_cong if_cong del: sret_simp sraise_simp)

lemma UpdateAvatarHandler_eq:
  "UpdateAvatarHandler c = sthen
     (load_change_save profile_repo_get_by_id profile_repo_update version (profile_error UserProfileNotFoundError)
        (\<lambda>p. profile_error (ProfileVersionMismatchError None)) (avatar_change c)
        (ua_user_id c) (ua_expected_version c))
     (\<lambda>p. sret (profile_dto p))"
  by (simp add: UpdateAvatarHandler_def load_change_save_def avatar_change_def sthen_push
      cong: option.case_cong sum.case_cong prod.case_cong if_cong del: sret_simp sraise_simp)

lemma UpdateSettingsHandler_eq:
  "UpdateSettingsHandler zone_ok c = sthen
     (load_change_save (settings_repo_get_by_id zone_ok) (settings_repo_update zone_ok) version
        (settings_error UserSettingsNotFoundError)
        (\<lambda>s. settings_error (SettingsVersionMismatchError (Some (version s)))) (settings_change zone_ok c)
        (us_user_id c) (us_expected_version c))
     (\<lambda>s. sret (settings_dto s))"
  by (simp add: UpdateSettingsHandler_def load_change_save_def settings_change_def sthen_push
      cong: option.case_cong sum.case_cong prod.case_cong if_cong del: sret_simp sraise_simp)

lemma ResetSettingsHandler_eq:
  "ResetSettingsHandler zone_ok c = sthen
     (load_change_save (settings_repo_get_by_id zone_ok) (settings_repo_update zone_ok) version
        (settings_error UserSettingsNotFoundError)
        (\<lambda>s. settings_error (SettingsVersionMismatchError None)) (reset_to_defaults zone_ok)
        (rs_user_id c) (rs_expected_version c))
     (\<lambda>s. sret (settings_dto s))"
  by (simp add: ResetSettingsHandler_def load_change_save_def sthen_push
      cong: option.case_cong sum.case_cong prod.case_cong if_cong del: sret_simp sraise_simp)

text \<open>
  What a change of an aggregate keeps: the invariant, and the base fields as \<open>stamped\<close> says.
\<close>

definition proper_change ::
  "('e VersionedMutableEntity_scheme \<Rightarrow> bool) \<Rightarrow>
   (datetime \<Rightarrow> ('e VersionedMutableEntity_scheme, exn, bool) proc) \<Rightarrow> bool" where
  "proper_change invar change \<longleftrightarrow>
     (\<forall>clock e changed e'. invar e \<longrightarrow> change clock e = (Inr changed, e') \<longrightarrow>
        invar e' \<and> stamped clock changed e e')"

lemma proper_changes:
  "proper_change valid_profile (profile_change c)"
  "proper_change valid_profile (avatar_change a)"
  "proper_change (valid_settings zone_ok) (settings_change zone_ok u)"
  "proper_change (valid_settings zone_ok) (reset_to_defaults zone_ok)"
  unfolding proper_change_def profile_change_def avatar_change_def settings_change_def
  by (blast intro: operations_invar operations_stamped)+

text \<open>
  What a returned run of the pattern has done to the contents: it found the entity at the
  expected version and put the changed one in its place, or found nothing to change.
\<close>

definition saved ::
  "(db \<Rightarrow> uuid \<Rightarrow> 'e VersionedMutableEntity_scheme option) \<Rightarrow>
   (datetime \<Rightarrow> ('e VersionedMutableEntity_scheme, exn, bool) proc) \<Rightarrow> uuid \<Rightarrow> int \<Rightarrow>
   db \<Rightarrow> db \<Rightarrow> 'e VersionedMutableEntity_scheme \<Rightarrow> bool" where
  "saved look change uid expected d d' e \<longleftrightarrow>
     (\<exists>old clock. look d uid = Some old \<and> version old = expected
        \<and> ((change clock old = (Inr False, e) \<and> e = old \<and> d' = d)
           \<or> (change clock old = (Inr True, e) \<and> version e = expected + 1 \<and> entity_id e = uid
              \<and> look d' = (look d)(uid \<mapsto> e))))"

lemma load_change_save_keeps:
  assumes "reflp R" "transp R" "keeps R utc_now" "\<And>u. keeps R (get u)" "\<And>e v. keeps R (upd e v)"
  shows "keeps R (load_change_save get upd ver missing mismatch change uid expected)"
proof -
  have "keeps R (case change clock e of (Inl x, _) \<Rightarrow> sraise x
      | (Inr changed, e) \<Rightarrow> if changed then upd e (Some expected) else sret e)" for clock e
    using assms by (auto intro: keeps_intros split: prod.split sum.split)
  then show ?thesis
    unfolding load_change_save_def using assms by (intro keeps_intros keeps_case_option keeps_if)
qed

lemma load_change_save_honest:
  assumes "\<And>u. honest (get u)" "\<And>e v. honest (upd e v)"
  shows "honest (load_change_save get upd ver missing mismatch change uid expected)"
proof -
  have "honest (case change clock e of (Inl x, _) \<Rightarrow> sraise x
      | (Inr changed, e) \<Rightarrow> if changed then upd e (Some expected) else sret e)" for clock e
    using assms by (auto split: prod.split sum.split)
  then show ?thesis
    unfolding load_change_save_def using assms by (intro honest_intros)
qed

lemma load_change_save_steps:
  assumes "load_change_save get upd ver missing mismatch change uid expected s = (Inr e', t)"
  obtains e t1 clock t2 changed e'' where "get uid s = (Inr (Some e), t1)" "ver e = expected"
    "utc_now t1 = (Inr clock, t2)" "change clock e = (Inr changed, e'')"
    "(if changed then upd e'' (Some expected) else sret e'') t2 = (Inr e', t)"
proof -
  from assms obtain f t1 where get: "get uid s = (Inr f, t1)" and
    body: "(case f of None \<Rightarrow> sraise missing | Some e \<Rightarrow>
       if ver e \<noteq> expected then sraise (mismatch e)
       else sthen utc_now (\<lambda>clock. case change clock e of (Inl x, _) \<Rightarrow> sraise x
         | (Inr changed, e) \<Rightarrow> if changed then upd e (Some expected) else sret e)) t1 = (Inr e', t)"
    unfolding load_change_save_def sthen_eq_Inr by blast
  from body obtain e where f: "f = Some e" and v: "ver e = expected"
    by (cases f) (auto split: if_splits)
  with body obtain clock t2 where clock: "utc_now t1 = (Inr clock, t2)" and
    body: "(case change clock e of (Inl x, _) \<Rightarrow> sraise x
         | (Inr changed, e) \<Rightarrow> if changed then upd e (Some expected) else sret e) t2 = (Inr e', t)"
    by (auto simp: sthen_eq_Inr)
  from body obtain changed e'' where "change clock e = (Inr changed, e'')"
    "(if changed then upd e'' (Some expected) else sret e'') t2 = (Inr e', t)"
    by (cases "change clock e"; cases "fst (change clock e)") auto
  with get f v clock that show thesis by blast
qed

context repository_port
begin

lemma load_change_save_returns:
  fixes change :: "datetime \<Rightarrow> ('e, exn, bool) proc"
  assumes run: "load_change_save get upd ver missing mismatch change uid expected s = (Inr e', t)"
    and proper: "\<forall>clock e changed e'. invar e \<longrightarrow> change clock e = (Inr changed, e') \<longrightarrow>
      invar e' \<and> (if changed then ver e' = ver e + 1 \<and> ident e' = ident e \<and> created e' = created e else e' = e)"
    and rely: "rely evolve s" and ok: "ok (view s)"
  shows "ok (view t) \<and> evolve (view s) (view t) \<and> (\<exists>evs old clock. script s = evs @ script t
    \<and> look (others evs (view s)) uid = Some old \<and> ver old = expected
    \<and> ((change clock old = (Inr False, e') \<and> e' = old \<and> view t = others evs (view s))
       \<or> (change clock old = (Inr True, e') \<and> ver e' = expected + 1 \<and> ident e' = uid
          \<and> look (view t) = (look (others evs (view s)))(uid \<mapsto> e'))))"
proof -
  from run obtain e t1 clock t2 changed e'' where get: "get uid s = (Inr (Some e), t1)"
    and ver: "ver e = expected" and clock: "utc_now t1 = (Inr clock, t2)"
    and change: "change clock e = (Inr changed, e'')"
    and rest: "(if changed then upd e'' (Some expected) else sret e'') t2 = (Inr e', t)"
    by (rule load_change_save_steps)
  from get_reads [OF get] utc_now_reads [OF clock] have r: "reads s t2" and v: "view t2 = view t1"
    by (auto intro: reads_trans)
  have ok1: "ok (view t1)" using reads_ok [OF rely ok get_reads [OF get]] .
  then have e: "look (view t2) uid = Some e" "invar e" "ident e = uid"
    using get_sees [OF get] look_sound v by auto
  from proper e(2) change have proper: "invar e'' \<and> (if changed then ver e'' = ver e + 1
      \<and> ident e'' = ident e \<and> created e'' = created e else e'' = e)" by blast
  show ?thesis
  proof (cases changed)
    case False
    with rest proper have "t = t2" "e' = e" "e'' = e" by simp_all
    with False r e(1) ver change reads_evolves [OF rely r] reads_ok [OF rely ok r] show ?thesis
      unfolding reads_def by auto
  next
    case True
    with rest have upd: "upd e'' (Some expected) t2 = (Inr e', t)" by simp
    have rely2: "rely evolve t2" using rely r by (rule rely_reads)
    have "ok (others evs (view t2))" if "script t2 = evs @ script t" for evs
      using rely_ok [OF rely2 _ that] ok1 v by simp
    with upd_writes [OF upd] proper obtain evs old where evs: "script t2 = evs @ script t"
      and old: "look (others evs (view t2)) (ident e'') = Some old" "ver old = expected"
      and w: "created old = created e'' \<longrightarrow> e' = e'' \<and> ok (view t)
        \<and> look (view t) = (look (others evs (view t2)))(ident e'' \<mapsto> e'')" by blast
    have step: "evolve (view t2) (others evs (view t2))"
      using rely_view [OF rely2 evolves_reflp evolves_transp evs] .
    with e(1) old ver proper True e(3) have old_e: "old = e"
      unfolding evolves_def by fastforce
    with w proper True e(3) have w: "e' = e''" "ok (view t)"
      "look (view t) = (look (others evs (view t2)))(uid \<mapsto> e'')" by auto
    have "evolve (others evs (view t2)) (view t)"
      using old(1) w(2,3) proper True e(3) old_e
      by (intro write_evolves [where u = uid and old = old and new = e'']) auto
    then have "evolve (view s) (view t)"
      using reads_evolves [OF rely r] step by (blast intro: evolves_trans)
    moreover from r obtain evs0 where "script s = evs0 @ script t2" "view t2 = others evs0 (view s)"
      by (auto simp: reads_def)
    ultimately show ?thesis
      using evs old old_e w proper True e(3) change ver
      by (intro conjI exI [of _ "evs0 @ evs"] exI [of _ e] exI [of _ clock]) auto
  qed
qed

end

end
