(* ===== verification/Command_Properties.thy ===== *)
theory Command_Properties
  imports Commands
begin

text \<open>
  What the command handlers guarantee, in the presence of other sessions that keep
  \<open>evolves\<close>: no lost update, the contents each command leaves, and the provisioning of a
  new user. Every handler keeps \<open>evolves\<close> itself, so the rely is one the service meets.
\<close>

abbreviation profiles_evolve :: "db \<Rightarrow> db \<Rightarrow> bool" where
  "profiles_evolve \<equiv> evolves profiles_ok profile_at version created_at"

abbreviation settings_evolve :: "(pystr \<Rightarrow> bool) \<Rightarrow> db \<Rightarrow> db \<Rightarrow> bool" where
  "settings_evolve zone_ok \<equiv> evolves (settings_ok zone_ok) (settings_at zone_ok) version created_at"

section \<open>No lost update\<close>

lemma proper_change_apply:
  "proper_change invar change \<Longrightarrow>
   \<forall>clock e changed e'. invar e \<longrightarrow> change clock e = (Inr changed, e') \<longrightarrow> invar e' \<and> (if changed then version e' = version e + 1 \<and> entity_id e' = entity_id e
     \<and> created_at e' = created_at e else e' = e)"
  unfolding proper_change_def stamped_def by (simp split: if_splits)

lemma profile_saved:
  assumes "sthen (load_change_save profile_repo_get_by_id profile_repo_update version missing mismatch
      change uid expected) (\<lambda>p. sret (profile_dto p)) s = (Inr dto, t)"
    and proper: "proper_change valid_profile change"
    and "rely profiles_evolve s" "profiles_ok (view s)"
  obtains p evs where "dto = profile_dto p" "script s = evs @ script t" "profiles_ok (view t)"
    "profiles_evolve (view s) (view t)"
    "saved profile_at change uid expected (others evs (view s)) (view t) p"
proof -
  from assms(1) obtain p where run: "load_change_save profile_repo_get_by_id profile_repo_update version
      missing mismatch change uid expected s = (Inr p, t)" and dto: "dto = profile_dto p"
    by (auto simp: sthen_eq_Inr)
  from profiles_port.load_change_save_returns [OF run proper_change_apply [OF proper] assms(3,4)]
  obtain evs where "script s = evs @ script t" "profiles_ok (view t)" "profiles_evolve (view s) (view t)"
    "saved profile_at change uid expected (others evs (view s)) (view t) p"
    unfolding saved_def by blast
  with dto that show thesis by blast
qed

lemma settings_saved:
  assumes "sthen (load_change_save (settings_repo_get_by_id zone_ok) (settings_repo_update zone_ok) version
      missing mismatch change uid expected) (\<lambda>p. sret (settings_dto p)) s = (Inr dto, t)"
    and proper: "proper_change (valid_settings zone_ok) change"
    and "rely (settings_evolve zone_ok) s" "settings_ok zone_ok (view s)"
  obtains p evs where "dto = settings_dto p" "script s = evs @ script t" "settings_ok zone_ok (view t)"
    "settings_evolve zone_ok (view s) (view t)"
    "saved (settings_at zone_ok) change uid expected (others evs (view s)) (view t) p"
proof -
  from assms(1) obtain p where run: "load_change_save (settings_repo_get_by_id zone_ok)
      (settings_repo_update zone_ok) version missing mismatch change uid expected s = (Inr p, t)"
    and dto: "dto = settings_dto p"
    by (auto simp: sthen_eq_Inr)
  from settings_port.load_change_save_returns [OF run proper_change_apply [OF proper] assms(3,4)]
  obtain evs where "script s = evs @ script t" "settings_ok zone_ok (view t)"
    "settings_evolve zone_ok (view s) (view t)"
    "saved (settings_at zone_ok) change uid expected (others evs (view s)) (view t) p"
    unfolding saved_def by blast
  with dto that show thesis by blast
qed

text \<open>
  No lost update of a profile. If an update returns, then at the moment of its write the
  stored profile still had the version the client had seen, and the write replaced exactly
  that profile by the changed one, with the next version (or there was nothing to change
  and nothing was written), whatever other sessions committed between the handler's read
  and its write. What is returned is what is stored, and the handler keeps the discipline
  it relies on.
\<close>

lemma update_profile_no_lost_update:
  assumes "UpdateProfileHandler c s = (Inr dto, t)" "rely profiles_evolve s" "profiles_ok (view s)"
  shows "profiles_ok (view t) \<and> profiles_evolve (view s) (view t)
    \<and> (\<exists>p evs. dto = profile_dto p \<and> script s = evs @ script t
        \<and> saved profile_at (profile_change c) (up_user_id c) (up_expected_version c)
            (others evs (view s)) (view t) p)"
  using profile_saved [OF assms(1) [unfolded UpdateProfileHandler_eq] proper_changes(1) assms(2,3)]
  by blast

text \<open>
  No lost update of settings, the same for \<open>UpdateSettingsHandler\<close>.
\<close>

lemma update_settings_no_lost_update:
  assumes "UpdateSettingsHandler zone_ok c s = (Inr dto, t)" "rely (settings_evolve zone_ok) s"
    "settings_ok zone_ok (view s)"
  shows "settings_ok zone_ok (view t) \<and> settings_evolve zone_ok (view s) (view t)
    \<and> (\<exists>p evs. dto = settings_dto p \<and> script s = evs @ script t
        \<and> saved (settings_at zone_ok) (settings_change zone_ok c) (us_user_id c) (us_expected_version c)
            (others evs (view s)) (view t) p)"
  using settings_saved [OF assms(1) [unfolded UpdateSettingsHandler_eq] proper_changes(3) assms(2,3)]
  by blast

text \<open>The same for the two other commands.\<close>

lemma update_avatar_no_lost_update:
  assumes "UpdateAvatarHandler c s = (Inr dto, t)" "rely profiles_evolve s" "profiles_ok (view s)"
  shows "profiles_ok (view t) \<and> profiles_evolve (view s) (view t)
    \<and> (\<exists>p evs. dto = profile_dto p \<and> script s = evs @ script t
        \<and> saved profile_at (avatar_change c) (ua_user_id c) (ua_expected_version c)
            (others evs (view s)) (view t) p)"
  using profile_saved [OF assms(1) [unfolded UpdateAvatarHandler_eq] proper_changes(2) assms(2,3)]
  by blast

lemma reset_settings_no_lost_update:
  assumes "ResetSettingsHandler zone_ok c s = (Inr dto, t)" "rely (settings_evolve zone_ok) s"
    "settings_ok zone_ok (view s)"
  shows "settings_ok zone_ok (view t) \<and> settings_evolve zone_ok (view s) (view t)
    \<and> (\<exists>p evs. dto = settings_dto p \<and> script s = evs @ script t
        \<and> saved (settings_at zone_ok) (reset_to_defaults zone_ok) (rs_user_id c) (rs_expected_version c)
            (others evs (view s)) (view t) p)"
  using settings_saved [OF assms(1) [unfolded ResetSettingsHandler_eq] proper_changes(4) assms(2,3)]
  by blast

section \<open>What a change does to the fields\<close>

lemma read_optional_given:
  "read_optional Username s = Inr t \<Longrightarrow> t = map_option (\<lambda>x. lower (strip x)) s"
  by (cases s) (auto simp: Username_def Let_def split: if_splits)

lemma read_optional_bio_given: "read_optional validate_bio s = Inr t \<Longrightarrow> t = s"
  by (cases s) (auto simp: validate_bio_eq split: if_splits)

lemma display_name_given: "validate_display_name (PyStr s) = Inr t \<Longrightarrow> t = strip s"
  by (simp add: validate_display_name_eq split: if_splits)

lemma valid_profile_normal:
  "valid_profile p \<Longrightarrow> strip (display_name p) = display_name p
     \<and> map_option (\<lambda>x. lower (strip x)) (username p) = username p"
  by (cases "username p")
    (auto simp: valid_profile_def valid_display_name_def strip_stripped valid_username_def
      username_fullmatch_def strip_username lower_username)

text \<open>The fields of a validated dictionary.\<close>

lemma profile_validate_fields:
  "profile_validate i = Inr c \<Longrightarrow>
   display_name c = strip (in_display_name i) \<and> bio c = in_bio i
     \<and> username c = map_option (\<lambda>x. lower (strip x)) (in_username i)
     \<and> avatar_key c = in_avatar_key i \<and> is_verified c = in_is_verified i
     \<and> read_field status_of (in_status i) = Inr (status c)"
  by (auto simp: profile_validate_def dest: read_optional_given read_optional_bio_given display_name_given)

lemma update_profile_fields:
  assumes "update_profile clock d b u self = (Inr changed, self')" "valid_profile self"
  shows "display_name self' = (case d of None \<Rightarrow> display_name self | Some x \<Rightarrow> strip x)
    \<and> bio self' = (case b of None \<Rightarrow> bio self | Some x \<Rightarrow> if x = [] then None else Some x)
    \<and> username self' = (case u of None \<Rightarrow> username self | Some x \<Rightarrow> Some (lower (strip x)))
    \<and> avatar_key self' = avatar_key self \<and> status self' = status self
    \<and> is_verified self' = is_verified self"
proof -
  obtain c where c: "profile_validate ((profile_dump self)
       \<lparr>in_display_name := (case d of None \<Rightarrow> display_name self | Some d \<Rightarrow> d),
        in_bio := (case b of None \<Rightarrow> bio self | Some b \<Rightarrow> if b = [] then None else Some b),
        in_username := (case u of None \<Rightarrow> username self | Some u \<Rightarrow> Some u)\<rparr>) = Inr c"
    and "self' = c \<or> (\<exists>v t. self' = c\<lparr>updated_at := t, version := v\<rparr>)"
    using assms(1)
    by (auto simp: update_profile_def profile_apply_def profile.apply_changes_eq
        split: sum.splits if_splits)
  then have "display_name self' = display_name c \<and> bio self' = bio c \<and> username self' = username c
      \<and> avatar_key self' = avatar_key c \<and> status self' = status c \<and> is_verified self' = is_verified c"
    by auto
  with profile_validate_fields [OF c] valid_profile_normal [OF assms(2)] show ?thesis
    by (simp add: profile_dump_def split: option.splits)
qed

lemma update_avatar_fields:
  assumes "update_avatar k clock self = (Inr changed, self')" "valid_profile self"
  shows "avatar_key self' = k \<and> display_name self' = display_name self \<and> bio self' = bio self
    \<and> username self' = username self \<and> status self' = status self \<and> is_verified self' = is_verified self"
proof -
  obtain c where c: "profile_validate ((profile_dump self)\<lparr>in_avatar_key := k\<rparr>) = Inr c"
    and "self' = c \<or> (\<exists>v t. self' = c\<lparr>updated_at := t, version := v\<rparr>)"
    using assms(1)
    by (auto simp: update_avatar_def profile_apply_def profile.apply_changes_eq
        split: sum.splits if_splits)
  then have "display_name self' = display_name c \<and> bio self' = bio c \<and> username self' = username c
      \<and> avatar_key self' = avatar_key c \<and> status self' = status c \<and> is_verified self' = is_verified c"
    by auto
  with profile_validate_fields [OF c] valid_profile_normal [OF assms(2)] show ?thesis
    by (simp add: profile_dump_def)
qed

lemma reset_fields:
  assumes "reset_to_defaults zone_ok clock self = (Inr changed, self')"
  shows "theme self' = theme_default \<and> ui_locale self' = locale_default
    \<and> timezone self' = DEFAULT_TIMEZONE \<and> privacy self' = privacy_default"
proof -
  obtain c where c: "settings_validate zone_ok ((settings_dump self)
      \<lparr>in_theme := Member theme_default, in_locale := Member locale_default,
       in_timezone := DEFAULT_TIMEZONE, in_privacy := Member privacy_default\<rparr>) = Inr c"
    and "self' = c \<or> (\<exists>v t. self' = c\<lparr>updated_at := t, version := v\<rparr>)"
    using assms
    by (auto simp: reset_to_defaults_def update_settings_def settings_apply_def
        settings.apply_changes_eq split: sum.splits if_splits)
  then have "theme self' = theme c \<and> ui_locale self' = ui_locale c \<and> timezone self' = timezone c
      \<and> privacy self' = privacy c" by auto
  with c show ?thesis
    by (auto simp: settings_validate_def validate_timezone_def strip_stripped Let_def split: if_splits)
qed

lemma update_settings_fields:
  assumes "settings_change zone_ok c clock self = (Inr changed, self')" "valid_settings zone_ok self"
  shows "theme self' = (case us_theme c of None \<Rightarrow> theme self | Some x \<Rightarrow> x)
    \<and> ui_locale self' = (case us_locale c of None \<Rightarrow> ui_locale self | Some x \<Rightarrow> x)
    \<and> timezone self' = (case us_timezone c of None \<Rightarrow> timezone self | Some x \<Rightarrow> strip x)
    \<and> privacy self' = merged_privacy c self"
proof -
  obtain d where d: "settings_validate zone_ok ((settings_dump self)
      \<lparr>in_theme := (case map_option Member (us_theme c) of None \<Rightarrow> Member (theme self) | Some t \<Rightarrow> t),
       in_locale := (case map_option Member (us_locale c) of None \<Rightarrow> Member (ui_locale self) | Some l \<Rightarrow> l),
       in_timezone := (case us_timezone c of None \<Rightarrow> timezone self | Some z \<Rightarrow> z),
       in_privacy := Member (merged_privacy c self)\<rparr>) = Inr d"
    and "self' = d \<or> (\<exists>v t. self' = d\<lparr>updated_at := t, version := v\<rparr>)"
    using assms(1)
    by (auto simp: settings_change_def update_settings_def settings_apply_def
        settings.apply_changes_eq split: sum.splits if_splits)
  then have "theme self' = theme d \<and> ui_locale self' = ui_locale d \<and> timezone self' = timezone d
      \<and> privacy self' = privacy d" by auto
  moreover have "strip (timezone self) = timezone self"
    using assms(2) by (simp add: valid_settings_def valid_timezone_def strip_stripped)
  ultimately show ?thesis using d
    by (auto simp: settings_validate_def validate_timezone_def Let_def split: if_splits option.splits)
qed

text \<open>
  What an update of a profile does: a returned update leaves the given fields in their
  normal form (the name without outer white space, the username in lower case, an empty
  biography absent) and every other field as it was, and what is stored satisfies the
  validators again.
\<close>

lemma update_profile_effect:
  assumes "UpdateProfileHandler c s = (Inr dto, t)" "rely profiles_evolve s" "profiles_ok (view s)"
  shows "\<exists>evs old p. script s = evs @ script t
    \<and> profile_at (others evs (view s)) (up_user_id c) = Some old
    \<and> profile_at (view t) (up_user_id c) = Some p \<and> dto = profile_dto p \<and> valid_profile p
    \<and> display_name p = (case up_display_name c of None \<Rightarrow> display_name old | Some x \<Rightarrow> strip x)
    \<and> bio p = (case up_bio c of None \<Rightarrow> bio old | Some x \<Rightarrow> if x = [] then None else Some x)
    \<and> username p = (case up_username c of None \<Rightarrow> username old | Some x \<Rightarrow> Some (lower (strip x)))
    \<and> avatar_key p = avatar_key old \<and> status p = status old \<and> is_verified p = is_verified old"
proof -
  from profile_saved [OF assms(1) [unfolded UpdateProfileHandler_eq] proper_changes(1) assms(2,3)]
  obtain p evs where dto: "dto = profile_dto p" and evs: "script s = evs @ script t"
    and ok: "profiles_ok (view t)"
    and saved: "saved profile_at (profile_change c) (up_user_id c) (up_expected_version c)
      (others evs (view s)) (view t) p" .
  from saved obtain old clock changed where old: "profile_at (others evs (view s)) (up_user_id c) = Some old"
    and change: "profile_change c clock old = (Inr changed, p)"
    and new: "profile_at (view t) (up_user_id c) = Some p"
    unfolding saved_def by auto
  have "profiles_ok (others evs (view s))"
    using profiles_port.rely_ok [OF assms(2,3) evs] .
  then have "valid_profile old" "valid_profile p"
    using profile_adapter.lookup_invar old new ok by blast+
  with update_profile_fields [OF change [unfolded profile_change_def]] dto evs old new show ?thesis
    by blast
qed

text \<open>
  Changing the avatar changes nothing else: after a returned command the stored profile
  has the new key (or none), and all its other business fields are those it had.
\<close>

lemma update_avatar_effect:
  assumes "UpdateAvatarHandler c s = (Inr dto, t)" "rely profiles_evolve s" "profiles_ok (view s)"
  shows "\<exists>evs old p. script s = evs @ script t
    \<and> profile_at (others evs (view s)) (ua_user_id c) = Some old \<and> version old = ua_expected_version c
    \<and> profile_at (view t) (ua_user_id c) = Some p \<and> dto = profile_dto p
    \<and> avatar_key p = ua_avatar_key c \<and> display_name p = display_name old \<and> bio p = bio old
    \<and> username p = username old \<and> status p = status old \<and> is_verified p = is_verified old"
proof -
  from profile_saved [OF assms(1) [unfolded UpdateAvatarHandler_eq] proper_changes(2) assms(2,3)]
  obtain p evs where dto: "dto = profile_dto p" and evs: "script s = evs @ script t"
    and saved: "saved profile_at (avatar_change c) (ua_user_id c) (ua_expected_version c)
      (others evs (view s)) (view t) p" .
  from saved obtain old clock changed where old: "profile_at (others evs (view s)) (ua_user_id c) = Some old"
    and ver: "version old = ua_expected_version c"
    and change: "avatar_change c clock old = (Inr changed, p)"
    and new: "profile_at (view t) (ua_user_id c) = Some p"
    unfolding saved_def by auto
  have "profiles_ok (others evs (view s))"
    using profiles_port.rely_ok [OF assms(2,3) evs] .
  then have "valid_profile old"
    using profile_adapter.lookup_invar old by blast
  with update_avatar_fields [OF change [unfolded avatar_change_def]] dto evs old new ver show ?thesis
    by blast
qed

text \<open>
  A reset leaves the defaults: after a returned reset the stored settings are the
  defaults, at the version after the expected one, or at the expected one when they were
  the defaults already.
\<close>

lemma reset_settings_effect:
  assumes "ResetSettingsHandler zone_ok c s = (Inr dto, t)" "rely (settings_evolve zone_ok) s"
    "settings_ok zone_ok (view s)"
  shows "\<exists>p. settings_at zone_ok (view t) (rs_user_id c) = Some p \<and> dto = settings_dto p
    \<and> theme p = SYSTEM \<and> ui_locale p = RU \<and> timezone p = DEFAULT_TIMEZONE
    \<and> privacy p = \<lparr>who_can_see_avatar = SCOPE_ALL, who_can_find_by_username = SCOPE_ALL, who_can_see_bio = SCOPE_ALL\<rparr>
    \<and> version p \<in> {rs_expected_version c, rs_expected_version c + 1}"
proof -
  from settings_saved [OF assms(1) [unfolded ResetSettingsHandler_eq] proper_changes(4) assms(2,3)]
  obtain p evs where dto: "dto = settings_dto p"
    and saved: "saved (settings_at zone_ok) (reset_to_defaults zone_ok) (rs_user_id c)
      (rs_expected_version c) (others evs (view s)) (view t) p" .
  from saved obtain old clock changed where "reset_to_defaults zone_ok clock old = (Inr changed, p)"
    and "settings_at zone_ok (view t) (rs_user_id c) = Some p"
    and "version p \<in> {rs_expected_version c, rs_expected_version c + 1}"
    unfolding saved_def by auto
  with reset_fields [OF this(1)] dto show ?thesis
    by (simp add: theme_default_def locale_default_def privacy_default_def)
qed

section \<open>Provisioning of a new user\<close>

text \<open>The two tables are separate: writing one leaves the contents of the other alone.\<close>

lemma settings_table_frame:
  "profile_at (t_put (settings_table zone_ok) rows d) = profile_at d"
  "profiles_ok (t_put (settings_table zone_ok) rows d) = profiles_ok d"
  by (simp_all add: fun_eq_iff lookup_def table_ok_def profile_table_def settings_table_def)

lemma profile_table_frame:
  "settings_at zone_ok (t_put profile_table rows d) = settings_at zone_ok d"
  "settings_ok zone_ok (t_put profile_table rows d) = settings_ok zone_ok d"
  by (simp_all add: fun_eq_iff lookup_def table_ok_def profile_table_def settings_table_def)

lemma evolves_same:
  "look d' = look d \<Longrightarrow> ok d' = ok d \<Longrightarrow> evolves ok look ver created d d'"
  by (simp add: evolves_def)

lemma settings_provide_frame:
  "keeps (guar profiles_evolve) (settings_repo_create_default_if_absent zone_ok u clock)"
  unfolding settings_repo_create_default_if_absent_def
  by (intro provide_guar evolves_reflp evolves_transp evolves_same settings_table_frame)

lemma profile_provide_frame:
  "keeps (guar (settings_evolve zone_ok)) (profile_repo_create_default_if_absent u clock)"
  unfolding profile_repo_create_default_if_absent_def
  by (intro provide_guar evolves_reflp evolves_transp evolves_same profile_table_frame)

lemma create_default_steps:
  assumes "CreateDefaultProfileHandler zone_ok c s = (Inr (), t)"
  obtains p st s1 p' st' where
    "profile_create_default (cd_user_id c) (cd_registered_at c) = Inr p"
    "settings_create_default zone_ok (cd_user_id c) (cd_registered_at c) = Inr st"
    "valid_profile p" "entity_id p = cd_user_id c" "valid_settings zone_ok st" "entity_id st = cd_user_id c"
    "profile_repo_create_default_if_absent (cd_user_id c) (cd_registered_at c) s = (Inr p', s1)"
    "settings_repo_create_default_if_absent zone_ok (cd_user_id c) (cd_registered_at c) s1 = (Inr st', t)"
proof -
  from assms obtain p' s1 st' where
    1: "profile_repo_create_default_if_absent (cd_user_id c) (cd_registered_at c) s = (Inr p', s1)" and
    2: "settings_repo_create_default_if_absent zone_ok (cd_user_id c) (cd_registered_at c) s1 = (Inr st', t)"
    by (auto simp: CreateDefaultProfileHandler_def sthen_eq_Inr)
  from 2 have z: "zone_ok DEFAULT_TIMEZONE"
    by (auto simp: settings_repo_create_default_if_absent_def repo_create_default_if_absent_def
        settings_create_default_eq sthen_eq_Inr split: if_splits)
  obtain p st where "profile_create_default (cd_user_id c) (cd_registered_at c) = Inr p"
    "settings_create_default zone_ok (cd_user_id c) (cd_registered_at c) = Inr st"
    "entity_id p = cd_user_id c" "entity_id st = cd_user_id c"
    using z by (simp add: profile_create_default_eq settings_create_default_eq)
  with 1 2 that profile_create_default_valid settings_create_default_valid show thesis by blast
qed

text \<open>
  Provisioning: when the command returns, the user has a profile and settings, both
  tables are sound, and whatever was there before is still there, untouched by this command:
  it was at most brought to a later version by other sessions. So running it again, or on a
  user who exists, or in a race with another provisioning, loses nothing.
\<close>

lemma create_default_provisions:
  assumes "CreateDefaultProfileHandler zone_ok c s = (Inr (), t)"
    and "rely profiles_evolve s" "rely (settings_evolve zone_ok) s"
    and "profiles_ok (view s)" "settings_ok zone_ok (view s)"
  shows "profile_at (view t) (cd_user_id c) \<noteq> None \<and> settings_at zone_ok (view t) (cd_user_id c) \<noteq> None
    \<and> profiles_ok (view t) \<and> settings_ok zone_ok (view t)
    \<and> profiles_evolve (view s) (view t) \<and> settings_evolve zone_ok (view s) (view t)"
proof -
  from assms(1) obtain p st s1 p' st' where
    dp: "profile_create_default (cd_user_id c) (cd_registered_at c) = Inr p" and
    ds: "settings_create_default zone_ok (cd_user_id c) (cd_registered_at c) = Inr st" and
    p: "valid_profile p" "entity_id p = cd_user_id c" and
    st: "valid_settings zone_ok st" "entity_id st = cd_user_id c" and
    run1: "profile_repo_create_default_if_absent (cd_user_id c) (cd_registered_at c) s = (Inr p', s1)" and
    run2: "settings_repo_create_default_if_absent zone_ok (cd_user_id c) (cd_registered_at c) s1 = (Inr st', t)"
    by (rule create_default_steps)
  from profiles_port.provide_evolves [OF _ p assms(4,2), of p' s1] run1 dp
  have 1: "profiles_ok (view s1)" "profile_at (view s1) (cd_user_id c) = Some p'"
    "profiles_evolve (view s) (view s1)"
    by (simp_all add: profile_repo_create_default_if_absent_def)
  from keepsD [OF profile_provide_frame run1] assms(3)
  obtain evs where evs: "script s = evs @ script s1" and s1: "settings_evolve zone_ok (view s) (view s1)"
    by (auto simp: guar_def)
  from assms(2,3) evs have rely: "rely profiles_evolve s1" "rely (settings_evolve zone_ok) s1"
    by (auto intro: rely_suffix)
  have "settings_ok zone_ok (view s1)" using s1 assms(5) by (simp add: evolves_def)
  from settings_port.provide_evolves [OF _ st this rely(2), of st' t] run2 ds
  have 2: "settings_ok zone_ok (view t)" "settings_at zone_ok (view t) (cd_user_id c) = Some st'"
    "settings_evolve zone_ok (view s1) (view t)"
    by (simp_all add: settings_repo_create_default_if_absent_def)
  from keepsD [OF settings_provide_frame run2] rely(1)
  have t: "profiles_evolve (view s1) (view t)" by (auto simp: guar_def)
  with 1(1,2) have "profiles_ok (view t)" "profile_at (view t) (cd_user_id c) \<noteq> None"
    unfolding evolves_def by blast+
  with 1 2 s1 t show ?thesis by (auto intro: evolves_trans)
qed

text \<open>
  Provisioning, exactly: with no other session at work, a returned run adds the default
  profile and the default settings, registered at the given time, where they were absent,
  and changes nothing else.
\<close>

lemma create_default_exact:
  assumes "CreateDefaultProfileHandler zone_ok c s = (Inr (), t)" "script s = []"
    and "profiles_ok (view s)" "settings_ok zone_ok (view s)"
  shows "\<exists>p st. profile_create_default (cd_user_id c) (cd_registered_at c) = Inr p
    \<and> settings_create_default zone_ok (cd_user_id c) (cd_registered_at c) = Inr st
    \<and> profile_at (view t) = (if profile_at (view s) (cd_user_id c) = None
        then (profile_at (view s))(cd_user_id c \<mapsto> p) else profile_at (view s))
    \<and> settings_at zone_ok (view t) = (if settings_at zone_ok (view s) (cd_user_id c) = None
        then (settings_at zone_ok (view s))(cd_user_id c \<mapsto> st) else settings_at zone_ok (view s))"
proof -
  from assms(1) obtain p st s1 p' st' where
    dp: "profile_create_default (cd_user_id c) (cd_registered_at c) = Inr p" and
    ds: "settings_create_default zone_ok (cd_user_id c) (cd_registered_at c) = Inr st" and
    p: "valid_profile p" "entity_id p = cd_user_id c" and
    st: "valid_settings zone_ok st" "entity_id st = cd_user_id c" and
    run1: "profile_repo_create_default_if_absent (cd_user_id c) (cd_registered_at c) s = (Inr p', s1)" and
    run2: "settings_repo_create_default_if_absent zone_ok (cd_user_id c) (cd_registered_at c) s1 = (Inr st', t)"
    by (rule create_default_steps)
  from profiles_port.provide_quiet [OF _ p assms(3,2), of p' s1] run1 dp
  have 1: "profile_at (view s1) = (if profile_at (view s) (cd_user_id c) = None
      then (profile_at (view s))(cd_user_id c \<mapsto> p) else profile_at (view s))"
    by (simp add: profile_repo_create_default_if_absent_def)
  let ?same = "\<lambda>look ok d d'. look d' = look d \<and> (ok d' :: bool) = ok d"
  have same: "settings_at zone_ok (view s1) = settings_at zone_ok (view s)
      \<and> settings_ok zone_ok (view s1) = settings_ok zone_ok (view s)" "script s1 = []"
  proof -
    have "keeps (guar (?same (settings_at zone_ok) (settings_ok zone_ok)))
        (profile_repo_create_default_if_absent (cd_user_id c) (cd_registered_at c))"
      unfolding profile_repo_create_default_if_absent_def
      by (rule provide_guar) (auto simp: reflp_def transp_def profile_table_frame)
    from keepsD [OF this run1] assms(2) show "settings_at zone_ok (view s1) = settings_at zone_ok (view s)
      \<and> settings_ok zone_ok (view s1) = settings_ok zone_ok (view s)" "script s1 = []"
      by (auto simp: guar_def rely_def)
  qed
  have "profile_at (view t) = profile_at (view s1)"
  proof -
    have "keeps (guar (\<lambda>d d'. profile_at d' = profile_at d))
        (settings_repo_create_default_if_absent zone_ok (cd_user_id c) (cd_registered_at c))"
      unfolding settings_repo_create_default_if_absent_def
      by (rule provide_guar) (auto simp: reflp_def transp_def settings_table_frame)
    from keepsD [OF this run2] same(2) show ?thesis by (auto simp: guar_def rely_def)
  qed
  moreover from settings_port.provide_quiet [OF _ st, of s1 st' t] run2 ds same assms(4)
  have "settings_at zone_ok (view t) = (if settings_at zone_ok (view s1) (cd_user_id c) = None
      then (settings_at zone_ok (view s1))(cd_user_id c \<mapsto> st) else settings_at zone_ok (view s1))"
    by (simp add: settings_repo_create_default_if_absent_def)
  ultimately show ?thesis using dp ds 1 same(1) by simp
qed

section \<open>The handlers\<close>

lemma update_settings_effect:
  assumes "UpdateSettingsHandler zone_ok c s = (Inr dto, t)" "rely (settings_evolve zone_ok) s"
    "settings_ok zone_ok (view s)"
  shows "\<exists>evs old p. script s = evs @ script t
    \<and> settings_at zone_ok (others evs (view s)) (us_user_id c) = Some old
    \<and> settings_at zone_ok (view t) (us_user_id c) = Some p \<and> dto = settings_dto p
    \<and> theme p = (case us_theme c of None \<Rightarrow> theme old | Some x \<Rightarrow> x)
    \<and> ui_locale p = (case us_locale c of None \<Rightarrow> ui_locale old | Some x \<Rightarrow> x)
    \<and> timezone p = (case us_timezone c of None \<Rightarrow> timezone old | Some x \<Rightarrow> strip x)
    \<and> who_can_see_avatar (privacy p)
        = (case us_who_can_see_avatar c of None \<Rightarrow> who_can_see_avatar (privacy old) | Some x \<Rightarrow> x)
    \<and> who_can_find_by_username (privacy p)
        = (case us_who_can_find_by_username c of None \<Rightarrow> who_can_find_by_username (privacy old) | Some x \<Rightarrow> x)
    \<and> who_can_see_bio (privacy p)
        = (case us_who_can_see_bio c of None \<Rightarrow> who_can_see_bio (privacy old) | Some x \<Rightarrow> x)"
proof -
  from settings_saved [OF assms(1) [unfolded UpdateSettingsHandler_eq] proper_changes(3) assms(2,3)]
  obtain p evs where dto: "dto = settings_dto p" and evs: "script s = evs @ script t"
    and saved: "saved (settings_at zone_ok) (settings_change zone_ok c) (us_user_id c) (us_expected_version c)
      (others evs (view s)) (view t) p" .
  from saved obtain old clock changed where old: "settings_at zone_ok (others evs (view s)) (us_user_id c) = Some old"
    and change: "settings_change zone_ok c clock old = (Inr changed, p)"
    and new: "settings_at zone_ok (view t) (us_user_id c) = Some p"
    unfolding saved_def by auto
  have "settings_ok zone_ok (others evs (view s))"
    using settings_port.rely_ok [OF assms(2,3) evs] .
  then have "valid_settings zone_ok old"
    using settings_adapter.lookup_invar old by blast
  with update_settings_fields [OF change] have
    "theme p = (case us_theme c of None \<Rightarrow> theme old | Some x \<Rightarrow> x)"
    "ui_locale p = (case us_locale c of None \<Rightarrow> ui_locale old | Some x \<Rightarrow> x)"
    "timezone p = (case us_timezone c of None \<Rightarrow> timezone old | Some x \<Rightarrow> strip x)"
    and "privacy p = merged_privacy c old" by blast+
  with dto evs old new show ?thesis
    by (intro exI [of _ evs] exI [of _ old] exI [of _ p]) (simp add: merged_privacy_def)
qed

text \<open>
  C3. No lost update. If one of the four commands that change a profile or settings returns, then at the moment of its
  write the stored aggregate still had the version the client had seen, and the write replaced
  exactly that aggregate by the changed one, with the next version (or there was nothing to
  change and nothing was written), whatever other sessions committed between the handler's
  read and its write. What is returned is what is stored, and the handler keeps the
  discipline it relies on.
\<close>

theorem no_lost_update:
  assumes "rely profiles_evolve s" "rely (settings_evolve zone_ok) s"
    and "profiles_ok (view s)" "settings_ok zone_ok (view s)"
  shows "(\<forall>c dto t. UpdateProfileHandler c s = (Inr dto, t) \<longrightarrow>
        profiles_ok (view t) \<and> profiles_evolve (view s) (view t)
        \<and> (\<exists>p evs. dto = profile_dto p \<and> script s = evs @ script t
            \<and> saved profile_at (profile_change c) (up_user_id c) (up_expected_version c) (others evs (view s)) (view t) p))
    \<and> (\<forall>c dto t. UpdateAvatarHandler c s = (Inr dto, t) \<longrightarrow>
        profiles_ok (view t) \<and> profiles_evolve (view s) (view t)
        \<and> (\<exists>p evs. dto = profile_dto p \<and> script s = evs @ script t
            \<and> saved profile_at (avatar_change c) (ua_user_id c) (ua_expected_version c) (others evs (view s)) (view t) p))
    \<and> (\<forall>c dto t. UpdateSettingsHandler zone_ok c s = (Inr dto, t) \<longrightarrow>
        settings_ok zone_ok (view t) \<and> settings_evolve zone_ok (view s) (view t)
        \<and> (\<exists>p evs. dto = settings_dto p \<and> script s = evs @ script t
            \<and> saved (settings_at zone_ok) (settings_change zone_ok c) (us_user_id c) (us_expected_version c)
                (others evs (view s)) (view t) p))
    \<and> (\<forall>c dto t. ResetSettingsHandler zone_ok c s = (Inr dto, t) \<longrightarrow>
        settings_ok zone_ok (view t) \<and> settings_evolve zone_ok (view s) (view t)
        \<and> (\<exists>p evs. dto = settings_dto p \<and> script s = evs @ script t
            \<and> saved (settings_at zone_ok) (reset_to_defaults zone_ok) (rs_user_id c) (rs_expected_version c)
                (others evs (view s)) (view t) p))"
  using update_profile_no_lost_update [OF _ assms(1,3)] update_avatar_no_lost_update [OF _ assms(1,3)]
    update_settings_no_lost_update [OF _ assms(2,4)] reset_settings_no_lost_update [OF _ assms(2,4)]
  by blast

text \<open>
  C18. What the changes do. A returned update of a profile leaves the given fields in their normal
  form (the name without outer white space, the username in lower case, an empty biography
  absent) and every other field as it was, and what is stored satisfies the validators again.
  A change of the avatar changes nothing else. An update of settings sets the given fields, each of the three
  scopes on its own among them, and keeps the rest. A reset leaves the defaults, at the version after the
  expected one, or at the expected one when they were the defaults already.
\<close>

theorem update_effects:
  assumes "rely profiles_evolve s" "rely (settings_evolve zone_ok) s"
    and "profiles_ok (view s)" "settings_ok zone_ok (view s)"
  shows "(\<forall>c dto t. UpdateProfileHandler c s = (Inr dto, t) \<longrightarrow>
        (\<exists>evs old p. script s = evs @ script t
          \<and> profile_at (others evs (view s)) (up_user_id c) = Some old
          \<and> profile_at (view t) (up_user_id c) = Some p \<and> dto = profile_dto p \<and> valid_profile p
          \<and> display_name p = (case up_display_name c of None \<Rightarrow> display_name old | Some x \<Rightarrow> strip x)
          \<and> bio p = (case up_bio c of None \<Rightarrow> bio old | Some x \<Rightarrow> if x = [] then None else Some x)
          \<and> username p = (case up_username c of None \<Rightarrow> username old | Some x \<Rightarrow> Some (lower (strip x)))
          \<and> avatar_key p = avatar_key old \<and> status p = status old \<and> is_verified p = is_verified old))
    \<and> (\<forall>c dto t. UpdateAvatarHandler c s = (Inr dto, t) \<longrightarrow>
        (\<exists>evs old p. script s = evs @ script t
          \<and> profile_at (others evs (view s)) (ua_user_id c) = Some old \<and> version old = ua_expected_version c
          \<and> profile_at (view t) (ua_user_id c) = Some p \<and> dto = profile_dto p
          \<and> avatar_key p = ua_avatar_key c \<and> display_name p = display_name old \<and> bio p = bio old
          \<and> username p = username old \<and> status p = status old \<and> is_verified p = is_verified old))
    \<and> (\<forall>c dto t. UpdateSettingsHandler zone_ok c s = (Inr dto, t) \<longrightarrow>
        (\<exists>evs old p. script s = evs @ script t
          \<and> settings_at zone_ok (others evs (view s)) (us_user_id c) = Some old
          \<and> settings_at zone_ok (view t) (us_user_id c) = Some p \<and> dto = settings_dto p
          \<and> theme p = (case us_theme c of None \<Rightarrow> theme old | Some x \<Rightarrow> x)
          \<and> ui_locale p = (case us_locale c of None \<Rightarrow> ui_locale old | Some x \<Rightarrow> x)
          \<and> timezone p = (case us_timezone c of None \<Rightarrow> timezone old | Some x \<Rightarrow> strip x)
          \<and> who_can_see_avatar (privacy p)
              = (case us_who_can_see_avatar c of None \<Rightarrow> who_can_see_avatar (privacy old) | Some x \<Rightarrow> x)
          \<and> who_can_find_by_username (privacy p)
              = (case us_who_can_find_by_username c of None \<Rightarrow> who_can_find_by_username (privacy old) | Some x \<Rightarrow> x)
          \<and> who_can_see_bio (privacy p)
              = (case us_who_can_see_bio c of None \<Rightarrow> who_can_see_bio (privacy old) | Some x \<Rightarrow> x)))
    \<and> (\<forall>c dto t. ResetSettingsHandler zone_ok c s = (Inr dto, t) \<longrightarrow>
        (\<exists>p. settings_at zone_ok (view t) (rs_user_id c) = Some p \<and> dto = settings_dto p
          \<and> theme p = SYSTEM \<and> ui_locale p = RU \<and> timezone p = DEFAULT_TIMEZONE
          \<and> privacy p = \<lparr>who_can_see_avatar = SCOPE_ALL, who_can_find_by_username = SCOPE_ALL, who_can_see_bio = SCOPE_ALL\<rparr>
          \<and> version p \<in> {rs_expected_version c, rs_expected_version c + 1}))"
  using update_profile_effect [OF _ assms(1,3)] update_avatar_effect [OF _ assms(1,3)]
    update_settings_effect [OF _ assms(2,4)] reset_settings_effect [OF _ assms(2,4)]
  by (intro conjI allI impI)

text \<open>
  C19. Provisioning. When the command returns, the user has a profile and settings, both tables
  are sound, and whatever was there before is still there, untouched by this command: it was at
  most brought to a later version by other sessions. So running it again, or on a user who
  exists, or in a race with another provisioning, loses nothing. With no other session at
  work, it adds exactly the default profile and the default settings, registered at the given
  time, where they were absent, and changes nothing else.
\<close>

theorem create_default_provisioning:
  assumes "CreateDefaultProfileHandler zone_ok c s = (Inr (), t)"
    and "rely profiles_evolve s" "rely (settings_evolve zone_ok) s"
    and "profiles_ok (view s)" "settings_ok zone_ok (view s)"
  shows "profile_at (view t) (cd_user_id c) \<noteq> None \<and> settings_at zone_ok (view t) (cd_user_id c) \<noteq> None
    \<and> profiles_ok (view t) \<and> settings_ok zone_ok (view t)
    \<and> profiles_evolve (view s) (view t) \<and> settings_evolve zone_ok (view s) (view t)
    \<and> (script s = [] \<longrightarrow>
        (\<exists>p st. profile_create_default (cd_user_id c) (cd_registered_at c) = Inr p
          \<and> settings_create_default zone_ok (cd_user_id c) (cd_registered_at c) = Inr st
          \<and> profile_at (view t) = (if profile_at (view s) (cd_user_id c) = None
              then (profile_at (view s))(cd_user_id c \<mapsto> p) else profile_at (view s))
          \<and> settings_at zone_ok (view t) = (if settings_at zone_ok (view s) (cd_user_id c) = None
              then (settings_at zone_ok (view s))(cd_user_id c \<mapsto> st) else settings_at zone_ok (view s))))"
  using create_default_provisions [OF assms] create_default_exact [OF assms(1) _ assms(4,5)] by blast

end
