(* ===== verification/Queries.thy ===== *)
theory Queries
  imports Command_Properties
begin

text \<open>
  The queries and their handlers (\<open>src/src/app/application/queries\<close>). A query runs outside
  any unit of work: each of its statements sees what is committed at that moment.
\<close>

section \<open>Queries\<close>

record GetBatchProfilesQuery =
  gb_user_ids :: "uuid list"
  gb_viewer_id :: "uuid option"

record GetPublicProfileQuery =
  gp_user_id :: uuid
  gp_viewer_id :: "uuid option"

record SearchByUsernameQuery =
  su_username :: pystr
  su_viewer_id :: "uuid option"

record GetMyProfileQuery = gm_user_id :: uuid

record GetMySettingsQuery = gs_user_id :: uuid

record CheckProfileExistsQuery = ce_user_id :: uuid

text \<open>\<open>list(dict.fromkeys(v))\<close>: a dictionary keeps its keys in the order of their first insertion.\<close>

definition dict_fromkeys :: "'a list \<Rightarrow> 'a list" where
  "dict_fromkeys v = fold (\<lambda>x keys. if x \<in> set keys then keys else keys @ [x]) v []"

text \<open>The bounds of the list are checked before the duplicates go.\<close>

definition get_batch_query_new :: "uuid list \<Rightarrow> uuid option \<Rightarrow> GetBatchProfilesQuery result" where
  "get_batch_query_new user_ids viewer_id =
     (if 1 \<le> length user_ids \<and> length user_ids \<le> 100
      then Inr \<lparr>gb_user_ids = dict_fromkeys user_ids, gb_viewer_id = viewer_id\<rparr>
      else Inl ValidationError)"

definition search_query_new :: "pystr \<Rightarrow> uuid option \<Rightarrow> SearchByUsernameQuery result" where
  "search_query_new name viewer_id =
     (if 3 \<le> length name \<and> length name \<le> 32
      then Inr \<lparr>su_username = name, su_viewer_id = viewer_id\<rparr> else Inl ValidationError)"

section \<open>Handlers\<close>

definition GetMyProfileHandler :: "GetMyProfileQuery \<Rightarrow> (session, exn, ProfileDTO) proc" where
  "GetMyProfileHandler query =
     sthen (reader_get_by_id profile_table (gm_user_id query)) (\<lambda>profile.
     case profile of
       None \<Rightarrow> sraise (profile_error UserProfileNotFoundError)
     | Some p \<Rightarrow> sret (profile_dto p))"

definition GetMySettingsHandler ::
  "(pystr \<Rightarrow> bool) \<Rightarrow> GetMySettingsQuery \<Rightarrow> (session, exn, SettingsDTO) proc" where
  "GetMySettingsHandler zone_ok query =
     sthen (reader_get_by_id (settings_table zone_ok) (gs_user_id query)) (\<lambda>settings.
     case settings of
       None \<Rightarrow> sraise (settings_error UserSettingsNotFoundError)
     | Some s \<Rightarrow> sret (settings_dto s))"

definition CheckProfileExistsHandler :: "CheckProfileExistsQuery \<Rightarrow> (session, exn, bool) proc" where
  "CheckProfileExistsHandler query = reader_exists profile_table (ce_user_id query)"

definition GetPublicProfileHandler ::
  "(pystr \<Rightarrow> bool) \<Rightarrow> GetPublicProfileQuery \<Rightarrow> (session, exn, PublicProfileDTO) proc" where
  "GetPublicProfileHandler zone_ok query =
     sthen (reader_get_by_id profile_table (gp_user_id query)) (\<lambda>profile.
     case profile of
       None \<Rightarrow> sraise (profile_error UserProfileNotFoundError)
     | Some p \<Rightarrow>
         sthen (reader_get_by_id (settings_table zone_ok) (entity_id p)) (\<lambda>settings.
         case settings of
           None \<Rightarrow> sraise (settings_error UserSettingsNotFoundError)
         | Some s \<Rightarrow> sret (from_domain_with_policy p s (gp_viewer_id query))))"

definition SearchByUsernameHandler ::
  "(pystr \<Rightarrow> bool) \<Rightarrow> SearchByUsernameQuery \<Rightarrow> (session, exn, PublicProfileDTO) proc" where
  "SearchByUsernameHandler zone_ok query =
     sthen (slift (Username (PyStr (su_username query)))) (\<lambda>name.
     sthen (reader_get_by_username name) (\<lambda>profile.
     case profile of
       None \<Rightarrow> sraise (profile_error UserProfileNotFoundError)
     | Some p \<Rightarrow>
         sthen (reader_get_by_id (settings_table zone_ok) (entity_id p)) (\<lambda>settings.
         case settings of
           None \<Rightarrow> sraise (settings_error UserSettingsNotFoundError)
         | Some s \<Rightarrow>
             if \<not> can_find_by_username (entity_id p) s (su_viewer_id query)
               then sraise (profile_error UserProfileNotFoundError)
             else sret (from_domain_with_policy p s (su_viewer_id query)))))"

text \<open>A dictionary built from pairs: the last pair of a key wins.\<close>

definition by_id :: "('e VersionedMutableEntity_scheme) list \<Rightarrow> uuid \<Rightarrow> 'e VersionedMutableEntity_scheme option" where
  "by_id es = map_of (rev (map (\<lambda>e. (entity_id e, e)) es))"

text \<open>The list comprehension of the result; an absent key raises \<open>KeyError\<close>.\<close>

fun public_profiles ::
  "(uuid \<Rightarrow> UserProfile option) \<Rightarrow> (uuid \<Rightarrow> UserSettings option) \<Rightarrow> uuid option \<Rightarrow> uuid list \<Rightarrow>
   PublicProfileDTO list result" where
  "public_profiles ps ss viewer [] = Inr []"
| "public_profiles ps ss viewer (u # us) =
     (case (ps u, ss u) of
        (Some p, Some s) \<Rightarrow>
          rthen (public_profiles ps ss viewer us) (\<lambda>ds. Inr (from_domain_with_policy p s viewer # ds))
      | _ \<Rightarrow> Inl KeyError)"

definition GetBatchProfilesHandler ::
  "(pystr \<Rightarrow> bool) \<Rightarrow> GetBatchProfilesQuery \<Rightarrow> (session, exn, PublicProfileDTO list) proc" where
  "GetBatchProfilesHandler zone_ok query =
     sthen (reader_get_batch profile_table (gb_user_ids query)) (\<lambda>found.
     if found = [] then sret []
     else
       (let profiles_by_id = by_id found;
            found_user_ids =
              (if length found = length (gb_user_ids query) then gb_user_ids query
               else filter (\<lambda>uid. profiles_by_id uid \<noteq> None) (gb_user_ids query)) in
        sthen (reader_get_batch (settings_table zone_ok) found_user_ids) (\<lambda>settings_list.
        let settings_by_id = by_id settings_list in
        if length (remdups (map entity_id settings_list)) \<noteq> length found_user_ids
          then sraise (settings_error UserSettingsNotFoundError)
        else slift (public_profiles profiles_by_id settings_by_id (gb_viewer_id query) found_user_ids))))"

section \<open>Batches\<close>

lemma dict_fromkeys_fold:
  "distinct keys \<Longrightarrow>
   distinct (fold (\<lambda>x keys. if x \<in> set keys then keys else keys @ [x]) v keys)
   \<and> set (fold (\<lambda>x keys. if x \<in> set keys then keys else keys @ [x]) v keys) = set keys \<union> set v"
proof (induction v arbitrary: keys)
  case (Cons x v)
  show ?case
    using Cons.IH [of "if x \<in> set keys then keys else keys @ [x]"] Cons.prems by auto
qed simp

lemma dict_fromkeys_distinct [simp]: "distinct (dict_fromkeys v)" "set (dict_fromkeys v) = set v"
  using dict_fromkeys_fold [of "[]" v] by (simp_all add: dict_fromkeys_def)

lemma by_id_eq:
  assumes "distinct (map entity_id es)"
  shows "by_id es u = Some e \<longleftrightarrow> e \<in> set es \<and> entity_id e = u"
proof -
  have "distinct (map fst (rev (map (\<lambda>e. (entity_id e, e)) es)))"
    using assms by (simp add: comp_def rev_map [symmetric])
  then show ?thesis
    unfolding by_id_def by (subst map_of_eq_Some_iff) auto
qed

lemma by_id_None: "by_id es u = None \<longleftrightarrow> u \<notin> entity_id ` set es"
  by (auto simp: by_id_def map_of_eq_None_iff image_image)

text \<open>The dictionary of a batch, seen from the contents of the database it was read from.\<close>

lemma by_id_batch:
  assumes "distinct (map entity_id es)"
    and "\<forall>e. e \<in> set es \<longleftrightarrow> entity_id e \<in> set us \<and> look (entity_id e) = Some e"
    and "\<And>u e. look u = Some e \<Longrightarrow> entity_id e = u"
  shows "by_id es u = (if u \<in> set us then look u else None)"
proof (cases "by_id es u")
  case None
  have "look u = None" if "u \<in> set us"
  proof (rule ccontr)
    assume "look u \<noteq> None"
    then obtain e where e: "look u = Some e" by blast
    with assms(3) have "entity_id e = u" by blast
    with e that assms(2) have "u \<in> entity_id ` set es" by (metis image_eqI)
    with None show False by (simp add: by_id_None)
  qed
  with None show ?thesis by simp
next
  case (Some e)
  then have "e \<in> set es" "entity_id e = u" by (simp_all add: by_id_eq [OF assms(1)])
  with Some assms(2) show ?thesis by metis
qed

text \<open>As many distinct entities as distinct identifiers: every identifier was found.\<close>

lemma batch_complete:
  assumes "distinct us" "distinct (map entity_id es)" "entity_id ` set es \<subseteq> set us"
    and "length es = length us"
  shows "entity_id ` set es = set us"
proof -
  have "card (entity_id ` set es) = card (set us)"
    using assms by (metis distinct_card length_map set_map)
  with assms(3) show ?thesis by (simp add: card_subset_eq)
qed

lemma public_profiles_eq:
  "(\<forall>u \<in> set us. ps u \<noteq> None \<and> ss u \<noteq> None) \<Longrightarrow>
   public_profiles ps ss viewer us =
     Inr (map (\<lambda>u. from_domain_with_policy (the (ps u)) (the (ss u)) viewer) us)"
  by (induction us) (auto split: option.splits)

end
