(* ===== verification/Usernames.thy ===== *)
theory Usernames
  imports Command_Properties
begin

text \<open>
  Usernames stay unique: the invariant of the table of profiles that the lookup by username
  rests on, kept by every command handler whatever its outcome.
\<close>

definition names_ok :: "db \<Rightarrow> bool" where
  "names_ok d \<longleftrightarrow> distinct (map col_user_id (profiles d))
     \<and> (\<forall>r \<in> set (profiles d). \<forall>r' \<in> set (profiles d).
          col_username r \<noteq> None \<longrightarrow> col_username r = col_username r' \<longrightarrow> col_user_id r = col_user_id r')"

definition keeps_names :: "db \<Rightarrow> db \<Rightarrow> bool" where
  "keeps_names d d' \<longleftrightarrow> (names_ok d \<longrightarrow> names_ok d')"

lemma keeps_names_reflp: "reflp keeps_names" and keeps_names_transp: "transp keeps_names"
  by (auto simp: keeps_names_def reflp_def transp_def)

lemmas guar_names = keeps_sret [OF reflp_guar [OF keeps_names_reflp]]
  keeps_sraise [OF reflp_guar [OF keeps_names_reflp]] keeps_slift [OF reflp_guar [OF keeps_names_reflp]]
  keeps_sthen [OF transp_guar [OF keeps_names_transp]] keeps_scatch [OF transp_guar [OF keeps_names_transp]]
  keeps_case_option keeps_if

lemma update_rows_names:
  assumes "update_rows profile_table e v d = (Inr x, d')"
  shows "keeps_names d d'"
  unfolding keeps_names_def
proof
  assume ok: "names_ok d"
  let ?hit = "update_hit profile_table (entity_id e) v"
  let ?f = "\<lambda>r. if ?hit r then profile_assign e r else r"
  from assms have d': "profiles d' = map ?f (profiles d)"
    and uniq: "\<forall>r \<in> set (profiles d). ?hit r \<longrightarrow>
      profile_unique (filter (\<lambda>r. \<not> ?hit r) (profiles d)) (profile_assign e r) = None"
    by (auto simp: update_rows_def Let_def profile_table_def split: option.splits)
  have id: "col_user_id (?f r) = col_user_id r" for r
    by (simp add: profile_assign_def)
  have hit: "?hit r \<Longrightarrow> col_user_id r = entity_id e" for r
    by (simp add: update_hit_def profile_table_def)
  have name: "?hit r \<Longrightarrow> col_username (?f r) = username e" for r
    by (simp add: profile_assign_def profile_row_of_def)
  have free: "col_username r' \<noteq> username e \<or> username e = None"
    if "r \<in> set (profiles d)" "?hit r" "r' \<in> set (profiles d)" "\<not> ?hit r'" for r r'
    using that uniq
    by (auto simp: profile_unique_def list_ex_iff profile_assign_def profile_row_of_def
        split: if_splits)
  from ok have old: "r \<in> set (profiles d) \<Longrightarrow> r' \<in> set (profiles d) \<Longrightarrow> col_username r \<noteq> None \<Longrightarrow>
      col_username r = col_username r' \<Longrightarrow> col_user_id r = col_user_id r'" for r r'
    unfolding names_ok_def by blast
  have new: "col_user_id (?f r) = col_user_id (?f r')"
    if r: "r \<in> set (profiles d)" "r' \<in> set (profiles d)" and n: "col_username (?f r) \<noteq> None"
      "col_username (?f r) = col_username (?f r')" for r r'
  proof (cases "?hit r"; cases "?hit r'")
    assume "?hit r" "?hit r'"
    with hit [of r] hit [of r'] show ?thesis unfolding id by simp
  next
    assume h: "?hit r" "\<not> ?hit r'"
    with free [OF r(1) h(1) r(2) h(2)] name [OF h(1)] n show ?thesis by simp
  next
    assume h: "\<not> ?hit r" "?hit r'"
    with free [OF r(2) h(2) r(1) h(1)] name [OF h(2)] n show ?thesis by simp
  next
    assume h: "\<not> ?hit r" "\<not> ?hit r'"
    with old [OF r] n show ?thesis by simp
  qed
  have "distinct (map col_user_id (map ?f (profiles d)))"
    using ok id by (simp add: names_ok_def comp_def)
  moreover have "\<forall>r \<in> set (map ?f (profiles d)). \<forall>r' \<in> set (map ?f (profiles d)).
      col_username r \<noteq> None \<longrightarrow> col_username r = col_username r' \<longrightarrow> col_user_id r = col_user_id r'"
    unfolding set_map using new by (intro ballI impI; elim imageE; hypsubst)
  ultimately show "names_ok d'"
    unfolding names_ok_def d' by blast
qed

lemma same_profiles_names: "profiles d' = profiles d \<Longrightarrow> keeps_names d d'"
  unfolding keeps_names_def names_ok_def by (simp only: simp_thms)

lemma insert_row_names:
  assumes "insert_row profile_table b row d = (Inr x, d')"
  shows "keeps_names d d'"
proof (cases "profiles d' = profiles d")
  case False
  with assms have new: "profiles d' = profiles d @ [row]"
    and pk: "\<forall>r \<in> set (profiles d). col_user_id r \<noteq> col_user_id row"
    and name: "\<forall>r \<in> set (profiles d). col_username row \<noteq> None \<longrightarrow> col_username r \<noteq> col_username row"
    by (auto simp: insert_row_def Let_def profile_table_def profile_unique_def list_ex_iff
        split: option.splits if_splits)
  show ?thesis
    unfolding keeps_names_def names_ok_def new
  proof (intro impI conjI; elim conjE)
    assume "distinct (map col_user_id (profiles d))"
    with pk show "distinct (map col_user_id (profiles d @ [row]))" by auto
  next
    assume "\<forall>r \<in> set (profiles d). \<forall>r' \<in> set (profiles d). col_username r \<noteq> None \<longrightarrow>
      col_username r = col_username r' \<longrightarrow> col_user_id r = col_user_id r'"
    with name show "\<forall>r \<in> set (profiles d @ [row]). \<forall>r' \<in> set (profiles d @ [row]).
      col_username r \<noteq> None \<longrightarrow> col_username r = col_username r' \<longrightarrow> col_user_id r = col_user_id r'"
      by (metis UnE empty_iff insert_iff list.set(1,2) set_append)
  qed
qed (rule same_profiles_names)

lemma delete_rows_names:
  assumes "delete_rows profile_table pk d = (Inr x, d')"
  shows "keeps_names d d'"
proof -
  from assms have "profiles d' = filter (\<lambda>r. col_user_id r \<noteq> pk) (profiles d)"
    by (auto simp: delete_rows_def Let_def profile_table_def)
  then show ?thesis
    unfolding keeps_names_def names_ok_def by (simp add: distinct_map_filter) blast
qed

lemma settings_put_names: "keeps_names d (t_put (settings_table zone_ok) rows d)"
  by (rule same_profiles_names) (simp add: settings_table_def)

lemma execute_names:
  "(\<And>d x d'. stmt d = (Inr x, d') \<Longrightarrow> keeps_names d d') \<Longrightarrow> keeps (guar keeps_names) (execute stmt)"
  using keeps_names_reflp keeps_names_transp by (rule execute_guar)

lemma select_names:
  "keeps (guar keeps_names) (execute (select_pk tb u))"
  "keeps (guar keeps_names) (execute (select_exists tb u))"
  by (rule execute_names, simp add: keeps_names_def)+

lemma utc_now_names: "keeps (guar keeps_names) utc_now"
  by (rule keepsI) (auto intro: reads_guar keeps_names_reflp keeps_names_transp dest: utc_now_reads)

lemmas names_rules = guar_names select_names utc_now_names
  require_transaction_guar [OF keeps_names_reflp] repo_get_guar [OF keeps_names_reflp keeps_names_transp]

lemma repo_update_names:
  assumes "\<And>d x d'. update_rows tb e v d = (Inr x, d') \<Longrightarrow> keeps_names d d'"
  shows "keeps (guar keeps_names) (repo_update tb e v)"
  unfolding repo_update_def repo_exists_def
  using execute_names [OF assms] by (intro names_rules)

lemma username_taken_names: "keeps (guar keeps_names) (username_taken e)"
  by (cases e) (simp_all add: username_taken_def guar_names)

lemma profile_repo_update_names: "keeps (guar keeps_names) (profile_repo_update e v)"
  unfolding profile_repo_update_def
  by (intro guar_names repo_update_names username_taken_names) (rule update_rows_names)

lemma settings_repo_update_names: "keeps (guar keeps_names) (settings_repo_update zone_ok e v)"
  unfolding settings_repo_update_def
  by (rule repo_update_names)
    (auto simp: update_rows_def Let_def settings_put_names split: option.splits)

lemma profile_provide_names: "keeps (guar keeps_names) (profile_repo_create_default_if_absent u clock)"
  unfolding profile_repo_create_default_if_absent_def repo_create_default_if_absent_def
  by (intro names_rules execute_names) (rule insert_row_names)

lemma settings_provide_names:
  "keeps (guar keeps_names) (settings_repo_create_default_if_absent zone_ok u clock)"
  unfolding settings_repo_create_default_if_absent_def
  by (intro provide_guar keeps_names_reflp keeps_names_transp settings_put_names)

lemma load_change_save_names:
  assumes "\<And>u. keeps (guar keeps_names) (get u)" "\<And>e v. keeps (guar keeps_names) (upd e v)"
  shows "keeps (guar keeps_names) (load_change_save get upd ver missing mismatch change uid expected)"
  by (intro load_change_save_keeps reflp_guar transp_guar keeps_names_reflp keeps_names_transp
      utc_now_names assms)

text \<open>
  C20. Usernames stay unique: whatever a command handler does and however it ends, if the
  usernames were unique and the other sessions keep them so, they are unique in what the
  handler leaves in its transaction. This holds for all five handlers.
\<close>

theorem commands_keep_usernames_unique:
  "keeps (guar keeps_names) (UpdateProfileHandler c1)
   \<and> keeps (guar keeps_names) (UpdateAvatarHandler c2)
   \<and> keeps (guar keeps_names) (UpdateSettingsHandler zone_ok c3)
   \<and> keeps (guar keeps_names) (ResetSettingsHandler zone_ok c4)
   \<and> keeps (guar keeps_names) (CreateDefaultProfileHandler zone_ok c5)"
proof -
  have get: "keeps (guar keeps_names) (profile_repo_get_by_id u)"
    "keeps (guar keeps_names) (settings_repo_get_by_id zone_ok u)" for u
    unfolding profile_repo_get_by_id_def settings_repo_get_by_id_def by (intro names_rules)+
  show ?thesis
    unfolding UpdateProfileHandler_eq UpdateAvatarHandler_eq UpdateSettingsHandler_eq
      ResetSettingsHandler_eq CreateDefaultProfileHandler_def
    by (intro conjI guar_names load_change_save_names get profile_repo_update_names
        settings_repo_update_names profile_provide_names settings_provide_names)
qed

end
