(* ===== verification/Command_Witnesses.thy ===== *)
theory Command_Witnesses
  imports Command_Properties
begin

text \<open>
  Concrete runs of the handlers, evaluated by the simplifier, at which the properties of
  \<open>Command_Properties\<close> apply.
\<close>

named_theorems run_defs

lemmas [run_defs] = begin_state_def fresh_session_def sthen_def require_transaction_def execute_def
  next_event_def advance_def Let_def select_pk_def hydrate_optional_def utc_now_def scatch_def
  repo_get_by_id_def repo_update_def update_rows_def update_hit_def insert_row_def
  repo_create_default_if_absent_def check_all_def apply_changes_def mark_updated_def
  validate_timestamps_def varchar_ok_def text_ok_def storable_char_def bigint_ok_def strip_def
  is_space_def lower_def lower_char_def empty_db_def

lemmas [run_defs] = profile_table_def sample_profile_def profile_row_of_def profile_hydrate_def
  profile_validate_def profile_apply_def profile_dump_def profile_check_def profile_unique_def
  profile_assign_def profile_columns_ok_def profile_dto_def Username_def username_fullmatch_def
  username_char_def RESERVED_USERNAMES_def validate_display_name_def contains_emoji_def
  emoji_char_def validate_bio_def btrim_def status_of_def update_profile_def update_avatar_def
  profile_repo_get_by_id_def profile_repo_update_def profile_repo_create_default_if_absent_def
  profile_create_default_eq DEFAULT_DISPLAY_NAME_def

lemmas [run_defs] = settings_table_def sample_settings_def settings_row_of_def settings_hydrate_def
  settings_validate_def settings_apply_def settings_dump_def settings_check_def settings_assign_def
  settings_columns_ok_def settings_dto_def privacy_check_def privacy_keys_def privacy_dump_def
  privacy_of_def scope_field_def scope_of_def theme_of_def locale_of_def validate_timezone_def
  DEFAULT_TIMEZONE_def update_settings_def reset_to_defaults_def theme_default_def locale_default_def
  settings_repo_get_by_id_def settings_repo_update_def settings_repo_create_default_if_absent_def
  settings_create_default_eq privacy_default_def hidden_privacy_def

lemmas [run_defs] = UpdateProfileHandler_def UpdateAvatarHandler_def UpdateSettingsHandler_def
  ResetSettingsHandler_def CreateDefaultProfileHandler_def merged_privacy_def

definition sample_db :: db where
  "sample_db = \<lparr>profiles = [profile_row_of (sample_profile 1)],
     user_settings = [settings_row_of (sample_settings 1 hidden_privacy)], idempotency_records = []\<rparr>"

definition moscow :: "pystr \<Rightarrow> bool" where
  "moscow z \<longleftrightarrow> z = DEFAULT_TIMEZONE"

text \<open>A session in a transaction; before its first statement another one clears the replay records.\<close>

definition other_commit :: db_event where
  "other_commit =
     Others (\<lambda>d. d\<lparr>idempotency_records := []\<rparr>)"

definition sample_session :: "db \<Rightarrow> db_event list \<Rightarrow> session" where
  "sample_session d evs = begin_state ((fresh_session d evs)\<lparr>ticks := [5]\<rparr>)"

lemmas [run_defs] = sample_db_def sample_session_def other_commit_def moscow_def

lemma sample_rely [simp]:
  "rely profiles_evolve (sample_session d [other_commit])"
  "rely (settings_evolve zone_ok) (sample_session d [other_commit])"
  by (auto simp: rely_def sample_session_def fresh_session_def other_commit_def begin_state_def
      lookup_def table_ok_def profile_table_def settings_table_def intro!: evolves_same)

lemma sample_ok [simp]:
  "profiles_ok (view (sample_session sample_db evs))"
  "settings_ok moscow (view (sample_session sample_db evs))"
  "profiles_ok (view (sample_session empty_db evs))"
  "settings_ok zone_ok (view (sample_session empty_db evs))"
  using profile_hydrate_row [OF sample_profile_valid, of 1]
    settings_hydrate_row [OF sample_settings_valid, of 1 hidden_privacy]
  by (auto simp: table_ok_def sample_session_def begin_state_def fresh_session_def sample_db_def
      empty_db_def profile_table_def settings_table_def moscow_def [abs_def])

lemma run_with_state: "fst p = r \<Longrightarrow> p = (r, snd p)"
  by (metis prod.collapse)

definition sample_update :: UpdateProfileCommand where
  "sample_update = \<lparr>up_user_id = 1, up_expected_version = 1, up_display_name = None,
     up_bio = Some (ustr ''new''), up_username = Some (ustr '' BOB'')\<rparr>"

lemma sample_update_fields:
  "up_user_id sample_update = 1" "up_bio sample_update = Some (ustr ''new'')"
  "up_username sample_update = Some (ustr '' BOB'')" "lower (strip (ustr '' BOB'')) = ustr ''bob''"
  "ustr ''new'' \<noteq> []"
  by (simp_all add: sample_update_def strip_def is_space_def lower_def lower_char_def)

definition sample_avatar :: UpdateAvatarCommand where
  "sample_avatar = \<lparr>ua_user_id = 1, ua_expected_version = 1, ua_avatar_key = None\<rparr>"

definition sample_settings_update :: UpdateSettingsCommand where
  "sample_settings_update = \<lparr>us_user_id = 1, us_expected_version = 1, us_theme = Some DARK, us_locale = None,
     us_timezone = None, us_who_can_see_avatar = None, us_who_can_find_by_username = Some SCOPE_ALL,
     us_who_can_see_bio = None\<rparr>"

definition sample_reset :: ResetSettingsCommand where
  "sample_reset = \<lparr>rs_user_id = 1, rs_expected_version = 1\<rparr>"

definition sample_create :: CreateDefaultProfileCommand where
  "sample_create = \<lparr>cd_user_id = 7, cd_registered_at = 3\<rparr>"

definition updated_profile :: UserProfile where
  "updated_profile = (sample_profile 1)\<lparr>updated_at := Some 5, version := 2, bio := Some (ustr ''new''),
     username := Some (ustr ''bob'')\<rparr>"

lemma sample_runs:
  "fst (UpdateProfileHandler sample_update (sample_session sample_db [other_commit]))
     = Inr (profile_dto updated_profile)"
  "fst (UpdateAvatarHandler sample_avatar (sample_session sample_db [other_commit]))
     = Inr (profile_dto ((sample_profile 1)\<lparr>updated_at := Some 5, version := 2, avatar_key := None\<rparr>))"
  "fst (UpdateSettingsHandler moscow sample_settings_update (sample_session sample_db [other_commit]))
     = Inr (settings_dto ((sample_settings 1 (hidden_privacy\<lparr>who_can_find_by_username := SCOPE_ALL\<rparr>))
         \<lparr>theme := DARK, updated_at := Some 5, version := 2\<rparr>))"
  "fst (ResetSettingsHandler moscow sample_reset (sample_session sample_db [other_commit]))
     = Inr (settings_dto ((sample_settings 1 privacy_default)\<lparr>updated_at := Some 5, version := 2\<rparr>))"
  "fst (CreateDefaultProfileHandler moscow sample_create (sample_session empty_db [other_commit]))
     = Inr ()"
  "fst (CreateDefaultProfileHandler moscow sample_create (sample_session empty_db []))
     = Inr ()"
  by (simp_all add: run_defs sample_update_def updated_profile_def sample_avatar_def sample_settings_update_def
      sample_reset_def sample_create_def)

lemmas sample_run_states = sample_runs [THEN run_with_state]

theorem no_lost_update_witness:
  "profiles_ok (view (snd (UpdateProfileHandler sample_update (sample_session sample_db [other_commit]))))
   \<and> settings_ok moscow (view (snd (UpdateSettingsHandler moscow sample_settings_update
        (sample_session sample_db [other_commit]))))"
  using no_lost_update [OF sample_rely sample_ok(1,2)] sample_run_states(1,3) by blast

lemma sample_fields: "up_user_id sample_update = 1" "ua_user_id sample_avatar = 1" "ua_avatar_key sample_avatar = None"
  "us_user_id sample_settings_update = 1" "us_theme sample_settings_update = Some DARK" "rs_user_id sample_reset = 1"
  by (simp_all add: sample_update_def sample_avatar_def sample_settings_update_def sample_reset_def)

theorem update_effects_witness:
  "(\<exists>p. profile_at (view (snd (UpdateProfileHandler sample_update (sample_session sample_db [other_commit])))) 1
      = Some p \<and> username p = Some (ustr ''bob'') \<and> bio p = Some (ustr ''new''))
   \<and> (\<exists>p. profile_at (view (snd (UpdateAvatarHandler sample_avatar (sample_session sample_db [other_commit])))) 1
      = Some p \<and> avatar_key p = None)
   \<and> (\<exists>p. settings_at moscow (view (snd (UpdateSettingsHandler moscow sample_settings_update
        (sample_session sample_db [other_commit])))) 1 = Some p \<and> theme p = DARK)
   \<and> (\<exists>p. settings_at moscow (view (snd (ResetSettingsHandler moscow sample_reset
        (sample_session sample_db [other_commit])))) 1 = Some p \<and> privacy p = privacy_default)"
proof -
  note effects = update_effects [OF sample_rely sample_ok(1,2)]
  from effects [THEN conjunct1, rule_format, OF sample_run_states(1)]
    effects [THEN conjunct2, THEN conjunct1, rule_format, OF sample_run_states(2)]
    effects [THEN conjunct2, THEN conjunct2, THEN conjunct1, rule_format, OF sample_run_states(3)]
    effects [THEN conjunct2, THEN conjunct2, THEN conjunct2, rule_format, OF sample_run_states(4)]
  show ?thesis by (auto simp: sample_fields sample_update_fields privacy_default_def simp del: ustr_Cons)
qed

theorem create_default_provisioning_witness:
  "profile_at (view (snd (CreateDefaultProfileHandler moscow sample_create
      (sample_session empty_db [other_commit])))) 7 \<noteq> None
   \<and> (\<exists>p. profile_at (view (snd (CreateDefaultProfileHandler moscow sample_create
      (sample_session empty_db [])))) 7 = Some p \<and> created_at p = 3)"
proof -
  have quiet: "script (sample_session empty_db []) = []" "profile_at (view (sample_session empty_db [])) 7 = None"
    "rely profiles_evolve (sample_session empty_db [])" "rely (settings_evolve moscow) (sample_session empty_db [])"
    by (simp_all add: run_defs lookup_def rely_def)
  from create_default_provisioning [OF sample_run_states(5)]
    create_default_provisioning [OF sample_run_states(6) quiet(3,4)] quiet(1,2)
  show ?thesis by (auto simp: sample_create_def profile_create_default_eq)
qed

end
