(* ===== verification/Query_Properties.thy ===== *)
theory Query_Properties
  imports Queries Usernames Command_Witnesses
begin

text \<open>
  What the query handlers return, in terms of the contents of the database.
\<close>

section \<open>Batches\<close>

lemma evolves_ok: "rely (evolves ok look ver created) s \<Longrightarrow> ok (view s) \<Longrightarrow> reads s t \<Longrightarrow> ok (view t)"
  unfolding reads_def
  by (auto dest: rely_view [OF _ evolves_reflp evolves_transp, where d = "view s"] simp: evolves_def)

lemma batch_dictionary:
  fixes s t :: session
  assumes "reader_get_batch profile_table us s = (Inr es, t)" "profiles_ok (view t)"
  shows "by_id es = (\<lambda>u. if u \<in> set us then profile_at (view t) u else None)"
    and "distinct (map entity_id es)" "entity_id ` set es \<subseteq> set us"
  using profiles_reader.batch_sees [OF assms] profiles_reader.look_sound [OF assms(2)]
    by_id_batch [of es us "profile_at (view t)"] by auto

lemma settings_batch_dictionary:
  fixes s t :: session
  assumes "reader_get_batch (settings_table zone_ok) us s = (Inr es, t)" "settings_ok zone_ok (view t)"
  shows "by_id es = (\<lambda>u. if u \<in> set us then settings_at zone_ok (view t) u else None)"
    and "distinct (map entity_id es)" "entity_id ` set es \<subseteq> set us"
  using settings_reader.batch_sees [OF assms] settings_reader.look_sound [OF assms(2)]
    by_id_batch [of es us "settings_at zone_ok (view t)"] by auto

text \<open>The shortcut of the handler selects the same identifiers as its filter.\<close>

lemma found_user_ids:
  assumes "distinct us" "distinct (map entity_id es)" "entity_id ` set es \<subseteq> set us"
  shows "(if length es = length us then us else filter (\<lambda>u. by_id es u \<noteq> None) us)
    = filter (\<lambda>u. by_id es u \<noteq> None) us"
proof (cases "length es = length us")
  case True
  with batch_complete [OF assms] have "\<forall>u \<in> set us. by_id es u \<noteq> None"
    by (simp add: by_id_None)
  with True show ?thesis by simp
qed simp

text \<open>
  C22. The batch query returns, for the requested identifiers that have a profile and in the
  requested order, exactly the read models the privacy policy allows: the shortcut for a full
  hit, the dictionaries and the two statements change nothing about that, and the query
  writes nothing. (A profile without settings is an error, never a profile without privacy.)
\<close>

theorem get_batch_exact:
  assumes run: "GetBatchProfilesHandler zone_ok q s = (Inr dtos, t)"
    and dist: "distinct (gb_user_ids q)"
    and rely: "rely profiles_evolve s" "rely (settings_evolve zone_ok) s"
    and ok: "profiles_ok (view s)" "settings_ok zone_ok (view s)"
  shows "\<exists>t1. reads s t1 \<and> reads t1 t
    \<and> (let present = filter (\<lambda>u. profile_at (view t1) u \<noteq> None) (gb_user_ids q) in
       (\<forall>u \<in> set present. settings_at zone_ok (view t) u \<noteq> None)
       \<and> dtos = map (\<lambda>u. from_domain_with_policy (the (profile_at (view t1) u))
           (the (settings_at zone_ok (view t) u)) (gb_viewer_id q)) present)"
proof -
  let ?us = "gb_user_ids q"
  from run obtain es t1 where 1: "reader_get_batch profile_table ?us s = (Inr es, t1)" and
    rest: "(if es = [] then sret []
       else (let profiles_by_id = by_id es;
            found_user_ids = (if length es = length ?us then ?us
               else filter (\<lambda>uid. profiles_by_id uid \<noteq> None) ?us) in
        sthen (reader_get_batch (settings_table zone_ok) found_user_ids) (\<lambda>settings_list.
        let settings_by_id = by_id settings_list in
        if length (remdups (map entity_id settings_list)) \<noteq> length found_user_ids
          then sraise (settings_error UserSettingsNotFoundError)
        else slift (public_profiles profiles_by_id settings_by_id (gb_viewer_id q) found_user_ids)))) t1
      = (Inr dtos, t)"
    unfolding GetBatchProfilesHandler_def sthen_eq_Inr by blast
  have r1: "reads s t1" using 1 by (rule reader_batch_reads)
  have ok1: "profiles_ok (view t1)" "settings_ok zone_ok (view t1)"
    using evolves_ok rely ok r1 by blast+
  note d1 = batch_dictionary [OF 1 ok1(1)]
  let ?present = "filter (\<lambda>u. profile_at (view t1) u \<noteq> None) ?us"
  have present: "filter (\<lambda>u. by_id es u \<noteq> None) ?us = ?present"
    by (auto simp: d1(1) intro: filter_cong)
  show ?thesis
  proof (cases "es = []")
    case True
    with rest have "dtos = []" "t = t1" by simp_all
    moreover from True present have "?present = []" by (auto simp: by_id_def filter_empty_conv)
    ultimately show ?thesis using r1 by (intro exI [of _ t1]) (simp add: Let_def)
  next
    case False
    with rest found_user_ids [OF dist d1(2,3)] present obtain ss where
      2: "reader_get_batch (settings_table zone_ok) ?present t1 = (Inr ss, t)" and
      len: "length (remdups (map entity_id ss)) = length ?present" and
      out: "public_profiles (by_id es) (by_id ss) (gb_viewer_id q) ?present = Inr dtos"
      by (auto simp: Let_def sthen_eq_Inr split: if_splits)
    have r2: "reads t1 t" using 2 by (rule reader_batch_reads)
    have ok2: "settings_ok zone_ok (view t)"
      using evolves_ok [OF rely_reads [OF rely(2) r1] ok1(2) r2] .
    note d2 = settings_batch_dictionary [OF 2 ok2]
    have "length ss = length ?present" using len d2(2) by (simp add: distinct_remdups_id)
    with batch_complete [OF _ d2(2,3)] dist have "entity_id ` set ss = set ?present" by simp
    then have all: "\<forall>u \<in> set ?present. by_id ss u \<noteq> None" by (simp add: by_id_None)
    then have settings: "\<forall>u \<in> set ?present. by_id ss u = settings_at zone_ok (view t) u"
      by (simp add: d2(1))
    have profiles: "\<forall>u \<in> set ?present. by_id es u = profile_at (view t1) u \<and> by_id es u \<noteq> None"
      by (simp add: d1(1))
    with all out have "dtos = map (\<lambda>u. from_domain_with_policy (the (by_id es u)) (the (by_id ss u))
        (gb_viewer_id q)) ?present"
      by (subst (asm) public_profiles_eq) auto
    also have "\<dots> = map (\<lambda>u. from_domain_with_policy (the (profile_at (view t1) u))
        (the (settings_at zone_ok (view t) u)) (gb_viewer_id q)) ?present"
      using settings profiles by (intro map_cong) auto
    finally show ?thesis
      using r1 r2 all settings by (intro exI [of _ t1]) (simp add: Let_def)
  qed
qed

section \<open>Search\<close>

text \<open>A session on which nothing fails and no other session works.\<close>

definition quiet :: "session \<Rightarrow> bool" where
  "quiet s \<longleftrightarrow> script s = [] \<and> \<not> aborted s"

lemma execute_quiet:
  "quiet s \<Longrightarrow> execute stmt s =
     (case stmt (view s) of
        (Inl e, _) \<Rightarrow> (Inl (SqlError e), s\<lparr>in_transaction := True, aborted := True\<rparr>)
      | (Inr r, d) \<Rightarrow> (Inr r, s\<lparr>in_transaction := True, view := d\<rparr>))"
  by (cases s) (auto simp: quiet_def execute_def next_event_def advance_def Let_def
      split: prod.split sum.split)

lemma quiet_moves [simp]:
  "quiet s \<Longrightarrow> quiet (s\<lparr>in_transaction := b, view := d\<rparr>)" "quiet s \<Longrightarrow> quiet (s\<lparr>in_transaction := b\<rparr>)"
  by (simp_all add: quiet_def)

lemma reader_get_quiet:
  assumes "quiet s"
  shows "reader_get_by_id tb u s =
    (rthen (one_or_none (filter (\<lambda>r. t_pk tb r = u) (t_get tb (view s)))) (hydrate_optional tb),
     s\<lparr>in_transaction := True, view := view s\<rparr>)"
  using assms by (simp add: reader_get_by_id_def sthen_def execute_quiet select_pk_def)

text \<open>The profile with a given username.\<close>

definition profile_named :: "db \<Rightarrow> pystr \<Rightarrow> UserProfile option" where
  "profile_named d u =
     (case filter (\<lambda>r. col_username r = Some u) (profiles d) of
        [] \<Rightarrow> None
      | r # _ \<Rightarrow> (case profile_hydrate r of Inl _ \<Rightarrow> None | Inr e \<Rightarrow> Some e))"

lemma named_at_most_one:
  assumes "names_ok d"
  shows "length (filter (\<lambda>r. col_username r = Some u) (profiles d)) \<le> 1"
proof (rule ccontr)
  let ?rows = "filter (\<lambda>r. col_username r = Some u) (profiles d)"
  assume "\<not> length ?rows \<le> 1"
  then obtain r r' rest where rows: "?rows = r # r' # rest"
    by (cases ?rows; cases "tl ?rows") auto
  then have "r \<in> set ?rows" "r' \<in> set ?rows" by simp_all
  then have "col_user_id r = col_user_id r'"
    using assms unfolding names_ok_def by auto
  moreover have "distinct (map col_user_id ?rows)"
    using assms by (simp add: names_ok_def distinct_map_filter)
  ultimately show False by (simp add: rows)
qed

lemma named_row:
  assumes "names_ok d" "profiles_ok d"
  shows "rthen (one_or_none (filter (\<lambda>r. col_username r = Some u) (profiles d)))
    (hydrate_optional profile_table) = Inr (profile_named d u)"
proof (cases "filter (\<lambda>r. col_username r = Some u) (profiles d)")
  case Nil
  then show ?thesis by (simp add: profile_named_def hydrate_optional_def)
next
  case (Cons r rest)
  with named_at_most_one [OF assms(1), of u] have rows: "filter (\<lambda>r. col_username r = Some u) (profiles d) = [r]"
    by simp
  then have "r \<in> set (filter (\<lambda>r. col_username r = Some u) (profiles d))" by simp
  then have "r \<in> set (profiles d)" by simp
  with assms(2) obtain e where "profile_hydrate r = Inr e"
    by (auto simp: table_ok_def profile_table_def list_all_iff)
  with rows show ?thesis
    by (simp add: profile_named_def hydrate_optional_def profile_table_def)
qed

lemma reader_username_quiet:
  assumes "quiet s" "Username (PyStr value) = Inr u" "names_ok (view s)" "profiles_ok (view s)"
  shows "reader_get_by_username value s =
    (Inr (profile_named (view s) u), s\<lparr>in_transaction := True, view := view s\<rparr>)"
  using assms named_row [OF assms(3,4), of u]
  by (simp add: reader_get_by_username_def sthen_def execute_quiet select_username_def)

text \<open>What the search promises, over the contents of the database.\<close>

definition search_spec ::
  "(pystr \<Rightarrow> bool) \<Rightarrow> db \<Rightarrow> SearchByUsernameQuery \<Rightarrow> PublicProfileDTO result" where
  "search_spec zone_ok d query =
     rthen (Username (PyStr (su_username query))) (\<lambda>name.
     case profile_named d name of
       None \<Rightarrow> Inl (profile_error UserProfileNotFoundError)
     | Some p \<Rightarrow>
         (case settings_at zone_ok d (entity_id p) of
            None \<Rightarrow> Inl (settings_error UserSettingsNotFoundError)
          | Some s \<Rightarrow>
              if permits (su_viewer_id query) (entity_id p) (who_can_find_by_username (privacy s))
                then Inr (from_domain_with_policy p s (su_viewer_id query))
              else Inl (profile_error UserProfileNotFoundError)))"

lemma search_quiet:
  assumes "quiet s" "names_ok (view s)" "profiles_ok (view s)" "settings_ok zone_ok (view s)"
  shows "fst (SearchByUsernameHandler zone_ok q s) = search_spec zone_ok (view s) q"
proof (cases "Username (PyStr (su_username q))")
  case (Inl e)
  then show ?thesis by (simp add: SearchByUsernameHandler_def search_spec_def sthen_def)
next
  case (Inr u)
  then have "Username (PyStr u) = Inr u" using Username_valid by simp
  note name = reader_username_quiet [OF assms(1) this assms(2,3)]
  show ?thesis
    using Inr assms
    by (simp add: SearchByUsernameHandler_def search_spec_def sthen_def name reader_get_quiet policy_permits
        settings_adapter.one_row split: option.split)
qed

text \<open>
  C21. The search by username, exactly: with nothing else going on, the outcome is that of
  the specification over the contents: the normalized username is looked up, and the profile
  is shown, through the privacy policy, only to those who may find it by its username.
\<close>

theorem search_exact:
  assumes "quiet s" "names_ok (view s)" "profiles_ok (view s)" "settings_ok zone_ok (view s)"
  shows "fst (SearchByUsernameHandler zone_ok q s) = search_spec zone_ok (view s) q"
  using assms by (rule search_quiet)

lemma names_ok_sublist:
  "names_ok d \<Longrightarrow> names_ok (d\<lparr>profiles := filter P (profiles d)\<rparr>)"
  unfolding names_ok_def by (simp add: distinct_map_filter) blast

lemma profiles_ok_sublist:
  "profiles_ok d \<Longrightarrow> profiles_ok (d\<lparr>profiles := filter P (profiles d)\<rparr>)"
  by (auto simp: table_ok_def profile_table_def distinct_map_filter list_all_iff)

lemma profile_named_row:
  assumes "profile_named d u = Some p"
  obtains rest r where "filter (\<lambda>r. col_username r = Some u) (profiles d) = r # rest"
    "col_user_id r = entity_id p"
  using assms profile_hydrate_base
  by (auto simp: profile_named_def split: list.splits sum.splits)

text \<open>
  C9. A hidden username and an absent one look the same: if the viewer may not find the
  profile by its username, the search answers exactly as it would if the profile were not
  there at all.
\<close>

theorem hidden_username_is_absent:
  assumes "quiet s" "names_ok (view s)" "profiles_ok (view s)" "settings_ok zone_ok (view s)"
    and "Username (PyStr (su_username q)) = Inr name" "profile_named (view s) name = Some p"
    and "settings_at zone_ok (view s) (entity_id p) = Some st"
    and "\<not> permits (su_viewer_id q) (entity_id p) (who_can_find_by_username (privacy st))"
  shows "fst (SearchByUsernameHandler zone_ok q s) =
    fst (SearchByUsernameHandler zone_ok q (s\<lparr>view := (view s)
      \<lparr>profiles := filter (\<lambda>r. col_user_id r \<noteq> entity_id p) (profiles (view s))\<rparr>\<rparr>))"
proof -
  let ?d = "(view s)\<lparr>profiles := filter (\<lambda>r. col_user_id r \<noteq> entity_id p) (profiles (view s))\<rparr>"
  have q: "quiet (s\<lparr>view := ?d\<rparr>)" using assms(1) by (simp add: quiet_def)
  have "settings_ok zone_ok ?d" using assms(4) by (simp add: table_ok_def settings_table_def)
  with search_quiet [OF q] names_ok_sublist [OF assms(2)] profiles_ok_sublist [OF assms(3)]
  have "fst (SearchByUsernameHandler zone_ok q (s\<lparr>view := ?d\<rparr>)) = search_spec zone_ok ?d q"
    by simp
  moreover have "profile_named ?d name = None"
  proof -
    from assms(6) obtain rest r where rows: "filter (\<lambda>r. col_username r = Some name) (profiles (view s)) = r # rest"
      and r: "col_user_id r = entity_id p" by (rule profile_named_row)
    with named_at_most_one [OF assms(2), of name]
    have one: "filter (\<lambda>r. col_username r = Some name) (profiles (view s)) = [r]" by simp
    have "filter (\<lambda>r. col_username r = Some name) (profiles ?d) =
        filter (\<lambda>r. col_user_id r \<noteq> entity_id p) (filter (\<lambda>r. col_username r = Some name) (profiles (view s)))"
      by (simp add: conj_commute)
    with one r show ?thesis by (simp add: profile_named_def)
  qed
  ultimately show ?thesis
    using search_quiet [OF assms(1-4)] assms(5-8) by (simp add: search_spec_def)
qed

section \<open>Witnesses\<close>

definition reading_session :: "db \<Rightarrow> session" where
  "reading_session d = fresh_session d []"

lemma reading_session_ok [simp]:
  "quiet (reading_session d)" "view (reading_session d) = d"
  "profiles_ok sample_db" "settings_ok moscow sample_db" "names_ok sample_db"
proof -
  show "profiles_ok sample_db" "settings_ok moscow sample_db"
    using sample_ok(1,2) by (simp_all add: sample_session_def begin_state_def fresh_session_def)
qed (simp_all add: reading_session_def quiet_def fresh_session_def names_ok_def sample_db_def)

definition sample_search :: "pystr \<Rightarrow> uuid option \<Rightarrow> SearchByUsernameQuery" where
  "sample_search name viewer = \<lparr>su_username = name, su_viewer_id = viewer\<rparr>"

lemma sample_rows:
  "scol_user_id (settings_row_of (sample_settings u p)) = u" "col_user_id (profile_row_of (sample_profile u)) = u"
  "entity_id (sample_profile u) = u" "entity_id (sample_settings u p) = u"
  by (simp_all add: settings_row_of_def sample_settings_def profile_row_of_def sample_profile_def)

lemma sample_lookup:
  "Username (PyStr (ustr ''alice'')) = Inr (ustr ''alice'')"
  "profile_named sample_db (ustr ''alice'') = Some (sample_profile 1)"
  "settings_at moscow sample_db 1 = Some (sample_settings 1 hidden_privacy)"
proof -
  have s: "settings_hydrate moscow (settings_row_of (sample_settings 1 hidden_privacy))
      = Inr (sample_settings 1 hidden_privacy)"
    using settings_hydrate_row [OF sample_settings_valid] by (simp add: moscow_def [abs_def])
  then show "settings_at moscow sample_db 1 = Some (sample_settings 1 hidden_privacy)"
    using sample_rows by (simp add: lookup_def settings_table_def sample_db_def)
  have "col_username (profile_row_of (sample_profile 1)) = Some (ustr ''alice'')"
    by (simp add: profile_row_of_def sample_profile_def)
  then show "profile_named sample_db (ustr ''alice'') = Some (sample_profile 1)"
    by (simp add: profile_named_def sample_db_def profile_hydrate_row del: ustr_Cons)
qed (simp add: Username_def strip_def is_space_def lower_def lower_char_def username_fullmatch_def
    username_char_def RESERVED_USERNAMES_def)

theorem search_exact_witness:
  "fst (SearchByUsernameHandler moscow (sample_search (ustr ''alice'') (Some 1)) (reading_session sample_db))
   = Inr (from_domain_with_policy (sample_profile 1) (sample_settings 1 hidden_privacy) (Some 1))"
  using search_exact [of "reading_session sample_db" moscow "sample_search (ustr ''alice'') (Some 1)"]
    sample_lookup
  by (simp add: search_spec_def permits_def sample_search_def sample_profile_def del: ustr_Cons)

theorem hidden_username_is_absent_witness:
  "fst (SearchByUsernameHandler moscow (sample_search (ustr ''alice'') (Some 2)) (reading_session sample_db))
   = fst (SearchByUsernameHandler moscow (sample_search (ustr ''alice'') (Some 2))
      ((reading_session sample_db)\<lparr>view := sample_db
        \<lparr>profiles := filter (\<lambda>r. col_user_id r \<noteq> 1) (profiles sample_db)\<rparr>\<rparr>))"
proof -
  have "entity_id (sample_profile 1) = 1" by (simp add: sample_profile_def)
  then show ?thesis
    using hidden_username_is_absent [of "reading_session sample_db" moscow
        "sample_search (ustr ''alice'') (Some 2)" "ustr ''alice''" "sample_profile 1"
        "sample_settings 1 hidden_privacy"] sample_lookup
    by (simp add: sample_search_def permits_def sample_settings_def hidden_privacy_def
        del: ustr_Cons)
qed

definition sample_batch :: GetBatchProfilesQuery where
  "sample_batch = \<lparr>gb_user_ids = [9, 1], gb_viewer_id = Some 2\<rparr>"

lemma batch_quiet:
  "quiet s \<Longrightarrow> us \<noteq> [] \<Longrightarrow> reader_get_batch tb us s =
     (hydrate_all (t_hydrate tb) (filter (\<lambda>r. t_pk tb r \<in> set us) (t_get tb (view s))),
      s\<lparr>in_transaction := True\<rparr>)"
  by (simp add: reader_get_batch_def sthen_def execute_quiet select_in_def)

lemma sample_batches:
  "quiet s \<Longrightarrow> view s = sample_db \<Longrightarrow> 1 \<in> set us \<Longrightarrow>
   reader_get_batch profile_table us s = (Inr [sample_profile 1], s\<lparr>in_transaction := True\<rparr>)"
  "quiet s \<Longrightarrow> view s = sample_db \<Longrightarrow> 1 \<in> set us \<Longrightarrow>
   reader_get_batch (settings_table moscow) us s
     = (Inr [sample_settings 1 hidden_privacy], s\<lparr>in_transaction := True\<rparr>)"
  using profile_hydrate_row [OF sample_profile_valid] settings_hydrate_row [OF sample_settings_valid, of 1]
  by (subst batch_quiet; force simp: profile_table_def settings_table_def sample_db_def sample_rows
      moscow_def [abs_def])+

lemma sample_batch_run:
  "fst (GetBatchProfilesHandler moscow sample_batch (reading_session sample_db)) =
     Inr [from_domain_with_policy (sample_profile 1) (sample_settings 1 hidden_privacy) (Some 2)]"
  by (simp add: GetBatchProfilesHandler_def sample_batch_def sthen_def sample_batches by_id_def
      sample_rows Let_def)

theorem get_batch_exact_witness:
  "\<exists>(t1 :: session) t. GetBatchProfilesHandler moscow sample_batch (reading_session sample_db) =
      (Inr [from_domain_with_policy (sample_profile 1) (sample_settings 1 hidden_privacy) (Some 2)], t)
   \<and> length (filter (\<lambda>u. profile_at (view t1) u \<noteq> None) [9, 1]) = 1"
proof -
  let ?s = "reading_session sample_db"
  have ids: "gb_user_ids sample_batch = [9, 1]" by (simp add: sample_batch_def)
  then have dist: "distinct (gb_user_ids sample_batch)" by simp
  have rely: "rely profiles_evolve ?s" "rely (settings_evolve moscow) ?s"
    by (simp_all add: rely_def reading_session_def fresh_session_def)
  have ok: "profiles_ok (view ?s)" "settings_ok moscow (view ?s)" by simp_all
  from get_batch_exact [OF run_with_state [OF sample_batch_run] dist rely ok]
  show ?thesis
    unfolding Let_def ids
  proof (elim exE conjE)
    fix t1 :: session
    assume "[from_domain_with_policy (sample_profile 1) (sample_settings 1 hidden_privacy) (Some 2)]
      = map (\<lambda>u. from_domain_with_policy (the (profile_at (view t1) u))
          (the (settings_at moscow (view (snd (GetBatchProfilesHandler moscow sample_batch ?s))) u))
          (gb_viewer_id sample_batch)) (filter (\<lambda>u. profile_at (view t1) u \<noteq> None) [9, 1])"
    from arg_cong [OF this, of length]
    have "length (filter (\<lambda>u. profile_at (view t1) u \<noteq> None) [9, 1]) = 1" by simp
    with run_with_state [OF sample_batch_run] show ?thesis by blast
  qed
qed

end
