(* ===== verification/Encodings.thy ===== *)
theory Encodings
  imports Idem_Models
begin

text \<open>
  The text and byte encodings of Python's standard library that the idempotency layer
  uses: \<open>bytes.hex\<close> and \<open>bytes.fromhex\<close>, \<open>str(UUID)\<close>, \<open>str.encode("utf-8")\<close> and
  \<open>bytes.decode("utf-8")\<close>, with their round trips.
\<close>

section \<open>Hexadecimal text\<close>

definition hex_digit :: "nat \<Rightarrow> nat" where
  "hex_digit n = (if n < 10 then 48 + n else 87 + n)"

text \<open>\<open>k\<close> digits of \<open>n\<close>.\<close>

fun hex_digits :: "nat \<Rightarrow> nat \<Rightarrow> pystr" where
  "hex_digits 0 n = []"
| "hex_digits (Suc k) n = hex_digits k (n div 16) @ [hex_digit (n mod 16)]"

definition hex_value :: "nat \<Rightarrow> nat option" where
  "hex_value c =
     (if 48 \<le> c \<and> c \<le> 57 then Some (c - 48)
      else if 97 \<le> c \<and> c \<le> 102 then Some (c - 87)
      else if 65 \<le> c \<and> c \<le> 70 then Some (c - 55)
      else None)"

lemma hex_value_digit [simp]: "n < 16 \<Longrightarrow> hex_value (hex_digit n) = Some n"
  by (auto simp: hex_value_def hex_digit_def)

lemma length_hex_digits [simp]: "length (hex_digits k n) = k"
  by (induction k arbitrary: n) simp_all

lemma hex_digit_inject: "m < 16 \<Longrightarrow> n < 16 \<Longrightarrow> hex_digit m = hex_digit n \<longleftrightarrow> m = n"
  by (metis hex_value_digit option.inject)

lemma hex_digits_inject:
  "m < 16 ^ k \<Longrightarrow> n < 16 ^ k \<Longrightarrow> hex_digits k m = hex_digits k n \<longleftrightarrow> m = n"
proof (induction k arbitrary: m n)
  case (Suc k)
  then have "hex_digits k (m div 16) = hex_digits k (n div 16) \<longleftrightarrow> m div 16 = n div 16"
    by (simp add: less_mult_imp_div_less mult.commute)
  moreover have "m = n \<longleftrightarrow> m div 16 = n div 16 \<and> m mod 16 = n mod 16"
    by (metis div_mult_mod_eq)
  ultimately show ?case by (simp add: hex_digit_inject)
qed simp

definition hex_of_byte :: "8 word \<Rightarrow> pystr" where
  "hex_of_byte b = hex_digits 2 (unat b)"

definition hex :: "bytes \<Rightarrow> pystr" where
  "hex bs = concat (map hex_of_byte bs)"

definition ascii_space :: "nat \<Rightarrow> bool" where
  "ascii_space c \<longleftrightarrow> (9 \<le> c \<and> c \<le> 13) \<or> c = 32"

text \<open>\<open>bytes.fromhex\<close> skips white space between two bytes; otherwise it raises \<open>ValueError\<close>.\<close>

fun fromhex :: "pystr \<Rightarrow> bytes result" where
  "fromhex [] = Inr []"
| "fromhex (c # cs) =
     (if ascii_space c then fromhex cs
      else (case cs of
         [] \<Rightarrow> Inl ValueError
       | d # ds \<Rightarrow>
           (case (hex_value c, hex_value d) of
              (Some x, Some y) \<Rightarrow> rthen (fromhex ds) (\<lambda>bs. Inr (word_of_nat (16 * x + y) # bs))
            | _ \<Rightarrow> Inl ValueError)))"

lemma hex_of_byte_eq:
  "hex_of_byte b = [hex_digit (unat b div 16), hex_digit (unat b mod 16)]" (is "_ = [hex_digit ?h, hex_digit ?l]")
  "unat b div 16 < 16"
proof -
  have "unat b < 256" using unsigned_less [of b] by simp
  then show "unat b div 16 < 16" by simp
  then show "hex_of_byte b = [hex_digit ?h, hex_digit ?l]"
    by (simp add: hex_of_byte_def numeral_2_eq_2)
qed

lemma hex_simps [simp]: "hex [] = []" "hex (b # bs) = hex_of_byte b @ hex bs"
  by (simp_all add: hex_def)

lemma hex_digit_not_space: "\<not> ascii_space (hex_digit n)"
  by (simp add: ascii_space_def hex_digit_def)

lemma fromhex_hex [simp]: "fromhex (hex bs) = Inr bs"
proof (induction bs)
  case (Cons b bs)
  have "word_of_nat (16 * (unat b div 16) + unat b mod 16) = b" by simp
  with Cons show ?case by (simp add: hex_of_byte_eq hex_digit_not_space)
qed simp

lemma hex_inject [simp]: "hex xs = hex ys \<longleftrightarrow> xs = ys"
  by (metis fromhex_hex sum.inject(2))

section \<open>The text of a UUID\<close>

definition str_uuid :: "uuid \<Rightarrow> pystr" where
  "str_uuid u =
     (let ds = hex_digits 32 (unat u); dash = [45 :: nat] in
      take 8 ds @ dash @ take 4 (drop 8 ds) @ dash @ take 4 (drop 12 ds) @ dash
      @ take 4 (drop 16 ds) @ dash @ drop 20 ds)"

lemma str_uuid_inject [simp]: "str_uuid u = str_uuid v \<longleftrightarrow> u = v"
proof
  let ?d = "hex_digits 32 (unat u)" and ?e = "hex_digits 32 (unat v)"
  assume "str_uuid u = str_uuid v"
  then have parts: "take 8 ?d = take 8 ?e" "take 4 (drop 8 ?d) = take 4 (drop 8 ?e)"
    "take 4 (drop 12 ?d) = take 4 (drop 12 ?e)" "take 4 (drop 16 ?d) = take 4 (drop 16 ?e)"
    "drop 20 ?d = drop 20 ?e"
    by (simp_all add: str_uuid_def Let_def)
  have glue: "xs = take 8 xs @ take 4 (drop 8 xs) @ take 4 (drop 12 xs) @ take 4 (drop 16 xs) @ drop 20 xs"
    for xs :: pystr
    using append_take_drop_id [of 8 xs] append_take_drop_id [of 4 "drop 8 xs"]
      append_take_drop_id [of 4 "drop 12 xs"] append_take_drop_id [of 4 "drop 16 xs"]
    by (simp only: drop_drop) simp
  have "?d = ?e" by (metis glue parts)
  moreover have "unat u < 16 ^ 32" "unat v < 16 ^ 32"
    using unsigned_less [of u] unsigned_less [of v] by simp_all
  ultimately have "unat u = unat v" using hex_digits_inject by blast
  then show "u = v" by (rule unsigned_word_eqI)
qed simp

section \<open>UTF-8\<close>

text \<open>
  A surrogate has no encoding (\<open>UnicodeEncodeError\<close>, a \<open>ValueError\<close>), and no code point is above
  \<open>0x10FFFF\<close>. The decoder is strict: shortest forms only, no surrogates.
\<close>

definition utf8_char :: "nat \<Rightarrow> nat list option" where
  "utf8_char c =
     (if c < 128 then Some [c]
      else if c < 2048 then Some [192 + c div 64, 128 + c mod 64]
      else if 55296 \<le> c \<and> c \<le> 57343 then None
      else if c < 65536 then Some [224 + c div 4096, 128 + c div 64 mod 64, 128 + c mod 64]
      else if c < 1114112 then
        Some [240 + c div 262144, 128 + c div 4096 mod 64, 128 + c div 64 mod 64, 128 + c mod 64]
      else None)"

fun utf8_points :: "pystr \<Rightarrow> nat list result" where
  "utf8_points [] = Inr []"
| "utf8_points (c # cs) =
     (case utf8_char c of
        None \<Rightarrow> Inl ValueError
      | Some b \<Rightarrow> rthen (utf8_points cs) (\<lambda>bs. Inr (b @ bs)))"

definition utf8_encode :: "pystr \<Rightarrow> bytes result" where
  "utf8_encode s = rthen (utf8_points s) (\<lambda>bs. Inr (map word_of_nat bs))"

text \<open>Continuation bytes, most significant first.\<close>

definition is_cont :: "nat \<Rightarrow> bool" where
  "is_cont b \<longleftrightarrow> 128 \<le> b \<and> b < 192"

definition utf8_next :: "nat list \<Rightarrow> (nat \<times> nat list) option" where
  "utf8_next bs =
     (case bs of
        [] \<Rightarrow> None
      | b # r \<Rightarrow>
          if b < 128 then Some (b, r)
          else if 194 \<le> b \<and> b < 224 then
            (case r of c1 # r \<Rightarrow> if is_cont c1 then Some ((b - 192) * 64 + (c1 - 128), r) else None
             | _ \<Rightarrow> None)
          else if 224 \<le> b \<and> b < 240 then
            (case r of c1 # c2 # r \<Rightarrow>
               let p = (b - 224) * 4096 + (c1 - 128) * 64 + (c2 - 128) in
               if is_cont c1 \<and> is_cont c2 \<and> 2048 \<le> p \<and> \<not> (55296 \<le> p \<and> p \<le> 57343) then Some (p, r) else None
             | _ \<Rightarrow> None)
          else if 240 \<le> b \<and> b < 245 then
            (case r of c1 # c2 # c3 # r \<Rightarrow>
               let p = (b - 240) * 262144 + (c1 - 128) * 4096 + (c2 - 128) * 64 + (c3 - 128) in
               if is_cont c1 \<and> is_cont c2 \<and> is_cont c3 \<and> 65536 \<le> p \<and> p < 1114112 then Some (p, r) else None
             | _ \<Rightarrow> None)
          else None)"

lemma utf8_next_shorter: "utf8_next bs = Some (c, r) \<Longrightarrow> length r < length bs"
  by (auto simp: utf8_next_def Let_def split: list.splits if_splits)

function utf8_scan :: "nat list \<Rightarrow> pystr result" where
  "utf8_scan bs =
     (if bs = [] then Inr []
      else (case utf8_next bs of
         None \<Rightarrow> Inl ValueError
       | Some (c, r) \<Rightarrow> rthen (utf8_scan r) (\<lambda>s. Inr (c # s))))"
  by pat_completeness auto

termination
  by (relation "measure length") (auto dest: utf8_next_shorter)

declare utf8_scan.simps [simp del]

definition utf8_decode :: "bytes \<Rightarrow> pystr result" where
  "utf8_decode bs = utf8_scan (map unat bs)"

lemma utf8_next_char: "utf8_char c = Some b \<Longrightarrow> utf8_next (b @ r) = Some (c, r)"
proof -
  have two: "c div 64 * 64 + c mod 64 = c" by simp
  have q: "c div 64 div 64 = c div 4096" "c div 4096 div 64 = c div 262144"
    by (simp_all flip: div_mult2_eq)
  have three: "c div 4096 * 4096 + c div 64 mod 64 * 64 + c mod 64 = c"
    using two div_mult_mod_eq [of "c div 64" 64] q(1) by linarith
  have four: "c div 262144 * 262144 + c div 4096 mod 64 * 4096 + c div 64 mod 64 * 64 + c mod 64 = c"
    using three div_mult_mod_eq [of "c div 4096" 64] q(2) by linarith
  assume "utf8_char c = Some b"
  then show ?thesis
    using two three four
    by (auto simp: utf8_char_def utf8_next_def is_cont_def Let_def split: if_splits)
qed

lemma utf8_char_bytes: "utf8_char c = Some b \<Longrightarrow> b \<noteq> [] \<and> (\<forall>x\<in>set b. x < 256)"
  by (auto simp: utf8_char_def split: if_splits)

lemma utf8_scan_points: "utf8_points s = Inr bs \<Longrightarrow> utf8_scan bs = Inr s"
proof (induction s arbitrary: bs)
  case (Cons c s)
  then obtain b r where "utf8_char c = Some b" "utf8_points s = Inr r" "bs = b @ r"
    by (auto split: option.splits)
  with Cons utf8_char_bytes [of c b] utf8_next_char [of c b r] show ?case
    by (subst utf8_scan.simps) simp
qed (simp add: utf8_scan.simps)

lemma utf8_points_bytes: "utf8_points s = Inr bs \<Longrightarrow> x \<in> set bs \<Longrightarrow> x < 256"
proof (induction s arbitrary: bs)
  case (Cons c s)
  then show ?case using utf8_char_bytes [of c] by (auto split: option.splits)
qed simp

lemma utf8_decode_encode: "utf8_encode s = Inr b \<Longrightarrow> utf8_decode b = Inr s"
proof -
  assume "utf8_encode s = Inr b"
  then obtain bs where bs: "utf8_points s = Inr bs" "b = map word_of_nat bs"
    by (auto simp: utf8_encode_def)
  have "map (\<lambda>x. unat (word_of_nat x :: 8 word)) bs = bs"
    using utf8_points_bytes [OF bs(1)] by (intro map_idI) (simp add: unat_of_nat)
  with bs utf8_scan_points [OF bs(1)] show ?thesis by (simp add: utf8_decode_def comp_def)
qed

lemma utf8_encode_inject: "utf8_encode s = Inr b \<Longrightarrow> utf8_encode t = Inr b \<Longrightarrow> s = t"
  by (metis utf8_decode_encode sum.inject(2))

text \<open>No byte of an encoding is zero unless the text has the character NUL.\<close>

lemma utf8_no_zero:
  assumes "utf8_encode s = Inr b" "0 \<notin> set s"
  shows "0 \<notin> set b"
proof -
  have points: "utf8_points s = Inr bs \<Longrightarrow> 0 \<notin> set s \<Longrightarrow> 0 \<notin> set bs" for s bs
  proof (induction s arbitrary: bs)
    case (Cons c s)
    then obtain b r where c: "utf8_char c = Some b" "utf8_points s = Inr r" "bs = b @ r"
      by (auto split: option.splits)
    with Cons.prems(2) have "0 \<notin> set b" by (auto simp: utf8_char_def split: if_splits)
    with c Cons show ?case by auto
  qed simp
  from assms(1) obtain bs where bs: "utf8_points s = Inr bs" "b = map word_of_nat bs"
    by (auto simp: utf8_encode_def)
  have "(word_of_nat x :: 8 word) \<noteq> 0" if "x \<in> set bs" for x
  proof -
    from that points [OF bs(1) assms(2)] have "x \<noteq> 0" by metis
    moreover from utf8_points_bytes [OF bs(1) that] have "unat (word_of_nat x :: 8 word) = x"
      by (simp add: unat_of_nat)
    ultimately show ?thesis by (metis unat_0)
  qed
  with bs(2) show ?thesis by auto
qed

end
