(* ===== verification/Redis.thy ===== *)
theory Redis
  imports Encodings Errors "HOL-Library.AList"
begin

text \<open>
  The commands of Redis that the Lua scripts call, as parameters: the record \<open>redis\<close> holds
  the commands of a server with state \<open>'d\<close>, and the locale \<open>redis_server\<close> states what the
  documentation of Redis says of them. The locale \<open>redis_world\<close> adds what happens to a
  server by itself: time passes and keys expire, and a key can be evicted. A small
  in-memory server shows that the laws can hold.
\<close>

section \<open>Commands\<close>

text \<open>
  A command returns or fails (on a key that holds no hash, for one). Replies are what redis-py
  hands to the caller with \<open>decode_responses=False\<close>.
\<close>

datatype lua_reply =
    IntReply int
  | BulkReply bytes
  | ArrayReply "lua_reply list"
  | NilReply

record 'd redis =
  hget :: "pystr \<Rightarrow> string \<Rightarrow> ('d, exn, bytes option) proc"
  exists_cmd :: "pystr \<Rightarrow> ('d, exn, int) proc"
  hset :: "pystr \<Rightarrow> (string \<times> bytes) list \<Rightarrow> ('d, exn, int) proc"
  hdel :: "pystr \<Rightarrow> string \<Rightarrow> ('d, exn, int) proc"
  del_cmd :: "pystr \<Rightarrow> ('d, exn, int) proc"
  expire :: "pystr \<Rightarrow> int \<Rightarrow> ('d, exn, int) proc"
  pexpire :: "pystr \<Rightarrow> int \<Rightarrow> ('d, exn, int) proc"
  time_cmd :: "('d, exn, int \<times> int) proc"

section \<open>What the documentation promises\<close>

text \<open>
  The hash at a key (\<open>Some Map.empty\<close> when the key does not exist, \<open>None\<close> when it holds
  another type), the deadline of a key in milliseconds and the clock in microseconds.
\<close>

type_synonym 'd hashes = "'d \<Rightarrow> pystr \<Rightarrow> (string \<rightharpoonup> bytes) option"
type_synonym 'd deadlines = "'d \<Rightarrow> pystr \<Rightarrow> int option"

abbreviation ms :: "int \<Rightarrow> int" where
  "ms us \<equiv> us div 1000"

locale redis_server =
  fixes api :: "'d redis"
    and hash_at :: "'d hashes"
    and deadline :: "'d deadlines"
    and now_us :: "'d \<Rightarrow> int"
  assumes hget_hash: "hash_at d k = Some h \<Longrightarrow> hget api k f d = (Inr (h f), d)"
    and hget_wrong: "hash_at d k = None \<Longrightarrow> hget api k f d = (Inl RedisError, d)"
    and exists_eq: "exists_cmd api k d = (Inr (if hash_at d k = Some Map.empty then 0 else 1), d)"
    and absent_deadline: "hash_at d k = Some Map.empty \<Longrightarrow> deadline d k = None"
    and hset_ok: "hash_at d k = Some h \<Longrightarrow> fvs \<noteq> [] \<Longrightarrow> \<exists>n d'. hset api k fvs d = (Inr n, d')
      \<and> hash_at d' = (hash_at d)(k := Some (h ++ map_of (rev fvs)))
      \<and> deadline d' = deadline d \<and> now_us d' = now_us d"
    and hdel_ok: "hash_at d k = Some h \<Longrightarrow> h(f := None) \<noteq> Map.empty \<Longrightarrow> \<exists>n d'. hdel api k f d = (Inr n, d')
      \<and> hash_at d' = (hash_at d)(k := Some (h(f := None)))
      \<and> deadline d' = deadline d \<and> now_us d' = now_us d"
    and del_ok: "\<exists>d'. del_cmd api k d = (Inr (if hash_at d k = Some Map.empty then 0 else 1), d')
      \<and> hash_at d' = (hash_at d)(k := Some Map.empty)
      \<and> deadline d' = (deadline d)(k := None) \<and> now_us d' = now_us d"
    and expire_ok: "hash_at d k \<noteq> Some Map.empty \<Longrightarrow> 0 < n \<Longrightarrow> \<exists>d'. expire api k n d = (Inr 1, d')
      \<and> hash_at d' = hash_at d
      \<and> deadline d' = (deadline d)(k := Some (ms (now_us d) + n * 1000)) \<and> now_us d' = now_us d"
    and pexpire_ok: "hash_at d k \<noteq> Some Map.empty \<Longrightarrow> 0 < n \<Longrightarrow> \<exists>d'. pexpire api k n d = (Inr 1, d')
      \<and> hash_at d' = hash_at d
      \<and> deadline d' = (deadline d)(k := Some (ms (now_us d) + n)) \<and> now_us d' = now_us d"
    and time_ok: "time_cmd api d = (Inr (now_us d div 1000000, now_us d mod 1000000), d)"
begin

text \<open>The scripts compute the milliseconds of the clock from the two numbers of \<open>TIME\<close>.\<close>

lemma time_ms: "now_us d div 1000000 * 1000 + ms (now_us d mod 1000000) = ms (now_us d)"
proof -
  let ?q = "now_us d div 1000000" and ?r = "now_us d mod 1000000"
  have "now_us d = 1000 * (1000 * ?q) + ?r"
    using div_mult_mod_eq [of "now_us d" 1000000] by simp
  then have "ms (now_us d) = ms (1000 * (1000 * ?q) + ?r)" by (rule arg_cong)
  also have "\<dots> = 1000 * ?q + ms ?r" by (rule div_mult_self4) simp
  finally show ?thesis by simp
qed

end

text \<open>
  Time passes and keys are evicted. A key is gone at the millisecond of its deadline; Redis itself
  still serves it during that one millisecond.
\<close>

fun expired :: "int option \<Rightarrow> int \<Rightarrow> bool" where
  "expired None at \<longleftrightarrow> False"
| "expired (Some t) at \<longleftrightarrow> t \<le> ms at"

locale redis_world = redis_server +
  fixes elapse :: "nat \<Rightarrow> 'a \<Rightarrow> 'a"
    and evict :: "pystr \<Rightarrow> 'a \<Rightarrow> 'a"
  assumes elapse_clock: "now_us (elapse n d) = now_us d + int n"
    and elapse_hash: "hash_at (elapse n d) =
      (\<lambda>k. if expired (deadline d k) (now_us d + int n) then Some Map.empty else hash_at d k)"
    and elapse_deadline: "deadline (elapse n d) =
      (\<lambda>k. if expired (deadline d k) (now_us d + int n) then None else deadline d k)"
    and evict_clock: "now_us (evict k d) = now_us d"
    and evict_hash: "hash_at (evict k d) = (hash_at d)(k := Some Map.empty)"
    and evict_deadline: "deadline (evict k d) = (deadline d)(k := None)"

section \<open>An in-memory server\<close>

datatype redis_value = RHash "(string \<times> bytes) list" | ROther

record memory =
  mem :: "pystr \<Rightarrow> redis_value"
  mem_deadline :: "pystr \<Rightarrow> int option"
  mem_now :: int

definition mem_hash_at :: "memory hashes" where
  "mem_hash_at d k = (case mem d k of RHash h \<Rightarrow> Some (map_of h) | ROther \<Rightarrow> None)"

definition mem_deadline_of :: "memory deadlines" where
  "mem_deadline_of d k = (if mem d k = RHash [] then None else mem_deadline d k)"

definition on_hash ::
  "pystr \<Rightarrow> ((string \<times> bytes) list \<Rightarrow> (string \<times> bytes) list) \<Rightarrow> (memory, exn, int) proc" where
  "on_hash k f d =
     (case mem d k of
        ROther \<Rightarrow> (Inl RedisError, d)
      | RHash h \<Rightarrow>
          (Inr 1, d\<lparr>mem := (mem d)(k := RHash (f h)),
                    mem_deadline := (mem_deadline d)(k := mem_deadline_of d k)\<rparr>))"

definition mem_expire :: "pystr \<Rightarrow> int \<Rightarrow> (memory, exn, int) proc" where
  "mem_expire k n d =
     (if mem d k = RHash [] then (Inr 0, d)
      else (Inr 1, d\<lparr>mem_deadline := (mem_deadline d)(k := Some (ms (mem_now d) + n))\<rparr>))"

definition memory_redis :: "memory redis" where
  "memory_redis =
     \<lparr>hget = (\<lambda>k f d. case mem d k of ROther \<Rightarrow> (Inl RedisError, d) | RHash h \<Rightarrow> (Inr (map_of h f), d)),
      exists_cmd = (\<lambda>k d. (Inr (if mem d k = RHash [] then 0 else 1), d)),
      hset = (\<lambda>k fvs. on_hash k (\<lambda>h. fold (\<lambda>(f, v). AList.update f v) fvs h)),
      hdel = (\<lambda>k f. on_hash k (AList.delete f)),
      del_cmd = (\<lambda>k d. (Inr (if mem d k = RHash [] then 0 else 1),
                    d\<lparr>mem := (mem d)(k := RHash [])\<rparr>)),
      expire = (\<lambda>k n. mem_expire k (n * 1000)),
      pexpire = mem_expire,
      time_cmd = (\<lambda>d. (Inr (mem_now d div 1000000, mem_now d mod 1000000), d))\<rparr>"

definition mem_elapse :: "nat \<Rightarrow> memory \<Rightarrow> memory" where
  "mem_elapse n d =
     d\<lparr>mem := (\<lambda>k. if expired (mem_deadline_of d k) (mem_now d + int n) then RHash [] else mem d k),
       mem_now := mem_now d + int n\<rparr>"

definition mem_evict :: "pystr \<Rightarrow> memory \<Rightarrow> memory" where
  "mem_evict k d = d\<lparr>mem := (mem d)(k := RHash [])\<rparr>"

lemma map_of_fold_update:
  "map_of (fold (\<lambda>(f, v). AList.update f v) fvs h) = map_of h ++ map_of (rev fvs)"
  by (induction fvs arbitrary: h)
    (auto simp: update_conv' map_add_def fun_eq_iff split: option.splits)

lemma mem_hash_empty: "mem_hash_at d k = Some Map.empty \<longleftrightarrow> mem d k = RHash []"
  by (auto simp: mem_hash_at_def split: redis_value.splits)

lemma memory_laws:
  "redis_server memory_redis mem_hash_at mem_deadline_of mem_now"
proof
  show "mem_hash_at d k = Some h \<Longrightarrow> hget memory_redis k f d = (Inr (h f), d)" for d k h f
    by (auto simp: memory_redis_def mem_hash_at_def split: redis_value.splits)
  show "mem_hash_at d k = None \<Longrightarrow> hget memory_redis k f d = (Inl RedisError, d)" for d k f
    by (auto simp: memory_redis_def mem_hash_at_def split: redis_value.splits)
  show "exists_cmd memory_redis k d = (Inr (if mem_hash_at d k = Some Map.empty then 0 else 1), d)" for k d
    by (simp add: memory_redis_def mem_hash_empty)
  show "mem_hash_at d k = Some Map.empty \<Longrightarrow> mem_deadline_of d k = None" for d k
    by (simp add: mem_hash_empty mem_deadline_of_def)
  have nonempty: "fold (\<lambda>(f, v). AList.update f v) fvs h \<noteq> []" if "fvs \<noteq> []" for fvs h
    using that map_of_fold_update [of fvs h] by (cases fvs rule: rev_cases) (auto simp: fun_eq_iff)
  show "\<exists>n d'. hset memory_redis k fvs d = (Inr n, d')
      \<and> mem_hash_at d' = (mem_hash_at d)(k := Some (h ++ map_of (rev fvs)))
      \<and> mem_deadline_of d' = mem_deadline_of d \<and> mem_now d' = mem_now d"
    if "mem_hash_at d k = Some h" "fvs \<noteq> []" for d k h fvs
  proof -
    from that(1) obtain xs where xs: "mem d k = RHash xs" "h = map_of xs"
      by (auto simp: mem_hash_at_def split: redis_value.splits)
    from nonempty [OF that(2)] show ?thesis unfolding xs(2)
      by (auto simp: xs(1) memory_redis_def on_hash_def mem_hash_at_def mem_deadline_of_def
          fun_eq_iff map_of_fold_update)
  qed
  show "\<exists>n d'. hdel memory_redis k f d = (Inr n, d')
      \<and> mem_hash_at d' = (mem_hash_at d)(k := Some (h(f := None)))
      \<and> mem_deadline_of d' = mem_deadline_of d \<and> mem_now d' = mem_now d"
    if "mem_hash_at d k = Some h" "h(f := None) \<noteq> Map.empty" for d k h f
  proof -
    from that(1) obtain xs where xs: "mem d k = RHash xs" "h = map_of xs"
      by (auto simp: mem_hash_at_def split: redis_value.splits)
    with that(2) have "AList.delete f xs \<noteq> []" by (metis delete_conv' map_of_eq_empty_iff)
    then show ?thesis unfolding xs(2)
      by (auto simp: xs(1) memory_redis_def on_hash_def mem_hash_at_def mem_deadline_of_def
          fun_eq_iff delete_conv')
  qed
  show "\<exists>d'. del_cmd memory_redis k d = (Inr (if mem_hash_at d k = Some Map.empty then 0 else 1), d')
      \<and> mem_hash_at d' = (mem_hash_at d)(k := Some Map.empty)
      \<and> mem_deadline_of d' = (mem_deadline_of d)(k := None) \<and> mem_now d' = mem_now d" for k d
    unfolding mem_hash_empty
    by (auto simp: memory_redis_def mem_hash_at_def mem_deadline_of_def fun_eq_iff)
  show "\<exists>d'. expire memory_redis k n d = (Inr 1, d') \<and> mem_hash_at d' = mem_hash_at d
      \<and> mem_deadline_of d' = (mem_deadline_of d)(k := Some (ms (mem_now d) + n * 1000)) \<and> mem_now d' = mem_now d"
    if "mem_hash_at d k \<noteq> Some Map.empty" for d k n
    using that [unfolded mem_hash_empty]
    by (auto simp: memory_redis_def mem_expire_def mem_hash_at_def mem_deadline_of_def fun_eq_iff)
  show "\<exists>d'. pexpire memory_redis k n d = (Inr 1, d') \<and> mem_hash_at d' = mem_hash_at d
      \<and> mem_deadline_of d' = (mem_deadline_of d)(k := Some (ms (mem_now d) + n)) \<and> mem_now d' = mem_now d"
    if "mem_hash_at d k \<noteq> Some Map.empty" for d k n
    using that [unfolded mem_hash_empty]
    by (auto simp: memory_redis_def mem_expire_def mem_hash_at_def mem_deadline_of_def fun_eq_iff)
  show "time_cmd memory_redis d = (Inr (mem_now d div 1000000, mem_now d mod 1000000), d)" for d
    by (simp add: memory_redis_def)
qed

interpretation memory_world:
  redis_world memory_redis mem_hash_at mem_deadline_of mem_now mem_elapse mem_evict
proof (intro redis_world.intro memory_laws redis_world_axioms.intro)
qed (auto simp: mem_elapse_def mem_evict_def mem_hash_at_def mem_deadline_of_def fun_eq_iff)

end
