(* ===== verification/Decimals.thy ===== *)
theory Decimals
  imports Encodings
begin

text \<open>The decimal text of integers, and reading it back.\<close>

section \<open>Writing and reading\<close>

fun nat_digits :: "nat \<Rightarrow> pystr" where
  "nat_digits n = (if n < 10 then [48 + n] else nat_digits (n div 10) @ [48 + n mod 10])"

declare nat_digits.simps [simp del]

definition int_text :: "int \<Rightarrow> pystr" where
  "int_text i = (if i < 0 then 45 # nat_digits (nat (- i)) else nat_digits (nat i))"

definition is_digit :: "nat \<Rightarrow> bool" where
  "is_digit c \<longleftrightarrow> 48 \<le> c \<and> c \<le> 57"

definition digits_value :: "pystr \<Rightarrow> nat" where
  "digits_value s = foldl (\<lambda>n c. 10 * n + (c - 48)) 0 s"

text \<open>
  \<open>int(...)\<close> of a decimal literal in ASCII: white space around it, a sign, digits with single
  underscores between them, and at most 4300 digits.
\<close>

fun int_digits :: "bool \<Rightarrow> int \<Rightarrow> nat list \<Rightarrow> int option" where
  "int_digits after_digit acc [] = (if after_digit then Some acc else None)"
| "int_digits after_digit acc (c # cs) =
     (if 48 \<le> c \<and> c \<le> 57 then int_digits True (10 * acc + int (c - 48)) cs
      else if c = 95 \<and> after_digit then int_digits False acc cs
      else None)"

definition int_literal :: "nat list \<Rightarrow> int option" where
  "int_literal t =
     (let s = rev (dropWhile ascii_space (rev (dropWhile ascii_space t))) in
      if length (filter is_digit s) > 4300 then None
      else (case s of
        [] \<Rightarrow> None
      | c # cs \<Rightarrow>
          if c = 45 then map_option uminus (int_digits False 0 cs)
          else if c = 43 then int_digits False 0 cs
          else int_digits False 0 s))"

section \<open>Digits and values\<close>

lemma digits_value_snoc [simp]: "digits_value (s @ [c]) = 10 * digits_value s + (c - 48)"
  by (simp add: digits_value_def)

lemma nat_digits_value: "digits_value (nat_digits n) = n"
proof (induction n rule: nat_digits.induct)
  case (1 n)
  show ?case
  proof (cases "n < 10")
    case True
    then show ?thesis by (simp add: nat_digits.simps [of n] digits_value_def)
  next
    case False
    with 1 show ?thesis by (simp add: nat_digits.simps [of n])
  qed
qed

lemma nat_digits_props: "nat_digits n \<noteq> [] \<and> list_all is_digit (nat_digits n) \<and> (0 < n \<longrightarrow> hd (nat_digits n) \<noteq> 48)"
proof (induction n rule: nat_digits.induct)
  case (1 n)
  show ?case
  proof (cases "n < 10")
    case True
    then show ?thesis by (simp add: nat_digits.simps [of n] is_digit_def)
  next
    case False
    then have "0 < n div 10" by (simp add: div_greater_zero_iff)
    with False 1 show ?thesis by (auto simp: nat_digits.simps [of n] is_digit_def hd_append)
  qed
qed

lemma value_nat_digits:
  "s \<noteq> [] \<Longrightarrow> list_all is_digit s \<Longrightarrow> hd s \<noteq> 48 \<Longrightarrow> nat_digits (digits_value s) = s \<and> 0 < digits_value s"
proof (induction s rule: rev_induct)
  case (snoc c s)
  have c: "48 \<le> c" "c \<le> 57" using snoc.prems by (auto simp: is_digit_def)
  show ?case
  proof (cases "s = []")
    case True
    with c snoc.prems show ?thesis by (simp add: nat_digits.simps digits_value_def)
  next
    case False
    with snoc have ih: "nat_digits (digits_value s) = s" "0 < digits_value s" by (auto simp: hd_append)
    from c obtain d where d: "c = 48 + d" "d < 10" by (intro that [of "c - 48"]) auto
    with ih have "digits_value (s @ [c]) = 10 * digits_value s + d" "\<not> 10 * digits_value s + d < 10" by simp_all
    with ih d show ?thesis by (simp add: nat_digits.simps [of "10 * digits_value s + d"])
  qed
qed simp

lemma nat_digits_length: "n < 10 ^ k \<Longrightarrow> 0 < k \<Longrightarrow> length (nat_digits n) \<le> k"
proof (induction n arbitrary: k rule: nat_digits.induct)
  case (1 n)
  show ?case
  proof (cases "n < 10")
    case True
    with 1 show ?thesis by (simp add: nat_digits.simps [of n])
  next
    case False
    with 1(2,3) obtain j where k: "k = Suc j" "0 < j" by (cases k; cases "k - 1") auto
    with 1(2) have "n div 10 < 10 ^ j" by (simp add: less_mult_imp_div_less mult.commute)
    with 1(1) [OF False _ k(2)] False k show ?thesis by (simp add: nat_digits.simps [of n])
  qed
qed

lemma nat_digits_inject: "nat_digits m = nat_digits n \<longleftrightarrow> m = n"
  by (metis nat_digits_value)

lemma int_text_inject [simp]: "int_text i = int_text j \<longleftrightarrow> i = j"
proof -
  have "hd (nat_digits n) \<noteq> 45" for n
    using nat_digits_props [of n] by (cases "nat_digits n") (auto simp: is_digit_def)
  then have no_sign: "nat_digits m \<noteq> 45 # s" for m s by (metis list.sel(1))
  then have sign: "45 # s \<noteq> nat_digits m" for m s by metis
  show ?thesis by (auto simp: int_text_def nat_digits_inject no_sign sign)
qed

end
