(* ===== verification/Hot_Store.thy ===== *)
theory Hot_Store
  imports Redis Decimals
begin

text \<open>
  The hot store of leases and results
  (\<open>src/src/app/infrastructure/idempotency/redis/hot_store.py\<close>): its four Lua scripts over the
  commands of a Redis server, and the Python adapter that sends them. Numbers among the
  arguments of a script are integers here (\<open>tonumber\<close> reads what \<open>str\<close> wrote).
\<close>

section \<open>The scripts\<close>

text \<open>ASCII text as redis-py sends it.\<close>

definition ascii :: "pystr \<Rightarrow> bytes" where
  "ascii s = map word_of_nat s"

text \<open>A literal of a script.\<close>

definition lit :: "string \<Rightarrow> bytes" where
  "lit s = ascii (ustr s)"

definition claim_script ::
  "'d redis \<Rightarrow> pystr \<Rightarrow> bytes \<Rightarrow> bytes \<Rightarrow> int \<Rightarrow> ('d, exn, lua_reply) proc" where
  "claim_script api key fingerprint token lease =
     sthen (hget api key ''state'') (\<lambda>state.
     case state of
       None \<Rightarrow>
         sthen (exists_cmd api key) (\<lambda>n.
         if n = 1 then sret (ArrayReply [IntReply 5])
         else
           sthen (hset api key
             [(''format_version'', lit ''2''), (''state'', lit ''processing''),
              (''request_fingerprint'', fingerprint), (''lease_token'', token)]) (\<lambda>_.
           sthen (expire api key lease) (\<lambda>_.
           sret (ArrayReply [IntReply 1]))))
     | Some state \<Rightarrow>
         sthen (hget api key ''format_version'') (\<lambda>format_version.
         sthen (hget api key ''request_fingerprint'') (\<lambda>current_fingerprint.
         sthen (hget api key ''lease_token'') (\<lambda>lease_owner.
         sthen (hget api key ''result'') (\<lambda>result.
         sret (ArrayReply
           (if format_version \<noteq> Some (lit ''2'') \<or> current_fingerprint = None then [IntReply 5]
            else if state = lit ''processing'' \<and> (lease_owner = None \<or> result \<noteq> None) then [IntReply 5]
            else if state = lit ''completed'' \<and> (result = None \<or> lease_owner \<noteq> None) then [IntReply 5]
            else if current_fingerprint \<noteq> Some fingerprint then [IntReply 3]
            else if state = lit ''completed'' then
              [IntReply 2, case result of Some r \<Rightarrow> BulkReply r | None \<Rightarrow> NilReply]
            else if state = lit ''processing'' then [IntReply 4]
            else [IntReply 5])))))))"

definition renew_script :: "'d redis \<Rightarrow> pystr \<Rightarrow> bytes \<Rightarrow> int \<Rightarrow> ('d, exn, lua_reply) proc" where
  "renew_script api key token lease =
     sthen (hget api key ''format_version'') (\<lambda>format_version.
     sthen (hget api key ''state'') (\<lambda>state.
     sthen (hget api key ''lease_token'') (\<lambda>lease_owner.
     sthen (hget api key ''request_fingerprint'') (\<lambda>request_fingerprint.
     if format_version = Some (lit ''2'') \<and> state = Some (lit ''processing'')
        \<and> lease_owner = Some token \<and> request_fingerprint \<noteq> None
       then sthen (expire api key lease) (\<lambda>_. sret (IntReply 1))
     else sret (IntReply 0)))))"

definition complete_script ::
  "'d redis \<Rightarrow> pystr \<Rightarrow> bytes \<Rightarrow> bytes \<Rightarrow> int \<Rightarrow> bytes \<Rightarrow> int \<Rightarrow> ('d, exn, lua_reply) proc" where
  "complete_script api key token encoded cache_ttl_ms fingerprint expires_ms =
     sthen (hget api key ''format_version'') (\<lambda>format_version.
     sthen (hget api key ''state'') (\<lambda>state.
     sthen (hget api key ''lease_token'') (\<lambda>lease_owner.
     sthen (hget api key ''request_fingerprint'') (\<lambda>request_fingerprint.
     if format_version = Some (lit ''2'') \<and> state = Some (lit ''processing'')
        \<and> lease_owner = Some token \<and> request_fingerprint = Some fingerprint
       then
         sthen (time_cmd api) (\<lambda>(seconds, micros).
         let now_ms = seconds * 1000 + micros div 1000;
             ttl_ms = min cache_ttl_ms (expires_ms - now_ms) in
         if ttl_ms \<le> 0 then sthen (del_cmd api key) (\<lambda>_. sret (IntReply 0))
         else
           sthen (hset api key [(''state'', lit ''completed''), (''result'', encoded)]) (\<lambda>_.
           sthen (hdel api key ''lease_token'') (\<lambda>_.
           sthen (pexpire api key ttl_ms) (\<lambda>_.
           sret (IntReply 1)))))
     else sret (IntReply 0)))))"

definition release_script :: "'d redis \<Rightarrow> pystr \<Rightarrow> bytes \<Rightarrow> ('d, exn, lua_reply) proc" where
  "release_script api key token =
     sthen (hget api key ''format_version'') (\<lambda>format_version.
     sthen (hget api key ''state'') (\<lambda>state.
     sthen (hget api key ''lease_token'') (\<lambda>lease_owner.
     if format_version = Some (lit ''2'') \<and> state = Some (lit ''processing'') \<and> lease_owner = Some token
       then sthen (del_cmd api key) (\<lambda>n. sret (IntReply n))
     else sret (IntReply 0))))"

section \<open>The connection\<close>

text \<open>
  What becomes of an evaluation: the script runs and is answered, or the request or the reply
  is lost with an exception (\<open>RedisError\<close>, or a cancellation of the caller). Before the script
  runs, others may have changed the server.
\<close>

datatype fate = Answered | RequestLost exn | ReplyLost exn

record 'd delivery =
  meanwhile :: "'d \<Rightarrow> 'd"
  fate_of :: fate

record 'd link =
  server :: 'd
  traffic :: "'d delivery list"

definition redis_eval :: "('d, exn, lua_reply) proc \<Rightarrow> ('d link, exn, lua_reply) proc" where
  "redis_eval script l =
     (case traffic l of
        [] \<Rightarrow> (case script (server l) of (r, d) \<Rightarrow> (r, l\<lparr>server := d\<rparr>))
      | dv # rest \<Rightarrow>
          (let d0 = meanwhile dv (server l) in
           case fate_of dv of
             Answered \<Rightarrow> (case script d0 of (r, d) \<Rightarrow> (r, l\<lparr>server := d, traffic := rest\<rparr>))
           | RequestLost e \<Rightarrow> (Inl e, l\<lparr>server := d0, traffic := rest\<rparr>)
           | ReplyLost e \<Rightarrow> (case script d0 of (r, d) \<Rightarrow> (Inl e, l\<lparr>server := d, traffic := rest\<rparr>))))"

section \<open>The adapter\<close>

text \<open>
  Third-party code as parameters: pydantic's \<open>model_dump\<close> and \<open>model_validate\<close>, the JSON
  writer and reader, SHA-256, and the floating-point milliseconds
  \<open>int(expires_at.timestamp() * 1000)\<close>.
\<close>

type_synonym json_object = "(pystr \<times> pyobj) list"

record json_lib =
  model_dump :: "CompletedIdempotencyResult \<Rightarrow> json_object"
  json_dumps :: "json_object \<Rightarrow> pystr"
  validate_json :: "pystr \<Rightarrow> json_object result"
  model_validate :: "json_object \<Rightarrow> bytes \<Rightarrow> CompletedIdempotencyResult result"

record 'd hot_config =
  redis_api :: "'d redis"
  key_namespace :: pystr
  sha256 :: "bytes \<Rightarrow> bytes"
  json :: json_lib
  timestamp_ms :: "datetime \<Rightarrow> int"

definition hot_store_new :: "'d hot_config \<Rightarrow> 'd hot_config result" where
  "hot_store_new cfg = (if key_namespace cfg = [] then Inl ValueError else Inr cfg)"

definition key_material :: "IdempotencyKey \<Rightarrow> bytes result" where
  "key_material identity =
     rthen (utf8_encode (subject_id identity)) (\<lambda>subject.
     rthen (utf8_encode (operation identity)) (\<lambda>op.
     Inr (subject @ [0] @ op @ [0] @ key_digest identity)))"

definition storage_key :: "'d hot_config \<Rightarrow> IdempotencyKey \<Rightarrow> pystr result" where
  "storage_key cfg identity =
     rthen (key_material identity) (\<lambda>material.
     Inr (key_namespace cfg @ [58] @ hex (sha256 cfg material)))"

text \<open>\<open>int(...)\<close> of a byte string.\<close>

definition python_int :: "bytes \<Rightarrow> int option" where
  "python_int b = int_literal (map unat b)"

fun result_code :: "lua_reply \<Rightarrow> int result" where
  "result_code (ArrayReply (IntReply n # vs)) = Inr n"
| "result_code (ArrayReply (BulkReply b # vs)) =
     (case python_int b of Some n \<Rightarrow> Inr n | None \<Rightarrow> Inl RuntimeError)"
| "result_code raw = Inl RuntimeError"

text \<open>\<open>payload[key] = value\<close> on a dict in insertion order.\<close>

definition dict_set :: "pystr \<Rightarrow> pyobj \<Rightarrow> json_object \<Rightarrow> json_object" where
  "dict_set k v d = AList.update k v d"

definition encode_completed :: "json_lib \<Rightarrow> CompletedIdempotencyResult \<Rightarrow> pystr" where
  "encode_completed lib result =
     json_dumps lib (dict_set (ustr ''request_fingerprint'')
       (PyStr (hex (request_fingerprint result))) (model_dump lib result))"

text \<open>\<open>except (KeyError, TypeError, UnicodeError, ValueError)\<close>; a \<open>ValidationError\<close> is a \<open>ValueError\<close>.\<close>

definition malformed :: "'a result \<Rightarrow> 'a result" where
  "malformed r =
     (case r of
        Inl e \<Rightarrow> Inl (if e \<in> {KeyError, TypeError, ValueError, ValidationError} then RuntimeError else e)
      | Inr x \<Rightarrow> Inr x)"

definition decode_completed :: "json_lib \<Rightarrow> lua_reply \<Rightarrow> CompletedIdempotencyResult result" where
  "decode_completed lib raw = malformed
     (rthen (case raw of BulkReply b \<Rightarrow> utf8_decode b | _ \<Rightarrow> Inl TypeError) (\<lambda>text.
      rthen (validate_json lib text) (\<lambda>payload.
      case map_of payload (ustr ''request_fingerprint'') of
        Some (PyStr fp) \<Rightarrow> rthen (fromhex fp) (model_validate lib payload)
      | _ \<Rightarrow> Inl TypeError)))"

text \<open>\<open>_raise_unavailable\<close> under \<open>except RedisError\<close>, and \<open>_raise_corrupted\<close> under \<open>except RuntimeError\<close>.\<close>

definition raise_unavailable :: "exn \<Rightarrow> ('s, exn, 'r) proc" where
  "raise_unavailable e =
     sraise (if e = RedisError then IdempotencyError IdempotencyUnavailableError else e)"

definition raise_corrupted :: "'a result \<Rightarrow> 'a result" where
  "raise_corrupted r =
     (case r of
        Inl e \<Rightarrow> Inl (if e = RuntimeError then IdempotencyError IdempotencyUnavailableError else e)
      | Inr x \<Rightarrow> Inr x)"

definition read_claim :: "json_lib \<Rightarrow> bytes \<Rightarrow> lua_reply \<Rightarrow> ClaimResult result" where
  "read_claim lib fingerprint raw = raise_corrupted
     (rthen (result_code raw) (\<lambda>code.
      case raw of
        ArrayReply values \<Rightarrow>
          if code = 1 then claim_result_new ACQUIRED None
          else if code = 2 then
            (if length values < 2 \<or> values ! 1 = NilReply then Inl RuntimeError
             else rthen (decode_completed lib (values ! 1)) (\<lambda>completed.
               if request_fingerprint completed \<noteq> fingerprint then Inl RuntimeError
               else claim_result_new CLAIM_REPLAY (Some completed)))
          else if code = 3 then claim_result_new CLAIM_CONFLICT None
          else if code = 4 then claim_result_new CLAIM_IN_PROGRESS None
          else Inl RuntimeError
      | _ \<Rightarrow> Inl RuntimeError))"

definition bool_of_reply :: "lua_reply \<Rightarrow> bool" where
  "bool_of_reply raw =
     (case raw of IntReply n \<Rightarrow> n \<noteq> 0 | BulkReply b \<Rightarrow> b \<noteq> [] | ArrayReply vs \<Rightarrow> vs \<noteq> [] | NilReply \<Rightarrow> False)"

text \<open>A script under the \<open>try\<close> of every operation: the key is computed inside it.\<close>

definition eval_on ::
  "'d hot_config \<Rightarrow> IdempotencyKey \<Rightarrow> (pystr \<Rightarrow> ('d, exn, lua_reply) proc) \<Rightarrow> ('d link, exn, lua_reply) proc" where
  "eval_on cfg identity script =
     scatch (sthen (slift (storage_key cfg identity)) (\<lambda>key. redis_eval (script key))) raise_unavailable"

definition hot_claim ::
  "'d hot_config \<Rightarrow> IdempotencyKey \<Rightarrow> bytes \<Rightarrow> uuid \<Rightarrow> int \<Rightarrow> ('d link, exn, ClaimResult) proc" where
  "hot_claim cfg identity fingerprint token lease =
     (if length fingerprint \<noteq> 32 then sraise ValueError
      else if lease \<le> 0 then sraise ValueError
      else
        sthen (eval_on cfg identity (\<lambda>key.
          claim_script (redis_api cfg) key (ascii (hex fingerprint)) (ascii (str_uuid token)) lease)) (\<lambda>raw.
        slift (read_claim (json cfg) fingerprint raw)))"

definition hot_renew ::
  "'d hot_config \<Rightarrow> IdempotencyKey \<Rightarrow> uuid \<Rightarrow> int \<Rightarrow> ('d link, exn, bool) proc" where
  "hot_renew cfg identity token lease =
     (if lease \<le> 0 then sraise ValueError
      else
        sthen (eval_on cfg identity (\<lambda>key.
          renew_script (redis_api cfg) key (ascii (str_uuid token)) lease)) (\<lambda>raw.
        sret (bool_of_reply raw)))"

text \<open>redis-py encodes the JSON text; text that has no encoding raises before anything is sent.\<close>

definition hot_complete ::
  "'d hot_config \<Rightarrow> IdempotencyKey \<Rightarrow> uuid \<Rightarrow> CompletedIdempotencyResult \<Rightarrow> int \<Rightarrow> ('d link, exn, bool) proc" where
  "hot_complete cfg identity token result cache_ttl =
     (if cache_ttl \<le> 0 then sraise ValueError
      else
        sthen (slift (utf8_encode (encode_completed (json cfg) result))) (\<lambda>encoded.
        sthen (eval_on cfg identity (\<lambda>key.
          complete_script (redis_api cfg) key (ascii (str_uuid token)) encoded (cache_ttl * 1000)
            (ascii (hex (request_fingerprint result))) (timestamp_ms cfg (expires_at result)))) (\<lambda>raw.
        sret (bool_of_reply raw))))"

definition hot_release :: "'d hot_config \<Rightarrow> IdempotencyKey \<Rightarrow> uuid \<Rightarrow> ('d link, exn, bool) proc" where
  "hot_release cfg identity token =
     sthen (eval_on cfg identity (\<lambda>key.
       release_script (redis_api cfg) key (ascii (str_uuid token)))) (\<lambda>raw.
     sret (bool_of_reply raw))"


end
