(* ===== verification/Hot_Lease.thy ===== *)
theory Hot_Lease
  imports Hot_Store
begin

text \<open>
  What the scripts of the hot store promise: an entry of the store is free, leased or done,
  and each script is one atomic step of that machine. The theory proves the refinement over
  any server that keeps the laws of \<open>redis_server\<close>, and what it means for clients: the
  lease excludes others until it ends, and a published result is replayed until it expires.
\<close>

section \<open>The abstract entry\<close>

datatype entry = Free | Leased bytes bytes | Done bytes bytes | Corrupt

text \<open>An entry and the deadline of its key, in milliseconds.\<close>

type_synonym cell = "entry \<times> int option"

definition entry_of :: "(string \<rightharpoonup> bytes) \<Rightarrow> entry" where
  "entry_of h =
     (case h ''state'' of
        None \<Rightarrow> (if h = Map.empty then Free else Corrupt)
      | Some st \<Rightarrow>
          if h ''format_version'' \<noteq> Some (lit ''2'') then Corrupt
          else (case (h ''request_fingerprint'', h ''lease_token'', h ''result'') of
              (Some fp, Some tok, None) \<Rightarrow> if st = lit ''processing'' then Leased fp tok else Corrupt
            | (Some fp, None, Some r) \<Rightarrow> if st = lit ''completed'' then Done fp r else Corrupt
            | _ \<Rightarrow> Corrupt))"

datatype hot_command =
    Claim bytes bytes int
  | Renew bytes int
  | Complete bytes bytes int bytes int
  | Release bytes

fun run_script :: "'d redis \<Rightarrow> pystr \<Rightarrow> hot_command \<Rightarrow> ('d, exn, lua_reply) proc" where
  "run_script api k (Claim fp tok lease) = claim_script api k fp tok lease"
| "run_script api k (Renew tok lease) = renew_script api k tok lease"
| "run_script api k (Complete tok r ttl fp expires) = complete_script api k tok r ttl fp expires"
| "run_script api k (Release tok) = release_script api k tok"

text \<open>The machine; \<open>t\<close> is the clock of the server in milliseconds.\<close>

fun lease_step :: "int \<Rightarrow> hot_command \<Rightarrow> cell \<Rightarrow> lua_reply \<times> cell" where
  "lease_step t (Claim fp tok lease) (Free, dl) =
     (ArrayReply [IntReply 1], (Leased fp tok, Some (t + lease * 1000)))"
| "lease_step t (Claim fp tok lease) (Leased fp' tok', dl) =
     (ArrayReply [IntReply (if fp' = fp then 4 else 3)], (Leased fp' tok', dl))"
| "lease_step t (Claim fp tok lease) (Done fp' r, dl) =
     (ArrayReply (if fp' = fp then [IntReply 2, BulkReply r] else [IntReply 3]), (Done fp' r, dl))"
| "lease_step t (Renew tok lease) (Leased fp tok', dl) =
     (if tok' = tok then (IntReply 1, (Leased fp tok', Some (t + lease * 1000)))
      else (IntReply 0, (Leased fp tok', dl)))"
| "lease_step t (Complete tok r ttl fp expires) (Leased fp' tok', dl) =
     (if tok' = tok \<and> fp' = fp then
        (if min ttl (expires - t) \<le> 0 then (IntReply 0, (Free, None))
         else (IntReply 1, (Done fp r, Some (t + min ttl (expires - t)))))
      else (IntReply 0, (Leased fp' tok', dl)))"
| "lease_step t (Release tok) (Leased fp tok', dl) =
     (if tok' = tok then (IntReply 1, (Free, None)) else (IntReply 0, (Leased fp tok', dl)))"
| "lease_step t cmd c = (IntReply 0, c)"

fun timed_ok :: "hot_command \<Rightarrow> bool" where
  "timed_ok (Claim fp tok lease) \<longleftrightarrow> 0 < lease"
| "timed_ok (Renew tok lease) \<longleftrightarrow> 0 < lease"
| "timed_ok cmd \<longleftrightarrow> True"

definition cell_at :: "'d hashes \<Rightarrow> 'd deadlines \<Rightarrow> 'd \<Rightarrow> pystr \<Rightarrow> cell" where
  "cell_at hash_at deadline d k =
     ((case hash_at d k of None \<Rightarrow> Corrupt | Some h \<Rightarrow> entry_of h), deadline d k)"

lemma state_names [simp]:
  "lit ''processing'' \<noteq> lit ''completed''" "lit ''completed'' \<noteq> lit ''processing''"
  by (simp_all add: lit_def ascii_def)

text \<open>Reading an entry back.\<close>

lemma entry_cases:
  "entry_of h = Free \<longleftrightarrow> h = Map.empty"
  "entry_of h = Leased fp tok \<longleftrightarrow> h ''state'' = Some (lit ''processing'')
     \<and> h ''format_version'' = Some (lit ''2'') \<and> h ''request_fingerprint'' = Some fp
     \<and> h ''lease_token'' = Some tok \<and> h ''result'' = None"
  "entry_of h = Done fp r \<longleftrightarrow> h ''state'' = Some (lit ''completed'')
     \<and> h ''format_version'' = Some (lit ''2'') \<and> h ''request_fingerprint'' = Some fp
     \<and> h ''lease_token'' = None \<and> h ''result'' = Some r"
  by (auto simp: entry_of_def split: option.splits)

lemma entry_of_empty [simp]: "entry_of Map.empty = Free"
  by (simp add: entry_cases)

lemma cell_same:
  "hash_at d k = Some h \<Longrightarrow> entry_of h = e \<Longrightarrow>
   (cell_at hash_at deadline d)(k := (e, deadline d k)) = cell_at hash_at deadline d"
  by (simp add: cell_at_def fun_eq_iff)

lemma cell_upd:
  "hash_at d' = (hash_at d)(k := Some h) \<Longrightarrow> deadline d' = (deadline d)(k := dl) \<Longrightarrow>
   cell_at hash_at deadline d' = (cell_at hash_at deadline d)(k := (entry_of h, dl))"
  by (simp add: cell_at_def fun_eq_iff)

lemma cell_expire:
  "hash_at d' = hash_at d \<Longrightarrow> deadline d' = (deadline d)(k := dl) \<Longrightarrow> hash_at d k = Some h \<Longrightarrow>
   cell_at hash_at deadline d' = (cell_at hash_at deadline d)(k := (entry_of h, dl))"
  by (simp add: cell_at_def fun_eq_iff)

section \<open>The scripts refine the machine\<close>

context redis_server
begin

lemma claim_refines:
  assumes "hash_at d k = Some h" "entry_of h = e" "e \<noteq> Corrupt" "0 < lease"
  shows "\<exists>d'. claim_script api k fp tok lease d
      = (Inr (fst (lease_step (ms (now_us d)) (Claim fp tok lease) (e, deadline d k))), d')
    \<and> cell_at hash_at deadline d' = (cell_at hash_at deadline d)
        (k := snd (lease_step (ms (now_us d)) (Claim fp tok lease) (e, deadline d k)))
    \<and> now_us d' = now_us d"
proof (cases e)
  case Free
  with assms have h: "hash_at d k = Some Map.empty" by (simp add: entry_cases)
  from hset_ok [OF h, of "[(''format_version'', lit ''2''), (''state'', lit ''processing''),
      (''request_fingerprint'', fp), (''lease_token'', tok)]"]
  obtain n d1 where 1: "hset api k [(''format_version'', lit ''2''), (''state'', lit ''processing''),
      (''request_fingerprint'', fp), (''lease_token'', tok)] d = (Inr n, d1)"
    "deadline d1 = deadline d" "now_us d1 = now_us d" and h1: "hash_at d1 = (hash_at d)(k := Some
       [''format_version'' \<mapsto> lit ''2'', ''state'' \<mapsto> lit ''processing'',
        ''request_fingerprint'' \<mapsto> fp, ''lease_token'' \<mapsto> tok])"
    by auto
  from h1 have "hash_at d1 k \<noteq> Some Map.empty" by simp
  from expire_ok [OF this assms(4)] 1 h1 obtain d2 where 2: "expire api k lease d1 = (Inr 1, d2)"
    "hash_at d2 = hash_at d1" "deadline d2 = (deadline d)(k := Some (ms (now_us d) + lease * 1000))"
    "now_us d2 = now_us d"
    by auto
  have "claim_script api k fp tok lease d = (Inr (ArrayReply [IntReply 1]), d2)"
    using h 1 2 by (simp add: claim_script_def hget_hash exists_eq)
  moreover have "cell_at hash_at deadline d2
      = (cell_at hash_at deadline d)(k := (Leased fp tok, Some (ms (now_us d) + lease * 1000)))"
    using h1 2 by (auto simp: cell_at_def entry_of_def fun_eq_iff)
  ultimately show ?thesis using Free 2 by auto
qed (use assms in \<open>auto simp: claim_script_def hget_hash entry_cases cell_same\<close>)

lemma renew_refines:
  assumes "hash_at d k = Some h" "entry_of h = e" "e \<noteq> Corrupt" "0 < lease"
  shows "\<exists>d'. renew_script api k tok lease d
      = (Inr (fst (lease_step (ms (now_us d)) (Renew tok lease) (e, deadline d k))), d')
    \<and> cell_at hash_at deadline d' = (cell_at hash_at deadline d)
        (k := snd (lease_step (ms (now_us d)) (Renew tok lease) (e, deadline d k)))
    \<and> now_us d' = now_us d"
proof (cases e)
  case (Leased fp tok')
  with assms(1,2) have h: "h ''state'' = Some (lit ''processing'')" "h ''format_version'' = Some (lit ''2'')"
    "h ''request_fingerprint'' = Some fp" "h ''lease_token'' = Some tok'"
    by (simp_all add: entry_cases)
  then have "hash_at d k \<noteq> Some Map.empty" using assms(1) by auto
  from expire_ok [OF this assms(4)] obtain d' where d': "expire api k lease d = (Inr 1, d')"
    "hash_at d' = hash_at d" "deadline d' = (deadline d)(k := Some (ms (now_us d) + lease * 1000))"
    "now_us d' = now_us d"
    by auto
  from cell_expire [OF d'(2,3) assms(1)] d' h Leased assms(1,2) show ?thesis
    by (cases "tok' = tok") (auto simp: renew_script_def hget_hash cell_same)
qed (use assms in \<open>auto simp: renew_script_def hget_hash entry_cases cell_same\<close>)

lemma complete_refines:
  assumes "hash_at d k = Some h" "entry_of h = e" "e \<noteq> Corrupt"
  shows "\<exists>d'. complete_script api k tok r ttl fp expires d
      = (Inr (fst (lease_step (ms (now_us d)) (Complete tok r ttl fp expires) (e, deadline d k))), d')
    \<and> cell_at hash_at deadline d' = (cell_at hash_at deadline d)
        (k := snd (lease_step (ms (now_us d)) (Complete tok r ttl fp expires) (e, deadline d k)))
    \<and> now_us d' = now_us d"
proof (cases "e = Leased fp tok")
  case True
  with assms have h: "h ''state'' = Some (lit ''processing'')" "h ''format_version'' = Some (lit ''2'')"
    "h ''request_fingerprint'' = Some fp" "h ''lease_token'' = Some tok" "h ''result'' = None"
    by (simp_all add: entry_cases)
  let ?ttl = "min ttl (expires - ms (now_us d))"
  show ?thesis
  proof (cases "?ttl \<le> 0")
    case True
    from del_ok [where k = k and d = d] obtain d' where "del_cmd api k d = (Inr (if hash_at d k = Some Map.empty then 0 else 1), d')"
      "hash_at d' = (hash_at d)(k := Some Map.empty)" "deadline d' = (deadline d)(k := None)" "now_us d' = now_us d"
      by blast
    with cell_upd [OF this(2,3)] True assms(1) \<open>e = _\<close> h show ?thesis
      by (auto simp: complete_script_def hget_hash time_ok time_ms Let_def)
  next
    case False
    let ?fvs = "[(''state'', lit ''completed''), (''result'', r)]"
    from hset_ok [OF assms(1), of ?fvs] obtain n d1 where 1: "hset api k ?fvs d = (Inr n, d1)"
      "deadline d1 = deadline d" "now_us d1 = now_us d"
      and h1: "hash_at d1 = (hash_at d)(k := Some (h ++ map_of (rev ?fvs)))" by blast
    then have k1: "hash_at d1 k = Some (h ++ map_of (rev ?fvs))" by simp
    let ?h2 = "(h ++ map_of (rev ?fvs))(''lease_token'' := None)"
    have "?h2 ''state'' \<noteq> None" by simp
    then have h2: "?h2 \<noteq> Map.empty" by metis
    from hdel_ok [OF k1 h2] obtain n' d2 where 2: "hdel api k ''lease_token'' d1 = (Inr n', d2)"
      "deadline d2 = deadline d1" "now_us d2 = now_us d1" "hash_at d2 = (hash_at d1)(k := Some ?h2)" by blast
    from 2(4) h2 have "hash_at d2 k \<noteq> Some Map.empty" by simp
    from pexpire_ok [OF this, of ?ttl] False obtain d3 where 3: "pexpire api k ?ttl d2 = (Inr 1, d3)"
      "hash_at d3 = hash_at d2" "deadline d3 = (deadline d2)(k := Some (ms (now_us d2) + ?ttl))"
      "now_us d3 = now_us d2" by (auto simp: not_le)
    have "entry_of ?h2 = Done fp r" using h by (simp add: entry_cases)
    then have "cell_at hash_at deadline d3
        = (cell_at hash_at deadline d)(k := (Done fp r, Some (ms (now_us d) + ?ttl)))"
      using cell_upd [of hash_at d3 d k ?h2 deadline] 1(2,3) h1 2(2-4) 3(2-4) by simp
    moreover have "complete_script api k tok r ttl fp expires d = (Inr (IntReply 1), d3)"
      using assms(1) h 1(1) 2(1) 3(1) False
      by (simp add: complete_script_def hget_hash time_ok time_ms Let_def)
    ultimately show ?thesis using True False 1(3) 2(3) 3(4) by auto
  qed
next
  case False
  with assms show ?thesis
    by (cases e) (auto simp: complete_script_def hget_hash entry_cases cell_same)
qed

lemma release_refines:
  assumes "hash_at d k = Some h" "entry_of h = e" "e \<noteq> Corrupt"
  shows "\<exists>d'. release_script api k tok d
      = (Inr (fst (lease_step (ms (now_us d)) (Release tok) (e, deadline d k))), d')
    \<and> cell_at hash_at deadline d' = (cell_at hash_at deadline d)
        (k := snd (lease_step (ms (now_us d)) (Release tok) (e, deadline d k)))
    \<and> now_us d' = now_us d"
proof (cases e)
  case (Leased fp tok')
  with assms(1,2) have h: "h ''state'' = Some (lit ''processing'')" "h ''format_version'' = Some (lit ''2'')"
    "h ''lease_token'' = Some tok'"
    by (simp_all add: entry_cases)
  then have "hash_at d k \<noteq> Some Map.empty" using assms(1) by auto
  with del_ok [where k = k and d = d] obtain d' where d': "del_cmd api k d = (Inr 1, d')"
    "hash_at d' = (hash_at d)(k := Some Map.empty)" "deadline d' = (deadline d)(k := None)" "now_us d' = now_us d"
    by auto
  from cell_upd [OF d'(2,3)] d' h Leased assms(1,2) show ?thesis
    by (cases "tok' = tok") (auto simp: release_script_def hget_hash cell_same)
qed (use assms in \<open>auto simp: release_script_def hget_hash entry_cases cell_same\<close>)

text \<open>Every script on an entry that is not corrupt is one step of the machine at its key.\<close>

lemma script_refines:
  assumes "cell_at hash_at deadline d k = (e, dl)" "e \<noteq> Corrupt" "timed_ok cmd"
  shows "\<exists>d'. run_script api k cmd d = (Inr (fst (lease_step (ms (now_us d)) cmd (e, dl))), d')
    \<and> cell_at hash_at deadline d' =
        (cell_at hash_at deadline d)(k := snd (lease_step (ms (now_us d)) cmd (e, dl)))
    \<and> now_us d' = now_us d"
proof -
  from assms obtain h where "hash_at d k = Some h" "entry_of h = e" "dl = deadline d k"
    by (auto simp: cell_at_def split: option.splits)
  with assms(2,3) claim_refines renew_refines complete_refines release_refines show ?thesis
    by (cases cmd) simp_all
qed

end

end
