(* ===== verification/Hot_Runs.thy ===== *)
theory Hot_Runs
  imports Hot_Lease
begin

text \<open>
  Runs of the hot store: any sequence of scripts from any number of clients, with time passing
  and keys being evicted between them. \<open>hot_run\<close> executes a sequence on a server and
  \<open>lease_run\<close> on the abstract cells; the first refines the second.
\<close>

section \<open>Runs\<close>

datatype event = Script pystr hot_command | Elapse nat | Evict pystr

text \<open>When, at which key, which command, and what it was answered.\<close>

type_synonym log = "(int \<times> pystr \<times> hot_command \<times> lua_reply result) list"

fun hot_run ::
  "'d redis \<Rightarrow> ('d \<Rightarrow> int) \<Rightarrow> (nat \<Rightarrow> 'd \<Rightarrow> 'd) \<Rightarrow> (pystr \<Rightarrow> 'd \<Rightarrow> 'd) \<Rightarrow> event list \<Rightarrow> 'd \<Rightarrow> log \<times> 'd" where
  "hot_run api now_us elapse evict [] d = ([], d)"
| "hot_run api now_us elapse evict (Script k cmd # es) d =
     (case run_script api k cmd d of
        (r, d') \<Rightarrow> (case hot_run api now_us elapse evict es d' of
          (log, d'') \<Rightarrow> ((ms (now_us d), k, cmd, r) # log, d'')))"
| "hot_run api now_us elapse evict (Elapse n # es) d = hot_run api now_us elapse evict es (elapse n d)"
| "hot_run api now_us elapse evict (Evict k # es) d = hot_run api now_us elapse evict es (evict k d)"

definition age :: "int \<Rightarrow> cell \<Rightarrow> cell" where
  "age at c = (if expired (snd c) at then (Free, None) else c)"

fun lease_run :: "event list \<Rightarrow> int \<times> (pystr \<Rightarrow> cell) \<Rightarrow> log \<times> int \<times> (pystr \<Rightarrow> cell)" where
  "lease_run [] w = ([], w)"
| "lease_run (Script k cmd # es) (t, cs) =
     (case lease_step (ms t) cmd (cs k) of
        (reply, c) \<Rightarrow> (case lease_run es (t, cs(k := c)) of
          (log, w) \<Rightarrow> ((ms t, k, cmd, Inr reply) # log, w)))"
| "lease_run (Elapse n # es) (t, cs) = lease_run es (t + int n, \<lambda>k. age (t + int n) (cs k))"
| "lease_run (Evict k # es) (t, cs) = lease_run es (t, cs(k := (Free, None)))"

fun event_ok :: "(pystr \<Rightarrow> bool) \<Rightarrow> event \<Rightarrow> bool" where
  "event_ok sound (Script k cmd) \<longleftrightarrow> sound k \<and> timed_ok cmd"
| "event_ok sound e \<longleftrightarrow> True"

lemma lease_step_sound: "fst c \<noteq> Corrupt \<Longrightarrow> fst (snd (lease_step t cmd c)) \<noteq> Corrupt"
  by (cases "(t, cmd, c)" rule: lease_step.cases) (auto split: if_splits)

definition world :: "('d \<Rightarrow> int) \<Rightarrow> 'd hashes \<Rightarrow> 'd deadlines \<Rightarrow> 'd \<Rightarrow> int \<times> (pystr \<Rightarrow> cell)" where
  "world now_us hash_at deadline d = (now_us d, cell_at hash_at deadline d)"

context redis_world
begin

lemma elapse_cells:
  "cell_at hash_at deadline (elapse n d) = (\<lambda>k. age (now_us d + int n) (cell_at hash_at deadline d k))"
  by (auto simp: cell_at_def age_def elapse_hash elapse_deadline fun_eq_iff)

lemma evict_cells: "cell_at hash_at deadline (evict k d) = (cell_at hash_at deadline d)(k := (Free, None))"
  by (auto simp: cell_at_def evict_hash evict_deadline fun_eq_iff)

lemma run_refines:
  "list_all (event_ok sound) es \<Longrightarrow> \<forall>k. sound k \<longrightarrow> fst (cell_at hash_at deadline d k) \<noteq> Corrupt \<Longrightarrow>
   (case hot_run api now_us elapse evict es d of (log, d') \<Rightarrow> lease_run es (world now_us hash_at deadline d) = (log, world now_us hash_at deadline d'))"
proof (induction es arbitrary: d)
  case (Cons e es)
  show ?case
  proof (cases e)
    case (Script k cmd)
    obtain en dl where c: "cell_at hash_at deadline d k = (en, dl)" by fastforce
    with Cons.prems Script have "en \<noteq> Corrupt" "timed_ok cmd" by fastforce+
    from script_refines [OF c this] obtain d' where d': "run_script api k cmd d
        = (Inr (fst (lease_step (ms (now_us d)) cmd (en, dl))), d')"
      "cell_at hash_at deadline d' = (cell_at hash_at deadline d)(k := snd (lease_step (ms (now_us d)) cmd (en, dl)))"
      "now_us d' = now_us d" by blast
    have "\<forall>k. sound k \<longrightarrow> fst (cell_at hash_at deadline d' k) \<noteq> Corrupt"
      using Cons.prems(2) lease_step_sound [of "(en, dl)"] \<open>en \<noteq> Corrupt\<close> d'(2) by simp
    with Cons.IH [of d'] Cons.prems(1) d' Script c show ?thesis
      by (auto simp: world_def split: prod.splits)
  next
    case (Elapse n)
    have "\<forall>k. sound k \<longrightarrow> fst (cell_at hash_at deadline (elapse n d) k) \<noteq> Corrupt"
      using Cons.prems(2) by (simp add: elapse_cells age_def)
    with Cons.IH [of "elapse n d"] Cons.prems(1) Elapse show ?thesis
      by (simp add: world_def elapse_cells elapse_clock)
  next
    case (Evict k)
    have "\<forall>k'. sound k' \<longrightarrow> fst (cell_at hash_at deadline (evict k d) k') \<noteq> Corrupt"
      using Cons.prems(2) by (simp add: evict_cells)
    with Cons.IH [of "evict k d"] Cons.prems(1) Evict show ?thesis
      by (simp add: world_def evict_cells evict_clock)
  qed
qed simp

end

text \<open>
  C11. The hot store refines the lease machine. Whatever Redis server keeps the documented
  laws, every run of scripts of any clients, with the passing of time and evictions between
  them, is answered exactly as the abstract machine of free, leased and done entries answers
  it, and leaves exactly the cells the machine leaves, on all keys, as long as the scripts
  run on keys that held no foreign data at the start.
\<close>

theorem hot_store_refines_lease_machine:
  assumes "redis_world api hash_at deadline now_us elapse evict"
    and "list_all (event_ok sound) es"
    and "\<forall>k. sound k \<longrightarrow> fst (cell_at hash_at deadline d k) \<noteq> Corrupt"
  shows "case hot_run api now_us elapse evict es d of (log, d') \<Rightarrow>
    lease_run es (world now_us hash_at deadline d) = (log, world now_us hash_at deadline d')"
  using assms by (rule redis_world.run_refines)

section \<open>A lease excludes the others\<close>

text \<open>An event that is neither a command of the holder of the lease nor an eviction of its key.\<close>

fun foreign :: "pystr \<Rightarrow> bytes \<Rightarrow> event \<Rightarrow> bool" where
  "foreign k tok (Script k' (Claim fp t lease)) \<longleftrightarrow> True"
| "foreign k tok (Script k' (Renew t lease)) \<longleftrightarrow> k' = k \<longrightarrow> t \<noteq> tok"
| "foreign k tok (Script k' (Complete t r ttl fp expires)) \<longleftrightarrow> k' = k \<longrightarrow> t \<noteq> tok"
| "foreign k tok (Script k' (Release t)) \<longleftrightarrow> k' = k \<longrightarrow> t \<noteq> tok"
| "foreign k tok (Elapse n) \<longleftrightarrow> True"
| "foreign k tok (Evict k') \<longleftrightarrow> k' \<noteq> k"

fun elapsed :: "event list \<Rightarrow> int" where
  "elapsed [] = 0"
| "elapsed (Elapse n # es) = int n + elapsed es"
| "elapsed (e # es) = elapsed es"

lemma elapsed_nonneg: "0 \<le> elapsed es"
  by (induction es rule: elapsed.induct) simp_all

definition refusals :: "lua_reply list" where
  "refusals = [ArrayReply [IntReply 3], ArrayReply [IntReply 4], IntReply 0]"

definition refused_at :: "pystr \<Rightarrow> log \<Rightarrow> bool" where
  "refused_at k log \<longleftrightarrow> list_all (\<lambda>(t, k', cmd, r). k' = k \<longrightarrow> r \<in> Inr ` set refusals) log"

lemma foreign_step:
  "foreign k tok (Script k cmd) \<Longrightarrow> lease_step t cmd (Leased fp tok, dl) = (reply, c) \<Longrightarrow>
   reply \<in> set refusals \<and> c = (Leased fp tok, dl)"
  by (cases cmd) (auto simp: refusals_def split: if_splits)

lemma lease_held:
  "cs k = (Leased fp tok, Some t0) \<Longrightarrow> list_all (foreign k tok) es \<Longrightarrow> ms (t + elapsed es) < t0 \<Longrightarrow>
   lease_run es (t, cs) = (log, t', cs') \<Longrightarrow>
   cs' k = (Leased fp tok, Some t0) \<and> t' = t + elapsed es \<and> refused_at k log"
proof (induction es arbitrary: t cs log)
  case (Cons e es)
  show ?case
  proof (cases e)
    case (Script k' cmd)
    obtain reply c where step: "lease_step (ms t) cmd (cs k') = (reply, c)" by (metis surj_pair)
    with Cons.prems(4) Script obtain log' where log: "lease_run es (t, cs(k' := c)) = (log', t', cs')"
      "log = (ms t, k', cmd, Inr reply) # log'" by (auto split: prod.splits)
    have head: "k' = k \<longrightarrow> reply \<in> set refusals \<and> c = (Leased fp tok, Some t0)"
      using foreign_step [of k tok cmd] step Cons.prems(1,2) Script by fastforce
    then have "(cs(k' := c)) k = (Leased fp tok, Some t0)" using Cons.prems(1) by auto
    from Cons.IH [OF this _ _ log(1)] Cons.prems(2,3) Script head log(2) show ?thesis
      by (auto simp: refused_at_def)
  next
    case (Elapse n)
    have "ms (t + int n) \<le> ms (t + int n + elapsed es)"
      using elapsed_nonneg by (intro zdiv_mono1) auto
    with Cons.prems(3) Elapse have "ms (t + int n) < t0" "ms (t + int n + elapsed es) < t0"
      by (simp_all add: add.assoc)
    with Cons.prems(1) have "age (t + int n) (cs k) = (Leased fp tok, Some t0)" by (simp add: age_def)
    with Cons.IH [of "\<lambda>k. age (t + int n) (cs k)" "t + int n" log] Cons.prems Elapse
      \<open>ms (t + int n + elapsed es) < t0\<close>
    show ?thesis by simp
  next
    case (Evict k')
    with Cons.prems Cons.IH [of "cs(k' := (Free, None))" t log] show ?thesis
      by (auto simp: fun_upd_def)
  qed
qed (simp add: refused_at_def)

lemma lease_step_acquired:
  "lease_step t (Claim fp tok lease) c = (ArrayReply [IntReply 1], c') \<Longrightarrow>
   c' = (Leased fp tok, Some (t + lease * 1000))"
  by (cases "(t, Claim fp tok lease, c)" rule: lease_step.cases) (auto split: if_splits)

text \<open>
  C12. Mutual exclusion. Once a claim was answered that it acquired the key, then until its
  lease runs out every other script on that key is refused: a claim with conflict or
  in-progress, a renewal, completion or release under another token with 0, whatever the
  other clients send and on whatever keys, as long as the holder itself neither renews,
  completes nor releases and the key is not evicted. The entry is still the holder's
  afterwards.
\<close>

theorem lease_excludes:
  assumes "redis_world api hash_at deadline now_us elapse evict"
    and "list_all (event_ok sound) (Script k (Claim fp tok lease) # es)"
    and "\<forall>k. sound k \<longrightarrow> fst (cell_at hash_at deadline d k) \<noteq> Corrupt"
    and "hot_run api now_us elapse evict (Script k (Claim fp tok lease) # es) d
      = ((t, k, Claim fp tok lease, Inr (ArrayReply [IntReply 1])) # log, d')"
    and "list_all (foreign k tok) es" "ms (now_us d + elapsed es) < ms (now_us d) + lease * 1000"
  shows "refused_at k log
    \<and> cell_at hash_at deadline d' k = (Leased fp tok, Some (ms (now_us d) + lease * 1000))"
proof -
  have "lease_run (Script k (Claim fp tok lease) # es) (world now_us hash_at deadline d)
      = ((t, k, Claim fp tok lease, Inr (ArrayReply [IntReply 1])) # log, world now_us hash_at deadline d')"
    using redis_world.run_refines [OF assms(1-3)] assms(4) by simp
  then obtain c where "lease_step (ms (now_us d)) (Claim fp tok lease) (cell_at hash_at deadline d k)
      = (ArrayReply [IntReply 1], c)"
    and run: "lease_run es (now_us d, (cell_at hash_at deadline d)(k := c)) = (log, world now_us hash_at deadline d')"
    by (auto simp: world_def split: prod.splits)
  with lease_step_acquired have "c = (Leased fp tok, Some (ms (now_us d) + lease * 1000))" by blast
  with lease_held [OF _ assms(5,6), of "(cell_at hash_at deadline d)(k := c)" fp] run show ?thesis
    by (simp add: world_def)
qed

section \<open>What a replay comes from\<close>

text \<open>
  In the log of a run: token \<open>tok\<close> acquired key \<open>k\<close> for fingerprint \<open>fp\<close>; result \<open>r\<close> was
  published there for \<open>fp\<close>, valid at time \<open>t\<close>, by a token that had acquired the key for it.
\<close>

definition acquired :: "log \<Rightarrow> pystr \<Rightarrow> bytes \<Rightarrow> bytes \<Rightarrow> bool" where
  "acquired past k fp tok \<longleftrightarrow>
     (\<exists>t lease. (t, k, Claim fp tok lease, Inr (ArrayReply [IntReply 1])) \<in> set past)"

definition published :: "log \<Rightarrow> pystr \<Rightarrow> bytes \<Rightarrow> bytes \<Rightarrow> int \<Rightarrow> bool" where
  "published past k fp r t \<longleftrightarrow>
     (\<exists>t0 tok ttl expires. (t0, k, Complete tok r ttl fp expires, Inr (IntReply 1)) \<in> set past
        \<and> t < expires \<and> t < t0 + ttl \<and> acquired past k fp tok)"

text \<open>Every cell is justified by what happened before.\<close>

definition justified :: "log \<Rightarrow> pystr \<Rightarrow> cell \<Rightarrow> int \<Rightarrow> bool" where
  "justified past k c t \<longleftrightarrow>
     (case c of
        (Free, dl) \<Rightarrow> dl = None
      | (Leased fp tok, dl) \<Rightarrow> acquired past k fp tok \<and> dl \<noteq> None
      | (Done fp r, dl) \<Rightarrow> (\<exists>t0. dl = Some t0 \<and> t < t0 \<and> published past k fp r (t0 - 1))
      | (Corrupt, dl) \<Rightarrow> False)"

lemma acquired_mono: "acquired past k fp tok \<Longrightarrow> set past \<subseteq> set past' \<Longrightarrow> acquired past' k fp tok"
  unfolding acquired_def by blast

lemma published_mono:
  "published past k fp r t \<Longrightarrow> set past \<subseteq> set past' \<Longrightarrow> t' \<le> t \<Longrightarrow> published past' k fp r t'"
proof -
  assume p: "published past k fp r t" "set past \<subseteq> set past'" "t' \<le> t"
  then obtain t0 tok ttl expires where "(t0, k, Complete tok r ttl fp expires, Inr (IntReply 1)) \<in> set past"
    "t < expires" "t < t0 + ttl" "acquired past k fp tok"
    by (auto simp: published_def)
  with p(2,3) acquired_mono [of past k fp tok past'] show ?thesis
    unfolding published_def by (intro exI [of _ t0] exI [of _ tok] exI [of _ ttl] exI [of _ expires]) auto
qed

lemma justified_mono: "justified past k c t \<Longrightarrow> set past \<subseteq> set past' \<Longrightarrow> justified past' k c t"
  by (auto simp: justified_def split: prod.splits entry.splits intro: acquired_mono published_mono)

lemma justified_age:
  "justified past k c (ms t) \<Longrightarrow> justified past k (age (t + int n) c) (ms (t + int n))"
  by (auto simp: justified_def age_def split: prod.splits entry.splits if_splits)

lemma justified_step:
  assumes "justified past k c t" "lease_step t cmd c = (reply, c')" "timed_ok cmd"
  shows "justified (past @ [(t, k, cmd, Inr reply)]) k c' t"
    and "cmd = Claim fp tok lease \<Longrightarrow> reply = ArrayReply [IntReply 2, BulkReply r] \<Longrightarrow> published past k fp r t"
proof -
  have old: "justified (past @ [(t, k, cmd, Inr reply)]) k c t"
    using assms(1) by (rule justified_mono) auto
  show "justified (past @ [(t, k, cmd, Inr reply)]) k c' t"
  proof (cases "c' = c")
    case False
    with assms(2) consider
      (acquire) fp tok lease where "cmd = Claim fp tok lease" "reply = ArrayReply [IntReply 1]"
        "c' = (Leased fp tok, Some (t + lease * 1000))"
      | (renew) fp tok lease dl where "c = (Leased fp tok, dl)" "c' = (Leased fp tok, Some (t + lease * 1000))"
      | (publish) fp tok r ttl expires dl where "cmd = Complete tok r ttl fp expires" "reply = IntReply 1"
        "c = (Leased fp tok, dl)" "c' = (Done fp r, Some (t + min ttl (expires - t)))"
        "\<not> min ttl (expires - t) \<le> 0"
      | (free) "c' = (Free, None)"
      by (cases "(t, cmd, c)" rule: lease_step.cases) (auto split: if_splits)
    then show ?thesis
    proof cases
      case acquire
      then show ?thesis by (auto simp: justified_def acquired_def)
    next
      case renew
      with old show ?thesis by (simp add: justified_def)
    next
      case publish
      with old have "acquired (past @ [(t, k, cmd, Inr reply)]) k fp tok" by (simp add: justified_def)
      with publish have "published (past @ [(t, k, cmd, Inr reply)]) k fp r (t + min ttl (expires - t) - 1)"
        unfolding published_def
        by (intro exI [of _ t] exI [of _ tok] exI [of _ ttl] exI [of _ expires]) auto
      with publish show ?thesis by (auto simp: justified_def)
    qed (simp add: justified_def)
  qed (use old in simp)
  assume "cmd = Claim fp tok lease" "reply = ArrayReply [IntReply 2, BulkReply r]"
  with assms(2) obtain dl where "c = (Done fp r, dl)"
    by (cases "(t, cmd, c)" rule: lease_step.cases) (auto split: if_splits)
  with assms(1) show "published past k fp r t"
    by (auto simp: justified_def intro: published_mono)
qed

lemma replay_justified:
  "\<forall>k. justified past k (cs k) (ms t) \<Longrightarrow> list_all (event_ok sound) es \<Longrightarrow>
   lease_run es (t, cs) = (xs @ (t1, k, Claim fp tok lease, Inr (ArrayReply [IntReply 2, BulkReply r])) # ys, w) \<Longrightarrow>
   published (past @ xs) k fp r t1"
proof (induction es arbitrary: past t cs xs)
  case (Cons e es)
  show ?case
  proof (cases e)
    case (Script k' cmd)
    obtain reply c where step: "lease_step (ms t) cmd (cs k') = (reply, c)" by (metis surj_pair)
    with Cons.prems(3) Script obtain log where log: "lease_run es (t, cs(k' := c)) = (log, w)"
      "(ms t, k', cmd, Inr reply) # log
         = xs @ (t1, k, Claim fp tok lease, Inr (ArrayReply [IntReply 2, BulkReply r])) # ys"
      by (auto split: prod.splits)
    have ok: "timed_ok cmd" using Cons.prems(2) Script by simp
    let ?past = "past @ [(ms t, k', cmd, Inr reply)]"
    have just: "\<forall>k. justified ?past k ((cs(k' := c)) k) (ms t)"
    proof
      fix j
      have old: "justified past j (cs j) (ms t)" using Cons.prems(1) by blast
      show "justified ?past j ((cs(k' := c)) j) (ms t)"
      proof (cases "j = k'")
        case True
        with justified_step(1) [OF _ step ok, of past k'] old show ?thesis by simp
      next
        case False
        have "set past \<subseteq> set ?past" by auto
        with justified_mono [OF old] False show ?thesis by simp
      qed
    qed
    show ?thesis
    proof (cases xs)
      case Nil
      with log(2) justified_step(2) [OF _ step ok, of past k fp tok lease r] Cons.prems(1) show ?thesis
        by auto
    next
      case (Cons x xs')
      with log have "lease_run es (t, cs(k' := c))
          = (xs' @ (t1, k, Claim fp tok lease, Inr (ArrayReply [IntReply 2, BulkReply r])) # ys, w)"
        "x = (ms t, k', cmd, Inr reply)" by simp_all
      with Cons.IH [OF just _ this(1)] Cons.prems(2) Cons show ?thesis by simp
    qed
  next
    case (Elapse n)
    have "\<forall>k. justified past k (age (t + int n) (cs k)) (ms (t + int n))"
      using Cons.prems(1) justified_age by blast
    with Cons.IH [OF this] Cons.prems(2,3) Elapse show ?thesis by simp
  next
    case (Evict k')
    have "\<forall>k. justified past k ((cs(k' := (Free, None))) k) (ms t)"
      using Cons.prems(1) by (simp add: justified_def)
    with Cons.IH [of past "cs(k' := (Free, None))" t xs] Cons.prems(2,3) Evict show ?thesis
      by (simp add: fun_upd_def)
  qed
qed simp

text \<open>
  C25. Nothing but a published, unexpired result is ever replayed. In every run on a server whose keys
  were empty at the start, when a claim is answered with a replay of \<open>r\<close>, then earlier in
  the run some client acquired that very key for the same request fingerprint and, as its
  holder, published \<open>r\<close>; and the moment of the replay is before the \<open>expires_at\<close> of that result
  and within its cache lifetime.
\<close>

theorem replay_is_published:
  assumes "redis_world api hash_at deadline now_us elapse evict"
    and "list_all (event_ok (\<lambda>_. True)) es"
    and "\<forall>k. cell_at hash_at deadline d k = (Free, None)"
    and "hot_run api now_us elapse evict es d
      = (xs @ (t, k, Claim fp tok lease, Inr (ArrayReply [IntReply 2, BulkReply r])) # ys, d')"
  shows "published xs k fp r t"
proof -
  have "\<forall>k. True \<longrightarrow> fst (cell_at hash_at deadline d k) \<noteq> Corrupt" using assms(3) by simp
  from redis_world.run_refines [OF assms(1,2) this]
  have "lease_run es (world now_us hash_at deadline d)
      = (xs @ (t, k, Claim fp tok lease, Inr (ArrayReply [IntReply 2, BulkReply r])) # ys,
         world now_us hash_at deadline d')"
    using assms(4) by simp
  moreover have "\<forall>k. justified [] k (cell_at hash_at deadline d k) (ms (now_us d))"
    using assms(3) by (simp add: justified_def)
  ultimately show ?thesis using replay_justified [of "[]"] assms(2) by (fastforce simp: world_def)
qed

end
