(* ===== verification/Hot_Adapter.thy ===== *)
theory Hot_Adapter
  imports Hot_Runs
begin

text \<open>
  The Python side of the hot store: what its operations raise whatever the key holds, the
  life of one key through the adapter, and that identities do not share a key.
\<close>

section \<open>Keys\<close>

lemma split_at_zero:
  "0 \<notin> set xs \<Longrightarrow> 0 \<notin> set ys \<Longrightarrow> xs @ 0 # us = ys @ 0 # vs \<longleftrightarrow> xs = ys \<and> us = (vs :: 'a :: zero list)"
proof (induction xs arbitrary: ys)
  case Nil
  then show ?case by (cases ys) auto
next
  case (Cons x xs)
  then show ?case by (cases ys) auto
qed

text \<open>
  C26. Identities do not share a storage key. Two identities whose subject and operation are
  free of the character NUL, and whose hashed material SHA-256 tells apart, have the same key
  only if they are the same identity: the zero bytes keep subject, operation and digest apart.
\<close>

theorem storage_key_separates:
  assumes "storage_key cfg i = Inr k" "storage_key cfg j = Inr k"
    and "0 \<notin> set (subject_id i)" "0 \<notin> set (subject_id j)"
    and "0 \<notin> set (operation i)" "0 \<notin> set (operation j)"
    and "\<And>m n. key_material i = Inr m \<Longrightarrow> key_material j = Inr n \<Longrightarrow> sha256 cfg m = sha256 cfg n \<Longrightarrow> m = n"
  shows "i = j"
proof -
  from assms(1,2) obtain m n where mn: "key_material i = Inr m" "key_material j = Inr n"
    and "hex (sha256 cfg m) = hex (sha256 cfg n)"
    by (auto simp: storage_key_def)
  with assms(7) have "m = n" by simp
  with mn obtain s op s' op' where
    e: "utf8_encode (subject_id i) = Inr s" "utf8_encode (operation i) = Inr op"
      "utf8_encode (subject_id j) = Inr s'" "utf8_encode (operation j) = Inr op'"
    and eq: "s @ 0 # op @ 0 # key_digest i = s' @ 0 # op' @ 0 # key_digest j"
    by (auto simp: key_material_def)
  from e assms(3-6) utf8_no_zero have "0 \<notin> set s" "0 \<notin> set s'" "0 \<notin> set op" "0 \<notin> set op'" by blast+
  with eq have "s = s'" "op = op'" "key_digest i = key_digest j" by (simp_all add: split_at_zero)
  with e show ?thesis by (intro IdempotencyKey.equality) (auto dest: utf8_encode_inject)
qed

section \<open>ASCII arguments\<close>

lemma utf8_ascii: "list_all (\<lambda>c. c < 128) s \<Longrightarrow> utf8_encode s = Inr (ascii s)"
proof -
  assume "list_all (\<lambda>c. c < 128) s"
  then have "utf8_points s = Inr s" by (induction s) (simp_all add: utf8_char_def)
  then show ?thesis by (simp add: utf8_encode_def ascii_def)
qed

lemma hex_digits_ascii: "list_all (\<lambda>c. c < 128) (hex_digits k n)"
  by (induction k arbitrary: n) (auto simp: hex_digit_def)

lemma hex_ascii: "list_all (\<lambda>c. c < 128) (hex bs)"
  by (induction bs) (simp_all add: hex_of_byte_def hex_digits_ascii)

lemma str_uuid_ascii: "list_all (\<lambda>c. c < 128) (str_uuid u)"
proof -
  have "set (take n ds) \<subseteq> set ds" "set (take n (drop m ds)) \<subseteq> set ds" "set (drop n ds) \<subseteq> set ds"
    for n m and ds :: pystr
    by (auto dest: in_set_takeD in_set_dropD)
  then show ?thesis
    using hex_digits_ascii [of 32 "unat u"] unfolding str_uuid_def Let_def list_all_iff by fastforce
qed

lemma ascii_eq:
  "list_all (\<lambda>c. c < 128) s \<Longrightarrow> list_all (\<lambda>c. c < 128) t \<Longrightarrow> ascii s = ascii t \<longleftrightarrow> s = t"
  by (metis utf8_ascii utf8_encode_inject)

lemma ascii_hex_inject [simp]: "ascii (hex xs) = ascii (hex ys) \<longleftrightarrow> xs = ys"
  by (simp add: ascii_eq hex_ascii)

lemma ascii_uuid_inject [simp]: "ascii (str_uuid u) = ascii (str_uuid v) \<longleftrightarrow> u = v"
  by (simp add: ascii_eq str_uuid_ascii)

section \<open>What a claim returns, whatever the key holds\<close>

text \<open>The five answers of the claim script.\<close>

definition claim_answers :: "bytes \<Rightarrow> lua_reply list" where
  "claim_answers r =
     [ArrayReply [IntReply 1], ArrayReply [IntReply 2, BulkReply r], ArrayReply [IntReply 3],
      ArrayReply [IntReply 4], ArrayReply [IntReply 5]]"

context redis_server
begin

lemma claim_answered:
  assumes "claim_script api k fp tok lease d = (r, d')" "0 < lease"
  shows "r = Inl RedisError \<or> (\<exists>x reply. r = Inr reply \<and> reply \<in> set (claim_answers x))"
proof (cases "hash_at d k")
  case None
  with assms(1) show ?thesis by (simp add: claim_script_def sthen_def hget_wrong)
next
  case (Some h)
  show ?thesis
  proof (cases "h = Map.empty")
    case True
    with claim_refines [OF Some _ _ assms(2), of Free fp tok] assms(1) show ?thesis
      by (auto simp: claim_answers_def)
  next
    case False
    with assms(1) Some show ?thesis
      by (cases "h ''state''")
        (auto simp: claim_script_def hget_hash exists_eq claim_answers_def split: if_splits)
  qed
qed

end

text \<open>The faults of a connection that redis-py reports as its own errors.\<close>

definition redis_faults :: "'d link \<Rightarrow> bool" where
  "redis_faults l \<longleftrightarrow>
     list_all (\<lambda>dv. fate_of dv \<in> {Answered, RequestLost RedisError, ReplyLost RedisError}) (traffic l)"

lemma redis_eval_cases:
  "redis_eval script l = (r, l') \<Longrightarrow> redis_faults l \<Longrightarrow> r = Inl RedisError \<or> (\<exists>d d'. script d = (r, d'))"
  by (auto simp: redis_eval_def redis_faults_def Let_def
      split: list.splits prod.splits fate.splits)

text \<open>The JSON reader and the validator raise what their documentation says.\<close>

definition json_errors :: "json_lib \<Rightarrow> bool" where
  "json_errors lib \<longleftrightarrow>
     (\<forall>t e. validate_json lib t = Inl e \<longrightarrow> e \<in> {ValidationError, ValueError})
     \<and> (\<forall>p fp e. model_validate lib p fp = Inl e \<longrightarrow> e \<in> {ValidationError, ValueError, TypeError})"

abbreviation hot_unavailable :: exn where
  "hot_unavailable \<equiv> IdempotencyError IdempotencyUnavailableError"

lemma fromhex_error: "fromhex s = Inl e \<Longrightarrow> e = ValueError"
  by (induction s rule: fromhex.induct)
    (auto simp: rthen_eq_Inl split: if_splits list.splits option.splits)

lemma utf8_decode_error: "utf8_decode b = Inl e \<Longrightarrow> e = ValueError"
proof -
  have "utf8_scan bs = Inl e \<Longrightarrow> e = ValueError" for bs
    by (induction bs rule: utf8_scan.induct)
      (auto simp: utf8_scan.simps rthen_eq_Inl split: if_splits option.splits prod.splits)
  then show "utf8_decode b = Inl e \<Longrightarrow> e = ValueError" by (simp add: utf8_decode_def)
qed

lemma decode_completed_error:
  assumes lib: "json_errors lib" and "decode_completed lib raw = Inl e"
  shows "e = RuntimeError"
proof -
  let ?documented = "{KeyError, TypeError, ValueError, ValidationError}"
  have valid: "model_validate lib p x = Inl e' \<Longrightarrow> e' \<in> ?documented" for p x e'
    using lib unfolding json_errors_def by fastforce
  have field: "(case v of Some (PyStr fp) \<Rightarrow> rthen (fromhex fp) (model_validate lib p) | _ \<Rightarrow> Inl TypeError) = Inl e'
      \<Longrightarrow> e' \<in> ?documented" for v p e'
    using valid by (cases v; cases "the v") (auto simp: rthen_eq_Inl dest: fromhex_error)
  from assms(2) obtain e' where inner: "rthen (case raw of BulkReply b \<Rightarrow> utf8_decode b | _ \<Rightarrow> Inl TypeError) (\<lambda>text.
      rthen (validate_json lib text) (\<lambda>payload.
      case map_of payload (ustr ''request_fingerprint'') of
        Some (PyStr fp) \<Rightarrow> rthen (fromhex fp) (model_validate lib payload)
      | _ \<Rightarrow> Inl TypeError)) = Inl e'"
    and e: "e = (if e' \<in> ?documented then RuntimeError else e')"
    unfolding decode_completed_def malformed_def by (auto split: sum.splits)
  from inner have "e' \<in> ?documented"
    unfolding rthen_eq_Inl
  proof (elim disjE exE conjE)
    assume "(case raw of BulkReply b \<Rightarrow> utf8_decode b | _ \<Rightarrow> Inl TypeError) = Inl e'"
    then show ?thesis by (auto dest: utf8_decode_error split: lua_reply.splits)
  next
    fix s assume "validate_json lib s = Inl e'"
    with lib show ?thesis by (auto simp: json_errors_def)
  qed (rule field)
  with e show ?thesis by simp
qed

lemma read_claim_cases:
  assumes "json_errors lib" "reply \<in> set (claim_answers x)"
  shows "read_claim lib fp reply = Inl hot_unavailable
    \<or> (\<exists>c. read_claim lib fp reply = Inr c
        \<and> (claim_status c = CLAIM_REPLAY \<longleftrightarrow> claim_completed c \<noteq> None)
        \<and> pred_option (\<lambda>done. request_fingerprint done = fp) (claim_completed c))"
proof (cases "decode_completed lib (BulkReply x)")
  case (Inl e)
  with decode_completed_error [OF assms(1) this] assms(2) show ?thesis
    by (auto simp: claim_answers_def read_claim_def raise_corrupted_def claim_result_new_def)
next
  case (Inr c)
  with assms(2) show ?thesis
    by (auto simp: claim_answers_def read_claim_def raise_corrupted_def claim_result_new_def)
qed

text \<open>
  C27. A claim fails closed. With arguments that pass the guards, and whatever the key holds
  (nothing, an entry of this store in any state, fields of another format, a value of another
  type, a result that is not JSON or not a completed result) and whichever requests or
  replies Redis loses, the claim of the adapter either raises \<open>IdempotencyUnavailableError\<close> and
  nothing else, or returns a decision in which a replay carries a completed result whose
  fingerprint is the one asked for, and only a replay carries one.
\<close>

theorem claim_fails_closed:
  assumes "redis_server (redis_api cfg) hash_at deadline now_us"
    and "json_errors (json cfg)" "redis_faults l" "storage_key cfg i = Inr k"
    and "length fp = 32" "0 < lease"
    and "hot_claim cfg i fp tok lease l = (r, l')"
  shows "r = Inl hot_unavailable
    \<or> (\<exists>c. r = Inr c \<and> (claim_status c = CLAIM_REPLAY \<longleftrightarrow> claim_completed c \<noteq> None)
        \<and> pred_option (\<lambda>done. request_fingerprint done = fp) (claim_completed c))"
proof -
  let ?script = "claim_script (redis_api cfg) k (ascii (hex fp)) (ascii (str_uuid tok)) lease"
  obtain a l1 where a: "redis_eval ?script l = (a, l1)" by (metis surj_pair)
  have "a = Inl RedisError \<or> (\<exists>x reply. a = Inr reply \<and> reply \<in> set (claim_answers x))"
    using redis_eval_cases [OF a assms(3)] redis_server.claim_answered [OF assms(1) _ assms(6)] by blast
  then show ?thesis
  proof (elim disjE exE conjE)
    assume "a = Inl RedisError"
    with assms(4-7) a show ?thesis
      by (simp add: hot_claim_def eval_on_def scatch_def sthen_def raise_unavailable_def)
  next
    fix x reply
    assume r: "a = Inr reply" "reply \<in> set (claim_answers x)"
    with assms(4-7) a have "r = read_claim (json cfg) fp reply"
      by (simp add: hot_claim_def eval_on_def scatch_def sthen_def)
    with read_claim_cases [OF assms(2) r(2), of fp] show ?thesis by simp
  qed
qed

section \<open>The life of a key\<close>

text \<open>What the JSON library must give back of a result that was written.\<close>

definition codec_ok :: "json_lib \<Rightarrow> CompletedIdempotencyResult \<Rightarrow> bool" where
  "codec_ok lib c \<longleftrightarrow>
     (\<exists>payload. validate_json lib (encode_completed lib c) = Inr payload
        \<and> map_of payload (ustr ''request_fingerprint'') = Some (PyStr (hex (request_fingerprint c)))
        \<and> model_validate lib payload (request_fingerprint c) = Inr c)"

lemma decode_encode_completed:
  "codec_ok lib c \<Longrightarrow> utf8_encode (encode_completed lib c) = Inr b \<Longrightarrow>
   decode_completed lib (BulkReply b) = Inr c"
  by (auto simp: codec_ok_def decode_completed_def malformed_def dest: utf8_decode_encode)

lemma eval_on_clear:
  "storage_key cfg i = Inr k \<Longrightarrow> traffic l = [] \<Longrightarrow> script k (server l) = (Inr reply, d) \<Longrightarrow>
   eval_on cfg i script l = (Inr reply, l\<lparr>server := d\<rparr>)"
  by (simp add: eval_on_def scatch_def sthen_def redis_eval_def)

lemma read_claim_simps:
  "read_claim lib fp (ArrayReply [IntReply 1]) = Inr \<lparr>claim_status = ACQUIRED, claim_completed = None\<rparr>"
  "read_claim lib fp (ArrayReply [IntReply 3]) = Inr \<lparr>claim_status = CLAIM_CONFLICT, claim_completed = None\<rparr>"
  "read_claim lib fp (ArrayReply [IntReply 4]) = Inr \<lparr>claim_status = CLAIM_IN_PROGRESS, claim_completed = None\<rparr>"
  "decode_completed lib (BulkReply r) = Inr c \<Longrightarrow> request_fingerprint c = fp \<Longrightarrow>
   read_claim lib fp (ArrayReply [IntReply 2, BulkReply r]) = Inr \<lparr>claim_status = CLAIM_REPLAY, claim_completed = Some c\<rparr>"
  by (simp_all add: read_claim_def raise_corrupted_def claim_result_new_def)

context redis_server
begin

lemma hot_claim_step:
  assumes "redis_api cfg = api" "storage_key cfg i = Inr k" "traffic l = []" "length fp = 32" "0 < lease"
    and "cell_at hash_at deadline (server l) k = (e, dl)" "e \<noteq> Corrupt"
    and "lease_step (ms (now_us (server l))) (Claim (ascii (hex fp)) (ascii (str_uuid tok)) lease) (e, dl) = (reply, c)"
  shows "\<exists>d. hot_claim cfg i fp tok lease l = (read_claim (json cfg) fp reply, l\<lparr>server := d\<rparr>)
    \<and> cell_at hash_at deadline d = (cell_at hash_at deadline (server l))(k := c) \<and> now_us d = now_us (server l)"
proof -
  from script_refines [OF assms(6,7), of "Claim (ascii (hex fp)) (ascii (str_uuid tok)) lease"] assms(5,8)
  obtain d where d: "claim_script api k (ascii (hex fp)) (ascii (str_uuid tok)) lease (server l) = (Inr reply, d)"
    "cell_at hash_at deadline d = (cell_at hash_at deadline (server l))(k := c)" "now_us d = now_us (server l)"
    by auto
  have "hot_claim cfg i fp tok lease l = (read_claim (json cfg) fp reply, l\<lparr>server := d\<rparr>)"
    using eval_on_clear [OF assms(2,3), of "\<lambda>k. claim_script api k (ascii (hex fp)) (ascii (str_uuid tok)) lease"]
      d(1) assms(1,4,5)
    by (simp add: hot_claim_def sthen_def)
  with d show ?thesis by blast
qed

lemma hot_complete_step:
  assumes "redis_api cfg = api" "storage_key cfg i = Inr k" "traffic l = []" "0 < ttl"
    and "utf8_encode (encode_completed (json cfg) c) = Inr enc"
    and "cell_at hash_at deadline (server l) k = (e, dl)" "e \<noteq> Corrupt"
    and "lease_step (ms (now_us (server l))) (Complete (ascii (str_uuid tok)) enc (ttl * 1000)
        (ascii (hex (request_fingerprint c))) (timestamp_ms cfg (expires_at c))) (e, dl) = (reply, c')"
  shows "\<exists>d. hot_complete cfg i tok c ttl l = (Inr (bool_of_reply reply), l\<lparr>server := d\<rparr>)
    \<and> cell_at hash_at deadline d = (cell_at hash_at deadline (server l))(k := c') \<and> now_us d = now_us (server l)"
proof -
  let ?script = "\<lambda>k. complete_script api k (ascii (str_uuid tok)) enc (ttl * 1000)
    (ascii (hex (request_fingerprint c))) (timestamp_ms cfg (expires_at c))"
  from script_refines [OF assms(6,7), of "Complete (ascii (str_uuid tok)) enc (ttl * 1000)
        (ascii (hex (request_fingerprint c))) (timestamp_ms cfg (expires_at c))"] assms(8)
  obtain d where d: "?script k (server l) = (Inr reply, d)"
    "cell_at hash_at deadline d = (cell_at hash_at deadline (server l))(k := c')" "now_us d = now_us (server l)"
    by auto
  have "hot_complete cfg i tok c ttl l = (Inr (bool_of_reply reply), l\<lparr>server := d\<rparr>)"
    using eval_on_clear [OF assms(2,3), of ?script] d(1) assms(1,4,5)
    by (simp add: hot_complete_def sthen_def)
  with d show ?thesis by blast
qed

end

text \<open>
  The life of a key through the adapter. On a free key a claim acquires it; the holder's
  completion publishes its result exactly if the result has not expired by the server's
  clock; and after any time a further claim gets, while the result is neither past
  \<open>expires_at\<close> nor past its cache lifetime, exactly the published result back if it asks for the
  same request fingerprint and a conflict otherwise; from then on the key is free again
  and the claim acquires it.
\<close>

lemma claim_publish_replay:
  assumes world: "redis_world (redis_api cfg) hash_at deadline now_us elapse evict"
    and k: "storage_key cfg i = Inr k"
    and codec: "codec_ok (json cfg) c" "utf8_encode (encode_completed (json cfg) c) = Inr enc"
    and args: "length (request_fingerprint c) = 32" "0 < lease" "0 < ttl" "length fp = 32" "0 < lease'"
    and free: "traffic l = []" "cell_at hash_at deadline (server l) k = (Free, None)"
    and claim: "hot_claim cfg i (request_fingerprint c) tok lease l = (r1, l1)"
    and complete: "hot_complete cfg i tok c ttl l1 = (r2, l2)"
    and again: "hot_claim cfg i fp tok' lease' (l2\<lparr>server := elapse n (server l2)\<rparr>) = (r3, l3)"
  shows "let start = ms (now_us (server l)); end = timestamp_ms cfg (expires_at c);
             later = ms (now_us (server l) + int n) in
    r1 = Inr \<lparr>claim_status = ACQUIRED, claim_completed = None\<rparr>
    \<and> r2 = Inr (start < end)
    \<and> r3 = Inr
        (if start < end \<and> later < end \<and> later < start + ttl * 1000 then
           (if fp = request_fingerprint c then \<lparr>claim_status = CLAIM_REPLAY, claim_completed = Some c\<rparr>
            else \<lparr>claim_status = CLAIM_CONFLICT, claim_completed = None\<rparr>)
         else \<lparr>claim_status = ACQUIRED, claim_completed = None\<rparr>)"
proof -
  have srv: "redis_server (redis_api cfg) hash_at deadline now_us" using world by (simp add: redis_world_def)
  let ?fp = "ascii (hex (request_fingerprint c))" and ?tok = "ascii (str_uuid tok)"
  let ?t = "ms (now_us (server l))" and ?E = "timestamp_ms cfg (expires_at c)"
  let ?later = "ms (now_us (server l) + int n)"
  from redis_server.hot_claim_step [OF srv refl k free(1) args(1,2) free(2) _ lease_step.simps(1), of tok]
  obtain d1 where 1: "hot_claim cfg i (request_fingerprint c) tok lease l
      = (read_claim (json cfg) (request_fingerprint c) (ArrayReply [IntReply 1]), l\<lparr>server := d1\<rparr>)"
    "cell_at hash_at deadline d1 k = (Leased ?fp ?tok, Some (?t + lease * 1000))"
    "now_us d1 = now_us (server l)"
    by auto
  let ?reply = "if min (ttl * 1000) (?E - ?t) \<le> 0 then IntReply 0 else IntReply 1"
  let ?cell = "if min (ttl * 1000) (?E - ?t) \<le> 0 then (Free, None)
    else (Done ?fp enc, Some (?t + min (ttl * 1000) (?E - ?t)))"
  let ?l1 = "l\<lparr>server := d1\<rparr>"
  have step: "lease_step (ms (now_us (server ?l1))) (Complete ?tok enc (ttl * 1000) ?fp ?E)
      (Leased ?fp ?tok, Some (?t + lease * 1000)) = (?reply, ?cell)"
    using 1(3) by simp
  have "traffic ?l1 = []" "cell_at hash_at deadline (server ?l1) k = (Leased ?fp ?tok, Some (?t + lease * 1000))"
    using free(1) 1(2) by simp_all
  from redis_server.hot_complete_step [OF srv refl k this(1) args(3) codec(2) this(2) _ step]
  obtain d2 where 2: "hot_complete cfg i tok c ttl ?l1 = (Inr (bool_of_reply ?reply), l\<lparr>server := d2\<rparr>)"
    "cell_at hash_at deadline d2 k = ?cell" "now_us d2 = now_us (server l)"
    using 1(3) by auto
  let ?l = "l\<lparr>server := elapse n d2\<rparr>"
  have live: "min (ttl * 1000) (?E - ?t) \<le> 0 \<longleftrightarrow> \<not> ?t < ?E" using args(3) by auto
  have c3: "cell_at hash_at deadline (server ?l) k = age (now_us (server l) + int n) ?cell"
    using redis_world.elapse_cells [OF world] 2(2,3) by simp
  let ?valid = "?t < ?E \<and> ?later < ?E \<and> ?later < ?t + ttl * 1000"
  have c3: "cell_at hash_at deadline (server ?l) k
      = (if ?valid then (Done ?fp enc, Some (?t + min (ttl * 1000) (?E - ?t))) else (Free, None))"
    unfolding c3 age_def live by auto
  have "r3 = Inr (if ?valid then
           (if fp = request_fingerprint c then \<lparr>claim_status = CLAIM_REPLAY, claim_completed = Some c\<rparr>
            else \<lparr>claim_status = CLAIM_CONFLICT, claim_completed = None\<rparr>)
         else \<lparr>claim_status = ACQUIRED, claim_completed = None\<rparr>)"
  proof (cases ?valid)
    case True
    with c3 have "cell_at hash_at deadline (server ?l) k
      = (Done ?fp enc, Some (?t + min (ttl * 1000) (?E - ?t)))" by simp
    from redis_server.hot_claim_step [OF srv refl k _ args(4,5) this _ lease_step.simps(3), of tok'] free(1)
    obtain d3 where "hot_claim cfg i fp tok' lease' ?l = (read_claim (json cfg) fp
        (ArrayReply (if ?fp = ascii (hex fp) then [IntReply 2, BulkReply enc] else [IntReply 3])), ?l\<lparr>server := d3\<rparr>)"
      by auto
    with again claim complete 1(1) 2(1) True decode_encode_completed [OF codec] show ?thesis
      by (auto simp: read_claim_simps)
  next
    case False
    with c3 have "cell_at hash_at deadline (server ?l) k = (Free, None)" by simp
    from redis_server.hot_claim_step [OF srv refl k _ args(4,5) this _ lease_step.simps(1), of tok'] free(1)
    obtain d3 where "hot_claim cfg i fp tok' lease' ?l
        = (read_claim (json cfg) fp (ArrayReply [IntReply 1]), ?l\<lparr>server := d3\<rparr>)"
      by auto
    with again claim complete 1(1) 2(1) False show ?thesis by (auto simp: read_claim_simps)
  qed
  moreover have "r2 = Inr (?t < ?E)"
    using claim complete 1(1) 2(1) live by (auto simp: bool_of_reply_def)
  ultimately show ?thesis
    using claim 1(1) by (simp add: Let_def read_claim_simps)
qed

end
