(* ===== verification/Circuit_Breaker.thy ===== *)
theory Circuit_Breaker
  imports Errors
begin

text \<open>
  The circuit breaker (\<open>src/src/app/infrastructure/resilience/circuit_breaker.py\<close>). The code
  changes the breaker only under its lock, in two sections per call: the admission and the
  settlement. These are the functions \<open>admit\<close> and \<open>settle\<close>; a system of concurrent calls is
  the step relation \<open>breaker_step\<close>, in which the sections of any number of calls
  interleave. The monotonic clock is an integer (the code's is a float), tokens are numbered
  objects.
\<close>

section \<open>State\<close>

datatype CircuitState = CLOSED | HALF_OPEN | OPEN

text \<open>The states in the order of how much they refuse.\<close>

instantiation CircuitState :: linorder
begin

fun severity :: "CircuitState \<Rightarrow> nat" where
  "severity CLOSED = 0"
| "severity HALF_OPEN = 1"
| "severity OPEN = 2"

definition less_eq_CircuitState :: "CircuitState \<Rightarrow> CircuitState \<Rightarrow> bool" where
  "less_eq_CircuitState a b \<longleftrightarrow> severity a \<le> severity b"

definition less_CircuitState :: "CircuitState \<Rightarrow> CircuitState \<Rightarrow> bool" where
  "less_CircuitState a b \<longleftrightarrow> severity a < severity b"

instance
proof
  fix a b c :: CircuitState
  show "a < b \<longleftrightarrow> a \<le> b \<and> \<not> b \<le> a"
    by (auto simp: less_eq_CircuitState_def less_CircuitState_def)
  show "a \<le> a" "a \<le> b \<or> b \<le> a" by (auto simp: less_eq_CircuitState_def)
  show "a \<le> b \<Longrightarrow> b \<le> c \<Longrightarrow> a \<le> c" by (simp add: less_eq_CircuitState_def)
  show "a \<le> b \<Longrightarrow> b \<le> a \<Longrightarrow> a = b"
    by (cases a; cases b) (simp_all add: less_eq_CircuitState_def)
qed

end

type_synonym token = nat

record breaker =
  fail_max :: int
  recovery_timeout :: int
  cb_state :: CircuitState
  failure_count :: int
  opened_at :: "int option"
  probe_in_progress :: bool
  probe_token :: "token option"
  generation :: int
  next_token :: token

definition breaker_new :: "int \<Rightarrow> int \<Rightarrow> breaker result" where
  "breaker_new max_failures timeout =
     (if max_failures \<le> 0 then Inl ValueError
      else if timeout \<le> 0 then Inl ValueError
      else Inr \<lparr>fail_max = max_failures, recovery_timeout = timeout, cb_state = CLOSED,
                failure_count = 0, opened_at = None, probe_in_progress = False,
                probe_token = None, generation = 0, next_token = 0\<rparr>)"

section \<open>The sections under the lock\<close>

definition check_state :: "int \<Rightarrow> breaker \<Rightarrow> breaker" where
  "check_state clock b =
     (if cb_state b = OPEN then
        (case opened_at b of
           None \<Rightarrow> b
         | Some opened \<Rightarrow> if clock - opened \<ge> recovery_timeout b then b\<lparr>cb_state := HALF_OPEN\<rparr> else b)
      else b)"

definition trip :: "int \<Rightarrow> breaker \<Rightarrow> breaker" where
  "trip clock b =
     b\<lparr>cb_state := OPEN, opened_at := Some clock, probe_in_progress := False, probe_token := None,
       generation := generation b + 1\<rparr>"

definition handle_success :: "int \<Rightarrow> token option \<Rightarrow> breaker \<Rightarrow> breaker" where
  "handle_success gen tok b =
     (if tok \<noteq> None \<and> cb_state b = HALF_OPEN \<and> probe_token b = tok
        then b\<lparr>cb_state := CLOSED, failure_count := 0, opened_at := None, probe_in_progress := False,
               probe_token := None, generation := generation b + 1\<rparr>
      else if tok = None \<and> cb_state b = CLOSED \<and> generation b = gen
        then b\<lparr>failure_count := 0\<rparr>
      else b)"

definition handle_failure :: "int \<Rightarrow> int \<Rightarrow> token option \<Rightarrow> breaker \<Rightarrow> breaker" where
  "handle_failure clock gen tok b =
     (let is_current_probe = tok \<noteq> None \<and> cb_state b = HALF_OPEN \<and> probe_token b = tok;
          is_current_closed_call = tok = None \<and> cb_state b = CLOSED \<and> generation b = gen in
      if \<not> is_current_probe \<and> \<not> is_current_closed_call then b
      else
        (let b = b\<lparr>failure_count := failure_count b + 1\<rparr> in
         if is_current_closed_call
           then (if failure_count b \<ge> fail_max b then trip clock b else b)
         else if is_current_probe then trip clock b
         else b))"

definition release_probe :: "token option \<Rightarrow> breaker \<Rightarrow> breaker" where
  "release_probe tok b =
     (if tok = None then b
      else if cb_state b = HALF_OPEN \<and> probe_token b = tok
        then b\<lparr>probe_in_progress := False, probe_token := None\<rparr>
      else b)"

text \<open>A call that was admitted carries its token, if it is a probe, and its generation.\<close>

record ticket =
  ticket_token :: "token option"
  ticket_generation :: int

text \<open>The first section of \<open>call\<close>.\<close>

definition admit :: "int \<Rightarrow> (breaker, exn, ticket) proc" where
  "admit clock b0 =
     (let b = check_state clock b0 in
      if cb_state b = OPEN then (Inl CircuitBreakerError, b)
      else if cb_state b = HALF_OPEN then
        (if probe_in_progress b then (Inl CircuitBreakerError, b)
         else (Inr \<lparr>ticket_token = Some (next_token b), ticket_generation = generation b\<rparr>,
               b\<lparr>probe_in_progress := True, probe_token := Some (next_token b),
                 next_token := next_token b + 1\<rparr>))
      else (Inr \<lparr>ticket_token = None, ticket_generation = generation b\<rparr>, b))"

text \<open>
  What became of the protected call: it returned, it raised an exception that counts as a
  failure or one that does not, the classification itself raised, or it was cancelled (by
  \<open>CancelledError\<close> or another \<open>BaseException\<close>).
\<close>

datatype call_outcome = Returned | Failure | HarmlessError | ClassifierRaised | Cancelled

fun settle :: "int \<Rightarrow> ticket \<Rightarrow> call_outcome \<Rightarrow> breaker \<Rightarrow> breaker" where
  "settle clock k Returned b = handle_success (ticket_generation k) (ticket_token k) b"
| "settle clock k Failure b = handle_failure clock (ticket_generation k) (ticket_token k) b"
| "settle clock k HarmlessError b = handle_success (ticket_generation k) (ticket_token k) b"
| "settle clock k ClassifierRaised b = release_probe (ticket_token k) b"
| "settle clock k Cancelled b = release_probe (ticket_token k) b"

text \<open>
  \<open>call\<close> as a whole: the protected operation on a state of its own, the breaker
  beside it. \<open>is_failure\<close> classifies an exception, or raises; \<open>others\<close> is what other calls do to
  the breaker between the two sections.
\<close>

definition outcome_of :: "(exn \<Rightarrow> exn + bool) \<Rightarrow> exn + 'r \<Rightarrow> call_outcome" where
  "outcome_of is_failure r =
     (case r of
        Inr _ \<Rightarrow> Returned
      | Inl e \<Rightarrow>
          if \<not> is_exception e then Cancelled
          else (case is_failure e of Inl _ \<Rightarrow> ClassifierRaised | Inr True \<Rightarrow> Failure
                | Inr False \<Rightarrow> HarmlessError))"

definition raised_by :: "(exn \<Rightarrow> exn + bool) \<Rightarrow> exn + 'r \<Rightarrow> exn + 'r" where
  "raised_by is_failure r =
     (case r of
        Inr x \<Rightarrow> Inr x
      | Inl e \<Rightarrow>
          if \<not> is_exception e then Inl e
          else (case is_failure e of Inl e' \<Rightarrow> Inl e' | Inr _ \<Rightarrow> Inl e))"

definition breaker_call ::
  "(exn \<Rightarrow> exn + bool) \<Rightarrow> int \<Rightarrow> int \<Rightarrow> (breaker \<Rightarrow> breaker) \<Rightarrow> ('s, exn, 'r) proc \<Rightarrow>
   (breaker \<times> 's, exn, 'r) proc" where
  "breaker_call is_failure clock clock' others func bs =
     (case admit clock (fst bs) of
        (Inl e, b) \<Rightarrow> (Inl e, (b, snd bs))
      | (Inr k, b) \<Rightarrow>
          (case func (snd bs) of
             (r, s) \<Rightarrow>
               (raised_by is_failure r, (settle clock' k (outcome_of is_failure r) (others b), s))))"

section \<open>Concurrent calls\<close>

text \<open>The breaker, the clock and the tickets of the calls in flight.\<close>

record system =
  brk :: breaker
  clock :: int
  in_flight :: "ticket list"

inductive breaker_step :: "system \<Rightarrow> system \<Rightarrow> bool" where
  tick: "0 \<le> d \<Longrightarrow> breaker_step s (s\<lparr>clock := clock s + d\<rparr>)"
| enter: "admit (clock s) (brk s) = (Inr k, b) \<Longrightarrow>
    breaker_step s (s\<lparr>brk := b, in_flight := k # in_flight s\<rparr>)"
| reject: "admit (clock s) (brk s) = (Inl e, b) \<Longrightarrow> breaker_step s (s\<lparr>brk := b\<rparr>)"
| leave: "in_flight s = ks @ k # ks' \<Longrightarrow>
    breaker_step s (s\<lparr>brk := settle (clock s) k outcome (brk s), in_flight := ks @ ks'\<rparr>)"

inductive_cases breaker_stepE: "breaker_step s t"

definition initial :: "system \<Rightarrow> bool" where
  "initial s \<longleftrightarrow> (\<exists>m r b. breaker_new m r = Inr b \<and> brk s = b) \<and> in_flight s = []"

text \<open>
  The invariant: the probe slot is taken exactly when one call in flight holds its token,
  and only in the half-open state; the failures counted in the closed state are fewer than
  the limit; an open breaker knows since when.
\<close>

definition probes :: "ticket list \<Rightarrow> token list" where
  "probes ks = concat (map (\<lambda>k. case ticket_token k of None \<Rightarrow> [] | Some t \<Rightarrow> [t]) ks)"

lemma probes_simps [simp]:
  "probes [] = []" "probes (ks @ ks') = probes ks @ probes ks'"
  "probes (k # ks) = (case ticket_token k of None \<Rightarrow> [] | Some t \<Rightarrow> [t]) @ probes ks"
  by (simp_all add: probes_def)

definition breaker_inv :: "breaker \<Rightarrow> ticket list \<Rightarrow> bool" where
  "breaker_inv b ks \<longleftrightarrow>
     0 < fail_max b \<and> 0 < recovery_timeout b
     \<and> probes ks = (case probe_token b of None \<Rightarrow> [] | Some t \<Rightarrow> [t])
     \<and> (probe_in_progress b \<longleftrightarrow> probe_token b \<noteq> None)
     \<and> (probe_token b \<noteq> None \<longrightarrow> cb_state b = HALF_OPEN)
     \<and> (cb_state b = CLOSED \<longleftrightarrow> opened_at b = None)
     \<and> 0 \<le> failure_count b
     \<and> (cb_state b = CLOSED \<longrightarrow> failure_count b < fail_max b)"

lemma breaker_new_inv: "breaker_new m r = Inr b \<Longrightarrow> breaker_inv b []"
  by (auto simp: breaker_new_def breaker_inv_def split: if_splits)

lemma initial_inv: "initial s \<Longrightarrow> breaker_inv (brk s) (in_flight s)"
  using breaker_new_inv by (auto simp: initial_def)

lemma check_state_inv: "breaker_inv b ks \<Longrightarrow> breaker_inv (check_state now b) ks"
  by (auto simp: breaker_inv_def check_state_def split: option.splits)

lemma check_state_fields:
  "probe_in_progress (check_state now b) = probe_in_progress b"
  "probe_token (check_state now b) = probe_token b" "generation (check_state now b) = generation b"
  "next_token (check_state now b) = next_token b" "failure_count (check_state now b) = failure_count b"
  "fail_max (check_state now b) = fail_max b" "opened_at (check_state now b) = opened_at b"
  "recovery_timeout (check_state now b) = recovery_timeout b"
  by (auto simp: check_state_def split: option.splits)

lemma admit_inv:
  assumes "admit now b = (r, b')" "breaker_inv b ks"
  shows "breaker_inv b' (case r of Inl e \<Rightarrow> ks | Inr k \<Rightarrow> k # ks)"
proof -
  have "breaker_inv (check_state now b) ks" using assms(2) by (rule check_state_inv)
  with assms(1) show ?thesis
    by (cases "cb_state (check_state now b)")
      (auto simp: admit_def Let_def breaker_inv_def split: if_splits option.splits)
qed

lemma admit_error: "admit now b = (Inl e, b') \<Longrightarrow> e = CircuitBreakerError"
  by (auto simp: admit_def Let_def split: if_splits)

lemmas settle_defs = handle_success_def handle_failure_def release_probe_def trip_def Let_def

lemma settle_inv:
  assumes "breaker_inv b (ks @ k # ks')"
  shows "breaker_inv (settle now k outcome b) (ks @ ks')"
proof (cases "ticket_token k")
  case None
  with assms show ?thesis
    by (cases outcome) (auto simp: breaker_inv_def settle_defs split: option.splits)
next
  case (Some t)
  with assms have tok: "probe_token b = Some t" "probes ks = []" "probes ks' = []"
    by (auto simp: breaker_inv_def append_eq_Cons_conv split: option.splits)
  with assms Some show ?thesis
    by (cases outcome) (auto simp: breaker_inv_def settle_defs)
qed

lemma breaker_step_inv:
  "breaker_step s t \<Longrightarrow> breaker_inv (brk s) (in_flight s) \<Longrightarrow> breaker_inv (brk t) (in_flight t)"
proof (induction rule: breaker_step.induct)
  case (enter s k b)
  from admit_inv [OF enter] show ?case by simp
next
  case (reject s e b)
  from admit_inv [OF reject] show ?case by simp
next
  case (leave s ks k ks' outcome)
  then show ?case by (simp add: settle_inv)
qed simp

lemma reachable_inv:
  "breaker_step\<^sup>*\<^sup>* s t \<Longrightarrow> initial s \<Longrightarrow> breaker_inv (brk t) (in_flight t)"
  by (induction rule: rtranclp_induct) (auto dest: initial_inv breaker_step_inv)

text \<open>
  At most one probe, and no lost probe. In every state that any interleaving of calls
  can reach, whatever becomes of each call (success, failure, a harmless error, a
  classification that raises, a cancellation), the probe slot is taken if and only if
  exactly one call in flight is the probe, and then the breaker is half-open; otherwise no
  call in flight is a probe. So the slot cannot be taken twice, and it cannot stay taken
  after its call is gone.
\<close>

lemma single_probe:
  assumes "initial s" "breaker_step\<^sup>*\<^sup>* s t"
  shows "length (probes (in_flight t)) = (if probe_in_progress (brk t) then 1 else 0)
    \<and> (probe_in_progress (brk t) \<longrightarrow> cb_state (brk t) = HALF_OPEN)"
  using reachable_inv [OF assms(2,1)] by (auto simp: breaker_inv_def split: option.splits)

text \<open>
  What the breaker admits, in every reachable state: while it is open and the recovery
  time has not passed, it refuses every call with \<open>CircuitBreakerError\<close> and stays open; when
  the time has passed and no probe is running, the next call is admitted, as the probe; and
  a closed breaker admits every call.
\<close>

lemma admission:
  assumes "initial s" "breaker_step\<^sup>*\<^sup>* s t"
  shows "case cb_state (brk t) of
      CLOSED \<Rightarrow> \<exists>k. admit now (brk t) = (Inr k, brk t) \<and> ticket_token k = None
    | OPEN \<Rightarrow> \<exists>opened. opened_at (brk t) = Some opened
        \<and> (if now - opened < recovery_timeout (brk t)
            then admit now (brk t) = (Inl CircuitBreakerError, brk t)
            else \<exists>k b. admit now (brk t) = (Inr k, b) \<and> ticket_token k = probe_token b
              \<and> ticket_token k \<noteq> None \<and> cb_state b = HALF_OPEN)
    | HALF_OPEN \<Rightarrow>
        if probe_in_progress (brk t) then admit now (brk t) = (Inl CircuitBreakerError, brk t)
        else \<exists>k b. admit now (brk t) = (Inr k, b) \<and> ticket_token k = probe_token b \<and> ticket_token k \<noteq> None"
proof (cases "cb_state (brk t)")
  case OPEN
  with reachable_inv [OF assms(2,1)] obtain opened where "opened_at (brk t) = Some opened"
    "\<not> probe_in_progress (brk t)"
    by (auto simp: breaker_inv_def)
  with OPEN show ?thesis
    by (cases "now - opened < recovery_timeout (brk t)")
      (simp_all add: admit_def check_state_def)
qed (simp_all add: admit_def check_state_def Let_def)

section \<open>Counting failures\<close>

text \<open>One undisturbed call with a given outcome.\<close>

definition call_with :: "int \<Rightarrow> call_outcome \<Rightarrow> breaker \<Rightarrow> breaker" where
  "call_with now outcome b =
     (case admit now b of (Inl _, b') \<Rightarrow> b' | (Inr k, b') \<Rightarrow> settle now k outcome b')"

lemma call_with_closed:
  "cb_state b = CLOSED \<Longrightarrow> call_with now outcome b =
     (case outcome of
        Failure \<Rightarrow>
          if failure_count b + 1 \<ge> fail_max b
            then trip now (b\<lparr>failure_count := failure_count b + 1\<rparr>)
          else b\<lparr>failure_count := failure_count b + 1\<rparr>
      | Returned \<Rightarrow> b\<lparr>failure_count := 0\<rparr> | HarmlessError \<Rightarrow> b\<lparr>failure_count := 0\<rparr>
      | _ \<Rightarrow> b)"
  by (cases outcome)
    (simp_all add: call_with_def admit_def check_state_def handle_success_def handle_failure_def
      release_probe_def)

lemma consecutive_failures:
  "cb_state b = CLOSED \<Longrightarrow> failure_count b = int k \<Longrightarrow> int k + int n < fail_max b \<Longrightarrow>
   (call_with now Failure ^^ n) b = b\<lparr>failure_count := int (k + n)\<rparr>"
  by (induction n arbitrary: b k) (simp_all add: call_with_closed)

text \<open>
  C31. The limit is exact: from a closed breaker whose last countable call succeeded, any
  number of consecutive failures below \<open>fail_max\<close> leaves it closed with that number counted,
  and the \<open>fail_max\<close>-th opens it: from then on every call is refused with
  \<open>CircuitBreakerError\<close> until \<open>recovery_timeout\<close> has passed since that failure.
\<close>

theorem trips_exactly_at_limit:
  assumes "cb_state b = CLOSED" "failure_count b = 0" "0 < fail_max b"
  shows "(\<forall>n. int n < fail_max b \<longrightarrow>
      (call_with now Failure ^^ n) b = b\<lparr>failure_count := int n\<rparr>)
    \<and> (\<forall>now'. now' < now + recovery_timeout b \<longrightarrow>
      admit now' ((call_with now Failure ^^ nat (fail_max b)) b)
        = (Inl CircuitBreakerError, (call_with now Failure ^^ nat (fail_max b)) b))"
proof -
  have below: "(call_with now Failure ^^ n) b = b\<lparr>failure_count := int n\<rparr>" if "int n < fail_max b" for n
    using consecutive_failures [of b 0 n now] assms that by simp
  obtain m where m: "nat (fail_max b) = Suc m" "fail_max b = int m + 1"
    using assms(3) that [of "nat (fail_max b) - 1"] by auto
  with below [of m] assms(1)
  have "(call_with now Failure ^^ nat (fail_max b)) b = trip now (b\<lparr>failure_count := int m + 1\<rparr>)"
    by (simp add: call_with_closed)
  with below show ?thesis by (simp add: admit_def check_state_def trip_def)
qed

section \<open>A concrete breaker\<close>

text \<open>
  One failure opens it at time 5; at time 35 a call enters as the probe and is in flight.
\<close>

definition sample_breaker :: breaker where
  "sample_breaker =
     \<lparr>fail_max = 1, recovery_timeout = 30, cb_state = CLOSED, failure_count = 0, opened_at = None,
      probe_in_progress = False, probe_token = None, generation = 0, next_token = 0\<rparr>"

definition sample_system :: system where
  "sample_system = \<lparr>brk = sample_breaker, clock = 5, in_flight = []\<rparr>"

definition probing_system :: system where
  "probing_system =
     \<lparr>brk = sample_breaker\<lparr>cb_state := HALF_OPEN, failure_count := 1, opened_at := Some 5,
        probe_in_progress := True, probe_token := Some 0, generation := 1, next_token := 1\<rparr>,
      clock = 35, in_flight = [\<lparr>ticket_token = Some 0, ticket_generation = 1\<rparr>]\<rparr>"

lemma sample_system_initial: "initial sample_system"
proof -
  have "breaker_new 1 30 = Inr sample_breaker" by (simp add: breaker_new_def sample_breaker_def)
  then show ?thesis by (auto simp: initial_def sample_system_def)
qed

lemma probing_system_reachable: "breaker_step\<^sup>*\<^sup>* sample_system probing_system"
proof -
  let ?k = "\<lparr>ticket_token = None, ticket_generation = 0\<rparr>"
  let ?s1 = "sample_system\<lparr>in_flight := [?k]\<rparr>"
  let ?s2 = "sample_system\<lparr>brk := settle 5 ?k Failure sample_breaker\<rparr>"
  let ?s3 = "?s2\<lparr>clock := 35\<rparr>"
  have "breaker_step sample_system ?s1"
    using breaker_step.enter [of sample_system ?k sample_breaker]
    by (simp add: sample_system_def sample_breaker_def admit_def check_state_def)
  moreover have "breaker_step ?s1 ?s2"
    using breaker_step.leave [of ?s1 "[]" ?k "[]" Failure] by (simp add: sample_system_def)
  moreover have "breaker_step ?s2 ?s3"
    using breaker_step.tick [of 30 ?s2] by (simp add: sample_system_def)
  moreover have "breaker_step ?s3 probing_system"
    using breaker_step.enter [of ?s3 "\<lparr>ticket_token = Some 0, ticket_generation = 1\<rparr>" "brk probing_system"]
    by (simp add: sample_system_def probing_system_def sample_breaker_def admit_def check_state_def
        handle_failure_def trip_def)
  ultimately show ?thesis by (meson converse_rtranclp_into_rtranclp r_into_rtranclp)
qed

theorem trips_exactly_at_limit_witness:
  "admit 34 (call_with 5 Failure sample_breaker)
    = (Inl CircuitBreakerError, call_with 5 Failure sample_breaker)"
  using trips_exactly_at_limit [of sample_breaker 5] by (simp add: sample_breaker_def)

text \<open>
  C13. The breaker in every reachable state, whatever calls interleave. The probe slot is taken exactly
  when one of the calls in flight is the probe, so it is never taken twice nor lost, and only in
  the half-open state. A closed breaker admits every call and keeps its state; an open one
  refuses until its recovery time has passed and then admits one probe; a half-open one admits a
  call only into the free probe slot.
\<close>

theorem breaker_admits_one_probe:
  assumes "initial s" "breaker_step\<^sup>*\<^sup>* s t"
  shows "length (probes (in_flight t)) = (if probe_in_progress (brk t) then 1 else 0)
    \<and> (probe_in_progress (brk t) \<longrightarrow> cb_state (brk t) = HALF_OPEN)
    \<and> (case cb_state (brk t) of
      CLOSED \<Rightarrow> \<exists>k. admit now (brk t) = (Inr k, brk t) \<and> ticket_token k = None
    | OPEN \<Rightarrow> \<exists>opened. opened_at (brk t) = Some opened
        \<and> (if now - opened < recovery_timeout (brk t)
            then admit now (brk t) = (Inl CircuitBreakerError, brk t)
            else \<exists>k b. admit now (brk t) = (Inr k, b) \<and> ticket_token k = probe_token b
              \<and> ticket_token k \<noteq> None \<and> cb_state b = HALF_OPEN)
    | HALF_OPEN \<Rightarrow>
        if probe_in_progress (brk t) then admit now (brk t) = (Inl CircuitBreakerError, brk t)
        else \<exists>k b. admit now (brk t) = (Inr k, b) \<and> ticket_token k = probe_token b \<and> ticket_token k \<noteq> None)"
  using single_probe [OF assms] admission [OF assms] by blast

theorem breaker_admits_one_probe_witness:
  "length (probes (in_flight probing_system)) = 1
   \<and> admit 9 (brk probing_system) = (Inl CircuitBreakerError, brk probing_system)"
  using breaker_admits_one_probe [OF sample_system_initial probing_system_reachable, of 9]
  by (simp add: probing_system_def)

end
