(* ===== verification/Guarded_Store.thy ===== *)
theory Guarded_Store
  imports Hot_Adapter Circuit_Breaker
begin

text \<open>
  The port of the hot store, as a record of its four operations
  (\<open>src/src/app/application/ports/idempotency/hot_store.py\<close>), the Redis adapter behind it, and
  the decorator that guards it with the circuit breaker
  (\<open>src/src/app/infrastructure/idempotency/redis/circuit_breaking_hot_store.py\<close>). The locale
  \<open>hot_store\<close> is what the clients of the port may rely on.
\<close>

section \<open>The port\<close>

record 's hot_port =
  port_claim :: "IdempotencyKey \<Rightarrow> bytes \<Rightarrow> uuid \<Rightarrow> int \<Rightarrow> ('s, exn, ClaimResult) proc"
  port_renew :: "IdempotencyKey \<Rightarrow> uuid \<Rightarrow> int \<Rightarrow> ('s, exn, bool) proc"
  port_complete :: "IdempotencyKey \<Rightarrow> uuid \<Rightarrow> CompletedIdempotencyResult \<Rightarrow> int \<Rightarrow> ('s, exn, bool) proc"
  port_release :: "IdempotencyKey \<Rightarrow> uuid \<Rightarrow> ('s, exn, bool) proc"

definition redis_hot_store :: "'d hot_config \<Rightarrow> 'd link hot_port" where
  "redis_hot_store cfg =
     \<lparr>port_claim = hot_claim cfg, port_renew = hot_renew cfg, port_complete = hot_complete cfg,
      port_release = hot_release cfg\<rparr>"

text \<open>
  A decision of the store is well formed: a replay carries a result, of the request that was
  asked for, and nothing else carries one.
\<close>

definition sound_claim :: "bytes \<Rightarrow> ClaimResult \<Rightarrow> bool" where
  "sound_claim fingerprint c \<longleftrightarrow>
     (claim_status c = CLAIM_REPLAY \<longleftrightarrow> claim_completed c \<noteq> None)
     \<and> pred_option (\<lambda>done. request_fingerprint done = fingerprint) (claim_completed c)"

locale hot_store =
  fixes port :: "'s hot_port"
  assumes claim_sound: "port_claim port i fp tok lease s = (Inr c, t) \<Longrightarrow> sound_claim fp c"

lemma read_claim_sound: "read_claim lib fp raw = Inr c \<Longrightarrow> sound_claim fp c"
proof (cases raw)
  case (ArrayReply vs)
  assume "read_claim lib fp raw = Inr c"
  with ArrayReply show ?thesis
    unfolding read_claim_def raise_corrupted_def
    by (auto simp: claim_result_new_def sound_claim_def split: sum.splits if_splits)
qed (simp_all add: read_claim_def raise_corrupted_def split: sum.splits)

interpretation redis: hot_store "redis_hot_store cfg"
proof
  fix i fp tok lease s c t
  assume "port_claim (redis_hot_store cfg) i fp tok lease s = (Inr c, t)"
  then show "sound_claim fp c"
    by (auto simp: redis_hot_store_def hot_claim_def sthen_eq_Inr dest: read_claim_sound split: if_splits)
qed

section \<open>The decorator\<close>

text \<open>
  The breaker beside the state of the inner store, and the turns of the calls to come: when
  each is admitted, what other calls do to the breaker meanwhile, when it settles.
\<close>

record turn =
  entered_at :: int
  others_do :: "breaker \<Rightarrow> breaker"
  left_at :: int

record 's guarded =
  guard :: breaker
  inner_state :: 's
  turns :: "turn list"

definition next_turn :: "'s guarded \<Rightarrow> turn" where
  "next_turn g =
     (case turns g of [] \<Rightarrow> \<lparr>entered_at = 0, others_do = (\<lambda>b. b), left_at = 0\<rparr> | x # _ \<Rightarrow> x)"

text \<open>The breaker of the container has no \<open>is_failure\<close>: every exception counts.\<close>

definition always_failure :: "exn \<Rightarrow> exn + bool" where
  "always_failure e = Inr True"

definition guarded_call :: "('s, exn, 'r) proc \<Rightarrow> ('s guarded, exn, 'r) proc" where
  "guarded_call func g =
     (let x = next_turn g in
      case breaker_call always_failure (entered_at x) (left_at x) (others_do x) func (guard g, inner_state g) of
        (r, (b, s)) \<Rightarrow> (r, g\<lparr>guard := b, inner_state := s, turns := tl (turns g)\<rparr>))"

definition open_is_unavailable :: "exn \<Rightarrow> ('s, exn, 'r) proc" where
  "open_is_unavailable e =
     sraise (if e = CircuitBreakerError then IdempotencyError IdempotencyUnavailableError else e)"

definition circuit_breaking :: "'s hot_port \<Rightarrow> 's guarded hot_port" where
  "circuit_breaking inner =
     \<lparr>port_claim = (\<lambda>i fp tok lease. scatch (guarded_call (port_claim inner i fp tok lease)) open_is_unavailable),
      port_renew = (\<lambda>i tok lease. scatch (guarded_call (port_renew inner i tok lease)) open_is_unavailable),
      port_complete = (\<lambda>i tok c ttl. scatch (guarded_call (port_complete inner i tok c ttl)) open_is_unavailable),
      port_release = (\<lambda>i tok. scatch (guarded_call (port_release inner i tok)) open_is_unavailable)\<rparr>"

text \<open>A guarded operation either is refused, or is the operation itself.\<close>

definition transparent :: "('s, exn, 'r) proc \<Rightarrow> ('s guarded, exn, 'r) proc \<Rightarrow> bool" where
  "transparent m m' \<longleftrightarrow>
     (\<forall>g. case m' g of (r, g') \<Rightarrow>
        if fst (admit (entered_at (next_turn g)) (guard g)) = Inl CircuitBreakerError
        then r = Inl (IdempotencyError IdempotencyUnavailableError) \<and> inner_state g' = inner_state g
        else (\<exists>x. m (inner_state g) = (x, inner_state g')
          \<and> r = (if x = Inl CircuitBreakerError then Inl (IdempotencyError IdempotencyUnavailableError) else x)))"

lemma raised_by_always [simp]: "raised_by always_failure r = r"
  by (auto simp: raised_by_def always_failure_def split: sum.splits)

lemma guarded_transparent: "transparent m (scatch (guarded_call m) open_is_unavailable)"
proof -
  have "case scatch (guarded_call m) open_is_unavailable g of (r, g') \<Rightarrow>
        if fst (admit (entered_at (next_turn g)) (guard g)) = Inl CircuitBreakerError
        then r = Inl (IdempotencyError IdempotencyUnavailableError) \<and> inner_state g' = inner_state g
        else (\<exists>x. m (inner_state g) = (x, inner_state g')
          \<and> r = (if x = Inl CircuitBreakerError then Inl (IdempotencyError IdempotencyUnavailableError) else x))" for g
  proof (cases "admit (entered_at (next_turn g)) (guard g)")
    case (Pair a b)
    obtain x s where m: "m (inner_state g) = (x, s)" by (metis surj_pair)
    show ?thesis
    proof (cases a)
      case (Inl e)
      with Pair admit_error have "e = CircuitBreakerError" by blast
      with Inl Pair show ?thesis
        by (simp add: scatch_def guarded_call_def breaker_call_def open_is_unavailable_def Let_def)
    next
      case (Inr k)
      with Pair m show ?thesis
        by (cases x)
          (simp_all add: scatch_def guarded_call_def breaker_call_def open_is_unavailable_def Let_def)
    qed
  qed
  then show ?thesis by (simp add: transparent_def)
qed

context hot_store
begin

lemma guarded_claim_sound:
  assumes "port_claim (circuit_breaking port) i fp tok lease g = (Inr c, g')"
  shows "sound_claim fp c"
proof -
  have "transparent (port_claim port i fp tok lease) (port_claim (circuit_breaking port) i fp tok lease)"
    by (simp add: circuit_breaking_def guarded_transparent)
  with assms have "port_claim port i fp tok lease (inner_state g) = (Inr c, inner_state g')"
    by (auto simp: transparent_def dest!: spec [of _ g] split: if_splits)
  then show ?thesis by (rule claim_sound)
qed

end

text \<open>A sound store behind the breaker is a sound store.\<close>

locale guarded_hot_store = hot_store

sublocale guarded_hot_store \<subseteq> guarded: hot_store "circuit_breaking port"
  by unfold_locales (rule guarded_claim_sound)

interpretation container: guarded_hot_store "redis_hot_store cfg"
  by unfold_locales

text \<open>
  C32. The decorator adds the breaker and nothing else. Each of its four operations, in every
  state and under any concurrent use of the breaker, either is refused by the breaker, and
  then it raises \<open>IdempotencyUnavailableError\<close> and does not touch the inner store, or runs the
  inner operation exactly once on the inner store's state and returns or raises what that
  did (a \<open>CircuitBreakerError\<close> from within becoming \<open>IdempotencyUnavailableError\<close>).
\<close>

theorem circuit_breaking_is_transparent:
  "transparent (port_claim inner i fp tok lease) (port_claim (circuit_breaking inner) i fp tok lease)
   \<and> transparent (port_renew inner i tok lease) (port_renew (circuit_breaking inner) i tok lease)
   \<and> transparent (port_complete inner i tok c ttl) (port_complete (circuit_breaking inner) i tok c ttl)
   \<and> transparent (port_release inner i tok) (port_release (circuit_breaking inner) i tok)"
  by (simp add: circuit_breaking_def guarded_transparent)

end
