(* ===== verification/Durable_Store.thy ===== *)
theory Durable_Store
  imports Schema
begin

text \<open>
  The table of replay records and the durable store over it
  (\<open>src/src/app/infrastructure/idempotency/postgres\<close>): what a committed execution leaves for
  its repetitions, and the conditional write that never replaces a live record.
\<close>

section \<open>The table\<close>

text \<open>The text inside a JSON document obeys the same rule as a text column.\<close>

fun json_ok :: "pyobj \<Rightarrow> bool" where
  "json_ok (PyStr s) \<longleftrightarrow> text_ok s"
| "json_ok (PyList vs) \<longleftrightarrow> list_all json_ok vs"
| "json_ok (PyDict kvs) \<longleftrightarrow> list_all (\<lambda>kv. text_ok (fst kv) \<and> json_ok (snd kv)) kvs"
| "json_ok v \<longleftrightarrow> True"

definition integer_ok :: "nat \<Rightarrow> int \<Rightarrow> bool" where
  "integer_ok bits v \<longleftrightarrow> - (2 ^ (bits - 1)) \<le> v \<and> v < 2 ^ (bits - 1)"

definition record_columns_ok :: "record_row \<Rightarrow> bool" where
  "record_columns_ok r \<longleftrightarrow> varchar_ok 255 (rec_subject_id r) \<and> varchar_ok 100 (rec_operation r)
     \<and> integer_ok 16 (rec_fingerprint_version r) \<and> varchar_ok 100 (rec_result_type r)
     \<and> pred_option (\<lambda>kvs. json_ok (PyDict kvs)) (rec_result_payload r)
     \<and> integer_ok 32 (rec_result_version r) \<and> pred_option (varchar_ok 100) (rec_resource_type r)
     \<and> pred_option (varchar_ok 255) (rec_resource_id r)
     \<and> pred_option (integer_ok 32) (rec_resource_version r)"

definition record_check :: "record_row \<Rightarrow> sql_error option" where
  "record_check r = check_all (record_columns_ok r)
     [(''ck_idempotency_records_completion_time'', rec_completed_at r \<ge> rec_created_at r),
      (''ck_idempotency_records_expiration'', rec_expires_at r > rec_completed_at r),
      (''ck_idempotency_records_fingerprint_version'', rec_fingerprint_version r > 0),
      (''ck_idempotency_records_key_digest_sha256'', length (rec_key_digest r) = 32),
      (''ck_idempotency_records_replayable_result'',
       (rec_result_type r = ustr ''completion'' \<and> rec_result_payload r = None
          \<and> rec_resource_type r = None \<and> rec_resource_id r = None \<and> rec_resource_version r = None)
       \<or> (rec_result_type r \<noteq> ustr ''completion''
          \<and> (rec_result_payload r \<noteq> None \<or> rec_resource_type r \<noteq> None \<and> rec_resource_id r \<noteq> None))),
      (''ck_idempotency_records_request_fingerprint_sha256'', length (rec_request_fingerprint r) = 32),
      (''ck_idempotency_records_resource_pair'',
       (rec_resource_type r = None \<and> rec_resource_id r = None)
       \<or> (rec_resource_type r \<noteq> None \<and> rec_resource_id r \<noteq> None)),
      (''ck_idempotency_records_resource_version'',
       case rec_resource_version r of None \<Rightarrow> True
       | Some v \<Rightarrow> rec_resource_type r \<noteq> None \<and> rec_resource_id r \<noteq> None \<and> v > 0),
      (''ck_idempotency_records_result_version'', rec_result_version r > 0)]"

definition identity_of :: "record_row \<Rightarrow> IdempotencyKey" where
  "identity_of r =
     \<lparr>subject_id = rec_subject_id r, operation = rec_operation r, key_digest = rec_key_digest r\<rparr>"

section \<open>The store\<close>

definition select_completed ::
  "IdempotencyKey \<Rightarrow> datetime \<Rightarrow> db \<Rightarrow> (sql_error + record_row list) \<times> db" where
  "select_completed identity clock d =
     (Inr (filter (\<lambda>r. identity_of r = identity \<and> rec_expires_at r > clock) (idempotency_records d)), d)"

text \<open>\<open>CompletedIdempotencyResult(...)\<close> of a row.\<close>

definition completed_of_row :: "record_row \<Rightarrow> CompletedIdempotencyResult result" where
  "completed_of_row r =
     completed_new
       \<lparr>result_type = rec_result_type r, result_payload = rec_result_payload r,
        result_version = rec_result_version r, resource_type = rec_resource_type r,
        resource_id = rec_resource_id r, resource_version = rec_resource_version r\<rparr>
       (rec_expires_at r) (rec_request_fingerprint r)"

definition get_completed ::
  "IdempotencyKey \<Rightarrow> ('a session_scheme, exn, CompletedIdempotencyResult option) proc" where
  "get_completed identity =
     sthen utc_now (\<lambda>clock.
     sthen (execute (select_completed identity clock)) (\<lambda>rows.
     sthen (slift (one_or_none rows)) (\<lambda>row.
     case row of
       None \<Rightarrow> sret None
     | Some r \<Rightarrow> slift (rthen (completed_of_row r) (\<lambda>c. Inr (Some c))))))"

definition record_of :: "IdempotencyKey \<Rightarrow> CompletedIdempotencyResult \<Rightarrow> datetime \<Rightarrow> record_row" where
  "record_of identity completed clock =
     \<lparr>rec_subject_id = subject_id identity, rec_operation = operation identity,
      rec_key_digest = key_digest identity, rec_request_fingerprint = request_fingerprint completed,
      rec_fingerprint_version = 1, rec_result_type = result_type completed,
      rec_result_payload = result_payload completed, rec_result_version = result_version completed,
      rec_resource_type = resource_type completed, rec_resource_id = resource_id completed,
      rec_resource_version = resource_version completed, rec_created_at = clock,
      rec_completed_at = clock, rec_expires_at = expires_at completed\<rparr>"

text \<open>
  \<open>INSERT ... ON CONFLICT (identity) DO UPDATE SET ... WHERE expires_at <= excluded.created_at
  RETURNING id\<close>: the result is empty when a live record stands in the way. All columns but
  the identity are replaced.
\<close>

definition upsert_record :: "record_row \<Rightarrow> db \<Rightarrow> (sql_error + unit list) \<times> db" where
  "upsert_record row d =
     (let rows = idempotency_records d; same = (\<lambda>r. identity_of r = identity_of row) in
      case record_check row of
        Some e \<Rightarrow> (Inl e, d)
      | None \<Rightarrow>
          if \<not> list_ex same rows then (Inr [()], d\<lparr>idempotency_records := rows @ [row]\<rparr>)
          else if list_ex (\<lambda>r. same r \<and> rec_expires_at r \<le> rec_created_at row) rows
            then (Inr [()], d\<lparr>idempotency_records := map (\<lambda>r. if same r then row else r) rows\<rparr>)
          else (Inr [], d))"

definition try_add_completed ::
  "IdempotencyKey \<Rightarrow> CompletedIdempotencyResult \<Rightarrow> ('a session_scheme, exn, bool) proc" where
  "try_add_completed identity completed =
     sthen utc_now (\<lambda>clock.
     if expires_at completed \<le> clock then sraise (IdempotencyError IdempotencyUnavailableError)
     else sthen (execute (upsert_record (record_of identity completed clock))) (\<lambda>ids.
       sthen (slift (one_or_none ids)) (\<lambda>found. sret (found \<noteq> None))))"

section \<open>What the store promises\<close>

text \<open>The completed result the database holds for an identity, live or not.\<close>

definition recorded :: "db \<Rightarrow> IdempotencyKey \<Rightarrow> CompletedIdempotencyResult option" where
  "recorded d identity =
     (case filter (\<lambda>r. identity_of r = identity) (idempotency_records d) of
        [] \<Rightarrow> None
      | r # _ \<Rightarrow> (case completed_of_row r of Inl _ \<Rightarrow> None | Inr c \<Rightarrow> Some c))"

definition records_ok :: "db \<Rightarrow> bool" where
  "records_ok d \<longleftrightarrow> distinct (map identity_of (idempotency_records d))
     \<and> list_all (\<lambda>r. \<exists>c. completed_of_row r = Inr c) (idempotency_records d)"

lemma identity_of_record_of [simp]: "identity_of (record_of identity c clock) = identity"
  by (simp add: identity_of_def record_of_def)

lemma valid_completed_new:
  "valid_completed c \<Longrightarrow> completed_new (stored_of c) (expires_at c) (request_fingerprint c) = Inr c"
proof -
  have "completed_new (stored_of c) (expires_at c) (request_fingerprint c) =
      rthen (rguard (length (request_fingerprint c) = 32) ValidationError) (\<lambda>_. stored_validate c)"
    by (cases c) (simp add: completed_new_def stored_of_def)
  moreover assume "valid_completed c"
  ultimately show ?thesis
    by (simp add: stored_validate_def valid_completed_def)
qed

lemma completed_of_record_of [simp]:
  "valid_completed c \<Longrightarrow> completed_of_row (record_of identity c clock) = Inr c"
  using valid_completed_new [of c] by (simp add: completed_of_row_def record_of_def stored_of_def)

lemma recorded_row:
  assumes "records_ok d" "r \<in> set (idempotency_records d)" "completed_of_row r = Inr c"
  shows "recorded d (identity_of r) = Some c"
  using assms distinct_filter_key [of identity_of "idempotency_records d" r]
  by (simp add: recorded_def records_ok_def)

lemma recorded_Some:
  assumes "records_ok d" "recorded d identity = Some c"
  obtains r where "r \<in> set (idempotency_records d)" "identity_of r = identity"
    "completed_of_row r = Inr c" "filter (\<lambda>r. identity_of r = identity) (idempotency_records d) = [r]"
proof -
  from assms(2) obtain r rs where f: "filter (\<lambda>r. identity_of r = identity) (idempotency_records d) = r # rs"
    and c: "completed_of_row r = Inr c"
    by (auto simp: recorded_def split: list.splits sum.splits)
  then have "r \<in> set (filter (\<lambda>r. identity_of r = identity) (idempotency_records d))" by simp
  then have r: "r \<in> set (idempotency_records d)" "identity_of r = identity" by auto
  with assms(1) distinct_filter_key [of identity_of "idempotency_records d" r] f c that show thesis
    by (simp add: records_ok_def)
qed

lemma completed_of_row_fields:
  "completed_of_row r = Inr c \<Longrightarrow> valid_completed c \<and> expires_at c = rec_expires_at r
     \<and> request_fingerprint c = rec_request_fingerprint r"
  unfolding completed_of_row_def by (drule completed_new_eq) simp

text \<open>A live record stands in the way of the write; otherwise the write puts the new one there.\<close>

lemma upsert_live:
  assumes "records_ok d" "recorded d identity = Some old" "expires_at old > clock"
    and "record_check (record_of identity c clock) = None"
  shows "upsert_record (record_of identity c clock) d = (Inr [], d)"
proof -
  from assms(1,2) obtain r where r: "r \<in> set (idempotency_records d)" "identity_of r = identity"
    "completed_of_row r = Inr old" and only: "filter (\<lambda>r. identity_of r = identity) (idempotency_records d) = [r]"
    by (rule recorded_Some)
  have live: "rec_expires_at r > clock" using completed_of_row_fields [OF r(3)] assms(3) by simp
  have "\<not> list_ex (\<lambda>r. identity_of r = identity \<and> rec_expires_at r \<le> clock) (idempotency_records d)"
  proof
    assume "list_ex (\<lambda>r. identity_of r = identity \<and> rec_expires_at r \<le> clock) (idempotency_records d)"
    then obtain r' where "r' \<in> set (filter (\<lambda>r. identity_of r = identity) (idempotency_records d))"
      and "rec_expires_at r' \<le> clock" by (auto simp: list_ex_iff)
    with only live show False by simp
  qed
  moreover have "list_ex (\<lambda>r. identity_of r = identity) (idempotency_records d)"
    using r(1,2) by (auto simp: list_ex_iff)
  moreover have "rec_created_at (record_of identity c clock) = clock" by (simp add: record_of_def)
  ultimately show ?thesis
    using assms(4) by (simp add: upsert_record_def)
qed

lemma filter_replaced:
  "j \<noteq> k \<Longrightarrow> f row = k \<Longrightarrow>
   filter (\<lambda>r. f r = j) (map (\<lambda>r. if f r = k then row else r) rs) = filter (\<lambda>r. f r = j) rs"
  by (induction rs) auto

lemma upsert_writes:
  assumes ok: "records_ok d" and c: "valid_completed c"
    and run: "upsert_record (record_of identity c clock) d = (Inr ids, d')" "ids \<noteq> []"
  shows "records_ok d' \<and> recorded d' identity = Some c
    \<and> (\<forall>i. i \<noteq> identity \<longrightarrow> recorded d' i = recorded d i)
    \<and> profiles d' = profiles d \<and> user_settings d' = user_settings d
    \<and> pred_option (\<lambda>old. expires_at old \<le> clock) (recorded d identity)"
proof -
  let ?row = "record_of identity c clock" and ?rows = "idempotency_records d"
  have row: "completed_of_row ?row = Inr c" using c by simp
  have clock: "rec_created_at ?row = clock" by (simp add: record_of_def)
  from run(1) have check: "record_check ?row = None"
    by (simp add: upsert_record_def Let_def split: option.splits)
  note run = run [unfolded upsert_record_def Let_def check identity_of_record_of clock option.case]
  show ?thesis
  proof (cases "list_ex (\<lambda>r. identity_of r = identity) ?rows")
    case False
    with run have d': "d' = d\<lparr>idempotency_records := ?rows @ [?row]\<rparr>" by simp
    from False have free: "\<forall>r \<in> set ?rows. identity_of r \<noteq> identity" by (auto simp: list_ex_iff)
    then have empty: "filter (\<lambda>r. identity_of r = identity) ?rows = []"
      by (simp add: filter_empty_conv)
    have "records_ok d'"
      using ok free row by (auto simp: records_ok_def d')
    moreover have "recorded d' identity = Some c" "recorded d identity = None"
      using empty row by (simp_all add: recorded_def d')
    moreover have "recorded d' i = recorded d i" if "i \<noteq> identity" for i
      using that by (simp add: recorded_def d')
    ultimately show ?thesis by (simp add: d')
  next
    case True
    let ?new = "map (\<lambda>r. if identity_of r = identity then ?row else r) ?rows"
    from True run have d': "d' = d\<lparr>idempotency_records := ?new\<rparr>"
      and expired: "list_ex (\<lambda>r. identity_of r = identity \<and> rec_expires_at r \<le> clock) ?rows"
      by (simp_all split: if_splits)
    have ids: "map identity_of ?new = map identity_of ?rows" by (auto intro: map_cong)
    from ok have ok': "records_ok d'"
      using row ids unfolding records_ok_def d' list_all_iff by (auto simp del: map_map)
    from True obtain r where r: "r \<in> set ?rows" "identity_of r = identity" by (auto simp: list_ex_iff)
    then have "?row \<in> set (idempotency_records d')" by (force simp: d')
    from recorded_row [OF ok' this row] have 1: "recorded d' identity = Some c" by simp
    have 2: "recorded d' i = recorded d i" if "i \<noteq> identity" for i
    proof -
      have "filter (\<lambda>r. identity_of r = i) ?new = filter (\<lambda>r. identity_of r = i) ?rows"
        using that by (intro filter_replaced) simp_all
      then show ?thesis by (simp add: recorded_def d')
    qed
    have 3: "pred_option (\<lambda>old. expires_at old \<le> clock) (recorded d identity)"
    proof (cases "recorded d identity")
      case (Some old)
      from expired obtain r where r: "r \<in> set ?rows" "identity_of r = identity" "rec_expires_at r \<le> clock"
        by (auto simp: list_ex_iff)
      with ok obtain c' where "completed_of_row r = Inr c'" by (auto simp: records_ok_def list_all_iff)
      with recorded_row [OF ok r(1)] completed_of_row_fields [of r c'] r Some show ?thesis by simp
    qed simp
    from ok' 1 2 3 show ?thesis by (simp add: d')
  qed
qed

end
