(* ===== verification/Durable_Execution.thy ===== *)
theory Durable_Execution
  imports Durable_Store
begin

text \<open>
  Executing an operation at most once against the database
  (\<open>src/src/app/application/idempotency/transactional_execution.py\<close>): the business effect and
  the replay record are written in one transaction. The execution is a client of the durable
  store port, the locale \<open>durable_store\<close>; the PostgreSQL store provides it.
\<close>

section \<open>The execution\<close>

type_synonym operation_proc = "(session, exn, StoredResult) proc"
type_synonym store_get = "IdempotencyKey \<Rightarrow> (session, exn, CompletedIdempotencyResult option) proc"
type_synonym store_add = "IdempotencyKey \<Rightarrow> CompletedIdempotencyResult \<Rightarrow> (session, exn, bool) proc"

definition seconds :: "int \<Rightarrow> datetime" where
  "seconds n = n * 1000000"

definition validate_fingerprint :: "bytes \<Rightarrow> unit result" where
  "validate_fingerprint fingerprint = rguard (length fingerprint = 32) ValueError"

definition find_existing_inner ::
  "store_get \<Rightarrow> IdempotencyKey \<Rightarrow> bytes \<Rightarrow> (session, exn, IdempotencyResult option) proc" where
  "find_existing_inner get_record identity fingerprint =
     sthen (slift (validate_fingerprint fingerprint)) (\<lambda>_.
     sthen (with_uow (get_record identity)) (\<lambda>existing.
     case existing of
       None \<Rightarrow> sret None
     | Some c \<Rightarrow>
         sthen utc_now (\<lambda>clock.
         if expires_at c \<le> clock then sret None
         else if request_fingerprint c \<noteq> fingerprint
           then slift (rthen (idempotency_result_new CONFLICT None) (\<lambda>x. Inr (Some x)))
         else slift (rthen (idempotency_result_new REPLAY (Some c)) (\<lambda>x. Inr (Some x))))))"

text \<open>The body of the transaction: the effect, then its record.\<close>

definition durable_body ::
  "store_add \<Rightarrow> IdempotencyKey \<Rightarrow> bytes \<Rightarrow> operation_proc \<Rightarrow> int \<Rightarrow>
   (session, exn, CompletedIdempotencyResult) proc" where
  "durable_body add_record identity fingerprint op retention =
     sthen op (\<lambda>stored.
     sthen utc_now (\<lambda>clock.
     sthen (slift (completed_new stored (clock + seconds retention) fingerprint)) (\<lambda>completed.
     sthen (add_record identity completed) (\<lambda>added.
     if \<not> added then sraise ConcurrentWinnerCommitted else sret completed))))"

text \<open>The errors after which a committed winner is looked for.\<close>

fun is_race_error :: "exn \<Rightarrow> bool" where
  "is_race_error ConcurrentWinnerCommitted \<longleftrightarrow> True"
| "is_race_error (PersistenceError TransactionConflictError) \<longleftrightarrow> True"
| "is_race_error (DomainError (UserProfileError (ProfileVersionMismatchError v))) \<longleftrightarrow> True"
| "is_race_error (DomainError (UserSettingsError (SettingsVersionMismatchError v))) \<longleftrightarrow> True"
| "is_race_error e \<longleftrightarrow> False"

definition resolve_race ::
  "store_get \<Rightarrow> IdempotencyKey \<Rightarrow> bytes \<Rightarrow> exn \<Rightarrow> (session, exn, IdempotencyResult) proc" where
  "resolve_race get_record identity fingerprint race_error =
     (if \<not> is_race_error race_error then sraise race_error
      else sthen (find_existing_inner get_record identity fingerprint) (\<lambda>winner.
        case winner of
          Some w \<Rightarrow> sret w
        | None \<Rightarrow>
            if race_error \<noteq> ConcurrentWinnerCommitted then sraise race_error
            else sraise (IdempotencyError IdempotencyUnavailableError)))"

definition execute_once_inner ::
  "store_get \<Rightarrow> store_add \<Rightarrow> IdempotencyKey \<Rightarrow> bytes \<Rightarrow> operation_proc \<Rightarrow> int \<Rightarrow>
   (session, exn, IdempotencyResult) proc" where
  "execute_once_inner get_record add_record identity fingerprint op retention =
     sthen (slift (validate_fingerprint fingerprint)) (\<lambda>_.
     sthen (find_existing_inner get_record identity fingerprint) (\<lambda>existing.
     case existing of
       Some found \<Rightarrow> sret found
     | None \<Rightarrow>
         scatch
           (sthen (with_uow (durable_body add_record identity fingerprint op retention)) (\<lambda>completed.
            slift (idempotency_result_new EXECUTED (Some completed))))
           (resolve_race get_record identity fingerprint)))"

text \<open>
  \<open>_exclusive_use\<close>: the flag \<open>active\<close> of the execution object. A second dispatch on the same
  object raises.
\<close>

record execution_state =
  active :: bool
  exec_session :: session

definition on_session :: "(session, exn, 'r) proc \<Rightarrow> (execution_state, exn, 'r) proc" where
  "on_session m st = (case m (exec_session st) of (r, s) \<Rightarrow> (r, st\<lparr>exec_session := s\<rparr>))"

definition exclusive_use :: "(execution_state, exn, 'r) proc \<Rightarrow> (execution_state, exn, 'r) proc" where
  "exclusive_use body st =
     (if active st then (Inl RuntimeError, st)
      else (case body (st\<lparr>active := True\<rparr>) of (r, st') \<Rightarrow> (r, st'\<lparr>active := False\<rparr>)))"

text \<open>\<open>except PersistenceUnavailableError\<close>\<close>

definition unavailable :: "exn \<Rightarrow> ('s, exn, 'r) proc" where
  "unavailable e =
     (if e = PersistenceError PersistenceUnavailableError
        then sraise (IdempotencyError IdempotencyUnavailableError) else sraise e)"

definition execute_once ::
  "store_get \<Rightarrow> store_add \<Rightarrow> IdempotencyKey \<Rightarrow> bytes \<Rightarrow> operation_proc \<Rightarrow> int \<Rightarrow>
   (execution_state, exn, IdempotencyResult) proc" where
  "execute_once get_record add_record identity fingerprint op retention =
     exclusive_use (on_session
       (if retention \<le> 0 then sraise ValueError
        else scatch (execute_once_inner get_record add_record identity fingerprint op retention)
               unavailable))"

definition find_existing ::
  "store_get \<Rightarrow> IdempotencyKey \<Rightarrow> bytes \<Rightarrow> (execution_state, exn, IdempotencyResult option) proc" where
  "find_existing get_record identity fingerprint =
     exclusive_use (on_session
       (scatch (find_existing_inner get_record identity fingerprint) unavailable))"

section \<open>The port of the durable store\<close>

locale durable_store =
  fixes get_record :: store_get
    and add_record :: store_add
    and stored :: "db \<Rightarrow> IdempotencyKey \<Rightarrow> CompletedIdempotencyResult option"
    and ok :: "db \<Rightarrow> bool"
  assumes get_within: "keeps within (get_record i)"
    and get_honest: "honest (get_record i)"
    and get_reads: "get_record i s = (got, t) \<Longrightarrow> reads s t"
    and get_sees: "get_record i s = (Inr (Some c), t) \<Longrightarrow> ok (view t) \<Longrightarrow> stored (view t) i = Some c"
    and add_within: "keeps within (add_record i c)"
    and add_honest: "honest (add_record i c)"
    and add_writes: "add_record i c s = (Inr True, t) \<Longrightarrow> valid_completed c \<Longrightarrow>
      (\<And>evs. script s = evs @ script t \<Longrightarrow> ok (others evs (view s))) \<Longrightarrow>
      ok (view t) \<and> stored (view t) i = Some c
      \<and> (\<exists>evs. script s = evs @ script t \<and> profiles (view t) = profiles (others evs (view s))
           \<and> user_settings (view t) = user_settings (others evs (view s))
           \<and> (\<forall>j. j \<noteq> i \<longrightarrow> stored (view t) j = stored (others evs (view s)) j))"

section \<open>Outcomes of a transaction\<close>

text \<open>Nothing of this session was committed.\<close>

definition untouched :: "session \<Rightarrow> session \<Rightarrow> bool" where
  "untouched s t \<longleftrightarrow> (\<exists>evs. script s = evs @ script t \<and> committed t = others evs (committed s))"

lemma untouched_refl [simp]: "untouched s s"
  by (simp add: untouched_def)

lemma untouched_trans: "untouched s t \<Longrightarrow> untouched t u \<Longrightarrow> untouched s u"
  unfolding untouched_def by (metis append.assoc others_simps(3))

text \<open>A transaction that only reads.\<close>

lemma reading_uow:
  assumes "idle s" "keeps within body" "honest body" "\<And>s r t. body s = (r, t) \<Longrightarrow> reads s t"
    and "with_uow body s = (r, t)"
  shows "idle t \<and> untouched s t"
proof (cases "body (begin_state s)")
  case (Pair b u)
  from assms(4) [OF Pair] obtain evs where evs: "script s = evs @ script u" "view u = others evs (committed s)"
    by (auto simp: reads_def)
  show ?thesis
  proof (cases b)
    case (Inl e)
    with Pair with_uow_body_error [OF assms(1,2) _ assms(5)] show ?thesis
      unfolding untouched_def by blast
  next
    case (Inr x)
    with Pair have "body (begin_state s) = (Inr x, u)" by simp
    from with_uow_body_returns [OF assms(1-3) this assms(5)] obtain evs1 evs2 where
      i: "idle t" and s: "script s = evs1 @ script u" "script u = evs2 @ script t" and
      c: "committed t = others evs2 (view u) \<or> committed t = others (evs1 @ evs2) (committed s)"
      by blast
    from s(1) evs(1) have "evs1 = evs" by simp
    with i s c evs show ?thesis by (auto simp: untouched_def)
  qed
qed

text \<open>The clock moves nothing.\<close>

lemma utc_now_untouched: "utc_now s = (r, t) \<Longrightarrow> untouched s t \<and> (idle s \<longrightarrow> idle t)"
  by (auto simp: utc_now_def untouched_def idle_def intro: exI [of _ "[]"] split: list.splits)

text \<open>
  The effect of the operation and its replay record, committed together: the operation ran
  once, from an idle state, the record was added to what it left, and what it left plus the
  record is what was committed (up to the work of others).
\<close>

definition committed_once ::
  "(db \<Rightarrow> IdempotencyKey \<Rightarrow> CompletedIdempotencyResult option) \<Rightarrow> (db \<Rightarrow> bool) \<Rightarrow> operation_proc \<Rightarrow>
   IdempotencyKey \<Rightarrow> bytes \<Rightarrow> session \<Rightarrow> session \<Rightarrow> CompletedIdempotencyResult \<Rightarrow> bool" where
  "committed_once stored ok op i fingerprint s t c \<longleftrightarrow>
     (\<exists>s0 u d evs evs'. idle s0 \<and> untouched s s0 \<and> op (begin_state s0) = (Inr (stored_of c), u)
        \<and> script u = evs @ evs' @ script t \<and> request_fingerprint c = fingerprint
        \<and> ok d \<and> stored d i = Some c
        \<and> profiles d = profiles (others evs (view u)) \<and> user_settings d = user_settings (others evs (view u))
        \<and> committed t = others evs' d)"

lemma committed_once_untouched:
  "untouched s s1 \<Longrightarrow> committed_once stored ok op i fp s1 t c \<Longrightarrow> untouched t t1 \<Longrightarrow>
   committed_once stored ok op i fp s t1 c"
proof -
  assume s: "untouched s s1" and c: "committed_once stored ok op i fp s1 t c" and t: "untouched t t1"
  from c obtain s0 u d evs evs' where 1: "idle s0" "untouched s1 s0"
    "op (begin_state s0) = (Inr (stored_of c), u)" "script u = evs @ evs' @ script t"
    "request_fingerprint c = fp" "ok d" "stored d i = Some c" "profiles d = profiles (others evs (view u))"
    "user_settings d = user_settings (others evs (view u))" "committed t = others evs' d"
    by (auto simp: committed_once_def)
  from t obtain evs2 where 2: "script t = evs2 @ script t1" "committed t1 = others evs2 (committed t)"
    by (auto simp: untouched_def)
  from 1 2 untouched_trans [OF s 1(2)] show ?thesis
    unfolding committed_once_def
    by (intro exI [of _ s0] exI [of _ u] exI [of _ d] exI [of _ evs] exI [of _ "evs' @ evs2"]) simp
qed

text \<open>What other sessions and the operation must keep: the soundness of the records.\<close>

definition keeps_ok :: "(db \<Rightarrow> bool) \<Rightarrow> db \<Rightarrow> db \<Rightarrow> bool" where
  "keeps_ok ok d d' \<longleftrightarrow> (ok d \<longrightarrow> ok d')"

lemma keeps_ok_reflp: "reflp (keeps_ok ok)" and keeps_ok_transp: "transp (keeps_ok ok)"
  by (auto simp: keeps_ok_def reflp_def transp_def)

lemma untouched_ok:
  assumes "rely (keeps_ok ok) s" "ok (committed s)" "untouched s t"
  shows "rely (keeps_ok ok) t \<and> ok (committed t)"
proof -
  from assms(3) obtain evs where evs: "script s = evs @ script t" "committed t = others evs (committed s)"
    by (auto simp: untouched_def)
  with assms(1,2) rely_view [OF assms(1) keeps_ok_reflp keeps_ok_transp evs(1), of "committed s"]
  show ?thesis by (auto simp: keeps_ok_def intro: rely_suffix)
qed

section \<open>The client of the port\<close>

context durable_store
begin

lemma find_untouched:
  assumes "find_existing_inner get_record i fp s = (r, t)" "idle s"
  shows "idle t \<and> untouched s t"
proof -
  have uow: "idle u \<and> untouched s u" if "with_uow (get_record i) s = (x, u)" for x u
    using assms(2) get_within get_honest get_reads that by (rule reading_uow)
  from assms(1) consider "t = s" | x where "with_uow (get_record i) s = (x, t)"
    | x u y where "with_uow (get_record i) s = (x, u)" "utc_now u = (y, t)"
    by (auto simp: find_existing_inner_def sthen_cases split: option.splits if_splits)
  then show ?thesis
  proof cases
    case 1
    with assms(2) show ?thesis by simp
  next
    case 2
    then show ?thesis by (rule uow)
  next
    case 3
    with uow [OF 3(1)] utc_now_untouched [OF 3(2)] show ?thesis by (auto intro: untouched_trans)
  qed
qed

lemma find_status:
  "find_existing_inner get_record i fp s = (Inr (Some res), t) \<Longrightarrow> exec_status res \<noteq> EXECUTED"
  by (auto simp: find_existing_inner_def sthen_eq_Inr split: option.splits if_splits)

lemma resolve_untouched:
  assumes "resolve_race get_record i fp e s = (r, t)" "idle s"
  shows "idle t \<and> untouched s t \<and> (\<forall>res. r = Inr res \<longrightarrow> exec_status res \<noteq> EXECUTED)"
proof (cases "is_race_error e")
  case False
  with assms show ?thesis by (auto simp: resolve_race_def)
next
  case True
  with assms(1) obtain w where "find_existing_inner get_record i fp s = (w, t)"
    and "(\<exists>x. w = Inl x \<and> r = Inl x) \<or> (\<exists>x. w = Inr None \<and> r = Inl x) \<or> (\<exists>x. w = Inr (Some x) \<and> r = Inr x)"
    by (auto simp: resolve_race_def sthen_cases split: option.splits if_splits)
  with find_untouched [OF this(1) assms(2)] find_status show ?thesis by auto
qed

lemma body_within: "keeps within op \<Longrightarrow> keeps within (durable_body add_record i fp op ret)"
  unfolding durable_body_def by (intro keeps_within keeps_if utc_now_keeps add_within)

lemma body_honest: "honest op \<Longrightarrow> honest (durable_body add_record i fp op ret)"
  unfolding durable_body_def
  by (intro honest_sthen honest_if honest_sret honest_sraise honest_slift honest_utc_now add_honest)

lemma body_returns:
  assumes run: "durable_body add_record i fp op ret s = (Inr c, t)"
    and op: "keeps (guar (keeps_ok ok)) op"
    and rely: "rely (keeps_ok ok) s" and ok: "ok (view s)"
  shows "\<exists>u evs. op s = (Inr (stored_of c), u) \<and> script u = evs @ script t
    \<and> request_fingerprint c = fp \<and> valid_completed c \<and> ok (view t) \<and> stored (view t) i = Some c
    \<and> profiles (view t) = profiles (others evs (view u))
    \<and> user_settings (view t) = user_settings (others evs (view u))"
proof -
  from run obtain st u clock u1 c' where 1: "op s = (Inr st, u)" and 2: "utc_now u = (Inr clock, u1)"
    and c: "completed_new st (clock + seconds ret) fp = Inr c'"
    and 3: "add_record i c' u1 = (Inr True, t)" and "c' = c"
    by (auto simp: durable_body_def sthen_eq_Inr split: if_splits)
  from keepsD [OF op 1] rely ok obtain evs0 where "script s = evs0 @ script u" and ok_u: "ok (view u)"
    by (auto simp: guar_def keeps_ok_def)
  with rely have rely_u: "rely (keeps_ok ok) u" by (auto intro: rely_suffix)
  from 2 have u1: "view u1 = view u" "script u1 = script u"
    by (auto simp: utc_now_def split: list.splits)
  have "ok (others evs (view u1))" if "script u1 = evs @ script t" for evs
    using rely_view [OF rely_u keeps_ok_reflp keeps_ok_transp, of evs t "view u"] that u1 ok_u
    by (simp add: keeps_ok_def)
  with add_writes [OF 3] completed_new_eq [OF c] obtain evs where
    "ok (view t)" "stored (view t) i = Some c'" "script u1 = evs @ script t"
    "profiles (view t) = profiles (others evs (view u1))"
    "user_settings (view t) = user_settings (others evs (view u1))" by blast
  with 1 u1 completed_new_eq [OF c] \<open>c' = c\<close> show ?thesis
    by (intro exI [of _ u] exI [of _ evs]) simp
qed

lemma execute_once_steps:
  assumes "execute_once_inner get_record add_record i fp op ret s = (r, t)"
  obtains (bad) e where "t = s" "r = Inl e"
    | (failed) e where "find_existing_inner get_record i fp s = (Inl e, t)" "r = Inl e"
    | (found) res where "find_existing_inner get_record i fp s = (Inr (Some res), t)" "r = Inr res"
    | (run) s1 where "find_existing_inner get_record i fp s = (Inr None, s1)"
        "scatch (sthen (with_uow (durable_body add_record i fp op ret))
             (\<lambda>c. slift (idempotency_result_new EXECUTED (Some c))))
           (resolve_race get_record i fp) s1 = (r, t)"
proof (cases "validate_fingerprint fp")
  case (Inl e)
  with assms have "t = s" "r = Inl e" by (auto simp: execute_once_inner_def sthen_def)
  then show thesis by (rule bad)
next
  case (Inr u)
  obtain f s1 where f: "find_existing_inner get_record i fp s = (f, s1)" by fastforce
  show thesis
  proof (cases f)
    case (Inl e)
    with assms Inr f have "find_existing_inner get_record i fp s = (Inl e, t)" "r = Inl e"
      by (auto simp: execute_once_inner_def sthen_def)
    then show thesis by (rule failed)
  next
    case (Inr x)
    show thesis
    proof (cases x)
      case None
      with assms \<open>validate_fingerprint fp = Inr u\<close> Inr f show thesis
        by (intro run) (auto simp: execute_once_inner_def sthen_def)
    next
      case (Some res)
      with assms \<open>validate_fingerprint fp = Inr u\<close> Inr f show thesis
        by (intro found) (auto simp: execute_once_inner_def sthen_def)
    qed
  qed
qed

text \<open>
  The central lemma: whatever fails, nothing is committed, or the effect together with its
  record; and what is reported as executed is what was recorded.
\<close>

lemma execute_once_inner_atomic:
  assumes run: "execute_once_inner get_record add_record i fp op ret s = (r, t)" and idle: "idle s"
    and op: "keeps within op" "honest op" "keeps (guar (keeps_ok ok)) op"
    and rely: "rely (keeps_ok ok) s" and ok: "ok (committed s)"
  shows "idle t
    \<and> ((untouched s t \<and> (\<forall>res. r = Inr res \<longrightarrow> exec_status res \<noteq> EXECUTED))
       \<or> (\<exists>c. committed_once stored ok op i fp s t c
            \<and> (\<forall>res. r = Inr res \<longrightarrow> exec_status res = EXECUTED \<longrightarrow> exec_completed res = Some c)))"
proof -
  let ?body = "durable_body add_record i fp op ret"
  from run consider (bad) e where "t = s" "r = Inl e"
    | (failed) e where "find_existing_inner get_record i fp s = (Inl e, t)" "r = Inl e"
    | (found) res where "find_existing_inner get_record i fp s = (Inr (Some res), t)" "r = Inr res"
    | (run) s1 where "find_existing_inner get_record i fp s = (Inr None, s1)"
        "scatch (sthen (with_uow ?body) (\<lambda>c. slift (idempotency_result_new EXECUTED (Some c))))
           (resolve_race get_record i fp) s1 = (r, t)"
    by (rule execute_once_steps)
  then show ?thesis
  proof cases
    case bad
    with idle show ?thesis by simp
  next
    case failed
    with find_untouched [OF _ idle] show ?thesis by simp
  next
    case found
    with find_untouched [OF _ idle] find_status show ?thesis by simp
  next
    case run
    from find_untouched [OF run(1) idle] have s1: "idle s1" "untouched s s1" by simp_all
    have ok1: "rely (keeps_ok ok) s1" "ok (committed s1)"
      using untouched_ok [OF rely ok s1(2)] by simp_all
    obtain w t1 where w: "with_uow ?body s1 = (w, t1)" by fastforce
    have outcome: "idle t1 \<and> (untouched s1 t1 \<and> (\<exists>e. w = Inl e)
      \<or> (\<exists>c. committed_once stored ok op i fp s1 t1 c \<and> (\<forall>c'. w = Inr c' \<longrightarrow> c' = c)))"
    proof (cases "?body (begin_state s1)")
      case (Pair b u)
      show ?thesis
      proof (cases b)
        case (Inl e)
        with Pair with_uow_body_error [OF s1(1) body_within [OF op(1)] _ w] show ?thesis
          by (auto simp: untouched_def)
      next
        case (Inr c)
        with Pair have run1: "?body (begin_state s1) = (Inr c, u)" by simp
        from with_uow_body_returns [OF s1(1) body_within [OF op(1)] body_honest [OF op(2)] run1 w]
        obtain evs1 evs2 where t1: "idle t1" and evs: "script s1 = evs1 @ script u" "script u = evs2 @ script t1"
          and c: "w = Inr c \<and> committed t1 = others evs2 (view u)
            \<or> (\<exists>e. w = Inl e) \<and> (committed t1 = others evs2 (view u)
                \<or> committed t1 = others (evs1 @ evs2) (committed s1))" by blast
        have "rely (keeps_ok ok) (begin_state s1)" "ok (view (begin_state s1))"
          using ok1 by (simp_all add: rely_def)
        from body_returns [OF run1 op(3) this] obtain u0 evs0 where b: "op (begin_state s1) = (Inr (stored_of c), u0)"
          "script u0 = evs0 @ script u" "request_fingerprint c = fp" "ok (view u)" "stored (view u) i = Some c"
          "profiles (view u) = profiles (others evs0 (view u0))"
          "user_settings (view u) = user_settings (others evs0 (view u0))" by blast
        have "committed_once stored ok op i fp s1 t1 c" if "committed t1 = others evs2 (view u)"
          unfolding committed_once_def
          using b evs(2) s1(1) that
          by (intro exI [of _ s1] exI [of _ u0] exI [of _ "view u"] exI [of _ evs0] exI [of _ evs2]) simp
        moreover have "untouched s1 t1" if "committed t1 = others (evs1 @ evs2) (committed s1)"
          using that evs unfolding untouched_def by (intro exI [of _ "evs1 @ evs2"]) simp
        ultimately show ?thesis using t1 c by auto
      qed
    qed
    show ?thesis
    proof (cases w)
      case (Inr c)
      with run(2) w have "t = t1" "r = Inr \<lparr>exec_status = EXECUTED, exec_completed = Some c\<rparr>"
        by (simp_all add: scatch_def sthen_def)
      with outcome Inr s1(2) committed_once_untouched [OF s1(2) _ untouched_refl] show ?thesis by auto
    next
      case (Inl e)
      with run(2) w have race: "resolve_race get_record i fp e t1 = (r, t)"
        by (simp add: scatch_def sthen_def)
      from outcome resolve_untouched [OF race] have t: "idle t" "untouched t1 t"
        "\<forall>res. r = Inr res \<longrightarrow> exec_status res \<noteq> EXECUTED" by blast+
      from outcome consider "untouched s1 t1" | c where "committed_once stored ok op i fp s1 t1 c" by blast
      then show ?thesis
      proof cases
        case 1
        with s1(2) t show ?thesis by (blast intro: untouched_trans)
      next
        case 2
        with committed_once_untouched [OF s1(2) 2 t(2)] t show ?thesis by blast
      qed
    qed
  qed
qed

end

end
