(* ===== verification/Operations.thy ===== *)
theory Operations
  imports Usernames Durable_Execution
begin

text \<open>
  The command handlers as operations of the durable execution: each stays inside the
  transaction it is given, does not hide a failed statement, and leaves the replay records
  alone.
\<close>

section \<open>Staying inside the transaction\<close>

lemma require_transaction_within: "keeps within require_transaction"
  by (rule keepsI) (auto dest!: require_transaction_eq)

lemma require_transaction_honest: "honest require_transaction"
  by (auto simp: honest_def dest!: require_transaction_eq)

lemmas within_intros = keeps_within keeps_if keeps_case_option require_transaction_within
  execute_keeps utc_now_keeps

lemmas transaction_intros = honest_intros require_transaction_honest

lemma repo_within:
  "keeps within (repo_get_by_id tb u)" "keeps within (repo_update tb e v)"
  "keeps within (repo_create_default_if_absent tb default_result u)"
  unfolding repo_get_by_id_def repo_update_def repo_exists_def repo_create_default_if_absent_def
  by (intro within_intros)+

lemma repo_honest:
  "honest (repo_get_by_id tb u)" "honest (repo_update tb e v)"
  "honest (repo_create_default_if_absent tb default_result u)"
  unfolding repo_get_by_id_def repo_update_def repo_exists_def repo_create_default_if_absent_def
  by (intro transaction_intros)+

lemma username_taken_raises: "username_taken e s \<noteq> (Inr x, t)"
  by (cases e) (simp_all add: username_taken_def)

lemma username_taken_within: "keeps within (username_taken e)"
  by (cases e) (simp_all add: username_taken_def keeps_within)

lemma profile_update_within: "keeps within (profile_repo_update e v)"
  unfolding profile_repo_update_def
  by (intro within_intros repo_within username_taken_within)

lemma profile_update_honest: "honest (profile_repo_update e v)"
  unfolding profile_repo_update_def
  by (intro honest_scatch repo_honest) (rule username_taken_raises)

lemmas handler_defs = UpdateProfileHandler_eq UpdateAvatarHandler_eq UpdateSettingsHandler_eq
  ResetSettingsHandler_eq CreateDefaultProfileHandler_def profile_repo_create_default_if_absent_def
  settings_repo_create_default_if_absent_def profile_repo_get_by_id_def settings_repo_get_by_id_def
  settings_repo_update_def

lemma handlers_within:
  "keeps within (UpdateProfileHandler c1)" "keeps within (UpdateAvatarHandler c2)"
  "keeps within (UpdateSettingsHandler zone_ok c3)" "keeps within (ResetSettingsHandler zone_ok c4)"
  "keeps within (CreateDefaultProfileHandler zone_ok c5)"
  unfolding handler_defs
  by (intro within_intros load_change_save_keeps reflp_within transp_within repo_within
      profile_update_within)+

lemma handlers_honest:
  "honest (UpdateProfileHandler c1)" "honest (UpdateAvatarHandler c2)"
  "honest (UpdateSettingsHandler zone_ok c3)" "honest (ResetSettingsHandler zone_ok c4)"
  "honest (CreateDefaultProfileHandler zone_ok c5)"
  unfolding handler_defs
  by (intro transaction_intros load_change_save_honest repo_honest profile_update_honest)+

section \<open>Leaving the records alone\<close>

lemma put_records [simp]:
  "keeps_ok records_ok d (t_put profile_table rows d)"
  "keeps_ok records_ok d (t_put (settings_table zone_ok) srows d)"
  by (simp_all add: keeps_ok_def records_ok_def profile_table_def settings_table_def)

lemma handlers_keep_records:
  "keeps (guar (keeps_ok records_ok)) (UpdateProfileHandler c1)"
  "keeps (guar (keeps_ok records_ok)) (UpdateAvatarHandler c2)"
  "keeps (guar (keeps_ok records_ok)) (UpdateSettingsHandler zone_ok c3)"
  "keeps (guar (keeps_ok records_ok)) (ResetSettingsHandler zone_ok c4)"
  "keeps (guar (keeps_ok records_ok)) (CreateDefaultProfileHandler zone_ok c5)"
proof -
  have get: "keeps (guar (keeps_ok records_ok)) (repo_get_by_id tb u)" for tb u
    by (rule repo_get_guar) (rule keeps_ok_reflp keeps_ok_transp)+
  have taken: "keeps (guar (keeps_ok records_ok)) (username_taken e)" for e
    by (cases e) (simp_all add: username_taken_def keeps_guar keeps_ok_reflp)
  have upd: "keeps (guar (keeps_ok records_ok)) (profile_repo_update e v)"
    "keeps (guar (keeps_ok records_ok)) (repo_update (settings_table zone_ok) f v)" for e f v
    unfolding profile_repo_update_def
    by (intro keeps_guar update_guar keeps_ok_reflp keeps_ok_transp put_records taken)+
  have new: "keeps (guar (keeps_ok records_ok)) (repo_create_default_if_absent profile_table def u)"
    "keeps (guar (keeps_ok records_ok)) (repo_create_default_if_absent (settings_table zone_ok) def' u)"
    for def def' u
    by (intro provide_guar keeps_ok_reflp keeps_ok_transp put_records)+
  show
    "keeps (guar (keeps_ok records_ok)) (UpdateProfileHandler c1)"
    "keeps (guar (keeps_ok records_ok)) (UpdateAvatarHandler c2)"
    "keeps (guar (keeps_ok records_ok)) (UpdateSettingsHandler zone_ok c3)"
    "keeps (guar (keeps_ok records_ok)) (ResetSettingsHandler zone_ok c4)"
    "keeps (guar (keeps_ok records_ok)) (CreateDefaultProfileHandler zone_ok c5)"
    unfolding handler_defs
    by (intro keeps_guar load_change_save_keeps reflp_guar transp_guar keeps_ok_reflp keeps_ok_transp
        utc_now_guar get upd new)+
qed

text \<open>
  The handlers are operations the durable execution may run: none commits or rolls back
  on its own, none returns a result out of a failed transaction, and none touches the replay
  records. This is what the atomicity of an execution asks of its operation, so that
  property applies to every command of the service.
\<close>

lemma handlers_are_operations:
  "(keeps within (UpdateProfileHandler c1) \<and> honest (UpdateProfileHandler c1)
      \<and> keeps (guar (keeps_ok records_ok)) (UpdateProfileHandler c1))
   \<and> (keeps within (UpdateAvatarHandler c2) \<and> honest (UpdateAvatarHandler c2)
      \<and> keeps (guar (keeps_ok records_ok)) (UpdateAvatarHandler c2))
   \<and> (keeps within (UpdateSettingsHandler zone_ok c3) \<and> honest (UpdateSettingsHandler zone_ok c3)
      \<and> keeps (guar (keeps_ok records_ok)) (UpdateSettingsHandler zone_ok c3))
   \<and> (keeps within (ResetSettingsHandler zone_ok c4) \<and> honest (ResetSettingsHandler zone_ok c4)
      \<and> keeps (guar (keeps_ok records_ok)) (ResetSettingsHandler zone_ok c4))
   \<and> (keeps within (CreateDefaultProfileHandler zone_ok c5) \<and> honest (CreateDefaultProfileHandler zone_ok c5)
      \<and> keeps (guar (keeps_ok records_ok)) (CreateDefaultProfileHandler zone_ok c5))"
  by (simp add: handlers_within handlers_honest handlers_keep_records)

end
