(* ===== verification/Exactly_Once.thy ===== *)
theory Exactly_Once
  imports Operations Query_Properties
begin

text \<open>
  The PostgreSQL store provides the durable store port, the command handlers are operations
  the execution may run, and what follows: the effect of a command and its replay record are
  committed together or not at all, and a repetition finds the record.
\<close>

section \<open>The PostgreSQL store provides the port\<close>

lemma select_completed_pure:
  "select_completed i clock d = (Inr rows, d') \<longleftrightarrow> d' = d \<and>
     rows = filter (\<lambda>r. identity_of r = i \<and> rec_expires_at r > clock) (idempotency_records d)"
  by (auto simp: select_completed_def)

lemma get_completed_steps:
  assumes "get_completed i s = (r, t)"
  obtains clock s1 where "utc_now s = (Inr clock, s1)"
    "sthen (execute (select_completed i clock)) (\<lambda>rows.
       sthen (slift (one_or_none rows)) (\<lambda>row.
       case row of None \<Rightarrow> sret None
       | Some r \<Rightarrow> slift (rthen (completed_of_row r) (\<lambda>c. Inr (Some c))))) s1 = (r, t)"
  using assms by (auto simp: get_completed_def sthen_def utc_now_def split: list.splits)

lemma get_completed_reads:
  assumes "get_completed i s = (r, t)"
  shows "reads s t"
proof -
  from assms obtain clock s1 where 1: "utc_now s = (Inr clock, s1)" and
    2: "sthen (execute (select_completed i clock)) (\<lambda>rows.
       sthen (slift (one_or_none rows)) (\<lambda>row.
       case row of None \<Rightarrow> sret None
       | Some r \<Rightarrow> slift (rthen (completed_of_row r) (\<lambda>c. Inr (Some c))))) s1 = (r, t)"
    by (rule get_completed_steps)
  from 2 obtain x where "execute (select_completed i clock) s1 = (x, t)"
    by (auto simp: sthen_cases split: option.splits)
  then have "reads s1 t" by (rule execute_reads) (simp add: select_completed_pure)
  with utc_now_reads [OF 1] show ?thesis by (blast intro: reads_trans)
qed

lemma get_completed_sees:
  assumes "get_completed i s = (Inr (Some c), t)" "records_ok (view t)"
  shows "recorded (view t) i = Some c"
proof -
  from assms(1) obtain clock s1 where
    2: "sthen (execute (select_completed i clock)) (\<lambda>rows.
       sthen (slift (one_or_none rows)) (\<lambda>row.
       case row of None \<Rightarrow> sret None
       | Some r \<Rightarrow> slift (rthen (completed_of_row r) (\<lambda>c. Inr (Some c))))) s1 = (Inr (Some c), t)"
    by (rule get_completed_steps)
  from 2 obtain rows row where ex: "execute (select_completed i clock) s1 = (Inr rows, t)"
    and row: "one_or_none rows = Inr (Some row)" "completed_of_row row = Inr c"
    by (auto simp: sthen_eq_Inr split: option.splits)
  from execute_query [OF ex] have rows: "rows = filter (\<lambda>r. identity_of r = i \<and> rec_expires_at r > clock)
      (idempotency_records (view t))"
    by (auto simp: select_completed_pure)
  from row(1) have "rows = [row]" by (cases rows rule: one_or_none.cases) auto
  with rows have "row \<in> set (filter (\<lambda>r. identity_of r = i \<and> rec_expires_at r > clock)
      (idempotency_records (view t)))" by (metis list.set_intros(1))
  then have "row \<in> set (idempotency_records (view t))" "identity_of row = i" by simp_all
  with recorded_row [OF assms(2)] row(2) show ?thesis by blast
qed

lemma try_add_writes:
  assumes run: "try_add_completed i c s = (Inr True, t)" and c: "valid_completed c"
    and ok: "\<And>evs. script s = evs @ script t \<Longrightarrow> records_ok (others evs (view s))"
  shows "records_ok (view t) \<and> recorded (view t) i = Some c
    \<and> (\<exists>evs. script s = evs @ script t \<and> profiles (view t) = profiles (others evs (view s))
         \<and> user_settings (view t) = user_settings (others evs (view s))
         \<and> (\<forall>j. j \<noteq> i \<longrightarrow> recorded (view t) j = recorded (others evs (view s)) j))"
proof -
  from run obtain clock s1 ids found where 1: "utc_now s = (Inr clock, s1)"
    and 2: "execute (upsert_record (record_of i c clock)) s1 = (Inr ids, t)"
    and found: "one_or_none ids = Inr (Some found)"
    by (auto simp: try_add_completed_def sthen_eq_Inr split: if_splits)
  from found have ids: "ids \<noteq> []" by auto
  from 1 have s1: "view s1 = view s" "script s1 = script s"
    by (auto simp: utc_now_def split: list.splits)
  from 2 obtain evs where evs: "script s1 = evs @ script t"
    and up: "upsert_record (record_of i c clock) (others evs (view s1)) = (Inr ids, view t)"
    by (rule execute_Inr)
  with s1 ok have "records_ok (others evs (view s1))" by simp
  from upsert_writes [OF this c up ids] evs s1 show ?thesis by auto
qed

lemma get_completed_within: "keeps within (get_completed i)"
  unfolding get_completed_def
  by (intro keeps_within keeps_case_option utc_now_keeps execute_keeps)

lemma get_completed_honest: "honest (get_completed i)"
  unfolding get_completed_def by (intro honest_intros)

lemma try_add_within: "keeps within (try_add_completed i c)"
  unfolding try_add_completed_def
  by (intro keeps_within keeps_if utc_now_keeps execute_keeps)

lemma try_add_honest: "honest (try_add_completed i c)"
  unfolding try_add_completed_def by (intro honest_intros)

interpretation postgres: durable_store get_completed try_add_completed recorded records_ok
proof (unfold_locales, goal_cases)
  case 1
  show ?case by (rule get_completed_within)
next
  case 2
  show ?case by (rule get_completed_honest)
next
  case 3
  then show ?case by (rule get_completed_reads)
next
  case 4
  then show ?case by (rule get_completed_sees)
next
  case 5
  show ?case by (rule try_add_within)
next
  case 6
  show ?case by (rule try_add_honest)
next
  case 7
  then show ?case by (rule try_add_writes)
qed

section \<open>Atomicity\<close>

lemma execute_once_cases:
  assumes "execute_once get_record add_record i fp op ret st = (r, st')"
  shows "(active st \<and> st' = st \<and> r = Inl RuntimeError)
    \<or> (\<not> active st \<and> \<not> active st' \<and> (\<exists>x. execute_once_inner get_record add_record i fp op ret (exec_session st)
           = (x, exec_session st') \<and> (\<forall>res. r = Inr res \<longrightarrow> x = Inr res)
           \<and> (\<forall>e. r = Inl e \<longrightarrow> (\<exists>e'. x = Inl e')))) \<and> 0 < ret
    \<or> (\<not> active st \<and> \<not> active st' \<and> ret \<le> 0 \<and> r = Inl ValueError \<and> exec_session st' = exec_session st)"
proof -
  obtain x t where x: "execute_once_inner get_record add_record i fp op ret (exec_session st) = (x, t)"
    by fastforce
  with assms show ?thesis
    by (cases x)
      (auto simp: execute_once_def exclusive_use_def on_session_def scatch_def unavailable_def
        split: if_splits)
qed

lemma execute_once_atomic:
  assumes "execute_once get_completed try_add_completed i fp op ret st = (r, st')"
    and "\<not> active st" "idle (exec_session st)"
    and "keeps within op" "honest op" "keeps (guar (keeps_ok records_ok)) op"
    and "rely (keeps_ok records_ok) (exec_session st)" "records_ok (committed (exec_session st))"
  shows "\<not> active st' \<and> idle (exec_session st')
    \<and> ((untouched (exec_session st) (exec_session st')
          \<and> (\<forall>res. r = Inr res \<longrightarrow> exec_status res \<noteq> EXECUTED))
       \<or> (\<exists>c. committed_once recorded records_ok op i fp (exec_session st) (exec_session st') c
            \<and> (\<forall>res. r = Inr res \<longrightarrow> exec_status res = EXECUTED \<longrightarrow> exec_completed res = Some c)))"
  using execute_once_cases [OF assms(1)] assms(2)
proof (elim disjE conjE exE, goal_cases)
  case (2 x)
  from postgres.execute_once_inner_atomic [OF 2(5) assms(3-8)] 2 show ?thesis by blast
next
  case 3
  with assms(3) show ?thesis by simp
qed simp_all

text \<open>
  C4. The effect and its replay record are committed together or not at all. Whatever the
  operation is, as long as it stays inside its transaction, and whatever fails on the way
  (a statement, a commit, the answer to a commit, a race with another worker, an
  exception of the operation): afterwards either nothing of the attempt is committed, or the
  whole effect of one run of the operation is committed together with the record that
  replays it. A reported execution is always of the second kind, with the reported result
  recorded. The session is idle again, and the execution object free.
\<close>

theorem durable_execution_atomic:
  assumes "execute_once get_completed try_add_completed i fp op ret st = (r, st')"
    and "\<not> active st" "idle (exec_session st)"
    and "keeps within op" "honest op" "keeps (guar (keeps_ok records_ok)) op"
    and "rely (keeps_ok records_ok) (exec_session st)" "records_ok (committed (exec_session st))"
  shows "\<not> active st' \<and> idle (exec_session st')
    \<and> ((untouched (exec_session st) (exec_session st')
          \<and> (\<forall>res. r = Inr res \<longrightarrow> exec_status res \<noteq> EXECUTED))
       \<or> (\<exists>c. committed_once recorded records_ok op i fp (exec_session st) (exec_session st') c
            \<and> (\<forall>res. r = Inr res \<longrightarrow> exec_status res = EXECUTED \<longrightarrow> exec_completed res = Some c)))"
  using assms by (rule execute_once_atomic)

section \<open>Replay\<close>

text \<open>The clock of a session will not reach \<open>e\<close> in any of its coming readings.\<close>

definition clock_below :: "session \<Rightarrow> datetime \<Rightarrow> bool" where
  "clock_below s e \<longleftrightarrow> (\<forall>k \<le> length (ticks s). now s + sum_list (take k (ticks s)) < e)"

lemma utc_now_below:
  assumes "utc_now s = (r, t)" "clock_below s e"
  shows "\<exists>clock. r = Inr clock \<and> clock < e \<and> clock_below t e \<and> script t = script s \<and> view t = view s
    \<and> committed t = committed s \<and> aborted t = aborted s \<and> uow_open t = uow_open s
    \<and> in_transaction t = in_transaction s"
proof (cases "ticks s")
  case Nil
  with assms(2) have "now s < e" by (simp add: clock_below_def)
  with Nil assms show ?thesis by (auto simp: utc_now_def)
next
  case (Cons d ds)
  with assms(1) have t: "r = Inr (now s + d)" "t = s\<lparr>now := now s + d, ticks := ds\<rparr>"
    by (auto simp: utc_now_def)
  from assms(2) Cons have below: "now s + sum_list (take k (d # ds)) < e" if "k \<le> Suc (length ds)" for k
    using that by (simp add: clock_below_def)
  from below [of 1] have "now s + d < e" by simp
  moreover have "now s + d + sum_list (take k ds) < e" if "k \<le> length ds" for k
    using below [of "Suc k"] that by (simp add: add.assoc)
  ultimately show ?thesis by (simp add: t clock_below_def)
qed

lemma utc_now_run: obtains clock t where "utc_now s = (Inr clock, t)"
  by (cases "ticks s") (auto simp: utc_now_def)

lemma clock_below_cong:
  "now t = now s \<Longrightarrow> ticks t = ticks s \<Longrightarrow> clock_below t e = clock_below s e"
  by (simp add: clock_below_def)

lemma get_completed_live:
  assumes "quiet s" "records_ok (view s)" "recorded (view s) i = Some c" "clock_below s (expires_at c)"
  obtains t where "get_completed i s = (Inr (Some c), t)" "quiet t" "view t = view s"
    "committed t = committed s" "uow_open t = uow_open s" "clock_below t (expires_at c)"
proof -
  obtain clock s1 where 1: "utc_now s = (Inr clock, s1)" by (rule utc_now_run)
  from utc_now_below [OF 1 assms(4)] have s1: "clock < expires_at c" "clock_below s1 (expires_at c)"
    "script s1 = script s" "view s1 = view s" "committed s1 = committed s" "aborted s1 = aborted s"
    "uow_open s1 = uow_open s" by auto
  with assms(1) have q: "quiet s1" by (simp add: quiet_def)
  from assms(2,3) obtain row where row: "completed_of_row row = Inr c" "identity_of row = i"
    and only: "filter (\<lambda>r. identity_of r = i) (idempotency_records (view s)) = [row]"
    by (blast elim: recorded_Some)
  have "filter (\<lambda>r. identity_of r = i \<and> rec_expires_at r > clock) (idempotency_records (view s))
      = filter (\<lambda>r. rec_expires_at r > clock) (filter (\<lambda>r. identity_of r = i) (idempotency_records (view s)))"
    by (simp add: conj_commute)
  also have "\<dots> = [row]"
    using only completed_of_row_fields [OF row(1)] s1(1) by simp
  finally have sel: "select_completed i clock (view s1) = (Inr [row], view s1)"
    by (simp add: select_completed_def s1)
  let ?t = "s1\<lparr>in_transaction := True, view := view s1\<rparr>"
  have "get_completed i s = (Inr (Some c), ?t)"
    using row(1) by (simp add: get_completed_def sthen_def 1 execute_quiet [OF q] sel)
  moreover have "clock_below ?t (expires_at c)" using s1(2) by (simp add: clock_below_def)
  ultimately show thesis using q s1 that [of ?t] by (simp add: quiet_def)
qed

text \<open>What the lookup decides about a live record.\<close>

definition replay_of :: "bytes \<Rightarrow> CompletedIdempotencyResult \<Rightarrow> IdempotencyResult" where
  "replay_of fp c =
     (if request_fingerprint c = fp then \<lparr>exec_status = REPLAY, exec_completed = Some c\<rparr>
      else \<lparr>exec_status = CONFLICT, exec_completed = None\<rparr>)"

lemma find_existing_live:
  assumes "quiet s" "idle s" "records_ok (committed s)" "recorded (committed s) i = Some c"
    and "clock_below s (expires_at c)" "length fp = 32"
  obtains t where "find_existing_inner get_completed i fp s = (Inr (Some (replay_of fp c)), t)"
    "committed t = committed s" "clock_below t (expires_at c)" "quiet t" "idle t"
proof -
  let ?b = "begin_state s"
  have b: "quiet ?b" "records_ok (view ?b)" "recorded (view ?b) i = Some c" "clock_below ?b (expires_at c)"
    using assms by (simp_all add: quiet_def clock_below_def begin_state_def)
  then obtain u where u: "get_completed i ?b = (Inr (Some c), u)" "quiet u" "view u = view ?b"
    "committed u = committed ?b" "uow_open u = uow_open ?b" "clock_below u (expires_at c)"
    by (rule get_completed_live)
  let ?v = "close_with (committed s) (advance u)"
  have "uow_exit None u = (Inr (), ?v)"
    using u(2-5) by (simp add: uow_exit_def commit_transaction_def quiet_def next_event_def Let_def)
  with u(1) assms(2) have v: "with_uow (get_completed i) s = (Inr (Some c), ?v)"
    by (simp add: with_uow_def uow_enter_idle)
  have "clock_below ?v (expires_at c)"
    using u(6) by (simp add: clock_below_def close_with_def advance_def)
  moreover obtain clock t where clock: "utc_now ?v = (Inr clock, t)" by (rule utc_now_run)
  ultimately have "clock < expires_at c" "committed t = committed s" "clock_below t (expires_at c)" "quiet t" "idle t"
    using utc_now_below [OF clock] u(2) by (auto simp: close_with_def quiet_def idle_def advance_def)
  with v clock assms(6) that [of t] show thesis
    by (simp add: find_existing_inner_def sthen_def validate_fingerprint_def replay_of_def)
qed

lemma execute_once_live_clock:
  assumes "\<not> active st" "quiet (exec_session st)" "idle (exec_session st)"
    and "records_ok (committed (exec_session st))" "recorded (committed (exec_session st)) i = Some c"
    and "clock_below (exec_session st) (expires_at c)" "length fp = 32" "0 < ret"
  shows "\<exists>st'. execute_once get_completed try_add_completed i fp op ret st = (Inr (replay_of fp c), st')
    \<and> committed (exec_session st') = committed (exec_session st) \<and> clock_below (exec_session st') (expires_at c)
    \<and> \<not> active st' \<and> quiet (exec_session st') \<and> idle (exec_session st')"
proof -
  from assms(2-7) obtain t where t: "find_existing_inner get_completed i fp (exec_session st)
      = (Inr (Some (replay_of fp c)), t)" "committed t = committed (exec_session st)" "clock_below t (expires_at c)" "quiet t" "idle t"
    by (rule find_existing_live)
  then have "execute_once_inner get_completed try_add_completed i fp op ret (exec_session st)
      = (Inr (replay_of fp c), t)"
    using assms(7) by (simp add: execute_once_inner_def sthen_def validate_fingerprint_def)
  with t(2-5) assms(1,8) show ?thesis
    by (simp add: execute_once_def exclusive_use_def on_session_def scatch_def)
qed

lemma execute_once_live:
  assumes "\<not> active st" "quiet (exec_session st)" "idle (exec_session st)"
    and "records_ok (committed (exec_session st))" "recorded (committed (exec_session st)) i = Some c"
    and "clock_below (exec_session st) (expires_at c)" "length fp = 32" "0 < ret"
  shows "\<exists>st'. execute_once get_completed try_add_completed i fp op ret st = (Inr (replay_of fp c), st')
    \<and> committed (exec_session st') = committed (exec_session st)"
  using execute_once_live_clock [OF assms] by blast

text \<open>
  A repetition is answered from the record: while a live record of the identity is
  committed, an execution does not run its operation, whatever it is; it returns the stored
  result if the request is the same (by its fingerprint), a conflict if it is another one,
  and commits nothing.
\<close>

lemma repetition_replays:
  assumes "\<not> active st" "quiet (exec_session st)" "idle (exec_session st)"
    and "records_ok (committed (exec_session st))" "recorded (committed (exec_session st)) i = Some c"
    and "clock_below (exec_session st) (expires_at c)" "length fp = 32" "0 < ret"
  shows "\<exists>st'. execute_once get_completed try_add_completed i fp op ret st = (Inr (replay_of fp c), st')
    \<and> committed (exec_session st') = committed (exec_session st)"
  using assms by (rule execute_once_live)

text \<open>Executions that follow one another, each with an operation and a lifetime of its own.\<close>

fun execute_again ::
  "IdempotencyKey \<Rightarrow> bytes \<Rightarrow> (operation_proc \<times> int) list \<Rightarrow> execution_state \<Rightarrow>
   (exn + IdempotencyResult) list \<times> execution_state" where
  "execute_again i fp [] st = ([], st)"
| "execute_again i fp ((op, ret) # runs) st =
     (case execute_once get_completed try_add_completed i fp op ret st of
        (r, st') \<Rightarrow> (case execute_again i fp runs st' of (rs, st'') \<Rightarrow> (r # rs, st'')))"

lemma execute_again_live:
  assumes "\<not> active st" "quiet (exec_session st)" "idle (exec_session st)"
    and "records_ok (committed (exec_session st))" "recorded (committed (exec_session st)) i = Some c"
    and "clock_below (exec_session st) (expires_at c)" "length fp = 32" "list_all (\<lambda>run. 0 < snd run) runs"
  shows "fst (execute_again i fp runs st) = replicate (length runs) (Inr (replay_of fp c))
    \<and> committed (exec_session (snd (execute_again i fp runs st))) = committed (exec_session st)"
  using assms
proof (induction runs arbitrary: st)
  case (Cons run runs)
  obtain op ret where run: "run = (op, ret)" by (cases run)
  with Cons.prems(8) have "0 < ret" by simp
  from execute_once_live_clock [OF Cons.prems(1-7) this] obtain st' where
    st': "execute_once get_completed try_add_completed i fp op ret st = (Inr (replay_of fp c), st')"
    "committed (exec_session st') = committed (exec_session st)" "clock_below (exec_session st') (expires_at c)"
    "\<not> active st'" "quiet (exec_session st')" "idle (exec_session st')" by blast
  from Cons.IH [OF st'(4-6) _ _ st'(3)] Cons.prems(4,5,7,8) st'(1,2) run show ?case
    by (auto split: prod.split)
qed simp

text \<open>
  C5. Exactly once, in a session that nothing disturbs: no other session is at work and no
  statement or commit fails (what happens otherwise is C4 and C8). If an execution reports that it
  executed, then every later execution under the same identity and with the same fingerprint, as
  many as there are while the record lives, returns that very result as a replay and commits nothing,
  whatever operation it is given: the effect of the first is the only one.
\<close>

theorem exactly_once:
  assumes first: "execute_once get_completed try_add_completed i fp op ret st = (Inr res, st')"
    and executed: "exec_status res = EXECUTED"
    and st: "\<not> active st" "quiet (exec_session st)" "idle (exec_session st)"
    and op: "keeps within op" "honest op" "keeps (guar (keeps_ok records_ok)) op"
    and ok: "records_ok (committed (exec_session st))"
    and later: "\<forall>c. exec_completed res = Some c \<longrightarrow> clock_below (exec_session st') (expires_at c)"
    and fp: "length fp = 32" and runs: "list_all (\<lambda>run. 0 < snd run) runs"
  shows "\<exists>c. exec_completed res = Some c
    \<and> fst (execute_again i fp runs st')
      = replicate (length runs) (Inr \<lparr>exec_status = REPLAY, exec_completed = Some c\<rparr>)
    \<and> committed (exec_session (snd (execute_again i fp runs st'))) = committed (exec_session st')"
proof -
  let ?s = "exec_session st" and ?t = "exec_session st'"
  from st(2) have script: "script ?s = []" by (simp add: quiet_def)
  then have "rely (keeps_ok records_ok) ?s" by (simp add: rely_def)
  from execute_once_cases [OF first] st(1) have run: "\<not> active st'"
    "execute_once_inner get_completed try_add_completed i fp op ret ?s = (Inr res, ?t)" by auto
  from postgres.execute_once_inner_atomic [OF run(2) st(3) op \<open>rely _ _\<close> ok] executed
  obtain c where idle: "idle ?t" and once: "committed_once recorded records_ok op i fp ?s ?t c"
    and c: "exec_completed res = Some c" by auto
  from once obtain s0 u d evs evs' where "untouched ?s s0" and u: "op (begin_state s0) = (Inr (stored_of c), u)"
    and split: "script u = evs @ evs' @ script ?t" and d: "request_fingerprint c = fp" "records_ok d"
    "recorded d i = Some c" "committed ?t = others evs' d"
    by (auto simp: committed_once_def)
  from \<open>untouched ?s s0\<close> script have "script s0 = []" by (simp add: untouched_def)
  with keepsD [OF op(1) u] have "script u = []" by (simp add: within_def)
  with split d(4) have t: "script ?t = []" "committed ?t = d" by simp_all
  with idle have "quiet ?t" by (simp add: quiet_def idle_def)
  with execute_again_live [OF run(1) _ idle, of i c fp runs] t d(1-3) later c fp runs show ?thesis
    by (auto simp: replay_of_def)
qed

end
