(* ===== verification/Coordinator.thy ===== *)
theory Coordinator
  imports Guarded_Store Exactly_Once
begin

text \<open>
  The coordinator of idempotent executions
  (\<open>src/src/app/application/idempotency/coordinator.py\<close>): it claims a lease in the hot store,
  runs the operation once (through the durable execution, or directly in the hot-only mode)
  while a heartbeat renews the lease, and publishes or releases at the end.
\<close>

section \<open>State and ports\<close>

datatype metric = Outcome ExecutionStatus | HotDegraded HotDegradationStage

record durable_port =
  durable_find :: "IdempotencyKey \<Rightarrow> bytes \<Rightarrow> (execution_state, exn, IdempotencyResult option) proc"
  durable_execute :: "IdempotencyKey \<Rightarrow> bytes \<Rightarrow> operation_proc \<Rightarrow> int \<Rightarrow>
    (execution_state, exn, IdempotencyResult) proc"

definition transactional :: durable_port where
  "transactional =
     \<lparr>durable_find = find_existing get_completed,
      durable_execute = execute_once get_completed try_add_completed\<rparr>"

record 'h coordinator =
  coord_hot_store :: "'h hot_port"
  durable_execution :: "durable_port option"

text \<open>
  The state a request sees: the hot store, the execution object with its session, the metrics
  observed so far, and what the environment decides: the lease tokens the factory will give, and for
  each claimed execution how often the heartbeat wakes up while the operation runs, and how
  often between the release after a failure and the end of the heartbeat. The heartbeat and
  the operation work on different stores, so their order does not matter.
\<close>

record 'h coordination =
  hot :: 'h
  execution :: execution_state
  metrics :: "metric list"
  lease_tokens :: "uuid list"
  wake_ups :: "(nat \<times> nat) list"

definition on_hot :: "('h, exn, 'r) proc \<Rightarrow> ('h coordination, exn, 'r) proc" where
  "on_hot m st = (case m (hot st) of (r, h) \<Rightarrow> (r, st\<lparr>hot := h\<rparr>))"

definition on_execution :: "(execution_state, exn, 'r) proc \<Rightarrow> ('h coordination, exn, 'r) proc" where
  "on_execution m st = (case m (execution st) of (r, e) \<Rightarrow> (r, st\<lparr>execution := e\<rparr>))"

definition observe :: "metric \<Rightarrow> ('h coordination, exn, unit) proc" where
  "observe x st = (Inr (), st\<lparr>metrics := metrics st @ [x]\<rparr>)"

definition next_lease_token :: "('h coordination, exn, uuid) proc" where
  "next_lease_token st =
     (case lease_tokens st of [] \<Rightarrow> (Inr 0, st) | u # us \<Rightarrow> (Inr u, st\<lparr>lease_tokens := us\<rparr>))"

definition next_wake_ups :: "('h coordination, exn, nat \<times> nat) proc" where
  "next_wake_ups st =
     (case wake_ups st of [] \<Rightarrow> (Inr (0, 0), st) | n # ns \<Rightarrow> (Inr n, st\<lparr>wake_ups := ns\<rparr>))"

section \<open>Decisions\<close>

definition supports_policy :: "'h coordinator \<Rightarrow> IdempotencyPolicy \<Rightarrow> bool" where
  "supports_policy self policy \<longleftrightarrow> mode policy = HOT_ONLY \<or> durable_execution self \<noteq> None"

definition evaluate_result ::
  "IdempotencyResult \<Rightarrow> ('h coordination, exn, CompletedIdempotencyResult) proc" where
  "evaluate_result res =
     sthen (observe (Outcome (exec_status res))) (\<lambda>_.
     if exec_status res = CONFLICT then sraise (IdempotencyError IdempotencyConflictError)
     else if exec_status res = IN_PROGRESS then sraise (IdempotencyError IdempotencyInProgressError)
     else (case exec_completed res of
         None \<Rightarrow> sraise RuntimeError
       | Some c \<Rightarrow>
           sthen (on_execution (on_session utc_now)) (\<lambda>clock.
           if expires_at c \<le> clock then sraise (IdempotencyError IdempotencyUnavailableError)
           else sret c)))"

definition execute_durable ::
  "'h coordinator \<Rightarrow> IdempotencyKey \<Rightarrow> bytes \<Rightarrow> operation_proc \<Rightarrow> int \<Rightarrow>
   ('h coordination, exn, IdempotencyResult) proc" where
  "execute_durable self identity fingerprint op retention =
     (case durable_execution self of
        None \<Rightarrow> sraise AssertionError
      | Some d \<Rightarrow> on_execution (durable_execute d identity fingerprint op retention))"

definition resolve_busy ::
  "'h coordinator \<Rightarrow> IdempotencyKey \<Rightarrow> bytes \<Rightarrow> ClaimStatus \<Rightarrow> IdempotencyPolicy \<Rightarrow>
   ('h coordination, exn, CompletedIdempotencyResult) proc" where
  "resolve_busy self identity fingerprint busy_status policy =
     (let busy = sthen (slift (idempotency_result_new
            (if busy_status = CLAIM_CONFLICT then CONFLICT else IN_PROGRESS) None)) evaluate_result in
      if mode policy = HOT_DURABLE then
        (case durable_execution self of
           None \<Rightarrow> sraise AssertionError
         | Some d \<Rightarrow>
             sthen (on_execution (durable_find d identity fingerprint)) (\<lambda>existing.
             case existing of Some found \<Rightarrow> evaluate_result found | None \<Rightarrow> busy))
      else busy)"

section \<open>The lease\<close>

text \<open>
  The heartbeat until it is stopped, \<open>n\<close> wake-ups later: whether it lost the lease. A
  cancellation ends it without a verdict.
\<close>

fun heartbeat ::
  "'h hot_port \<Rightarrow> IdempotencyKey \<Rightarrow> uuid \<Rightarrow> int \<Rightarrow> nat \<Rightarrow> 'h \<Rightarrow> bool \<times> 'h" where
  "heartbeat port identity token lease 0 h = (False, h)"
| "heartbeat port identity token lease (Suc n) h =
     (case port_renew port identity token lease h of
        (Inl e, h') \<Rightarrow> (is_exception e, h')
      | (Inr renewed, h') \<Rightarrow>
          if renewed then heartbeat port identity token lease n h' else (True, h'))"

definition beat ::
  "'h coordinator \<Rightarrow> IdempotencyKey \<Rightarrow> uuid \<Rightarrow> IdempotencyPolicy \<Rightarrow> nat \<Rightarrow> ('h coordination, exn, bool) proc" where
  "beat self identity token policy n =
     on_hot (\<lambda>h. case heartbeat (coord_hot_store self) identity token (lease_seconds policy) n h of
       (lost, h') \<Rightarrow> (Inr lost, h'))"

definition complete_lease ::
  "'h coordinator \<Rightarrow> IdempotencyKey \<Rightarrow> uuid \<Rightarrow> CompletedIdempotencyResult \<Rightarrow> IdempotencyPolicy \<Rightarrow>
   ('h coordination, exn, unit) proc" where
  "complete_lease self identity token completed policy =
     sthen (scatch
       (sthen (on_hot (port_complete (coord_hot_store self) identity token completed (hot_result_ttl_seconds policy)))
         (\<lambda>published. sret (Some published)))
       (\<lambda>e. if e = IdempotencyError IdempotencyUnavailableError then
          sthen (observe (HotDegraded COMPLETE)) (\<lambda>_.
          if mode policy = HOT_ONLY then sraise e else sret None)
        else sraise e)) (\<lambda>published.
     if published = Some False then
       sthen (observe (HotDegraded LEASE_LOST_ON_COMPLETE)) (\<lambda>_.
       if mode policy = HOT_ONLY then sraise (IdempotencyError IdempotencyUnavailableError) else sret ())
     else sret ())"

definition release_lease ::
  "'h coordinator \<Rightarrow> IdempotencyKey \<Rightarrow> uuid \<Rightarrow> ('h coordination, exn, unit) proc" where
  "release_lease self identity token =
     sthen (scatch
       (sthen (on_hot (port_release (coord_hot_store self) identity token)) (\<lambda>released. sret (Some released)))
       (\<lambda>e. if e = IdempotencyError IdempotencyUnavailableError then
          sthen (observe (HotDegraded RELEASE)) (\<lambda>_. sret None)
        else sraise e)) (\<lambda>released.
     if released = Some False then observe (HotDegraded LEASE_LOST_ON_RELEASE) else sret ())"

text \<open>The operation itself, by mode.\<close>

definition run_claimed ::
  "'h coordinator \<Rightarrow> IdempotencyKey \<Rightarrow> bytes \<Rightarrow> operation_proc \<Rightarrow> IdempotencyPolicy \<Rightarrow>
   ('h coordination, exn, IdempotencyResult) proc" where
  "run_claimed self identity fingerprint op policy =
     (if mode policy = HOT_DURABLE then
        execute_durable self identity fingerprint op (retention_seconds policy)
      else
        sthen (on_execution (on_session op)) (\<lambda>stored.
        sthen (on_execution (on_session utc_now)) (\<lambda>clock.
        slift (rthen (completed_new stored (clock + seconds (retention_seconds policy)) fingerprint) (\<lambda>c.
          idempotency_result_new EXECUTED (Some c))))))"

definition execute_claimed ::
  "'h coordinator \<Rightarrow> IdempotencyKey \<Rightarrow> bytes \<Rightarrow> uuid \<Rightarrow> operation_proc \<Rightarrow> IdempotencyPolicy \<Rightarrow>
   ('h coordination, exn, CompletedIdempotencyResult) proc" where
  "execute_claimed self identity fingerprint token op policy st0 =
     (case sthen next_wake_ups (\<lambda>(during, after). sthen (beat self identity token policy during)
             (\<lambda>lost. sret (lost, after))) st0 of
        (Inl e, st) \<Rightarrow> (Inl e, st)
      | (Inr (lost_lease, after), st) \<Rightarrow>
          (case run_claimed self identity fingerprint op policy st of
             (Inl e, st) \<Rightarrow>
               (if lost_lease then sraise e
                else sthen (release_lease self identity token) (\<lambda>_.
                  sthen (beat self identity token policy after) (\<lambda>_. sraise e))) st
           | (Inr res, st) \<Rightarrow>
               sthen
                 (if lost_lease then
                    sthen (observe (HotDegraded LEASE)) (\<lambda>_.
                    if mode policy = HOT_ONLY then sraise (IdempotencyError IdempotencyUnavailableError)
                    else sret ())
                  else (case exec_completed res of
                      Some c \<Rightarrow> complete_lease self identity token c policy
                    | None \<Rightarrow> release_lease self identity token))
                 (\<lambda>_. evaluate_result res) st))"

section \<open>The entry point\<close>

definition coordinator_execute ::
  "'h coordinator \<Rightarrow> IdempotencyKey \<Rightarrow> bytes \<Rightarrow> operation_proc \<Rightarrow> IdempotencyPolicy \<Rightarrow>
   ('h coordination, exn, CompletedIdempotencyResult) proc" where
  "coordinator_execute self identity fingerprint op policy =
     (if length fingerprint \<noteq> 32 then sraise ValueError
      else if \<not> supports_policy self policy then sraise ValueError
      else
        sthen next_lease_token (\<lambda>token.
        sthen (scatch
          (sthen (on_hot (port_claim (coord_hot_store self) identity fingerprint token (lease_seconds policy)))
            (\<lambda>claim. sret (Some claim)))
          (\<lambda>e. if e = IdempotencyError IdempotencyUnavailableError then
             sthen (observe (HotDegraded BEGIN)) (\<lambda>_.
             if mode policy = HOT_ONLY then sraise e else sret None)
           else sraise e)) (\<lambda>claim.
        case claim of
          None \<Rightarrow>
            sthen (execute_durable self identity fingerprint op (retention_seconds policy)) evaluate_result
        | Some c \<Rightarrow>
            (case claim_status c of
               CLAIM_REPLAY \<Rightarrow>
                 sthen (slift (idempotency_result_new REPLAY (claim_completed c))) evaluate_result
             | CLAIM_CONFLICT \<Rightarrow> resolve_busy self identity fingerprint CLAIM_CONFLICT policy
             | CLAIM_IN_PROGRESS \<Rightarrow> resolve_busy self identity fingerprint CLAIM_IN_PROGRESS policy
             | ACQUIRED \<Rightarrow> execute_claimed self identity fingerprint token op policy))))"

end
