(* ===== verification/Coordinator_Properties.thy ===== *)
theory Coordinator_Properties
  imports Coordinator
begin

text \<open>
  Where a call of the coordinator goes, and what that means for the database: over any hot
  store whatsoever it sees at most one atomic execution.
\<close>

section \<open>Where a call goes\<close>

lemma evaluate_result_run:
  assumes "evaluate_result res st = (r, st')"
  shows "metrics st' = metrics st @ [Outcome (exec_status res)]" "hot st' = hot st"
    "active (execution st') = active (execution st)"
    "exec_session (execution st') = exec_session (execution st)
       \<or> (\<exists>x. utc_now (exec_session (execution st)) = (x, exec_session (execution st')))"
    "r = Inr c \<Longrightarrow> exec_completed res = Some c \<and> exec_status res \<notin> {CONFLICT, IN_PROGRESS}
       \<and> now (exec_session (execution st')) < expires_at c"
  using assms
  by (auto simp: evaluate_result_def observe_def sthen_cases on_execution_def on_session_def utc_now_def
      split: if_splits option.splits list.splits)

text \<open>Operations that leave the execution object alone.\<close>

definition leaves_execution :: "('h coordination, exn, 'r) proc \<Rightarrow> bool" where
  "leaves_execution m \<longleftrightarrow> keeps (\<lambda>s t. execution t = execution s) m"

lemma execution_reflp: "reflp (\<lambda>s t. execution t = execution s)"
  and execution_transp: "transp (\<lambda>s t. execution t = execution s)"
  by (auto simp: reflp_def transp_def)

lemma leaves_intros:
  "leaves_execution (sret x)" "leaves_execution (sraise e)" "leaves_execution (slift y)"
  "leaves_execution (observe z)" "leaves_execution next_lease_token" "leaves_execution next_wake_ups"
  "leaves_execution (on_hot n)"
  unfolding leaves_execution_def
  by (auto simp: keeps_def observe_def next_lease_token_def next_wake_ups_def on_hot_def split: list.splits prod.splits)

lemma leaves_sthen: "leaves_execution m \<Longrightarrow> (\<And>x. leaves_execution (f x)) \<Longrightarrow> leaves_execution (sthen m f)"
  unfolding leaves_execution_def by (rule keeps_sthen [OF execution_transp])

lemma leaves_scatch: "leaves_execution m \<Longrightarrow> (\<And>x. leaves_execution (f x)) \<Longrightarrow> leaves_execution (scatch m f)"
  unfolding leaves_execution_def by (rule keeps_scatch [OF execution_transp])

lemma leaves_if: "leaves_execution m \<Longrightarrow> leaves_execution m' \<Longrightarrow> leaves_execution (if b then m else m')"
  by simp

lemmas leaves = leaves_intros leaves_sthen leaves_scatch leaves_if

lemma leavesD: "leaves_execution m \<Longrightarrow> m s = (r, t) \<Longrightarrow> execution t = execution s"
  unfolding leaves_execution_def by (drule keepsD) auto

lemma lease_leaves:
  "leaves_execution (beat self i tok policy n)" "leaves_execution (complete_lease self i tok c policy)"
  "leaves_execution (release_lease self i tok)"
  unfolding beat_def complete_lease_def release_lease_def by (intro leaves)+


lemma execute_claimed_cases:
  assumes "execute_claimed self i fp tok op policy st0 = (r, st')"
  shows "\<exists>st x st1. execution st = execution st0 \<and> run_claimed self i fp op policy st = (x, st1)
    \<and> ((\<exists>e. r = Inl e \<and> execution st' = execution st1)
       \<or> (\<exists>res st2. x = Inr res \<and> execution st2 = execution st1 \<and> evaluate_result res st2 = (r, st')))"
proof -
  obtain during after s1 where 1: "next_wake_ups st0 = (Inr (during, after), s1)"
    by (cases "wake_ups st0") (auto simp: next_wake_ups_def)
  obtain lost s2 where 2: "beat self i tok policy during s1 = (Inr lost, s2)"
    by (cases "heartbeat (coord_hot_store self) i tok (lease_seconds policy) during (hot s1)")
      (auto simp: beat_def on_hot_def)
  have e: "execution s2 = execution st0"
    using leavesD [OF lease_leaves(1) 2] leavesD [OF leaves_intros(6) 1] by simp
  obtain x st1 where x: "run_claimed self i fp op policy s2 = (x, st1)" by (metis surj_pair)
  show ?thesis
  proof (cases x)
    case (Inl err)
    let ?m = "if lost then sraise err else sthen (release_lease self i tok) (\<lambda>_.
      sthen (beat self i tok policy after) (\<lambda>_. sraise err))"
    have run: "?m st1 = (r, st')" using assms 1 2 x Inl by (simp add: execute_claimed_def sthen_def)
    then have "\<exists>e. r = Inl e" by (auto simp: sthen_cases split: if_splits)
    moreover have "leaves_execution ?m" by (intro leaves lease_leaves)
    ultimately show ?thesis using leavesD [of ?m st1 r st'] run e x by blast
  next
    case (Inr res)
    let ?m = "if lost then sthen (observe (HotDegraded LEASE)) (\<lambda>_.
          if mode policy = HOT_ONLY then sraise (IdempotencyError IdempotencyUnavailableError) else sret ())
        else (case exec_completed res of Some c \<Rightarrow> complete_lease self i tok c policy
          | None \<Rightarrow> release_lease self i tok)"
    have run: "sthen ?m (\<lambda>_. evaluate_result res) st1 = (r, st')"
      using assms 1 2 x Inr by (simp add: execute_claimed_def sthen_def [of next_wake_ups] sthen_def [of "beat _ _ _ _ _"])
    have m: "leaves_execution ?m"
      by (cases "exec_completed res") (auto intro!: leaves lease_leaves)
    obtain y st2 where y: "?m st1 = (y, st2)" by (metis surj_pair)
    with leavesD [of ?m st1 y st2] m have "execution st2 = execution st1" by simp
    moreover have "(\<exists>e. r = Inl e \<and> st' = st2) \<or> evaluate_result res st2 = (r, st')"
      using run y by (cases y) auto
    ultimately show ?thesis using e x Inr by metis
  qed
qed

text \<open>
  A whole call in the durable mode: the execution object is left alone, or one lookup runs on
  it, or one execution; then the decision is evaluated, or an error is raised.
\<close>

definition busy_result :: "ClaimStatus \<Rightarrow> IdempotencyResult" where
  "busy_result st = \<lparr>exec_status = (if st = CLAIM_CONFLICT then CONFLICT else IN_PROGRESS), exec_completed = None\<rparr>"

definition hot_replay :: "'h hot_port \<Rightarrow> IdempotencyKey \<Rightarrow> bytes \<Rightarrow> IdempotencyResult \<Rightarrow> bool" where
  "hot_replay port i fp res \<longleftrightarrow>
     (\<exists>tok lease h c h'. port_claim port i fp tok lease h = (Inr c, h')
        \<and> claim_status c = CLAIM_REPLAY \<and> res = \<lparr>exec_status = REPLAY, exec_completed = claim_completed c\<rparr>)"

definition decided ::
  "'h hot_port \<Rightarrow> durable_port \<Rightarrow> IdempotencyKey \<Rightarrow> bytes \<Rightarrow> operation_proc \<Rightarrow> int \<Rightarrow>
   execution_state \<Rightarrow> IdempotencyResult \<Rightarrow> execution_state \<Rightarrow> bool" where
  "decided port d i fp op ret e0 res e1 \<longleftrightarrow>
     (hot_replay port i fp res \<and> e1 = e0)
     \<or> durable_find d i fp e0 = (Inr (Some res), e1)
     \<or> (\<exists>st. durable_find d i fp e0 = (Inr None, e1) \<and> res = busy_result st)
     \<or> durable_execute d i fp op ret e0 = (Inr res, e1)"

lemma busy_result_simps [simp]:
  "idempotency_result_new (if b then CONFLICT else IN_PROGRESS) None
     = Inr \<lparr>exec_status = (if b then CONFLICT else IN_PROGRESS), exec_completed = None\<rparr>"
  by simp

lemma resolve_busy_cases:
  assumes "resolve_busy self i fp st policy s = (r, s')" "mode policy = HOT_DURABLE"
    and "durable_execution self = Some d"
  shows "(\<exists>e x. r = Inl e \<and> durable_find d i fp (execution s) = (x, execution s'))
    \<or> (\<exists>res s1. evaluate_result res s1 = (r, s')
        \<and> (durable_find d i fp (execution s) = (Inr (Some res), execution s1)
          \<or> durable_find d i fp (execution s) = (Inr None, execution s1) \<and> res = busy_result st))"
proof -
  obtain x e1 where x: "durable_find d i fp (execution s) = (x, e1)" by (metis surj_pair)
  then have on: "on_execution (durable_find d i fp) s = (x, s\<lparr>execution := e1\<rparr>)" by (simp add: on_execution_def)
  consider (err) e where "x = Inl e" | (none) "x = Inr None" | (some) res where "x = Inr (Some res)"
    by (metis not_None_eq sum.exhaust)
  then show ?thesis
  proof cases
    case err
    with assms on x show ?thesis by (auto simp: resolve_busy_def sthen_def)
  next
    case none
    with assms on x have "evaluate_result (busy_result st) (s\<lparr>execution := e1\<rparr>) = (r, s')"
      by (simp add: resolve_busy_def sthen_def busy_result_def)
    with none x show ?thesis by (intro disjI2 exI [of _ "busy_result st"] exI [of _ "s\<lparr>execution := e1\<rparr>"]) simp
  next
    case some
    with assms on x have "evaluate_result res (s\<lparr>execution := e1\<rparr>) = (r, s')"
      by (simp add: resolve_busy_def sthen_def)
    with some x show ?thesis by (intro disjI2 exI [of _ res] exI [of _ "s\<lparr>execution := e1\<rparr>"]) simp
  qed
qed

text \<open>The first step of a call: the claim.\<close>

definition after_claim ::
  "'h coordinator \<Rightarrow> IdempotencyKey \<Rightarrow> bytes \<Rightarrow> uuid \<Rightarrow> operation_proc \<Rightarrow> IdempotencyPolicy \<Rightarrow>
   'h coordination \<Rightarrow> ClaimResult result \<Rightarrow> 'h \<Rightarrow> CompletedIdempotencyResult result \<Rightarrow> 'h coordination \<Rightarrow> bool" where
  "after_claim self i fp tok op policy st1 x h r st' \<longleftrightarrow>
     (case x of
         Inl e \<Rightarrow>
           if e = IdempotencyError IdempotencyUnavailableError then
             (if mode policy = HOT_ONLY
                then r = Inl e \<and> st' = st1\<lparr>hot := h, metrics := metrics st1 @ [HotDegraded BEGIN]\<rparr>
              else sthen (execute_durable self i fp op (retention_seconds policy)) evaluate_result
                (st1\<lparr>hot := h, metrics := metrics st1 @ [HotDegraded BEGIN]\<rparr>) = (r, st'))
           else r = Inl e \<and> st' = st1\<lparr>hot := h\<rparr>
       | Inr c \<Rightarrow>
           (case claim_status c of
              CLAIM_REPLAY \<Rightarrow> sthen (slift (idempotency_result_new REPLAY (claim_completed c))) evaluate_result
            | CLAIM_CONFLICT \<Rightarrow> resolve_busy self i fp CLAIM_CONFLICT policy
            | CLAIM_IN_PROGRESS \<Rightarrow> resolve_busy self i fp CLAIM_IN_PROGRESS policy
            | ACQUIRED \<Rightarrow> execute_claimed self i fp tok op policy) (st1\<lparr>hot := h\<rparr>) = (r, st'))"

lemma coordinator_claims:
  assumes run: "coordinator_execute self i fp op policy st = (r, st')"
    and ok: "length fp = 32" "supports_policy self policy"
  shows "\<exists>tok st1 x h. next_lease_token st = (Inr tok, st1) \<and> execution st1 = execution st \<and> metrics st1 = metrics st
    \<and> hot st1 = hot st \<and> port_claim (coord_hot_store self) i fp tok (lease_seconds policy) (hot st) = (x, h)
    \<and> after_claim self i fp tok op policy st1 x h r st'"
proof -
  obtain tok st1 where tok: "next_lease_token st = (Inr tok, st1)" "execution st1 = execution st"
    "metrics st1 = metrics st" "hot st1 = hot st"
    by (cases "lease_tokens st") (auto simp: next_lease_token_def)
  obtain x h where x: "port_claim (coord_hot_store self) i fp tok (lease_seconds policy) (hot st) = (x, h)"
    by (metis surj_pair)
  show ?thesis
    using run ok tok x
    by (intro exI [of _ tok] exI [of _ st1] exI [of _ x] exI [of _ h])
      (cases x; auto simp: after_claim_def coordinator_execute_def sthen_def [of next_lease_token] on_hot_def observe_def
        sthen_def [of "scatch _ _"] sthen_def [of "on_hot _"] sthen_def [of "observe _"] scatch_def)
qed

lemma coordinator_cases:
  assumes run: "coordinator_execute self i fp op policy st = (r, st')"
    and mode: "mode policy = HOT_DURABLE" and d: "durable_execution self = Some d"
  shows "(\<exists>e. r = Inl e \<and> (execution st' = execution st
        \<or> (\<exists>x. durable_find d i fp (execution st) = (x, execution st'))
        \<or> (\<exists>x. durable_execute d i fp op (retention_seconds policy) (execution st) = (x, execution st'))))
    \<or> (\<exists>res st1. evaluate_result res st1 = (r, st')
        \<and> decided (coord_hot_store self) d i fp op (retention_seconds policy) (execution st) res (execution st1))"
    (is "?err \<or> ?decided")
proof (cases "length fp = 32")
  case False
  with run show ?thesis by (auto simp: coordinator_execute_def)
next
  case True
  have "supports_policy self policy" using d by (simp add: supports_policy_def)
  from coordinator_claims [OF run True this] obtain tok s1 x h where
    s1: "execution s1 = execution st" and
    claim: "port_claim (coord_hot_store self) i fp tok (lease_seconds policy) (hot st) = (x, h)" and
    rest: "after_claim self i fp tok op policy s1 x h r st'"
    by blast
  have durable: "?err \<or> ?decided" if "sthen (execute_durable self i fp op (retention_seconds policy)) evaluate_result s
      = (r, st')" "execution s = execution st" for s
  proof (cases "durable_execute d i fp op (retention_seconds policy) (execution s)")
    case (Pair y e1)
    then have on: "execute_durable self i fp op (retention_seconds policy) s = (y, s\<lparr>execution := e1\<rparr>)"
      using d by (simp add: execute_durable_def on_execution_def)
    show ?thesis
    proof (cases y)
      case (Inl e)
      with that on Pair show ?thesis by auto
    next
      case (Inr res)
      with that on Pair have "evaluate_result res (s\<lparr>execution := e1\<rparr>) = (r, st')" by simp
      with that(2) Inr Pair show ?thesis
        unfolding decided_def by (intro disjI2 exI [of _ res] exI [of _ "s\<lparr>execution := e1\<rparr>"]) simp
    qed
  qed
  have busy: "?err \<or> ?decided" if "resolve_busy self i fp cs policy (s1\<lparr>hot := h\<rparr>) = (r, st')" for cs
    using resolve_busy_cases [OF that mode d] s1 unfolding decided_def by auto
  show ?thesis
  proof (cases x)
    case (Inl e)
    show ?thesis
    proof (cases "e = IdempotencyError IdempotencyUnavailableError")
      case True
      with Inl rest mode durable [of "s1\<lparr>hot := h, metrics := metrics s1 @ [HotDegraded BEGIN]\<rparr>"] s1
      show ?thesis by (simp add: after_claim_def)
    next
      case False
      with Inl rest s1 show ?thesis by (simp add: after_claim_def)
    qed
  next
    case (Inr c)
    note rest = rest [unfolded Inr after_claim_def sum.case]
    show ?thesis
    proof (cases "claim_status c")
      case ACQUIRED
      with Inr rest have "execute_claimed self i fp tok op policy (s1\<lparr>hot := h\<rparr>) = (r, st')" by simp
      have e: "execution (s1\<lparr>hot := h\<rparr>) = execution st" using s1 by simp
      from execute_claimed_cases [OF \<open>execute_claimed _ _ _ _ _ _ _ = _\<close>, unfolded e] obtain s2 y s3 where s2: "execution s2 = execution st"
        and y: "run_claimed self i fp op policy s2 = (y, s3)"
        and out: "(\<exists>e. r = Inl e \<and> execution st' = execution s3)
          \<or> (\<exists>res s4. y = Inr res \<and> execution s4 = execution s3 \<and> evaluate_result res s4 = (r, st'))"
        by blast
      from y mode d s2 have "durable_execute d i fp op (retention_seconds policy) (execution st) = (y, execution s3)"
        by (auto simp: run_claimed_def execute_durable_def on_execution_def split: prod.splits)
      with out show ?thesis unfolding decided_def by metis
    next
      case CLAIM_REPLAY
      with Inr rest have run: "sthen (slift (idempotency_result_new REPLAY (claim_completed c))) evaluate_result
          (s1\<lparr>hot := h\<rparr>) = (r, st')" by simp
      show ?thesis
      proof (cases "claim_completed c")
        case None
        with run s1 show ?thesis by (auto simp: sthen_def idempotency_result_new_def)
      next
        case (Some found)
        with run have "evaluate_result \<lparr>exec_status = REPLAY, exec_completed = claim_completed c\<rparr> (s1\<lparr>hot := h\<rparr>) = (r, st')"
          by (simp add: sthen_def)
        moreover have "hot_replay (coord_hot_store self) i fp
            \<lparr>exec_status = REPLAY, exec_completed = claim_completed c\<rparr>"
          using CLAIM_REPLAY Inr claim unfolding hot_replay_def by blast
        moreover have "execution (s1\<lparr>hot := h\<rparr>) = execution st" using s1 by simp
        ultimately show ?thesis unfolding decided_def by blast
      qed
    next
      case CLAIM_CONFLICT
      with Inr rest busy show ?thesis by simp
    next
      case CLAIM_IN_PROGRESS
      with Inr rest busy show ?thesis by simp
    qed
  qed
qed

section \<open>The database under any hot store\<close>

lemma find_existing_safe:
  assumes "find_existing get_completed i fp e0 = (x, e1)" "\<not> active e0" "idle (exec_session e0)"
  shows "\<not> active e1 \<and> idle (exec_session e1) \<and> untouched (exec_session e0) (exec_session e1)
    \<and> (\<forall>res. x = Inr (Some res) \<longrightarrow> exec_status res \<noteq> EXECUTED)"
proof -
  obtain y t where y: "find_existing_inner get_completed i fp (exec_session e0) = (y, t)" by (metis surj_pair)
  then have "find_existing get_completed i fp e0 =
      (case y of Inl e \<Rightarrow> Inl (if e = PersistenceError PersistenceUnavailableError
         then IdempotencyError IdempotencyUnavailableError else e) | Inr z \<Rightarrow> Inr z,
       e0\<lparr>active := False, exec_session := t\<rparr>)"
    using assms(2)
    by (cases y) (simp_all add: find_existing_def exclusive_use_def on_session_def scatch_def unavailable_def)
  with assms(1) have e1: "active e1 = False" "exec_session e1 = t" and x: "\<forall>z. x = Inr z \<longrightarrow> y = Inr z"
    by (auto split: sum.splits)
  from postgres.find_untouched [OF y assms(3)] have t: "idle t" "untouched (exec_session e0) t" by simp_all
  have "exec_status res \<noteq> EXECUTED" if "x = Inr (Some res)" for res
    using postgres.find_status x y that by blast
  with e1 t show ?thesis by simp
qed

text \<open>What one attempt leaves behind in the database.\<close>

definition one_attempt ::
  "operation_proc \<Rightarrow> IdempotencyKey \<Rightarrow> bytes \<Rightarrow> session \<Rightarrow> session \<Rightarrow> (CompletedIdempotencyResult \<Rightarrow> bool) \<Rightarrow> bool \<Rightarrow> bool" where
  "one_attempt op i fp s t reported quiet_ok \<longleftrightarrow>
     untouched s t \<and> quiet_ok \<or> (\<exists>c. committed_once recorded records_ok op i fp s t c \<and> reported c)"

lemma execution_status_cases: "st \<notin> {CONFLICT, IN_PROGRESS} \<Longrightarrow> st \<noteq> EXECUTED \<Longrightarrow> st = REPLAY"
  by (cases st) auto

lemma then_evaluated:
  assumes "one_attempt op i fp s u (\<lambda>c. exec_status res = EXECUTED \<longrightarrow> exec_completed res = Some c)
      (exec_status res \<noteq> EXECUTED)"
    and "evaluate_result res st1 = (r, st')" "exec_session (execution st1) = u"
    and "\<not> active (execution st1)" "idle u"
  shows "\<not> active (execution st') \<and> idle (exec_session (execution st'))
    \<and> one_attempt op i fp s (exec_session (execution st'))
        (\<lambda>c. \<forall>c'. r = Inr c' \<longrightarrow> last (metrics st') = Outcome EXECUTED \<longrightarrow> c' = c)
        (\<forall>c. r = Inr c \<longrightarrow> last (metrics st') = Outcome REPLAY)"
proof -
  let ?t = "exec_session (execution st')"
  note e = evaluate_result_run [OF assms(2)]
  from e(4) have "?t = u \<or> (\<exists>x. utc_now u = (x, ?t))" unfolding assms(3) .
  then have t: "untouched u ?t" "idle ?t"
    using assms(5) utc_now_untouched [of u] by (metis untouched_refl)+
  have act: "\<not> active (execution st')" using e(3) assms(4) by simp
  have last: "last (metrics st') = Outcome (exec_status res)" using e(1) by simp
  from assms(1) [unfolded one_attempt_def] show ?thesis
  proof (elim disjE exE conjE)
    assume u: "untouched s u" and st: "exec_status res \<noteq> EXECUTED"
    have "\<forall>c. r = Inr c \<longrightarrow> last (metrics st') = Outcome REPLAY"
      using e(5) last execution_status_cases [OF _ st] by metis
    with untouched_trans [OF u t(1)] t(2) act show ?thesis unfolding one_attempt_def by blast
  next
    fix c
    assume once: "committed_once recorded records_ok op i fp s u c"
      and c: "exec_status res = EXECUTED \<longrightarrow> exec_completed res = Some c"
    have "\<forall>c'. r = Inr c' \<longrightarrow> last (metrics st') = Outcome EXECUTED \<longrightarrow> c' = c"
    proof (intro allI impI)
      fix c' assume "r = Inr c'" "last (metrics st') = Outcome EXECUTED"
      with e(5) last c show "c' = c" by simp
    qed
    with committed_once_untouched [OF untouched_refl once t(1)] t(2) act show ?thesis unfolding one_attempt_def by blast
  qed
qed

lemma coordinator_atomic:
  assumes "coordinator_execute self i fp op policy st = (r, st')"
    and "mode policy = HOT_DURABLE" "durable_execution self = Some transactional"
    and "\<not> active (execution st)" "idle (exec_session (execution st))"
    and "keeps within op" "honest op" "keeps (guar (keeps_ok records_ok)) op"
    and "rely (keeps_ok records_ok) (exec_session (execution st))"
    and "records_ok (committed (exec_session (execution st)))"
  shows "\<not> active (execution st') \<and> idle (exec_session (execution st'))
    \<and> (untouched (exec_session (execution st)) (exec_session (execution st'))
         \<and> (\<forall>c. r = Inr c \<longrightarrow> last (metrics st') = Outcome REPLAY)
       \<or> (\<exists>c. committed_once recorded records_ok op i fp (exec_session (execution st)) (exec_session (execution st')) c
            \<and> (\<forall>c'. r = Inr c' \<longrightarrow> last (metrics st') = Outcome EXECUTED \<longrightarrow> c' = c)))"
proof -
  let ?e0 = "execution st" and ?e1 = "execution st'" and ?s = "exec_session (execution st)"
  have find: "\<not> active e \<and> idle (exec_session e) \<and> untouched ?s (exec_session e)
      \<and> (\<forall>res. x = Inr (Some res) \<longrightarrow> exec_status res \<noteq> EXECUTED)"
    if "durable_find transactional i fp ?e0 = (x, e)" for x e
    using find_existing_safe [OF _ assms(4,5)] that by (simp add: transactional_def)
  have exec: "\<not> active e \<and> idle (exec_session e)
      \<and> (untouched ?s (exec_session e) \<and> (\<forall>res. x = Inr res \<longrightarrow> exec_status res \<noteq> EXECUTED)
         \<or> (\<exists>c. committed_once recorded records_ok op i fp ?s (exec_session e) c
              \<and> (\<forall>res. x = Inr res \<longrightarrow> exec_status res = EXECUTED \<longrightarrow> exec_completed res = Some c)))"
    if "durable_execute transactional i fp op (retention_seconds policy) ?e0 = (x, e)" for x e
    using execute_once_atomic [OF _ assms(4-10)] that by (simp add: transactional_def)
  have "\<not> active ?e1 \<and> idle (exec_session ?e1)
    \<and> one_attempt op i fp ?s (exec_session ?e1)
        (\<lambda>c. \<forall>c'. r = Inr c' \<longrightarrow> last (metrics st') = Outcome EXECUTED \<longrightarrow> c' = c)
        (\<forall>c. r = Inr c \<longrightarrow> last (metrics st') = Outcome REPLAY)"
    using coordinator_cases [OF assms(1-3)]
  proof (elim disjE exE conjE)
    fix e
    assume "r = Inl e" "?e1 = ?e0"
    with assms(4,5) show ?thesis by (simp add: one_attempt_def)
  next
    fix e x
    assume "r = Inl e" "durable_find transactional i fp ?e0 = (x, ?e1)"
    with find show ?thesis by (simp add: one_attempt_def)
  next
    fix e x
    assume "r = Inl e" "durable_execute transactional i fp op (retention_seconds policy) ?e0 = (x, ?e1)"
    with exec show ?thesis unfolding one_attempt_def by blast
  next
    fix res st1
    assume ev: "evaluate_result res st1 = (r, st')"
      and dec: "decided (coord_hot_store self) transactional i fp op (retention_seconds policy) ?e0 res (execution st1)"
    from dec [unfolded decided_def] have "\<not> active (execution st1) \<and> idle (exec_session (execution st1))
      \<and> one_attempt op i fp ?s (exec_session (execution st1))
          (\<lambda>c. exec_status res = EXECUTED \<longrightarrow> exec_completed res = Some c) (exec_status res \<noteq> EXECUTED)"
    proof (elim disjE exE conjE)
      assume "hot_replay (coord_hot_store self) i fp res" "execution st1 = ?e0"
      with assms(4,5) show ?thesis by (auto simp: one_attempt_def hot_replay_def)
    next
      assume "durable_find transactional i fp ?e0 = (Inr (Some res), execution st1)"
      with find show ?thesis unfolding one_attempt_def by blast
    next
      fix cs
      assume "durable_find transactional i fp ?e0 = (Inr None, execution st1)" "res = busy_result cs"
      with find [of "Inr None"] show ?thesis by (simp add: one_attempt_def busy_result_def)
    next
      assume "durable_execute transactional i fp op (retention_seconds policy) ?e0 = (Inr res, execution st1)"
      with exec show ?thesis unfolding one_attempt_def by blast
    qed
    with then_evaluated [OF _ ev refl] show ?thesis by blast
  qed
  then show ?thesis unfolding one_attempt_def .
qed

text \<open>
  C14. No hot store can break the atomicity of the durable mode. Let the hot store be anything
  at all (down, slow, wrong about leases, replaying what it likes): a call of the coordinator
  in the durable mode runs at most one durable execution, so that afterwards the database
  holds either nothing of the attempt, and then a returned result is counted as a replay, or the
  whole effect of one run of the operation together with its replay record, and then a result
  counted as executed is the recorded one.
\<close>

theorem hot_store_cannot_break_atomicity:
  assumes "coordinator_execute self i fp op policy st = (r, st')"
    and "mode policy = HOT_DURABLE" "durable_execution self = Some transactional"
    and "\<not> active (execution st)" "idle (exec_session (execution st))"
    and "keeps within op" "honest op" "keeps (guar (keeps_ok records_ok)) op"
    and "rely (keeps_ok records_ok) (exec_session (execution st))"
    and "records_ok (committed (exec_session (execution st)))"
  shows "\<not> active (execution st') \<and> idle (exec_session (execution st'))
    \<and> (untouched (exec_session (execution st)) (exec_session (execution st'))
         \<and> (\<forall>c. r = Inr c \<longrightarrow> last (metrics st') = Outcome REPLAY)
       \<or> (\<exists>c. committed_once recorded records_ok op i fp (exec_session (execution st)) (exec_session (execution st')) c
            \<and> (\<forall>c'. r = Inr c' \<longrightarrow> last (metrics st') = Outcome EXECUTED \<longrightarrow> c' = c)))"
  using assms by (rule coordinator_atomic)

end
