(* ===== verification/Coordinator_Results.thy ===== *)
theory Coordinator_Results
  imports Coordinator_Properties
begin

text \<open>
  What the coordinator returns: in the hot-only mode a published result; without the hot store
  what the durable execution returns; and always a live result of the very request. The last
  is proved once over the locale \<open>coordinated_stores\<close> and interpreted on the stores of the
  container.
\<close>

section \<open>The hot-only mode\<close>

lemma complete_lease_hot_only:
  assumes "complete_lease self i tok c policy s = (Inr u, s')" "mode policy = HOT_ONLY"
  shows "port_complete (coord_hot_store self) i tok c (hot_result_ttl_seconds policy) (hot s) = (Inr True, hot s')"
proof (cases "port_complete (coord_hot_store self) i tok c (hot_result_ttl_seconds policy) (hot s)")
  case (Pair x h)
  show ?thesis
  proof (cases x)
    case (Inl e)
    with assms Pair show ?thesis
      by (simp add: complete_lease_def sthen_def scatch_def on_hot_def observe_def split: if_splits)
  next
    case (Inr b)
    with assms Pair show ?thesis
      by (cases b) (auto simp: complete_lease_def sthen_def scatch_def on_hot_def observe_def)
  qed
qed

lemma run_claimed_hot_only:
  assumes "run_claimed self i fp op policy s = (Inr res, s')" "mode policy = HOT_ONLY"
  shows "\<exists>c e1. exec_completed res = Some c \<and> exec_status res = EXECUTED \<and> request_fingerprint c = fp
    \<and> on_session op (execution s) = (Inr (stored_of c), e1) \<and> hot s' = hot s"
proof -
  obtain x e1 where x: "on_session op (execution s) = (x, e1)" by (metis surj_pair)
  then have on: "on_execution (on_session op) s = (x, s\<lparr>execution := e1\<rparr>)" by (simp add: on_execution_def)
  from assms on obtain stored where stored: "x = Inr stored"
    by (cases x) (auto simp: run_claimed_def sthen_def)
  obtain t e2 where "on_session utc_now e1 = (Inr t, e2)"
    by (cases "ticks (exec_session e1)") (auto simp: on_session_def utc_now_def)
  then have "on_execution (on_session utc_now) (s\<lparr>execution := e1\<rparr>) = (Inr t, s\<lparr>execution := e2\<rparr>)"
    by (simp add: on_execution_def)
  with assms on stored obtain c where c: "completed_new stored (t + seconds (retention_seconds policy)) fp = Inr c"
    "idempotency_result_new EXECUTED (Some c) = Inr res" "s' = s\<lparr>execution := e2\<rparr>"
    by (auto simp: run_claimed_def sthen_def)
  with completed_new_eq [OF c(1)] stored x show ?thesis by auto
qed

lemma hot_only_returns:
  assumes run: "coordinator_execute self i fp op policy st = (Inr c, st')" and mode: "mode policy = HOT_ONLY"
  shows "hot_replay (coord_hot_store self) i fp \<lparr>exec_status = REPLAY, exec_completed = Some c\<rparr>
    \<or> (\<exists>tok d h n h1 e1. port_claim (coord_hot_store self) i fp tok (lease_seconds policy) (hot st) = (Inr d, h)
        \<and> claim_status d = ACQUIRED
        \<and> on_session op (execution st) = (Inr (stored_of c), e1) \<and> request_fingerprint c = fp
        \<and> heartbeat (coord_hot_store self) i tok (lease_seconds policy) n h = (False, h1)
        \<and> port_complete (coord_hot_store self) i tok c (hot_result_ttl_seconds policy) h1 = (Inr True, hot st'))"
proof -
  have ok: "length fp = 32" "supports_policy self policy"
    using run mode by (auto simp: coordinator_execute_def supports_policy_def split: if_splits)
  from coordinator_claims [OF run ok] obtain tok s1 x h where x: "execution s1 = execution st"
    "port_claim (coord_hot_store self) i fp tok (lease_seconds policy) (hot st) = (x, h)"
    "after_claim self i fp tok op policy s1 x h (Inr c) st'" by blast
  with mode obtain d where s1: "execution s1 = execution st"
    and claim: "port_claim (coord_hot_store self) i fp tok (lease_seconds policy) (hot st) = (Inr d, h)"
    and rest: "(case claim_status d of
        CLAIM_REPLAY \<Rightarrow> sthen (slift (idempotency_result_new REPLAY (claim_completed d))) evaluate_result
      | CLAIM_CONFLICT \<Rightarrow> resolve_busy self i fp CLAIM_CONFLICT policy
      | CLAIM_IN_PROGRESS \<Rightarrow> resolve_busy self i fp CLAIM_IN_PROGRESS policy
      | ACQUIRED \<Rightarrow> execute_claimed self i fp tok op policy) (s1\<lparr>hot := h\<rparr>) = (Inr c, st')"
    by (cases x) (simp_all add: after_claim_def split: if_splits)
  let ?s1 = "s1\<lparr>hot := h\<rparr>"
  have busy: "resolve_busy self i fp cs policy s \<noteq> (Inr c, st')" for cs s
  proof
    assume "resolve_busy self i fp cs policy s = (Inr c, st')"
    with mode have "evaluate_result (busy_result cs) s = (Inr c, st')"
      by (simp add: resolve_busy_def busy_result_def sthen_def)
    from evaluate_result_run(5) [OF this] show False by (auto simp: busy_result_def split: if_splits)
  qed
  show ?thesis
  proof (cases "claim_status d")
    case CLAIM_REPLAY
    with rest obtain res where res: "idempotency_result_new REPLAY (claim_completed d) = Inr res"
      "evaluate_result res ?s1 = (Inr c, st')"
      by (auto simp: sthen_eq_Inr)
    with evaluate_result_run(5) [OF res(2) refl] idempotency_result_new_carries [OF res(1)]
    have "claim_completed d = Some c" by simp
    with claim CLAIM_REPLAY show ?thesis unfolding hot_replay_def by metis
  next
    case ACQUIRED
    with rest have claimed: "execute_claimed self i fp tok op policy ?s1 = (Inr c, st')" by simp
    obtain during after s2 where 1: "next_wake_ups ?s1 = (Inr (during, after), s2)" "hot s2 = h"
      "execution s2 = execution st"
      using s1 by (cases "wake_ups ?s1") (auto simp: next_wake_ups_def)
    obtain lost h1 where beat: "heartbeat (coord_hot_store self) i tok (lease_seconds policy) during h = (lost, h1)"
      by (metis surj_pair)
    then have 2: "beat self i tok policy during s2 = (Inr lost, s2\<lparr>hot := h1\<rparr>)"
      using 1(2) by (simp add: beat_def on_hot_def)
    obtain x s3 where x: "run_claimed self i fp op policy (s2\<lparr>hot := h1\<rparr>) = (x, s3)" by (metis surj_pair)
    show ?thesis
    proof (cases x)
      case (Inl e)
      with claimed 1(1) 2 x show ?thesis
        by (auto simp: execute_claimed_def sthen_def split: prod.splits sum.splits if_splits)
    next
      case (Inr res)
      with run_claimed_hot_only [of self i fp op policy "s2\<lparr>hot := h1\<rparr>" res s3] x mode
      obtain c' e1 where c': "exec_completed res = Some c'" "request_fingerprint c' = fp"
        "on_session op (execution st) = (Inr (stored_of c'), e1)" "hot s3 = h1"
        using 1(3) by auto
      from claimed 1(1) 2 x Inr mode c'(1)
      have "lost = False \<and> (\<exists>u s4. complete_lease self i tok c' policy s3 = (Inr u, s4)
          \<and> evaluate_result res s4 = (Inr c, st'))"
        by (cases lost)
          (auto simp: execute_claimed_def sthen_def [of next_wake_ups] sthen_def [of "beat _ _ _ _ _"]
            sthen_eq_Inr observe_def)
      then obtain u s4 where s4: "lost = False" "complete_lease self i tok c' policy s3 = (Inr u, s4)"
        "evaluate_result res s4 = (Inr c, st')" by blast
      from complete_lease_hot_only [OF s4(2) mode] c'(4)
      have "port_complete (coord_hot_store self) i tok c' (hot_result_ttl_seconds policy) h1 = (Inr True, hot s4)"
        by simp
      moreover from evaluate_result_run(2,5) [OF s4(3)] c'(1) have "c' = c" "hot st' = hot s4" by auto
      ultimately show ?thesis
        using claim ACQUIRED c'(2,3) beat s4(1)
        by (intro disjI2 exI [of _ tok] exI [of _ d] exI [of _ h] exI [of _ during] exI [of _ h1]
            exI [of _ e1]) auto
    qed
  next
    case CLAIM_CONFLICT
    with rest busy show ?thesis by simp
  next
    case CLAIM_IN_PROGRESS
    with rest busy show ?thesis by simp
  qed
qed

lemma hot_only_evaluates:
  assumes run: "coordinator_execute self i fp op policy st = (Inr c, st')" and mode: "mode policy = HOT_ONLY"
  shows "\<exists>res st1. evaluate_result res st1 = (Inr c, st')"
proof -
  have ok: "length fp = 32" "supports_policy self policy"
    using run mode by (auto simp: coordinator_execute_def supports_policy_def split: if_splits)
  from coordinator_claims [OF run ok] obtain tok s1 x h
    where a: "after_claim self i fp tok op policy s1 x h (Inr c) st'" by blast
  show ?thesis
  proof (cases x)
    case (Inl e)
    with a mode show ?thesis by (simp add: after_claim_def split: if_splits)
  next
    case (Inr d)
    have busy: "\<exists>res st1. evaluate_result res st1 = (Inr c, st')"
      if "resolve_busy self i fp cs policy s = (Inr c, st')" for cs s
      using that mode by (auto simp: resolve_busy_def sthen_def)
    show ?thesis
    proof (cases "claim_status d")
      case ACQUIRED
      with a Inr have "execute_claimed self i fp tok op policy (s1\<lparr>hot := h\<rparr>) = (Inr c, st')"
        by (simp add: after_claim_def)
      from execute_claimed_cases [OF this] show ?thesis by blast
    next
      case CLAIM_REPLAY
      with a Inr show ?thesis by (auto simp: after_claim_def sthen_eq_Inr)
    next
      case CLAIM_CONFLICT
      with a Inr busy show ?thesis by (simp add: after_claim_def)
    next
      case CLAIM_IN_PROGRESS
      with a Inr busy show ?thesis by (simp add: after_claim_def)
    qed
  qed
qed

section \<open>Without the hot store\<close>

text \<open>A call in the durable mode whose claim raises \<open>IdempotencyUnavailableError\<close>.\<close>

lemma degraded_call:
  assumes "length fp = 32" "mode policy = HOT_DURABLE" "durable_execution self = Some d"
    and "lease_tokens st = tok # toks"
    and "port_claim (coord_hot_store self) i fp tok (lease_seconds policy) (hot st)
      = (Inl (IdempotencyError IdempotencyUnavailableError), h)"
  shows "coordinator_execute self i fp op policy st
    = sthen (on_execution (durable_execute d i fp op (retention_seconds policy))) evaluate_result
        (st\<lparr>lease_tokens := toks, hot := h, metrics := metrics st @ [HotDegraded BEGIN]\<rparr>)"
proof -
  have "supports_policy self policy" using assms(3) by (simp add: supports_policy_def)
  then show ?thesis
    using assms
    by (simp add: coordinator_execute_def sthen_def [of next_lease_token] next_lease_token_def on_hot_def
        observe_def scatch_def sthen_def [of "scatch _ _"] sthen_def [of "on_hot _"]
        sthen_def [of "observe _"] execute_durable_def)
qed

section \<open>What is returned\<close>

lemma find_fingerprint:
  "find_existing_inner get_record i fp s = (Inr (Some res), t) \<Longrightarrow> exec_completed res = Some c \<Longrightarrow>
   request_fingerprint c = fp"
  by (auto simp: find_existing_inner_def sthen_eq_Inr idempotency_result_new_def
      split: option.splits if_splits)

lemma resolve_race_fingerprint:
  "resolve_race get_record i fp e s = (Inr res, t) \<Longrightarrow> exec_completed res = Some c \<Longrightarrow>
   request_fingerprint c = fp"
  by (auto simp: resolve_race_def sthen_eq_Inr dest: find_fingerprint split: option.splits if_splits)

lemma durable_body_fingerprint:
  "durable_body add_record i fp op ret s = (Inr c, t) \<Longrightarrow> request_fingerprint c = fp"
  by (auto simp: durable_body_def sthen_eq_Inr dest: completed_new_eq split: if_splits)

lemma with_uow_returns_body: "with_uow body s = (Inr x, t) \<Longrightarrow> \<exists>s1 s2. body s1 = (Inr x, s2)"
  by (auto simp: with_uow_def split: prod.splits sum.splits if_splits)

lemma execute_once_inner_fingerprint:
  assumes "execute_once_inner get_record add_record i fp op ret s = (Inr res, t)" "exec_completed res = Some c"
  shows "request_fingerprint c = fp"
proof -
  from assms(1) consider
      (found) s1 where "find_existing_inner get_record i fp s1 = (Inr (Some res), t)"
    | (ran) s1 t1 c' where "with_uow (durable_body add_record i fp op ret) s1 = (Inr c', t1)"
        "res = \<lparr>exec_status = EXECUTED, exec_completed = Some c'\<rparr>"
    | (raced) e s1 where "resolve_race get_record i fp e s1 = (Inr res, t)"
    by (auto simp: execute_once_inner_def sthen_eq_Inr scatch_cases sthen_cases split: option.splits)
  then show ?thesis
  proof cases
    case found
    then show ?thesis using assms(2) by (rule find_fingerprint)
  next
    case ran
    with with_uow_returns_body [OF ran(1)] durable_body_fingerprint assms(2) show ?thesis by auto
  next
    case raced
    then show ?thesis using assms(2) by (rule resolve_race_fingerprint)
  qed
qed

text \<open>What the coordinator relies on: results carry the fingerprint that was asked for.\<close>

locale coordinated_stores = hot_store port
  for port :: "'h hot_port" +
  fixes d :: durable_port
  assumes find_sound: "durable_find d i fp e = (Inr (Some res), e') \<Longrightarrow> exec_completed res = Some c \<Longrightarrow>
      request_fingerprint c = fp"
    and execute_sound: "durable_execute d i fp op ret e = (Inr res, e') \<Longrightarrow> exec_completed res = Some c \<Longrightarrow>
      request_fingerprint c = fp"
begin

lemma hot_replay_sound: "hot_replay port i fp res \<Longrightarrow> exec_completed res = Some c \<Longrightarrow> request_fingerprint c = fp"
  unfolding hot_replay_def by (auto dest!: claim_sound simp: sound_claim_def)

lemma returned_sound:
  assumes run: "coordinator_execute self i fp op policy st = (Inr c, st')"
    and self: "coord_hot_store self = port" "durable_execution self = Some d"
  shows "request_fingerprint c = fp \<and> length fp = 32"
proof -
  have len: "length fp = 32" using run by (auto simp: coordinator_execute_def split: if_splits)
  have "request_fingerprint c = fp"
  proof (cases "mode policy")
    case HOT_ONLY
    from hot_only_returns [OF run HOT_ONLY] show ?thesis
    proof (elim disjE exE conjE)
      assume "hot_replay (coord_hot_store self) i fp \<lparr>exec_status = REPLAY, exec_completed = Some c\<rparr>"
      with hot_replay_sound self(1) show ?thesis by auto
    qed
  next
    case HOT_DURABLE
    from coordinator_cases [OF run HOT_DURABLE self(2)] self(1) obtain res st1
      where ev: "evaluate_result res st1 = (Inr c, st')"
        and dec: "decided port d i fp op (retention_seconds policy) (execution st) res (execution st1)"
      by auto
    from evaluate_result_run(5) [OF ev refl] have c: "exec_completed res = Some c" by simp
    from dec [unfolded decided_def] show ?thesis
    proof (elim disjE exE conjE)
      assume "hot_replay port i fp res"
      then show ?thesis using c by (rule hot_replay_sound)
    next
      assume "durable_find d i fp (execution st) = (Inr (Some res), execution st1)"
      then show ?thesis using c by (rule find_sound)
    next
      fix cs assume "res = busy_result cs"
      with c show ?thesis by (simp add: busy_result_def)
    next
      assume "durable_execute d i fp op (retention_seconds policy) (execution st) = (Inr res, execution st1)"
      then show ?thesis using c by (rule execute_sound)
    qed
  qed
  with len show ?thesis by simp
qed

end

lemma transactional_sound:
  "durable_find transactional i fp e = (Inr (Some res), e') \<Longrightarrow> exec_completed res = Some c \<Longrightarrow>
   request_fingerprint c = fp"
  "durable_execute transactional i fp op ret e = (Inr res, e') \<Longrightarrow> exec_completed res = Some c \<Longrightarrow>
   request_fingerprint c = fp"
proof -
  assume f: "durable_find transactional i fp e = (Inr (Some res), e')" and c: "exec_completed res = Some c"
  obtain y t where y: "find_existing_inner get_completed i fp (exec_session e) = (y, t)" by (metis surj_pair)
  with f have "y = Inr (Some res)"
    by (cases y) (auto simp: transactional_def find_existing_def exclusive_use_def on_session_def scatch_def
        unavailable_def split: if_splits)
  with y find_fingerprint c show "request_fingerprint c = fp" by blast
next
  assume f: "durable_execute transactional i fp op ret e = (Inr res, e')" and c: "exec_completed res = Some c"
  from f execute_once_cases [of get_completed try_add_completed i fp op ret e "Inr res" e']
  obtain t where "execute_once_inner get_completed try_add_completed i fp op ret (exec_session e) = (Inr res, t)"
    unfolding transactional_def by auto
  then show "request_fingerprint c = fp" using c by (rule execute_once_inner_fingerprint)
qed

text \<open>The coordinator of the container.\<close>

definition container_coordinator :: "'d hot_config \<Rightarrow> 'd link guarded coordinator" where
  "container_coordinator cfg =
     \<lparr>coord_hot_store = circuit_breaking (redis_hot_store cfg), durable_execution = Some transactional\<rparr>"

interpretation wired: coordinated_stores "circuit_breaking (redis_hot_store cfg)" transactional
proof unfold_locales
qed (auto dest: transactional_sound container.guarded.claim_sound)

text \<open>
  C15. What the service returns is live and belongs to the request. Whatever coordinator of
  the container, in both modes, whatever the stores contain and however they fail: a result
  that a call returns has the fingerprint of this very request (so a key that was used for
  another request never answers with its result), and it had not expired when it was returned.
\<close>

theorem returned_result_is_live:
  assumes "coordinator_execute (container_coordinator cfg) i fp op policy st = (Inr c, st')"
  shows "request_fingerprint c = fp \<and> now (exec_session (execution st')) < expires_at c"
proof -
  have "request_fingerprint c = fp"
    using wired.returned_sound [OF assms] by (simp add: container_coordinator_def)
  moreover have "now (exec_session (execution st')) < expires_at c"
  proof (cases "mode policy")
    case HOT_DURABLE
    from coordinator_cases [OF assms HOT_DURABLE, of transactional] obtain res st1
      where "evaluate_result res st1 = (Inr c, st')"
      by (auto simp: container_coordinator_def)
    from evaluate_result_run(5) [OF this refl] show ?thesis by simp
  next
    case HOT_ONLY
    from hot_only_evaluates [OF assms HOT_ONLY] obtain res st1 where "evaluate_result res st1 = (Inr c, st')"
      by blast
    from evaluate_result_run(5) [OF this refl] show ?thesis by simp
  qed
  ultimately show ?thesis ..
qed

end
