(* ===== verification/Fingerprint.thy ===== *)
theory Fingerprint
  imports Decimals "HOL-Library.Multiset"
begin

text \<open>
  The fingerprint of a request (\<open>src/src/app/application/idempotency/fingerprint.py\<close>): a value
  is brought into a canonical JSON form, which does not depend on the order of mappings and
  sets, and the bytes of that form are hashed. SHA-256 and the texts of dates and floats are
  parameters or fields.
\<close>

section \<open>Values\<close>

text \<open>A float by what the code asks of it, a decimal by sign, coefficient and exponent.\<close>

record pyfloat =
  float_finite :: bool
  float_zero :: bool
  float_repr :: pystr

record pydecimal =
  dec_finite :: bool
  dec_negative :: bool
  dec_coefficient :: nat
  dec_exponent :: int

text \<open>
  A mapping's key is a string or something else; a \<open>datetime\<close> is aware (an instant) or naive; a
  model is its \<open>model_dump(mode="python")\<close>; a set is its elements in iteration order.
\<close>

datatype pyval =
    VNone
  | VBool bool
  | VInt int
  | VFloat pyfloat
  | VStr pystr
  | VDecimal pydecimal
  | VUUID uuid
  | VDateTime "datetime option"
  | VDate pystr
  | VEnum pyval
  | VModel "(pystr \<times> pyval) list"
  | VMapping "(pystr option \<times> pyval) list"
  | VSequence "pyval list"
  | VSet "pyval list"
  | VOther

datatype canonical =
    CNull
  | CBool bool
  | CInt int
  | CFloat pystr
  | CStr pystr
  | CList "canonical list"
  | CObject "(pystr \<times> canonical) list"

section \<open>JSON text\<close>

text \<open>The escapes of \<open>json.dumps(..., ensure_ascii=False)\<close>.\<close>

definition json_char :: "nat \<Rightarrow> pystr" where
  "json_char c =
     (if c = 34 then [92, 34] else if c = 92 then [92, 92]
      else if c = 10 then [92, 110] else if c = 13 then [92, 114] else if c = 9 then [92, 116]
      else if c = 8 then [92, 98] else if c = 12 then [92, 102]
      else if c < 32 then [92, 117] @ hex_digits 4 c
      else [c])"

definition json_string :: "pystr \<Rightarrow> pystr" where
  "json_string s = 34 # concat (map json_char s) @ [34]"

fun join_comma :: "pystr list \<Rightarrow> pystr" where
  "join_comma [] = []"
| "join_comma [x] = x"
| "join_comma (x # xs) = x @ 44 # join_comma xs"

text \<open>\<open>json.dumps(value, ensure_ascii=False, separators=(",", ":"), sort_keys=True)\<close>\<close>

fun dumps :: "canonical \<Rightarrow> pystr" where
  "dumps CNull = ustr ''null''"
| "dumps (CBool b) = ustr (if b then ''true'' else ''false'')"
| "dumps (CInt i) = int_text i"
| "dumps (CFloat r) = r"
| "dumps (CStr s) = json_string s"
| "dumps (CList xs) = 91 # join_comma (map dumps xs) @ [93]"
| "dumps (CObject kvs) =
     123 # join_comma (map (\<lambda>kt. json_string (fst kt) @ 58 # snd kt)
             (sort_key fst (map (\<lambda>kv. (fst kv, dumps (snd kv))) kvs))) @ [125]"

section \<open>Canonical form\<close>

fun rsequence :: "'a result list \<Rightarrow> 'a list result" where
  "rsequence [] = Inr []"
| "rsequence (r # rs) = rthen r (\<lambda>x. rthen (rsequence rs) (\<lambda>xs. Inr (x # xs)))"

definition rsequence_values :: "('k \<times> 'a result) list \<Rightarrow> ('k \<times> 'a) list result" where
  "rsequence_values krs = rthen (rsequence (map snd krs)) (\<lambda>xs. Inr (zip (map fst krs) xs))"

text \<open>\<open>format(value, "f")\<close>, and the zeros and the point that are stripped from it.\<close>

definition decimal_fixed :: "pydecimal \<Rightarrow> pystr" where
  "decimal_fixed d =
     (let ds = nat_digits (dec_coefficient d); sign = (if dec_negative d then [45] else []) in
      if dec_exponent d \<ge> 0 then sign @ ds @ replicate (nat (dec_exponent d)) 48
      else
        (let n = nat (- dec_exponent d); padded = replicate (n + 1 - length ds) 48 @ ds in
         sign @ take (length padded - n) padded @ 46 # drop (length padded - n) padded))"

definition rstrip_char :: "nat \<Rightarrow> pystr \<Rightarrow> pystr" where
  "rstrip_char c s = rev (dropWhile (\<lambda>x. x = c) (rev s))"

definition decimal_text :: "pydecimal \<Rightarrow> pystr" where
  "decimal_text d =
     (if dec_coefficient d = 0 then ustr ''0''
      else (let t = decimal_fixed d in
        if 46 \<in> set t then rstrip_char 46 (rstrip_char 48 t) else t))"

type_synonym json_path = "pystr list"

fun canonicalize ::
  "(datetime \<Rightarrow> pystr) \<Rightarrow> json_path list \<Rightarrow> json_path \<Rightarrow> pyval \<Rightarrow> canonical result" where
  "canonicalize isoformat unordered path (VModel kvs) =
     rthen (rsequence_values (sort_key fst
       (map (\<lambda>kv. (fst kv, canonicalize isoformat unordered (path @ [fst kv]) (snd kv))) kvs)))
       (\<lambda>items. Inr (CObject items))"
| "canonicalize isoformat unordered path (VMapping kvs) =
     (if list_ex (\<lambda>kv. fst kv = None) kvs then Inl TypeError
      else rthen (rsequence_values (sort_key fst
        (map (\<lambda>kv. (the (fst kv), canonicalize isoformat unordered (path @ [the (fst kv)]) (snd kv))) kvs)))
        (\<lambda>items. Inr (CObject items)))"
| "canonicalize isoformat unordered path (VSequence vs) =
     rthen (rsequence (map (canonicalize isoformat unordered (path @ [ustr ''[]''])) vs)) (\<lambda>items.
     Inr (CList (if path \<in> set unordered then sort_key dumps items else items)))"
| "canonicalize isoformat unordered path (VSet vs) =
     rthen (rsequence (map (canonicalize isoformat unordered (path @ [ustr ''{}''])) vs)) (\<lambda>items.
     Inr (CList (sort_key dumps items)))"
| "canonicalize isoformat unordered path (VDecimal d) =
     (if \<not> dec_finite d then Inl ValueError else Inr (CStr (decimal_text d)))"
| "canonicalize isoformat unordered path (VUUID u) = Inr (CStr (str_uuid u))"
| "canonicalize isoformat unordered path (VDateTime t) =
     (case t of None \<Rightarrow> Inl ValueError | Some i \<Rightarrow> Inr (CStr (isoformat i)))"
| "canonicalize isoformat unordered path (VDate t) = Inr (CStr t)"
| "canonicalize isoformat unordered path (VEnum v) = canonicalize isoformat unordered path v"
| "canonicalize isoformat unordered path (VFloat f) =
     (if \<not> float_finite f then Inl ValueError
      else Inr (CFloat (if float_zero f then ustr ''0.0'' else float_repr f)))"
| "canonicalize isoformat unordered path VNone = Inr CNull"
| "canonicalize isoformat unordered path (VStr s) = Inr (CStr s)"
| "canonicalize isoformat unordered path (VInt i) = Inr (CInt i)"
| "canonicalize isoformat unordered path (VBool b) = Inr (CBool b)"
| "canonicalize isoformat unordered path VOther = Inl TypeError"

definition compute_request_fingerprint ::
  "(bytes \<Rightarrow> bytes) \<Rightarrow> (datetime \<Rightarrow> pystr) \<Rightarrow> json_path list \<Rightarrow> pyval \<Rightarrow> bytes result" where
  "compute_request_fingerprint sha256 isoformat unordered payload =
     rthen (canonicalize isoformat unordered [] payload) (\<lambda>c.
     rthen (utf8_encode (dumps c)) (\<lambda>encoded. Inr (sha256 encoded)))"

definition compute_key_digest :: "(bytes \<Rightarrow> bytes) \<Rightarrow> pystr \<Rightarrow> bytes result" where
  "compute_key_digest sha256 raw_key =
     (if raw_key = [] then Inl ValueError
      else rthen (utf8_encode raw_key) (\<lambda>encoded. Inr (sha256 encoded)))"

section \<open>Order does not matter\<close>

text \<open>
  The same value with the entries of its mappings and the elements of its sets in another
  order; at the paths that are declared unordered, sequences count as sets. Mappings have
  each key once.
\<close>

inductive reordered :: "json_path list \<Rightarrow> json_path \<Rightarrow> pyval \<Rightarrow> pyval \<Rightarrow> bool" for unordered where
  same: "reordered unordered path v v"
| enum: "reordered unordered path v w \<Longrightarrow> reordered unordered path (VEnum v) (VEnum w)"
| model: "list_all2 (\<lambda>a b. fst a = fst b \<and> reordered unordered (path @ [fst a]) (snd a) (snd b)) kvs kvs' \<Longrightarrow>
    distinct (map fst kvs') \<Longrightarrow> mset kvs' = mset kvs'' \<Longrightarrow>
    reordered unordered path (VModel kvs) (VModel kvs'')"
| mapping: "list_all2 (\<lambda>a b. fst a = fst b \<and> reordered unordered (path @ [the (fst a)]) (snd a) (snd b)) kvs kvs' \<Longrightarrow>
    distinct (map fst kvs') \<Longrightarrow> mset kvs' = mset kvs'' \<Longrightarrow>
    reordered unordered path (VMapping kvs) (VMapping kvs'')"
| sequence: "list_all2 (reordered unordered (path @ [ustr ''[]''])) vs ws \<Longrightarrow>
    reordered unordered path (VSequence vs) (VSequence ws)"
| unordered_sequence: "path \<in> set unordered \<Longrightarrow> list_all2 (reordered unordered (path @ [ustr ''[]''])) vs ws \<Longrightarrow>
    mset ws = mset ws' \<Longrightarrow> reordered unordered path (VSequence vs) (VSequence ws')"
| set: "list_all2 (reordered unordered (path @ [ustr ''{}''])) vs ws \<Longrightarrow> mset ws = mset ws' \<Longrightarrow>
    reordered unordered path (VSet vs) (VSet ws')"
monos list_all2_mono

text \<open>The text of the canonical form, if there is one.\<close>

definition canonical_text ::
  "(datetime \<Rightarrow> pystr) \<Rightarrow> json_path list \<Rightarrow> json_path \<Rightarrow> pyval \<Rightarrow> pystr option" where
  "canonical_text isoformat unordered path v =
     (case canonicalize isoformat unordered path v of Inl _ \<Rightarrow> None | Inr c \<Rightarrow> Some (dumps c))"

lemma rsequence_eq: "rsequence rs = Inr xs \<longleftrightarrow> rs = map Inr xs"
  by (induction rs arbitrary: xs) auto

lemma rsequence_fails: "(\<exists>e. rsequence rs = Inl e) \<longleftrightarrow> (\<exists>r\<in>set rs. \<exists>e. r = Inl e)"
proof (induction rs)
  case (Cons r rs)
  then show ?case by (cases r; cases "rsequence rs") auto
qed simp

lemma rsequence_map:
  assumes "\<And>x. x \<in> set xs \<Longrightarrow> f x = Inr (g x)"
  shows "rsequence (map f xs) = Inr (map g xs)"
  using assms by (simp add: rsequence_eq)

lemma sort_key_map_commute: "(\<And>x. k' (h x) = k x) \<Longrightarrow> sort_key k' (map h xs) = map h (sort_key k xs)"
proof (induction xs)
  case (Cons x xs)
  have "insort_key k' (h x) (map h ys) = map h (insort_key k x ys)" for ys
    by (induction ys) (simp_all add: Cons.prems)
  with Cons show ?case by simp
qed simp

text \<open>An object, a set and a sequence, by the texts of their parts.\<close>

definition object_text :: "(pystr \<times> pystr) list \<Rightarrow> pystr" where
  "object_text kts = 123 # join_comma (map (\<lambda>kt. json_string (fst kt) @ 58 # snd kt) (sort_key fst kts)) @ [125]"

definition list_text :: "pystr list \<Rightarrow> pystr" where
  "list_text ts = 91 # join_comma ts @ [93]"

lemma object_canonical:
  assumes "\<And>kv. kv \<in> set kvs \<Longrightarrow> r kv = Inr (g kv)"
  shows "\<exists>items. rsequence_values (sort_key fst (map (\<lambda>kv. (key kv, r kv)) kvs)) = Inr items
    \<and> dumps (CObject items) = object_text (map (\<lambda>kv. (key kv, dumps (g kv))) kvs)"
proof -
  let ?ys = "sort_key key kvs"
  have "sort_key fst (map (\<lambda>kv. (key kv, r kv)) kvs) = map (\<lambda>kv. (key kv, r kv)) ?ys"
    by (rule sort_key_map_commute) simp
  moreover have "rsequence (map r ?ys) = Inr (map g ?ys)"
    by (rule rsequence_map) (simp add: assms)
  ultimately have "rsequence_values (sort_key fst (map (\<lambda>kv. (key kv, r kv)) kvs))
      = Inr (map (\<lambda>kv. (key kv, g kv)) ?ys)"
    by (simp add: rsequence_values_def comp_def zip_map_map zip_same_conv_map)
  moreover have "sort_key fst (map (\<lambda>kv. (key kv, dumps (g kv))) ?ys)
      = sort_key fst (map (\<lambda>kv. (key kv, dumps (g kv))) kvs)"
    by (simp add: sort_key_map_commute [where k = key] sort_key_id_if_sorted)
  ultimately show ?thesis by (simp add: object_text_def comp_def)
qed

lemma object_fails:
  assumes "kv \<in> set kvs" "r kv = Inl e"
  shows "\<exists>e. rsequence_values (sort_key fst (map (\<lambda>kv. (key kv, r kv)) kvs)) = Inl e"
proof -
  have "Inl e \<in> set (map snd (sort_key fst (map (\<lambda>kv. (key kv, r kv)) kvs)))"
    using assms by force
  then have "\<exists>e. rsequence (map snd (sort_key fst (map (\<lambda>kv. (key kv, r kv)) kvs))) = Inl e"
    by (subst rsequence_fails) blast
  then show ?thesis by (auto simp: rsequence_values_def)
qed

lemma text_cases:
  "canonical_text isoformat unordered path v = Some t \<longleftrightarrow>
     (\<exists>c. canonicalize isoformat unordered path v = Inr c \<and> t = dumps c)"
  "canonical_text isoformat unordered path v = None \<longleftrightarrow> (\<exists>e. canonicalize isoformat unordered path v = Inl e)"
  by (auto simp: canonical_text_def split: sum.splits)

lemma canonical_object:
  assumes "c = rthen (rsequence_values (sort_key fst (map (\<lambda>kv. (key kv, canonicalize isoformat unordered (p kv) (snd kv))) kvs)))
      (\<lambda>items. Inr (CObject items))"
  shows "(case c of Inl _ \<Rightarrow> None | Inr c \<Rightarrow> Some (dumps c)) =
    (if \<exists>kv\<in>set kvs. canonical_text isoformat unordered (p kv) (snd kv) = None then None
     else Some (object_text (map (\<lambda>kv. (key kv, the (canonical_text isoformat unordered (p kv) (snd kv)))) kvs)))"
proof (cases "\<exists>kv\<in>set kvs. canonical_text isoformat unordered (p kv) (snd kv) = None")
  case True
  then obtain kv e where "kv \<in> set kvs" "canonicalize isoformat unordered (p kv) (snd kv) = Inl e"
    by (auto simp: text_cases)
  from object_fails [of kv kvs "\<lambda>kv. canonicalize isoformat unordered (p kv) (snd kv)" e key, OF this] assms True
  show ?thesis by auto
next
  case False
  let ?g = "\<lambda>kv. projr (canonicalize isoformat unordered (p kv) (snd kv))"
  have g: "canonicalize isoformat unordered (p kv) (snd kv) = Inr (?g kv)" if "kv \<in> set kvs" for kv
    using False that by (cases "canonicalize isoformat unordered (p kv) (snd kv)") (auto simp: text_cases)
  then have t: "the (canonical_text isoformat unordered (p kv) (snd kv)) = dumps (?g kv)" if "kv \<in> set kvs" for kv
    using that by (metis option.sel text_cases(1))
  from object_canonical [of kvs "\<lambda>kv. canonicalize isoformat unordered (p kv) (snd kv)" ?g key, OF g] assms False t
  show ?thesis by (auto cong: map_cong)
qed

lemma canonical_list:
  assumes "c = rthen (rsequence (map (canonicalize isoformat unordered p) vs)) (\<lambda>items. Inr (CList (arrange items)))"
    and arrange: "\<And>items. map dumps (arrange items) = arrange' (map dumps items)"
  shows "(case c of Inl _ \<Rightarrow> None | Inr c \<Rightarrow> Some (dumps c)) =
    (if \<exists>v\<in>set vs. canonical_text isoformat unordered p v = None then None
     else Some (list_text (arrange' (map (\<lambda>v. the (canonical_text isoformat unordered p v)) vs))))"
proof (cases "\<exists>v\<in>set vs. canonical_text isoformat unordered p v = None")
  case True
  then have "\<exists>e. rsequence (map (canonicalize isoformat unordered p) vs) = Inl e"
    by (subst rsequence_fails) (force simp: text_cases)
  with True assms(1) show ?thesis by auto
next
  case False
  let ?g = "\<lambda>v. projr (canonicalize isoformat unordered p v)"
  have g: "canonicalize isoformat unordered p v = Inr (?g v)" if "v \<in> set vs" for v
    using False that by (cases "canonicalize isoformat unordered p v") (auto simp: text_cases)
  then have t: "the (canonical_text isoformat unordered p v) = dumps (?g v)" if "v \<in> set vs" for v
    using that by (metis option.sel text_cases(1))
  have "rsequence (map (canonicalize isoformat unordered p) vs) = Inr (map ?g vs)"
    by (rule rsequence_map) (rule g)
  moreover have "map dumps (arrange (map ?g vs)) = arrange' (map (\<lambda>v. the (canonical_text isoformat unordered p v)) vs)"
    using t by (auto simp: arrange comp_def cong: map_cong)
  ultimately show ?thesis using False assms(1) by (simp add: list_text_def)
qed

lemma map_sort_key: "map f (sort_key f xs) = sort (map f xs)"
  by (metis (mono_tags, lifting) sort_key_map_commute)

lemma canonical_text_model:
  "canonical_text isoformat unordered path (VModel kvs) =
    (if \<exists>kv\<in>set kvs. canonical_text isoformat unordered (path @ [fst kv]) (snd kv) = None then None
     else Some (object_text (map (\<lambda>kv. (fst kv, the (canonical_text isoformat unordered (path @ [fst kv]) (snd kv)))) kvs)))"
  unfolding canonical_text_def [of isoformat unordered path]
  by (rule canonical_object [where key = fst and p = "\<lambda>kv. path @ [fst kv]"]) simp

lemma canonical_text_mapping:
  "canonical_text isoformat unordered path (VMapping kvs) =
    (if (\<exists>kv\<in>set kvs. fst kv = None)
        \<or> (\<exists>kv\<in>set kvs. canonical_text isoformat unordered (path @ [the (fst kv)]) (snd kv) = None) then None
     else Some (object_text (map (\<lambda>kv. (the (fst kv),
       the (canonical_text isoformat unordered (path @ [the (fst kv)]) (snd kv)))) kvs)))"
proof (cases "\<exists>kv\<in>set kvs. fst kv = None")
  case True
  then show ?thesis by (simp add: canonical_text_def list_ex_iff)
next
  case False
  then have "\<not> list_ex (\<lambda>kv. fst kv = None) kvs" by (auto simp: list_ex_iff)
  then have "canonicalize isoformat unordered path (VMapping kvs) = rthen (rsequence_values (sort_key fst
        (map (\<lambda>kv. (the (fst kv), canonicalize isoformat unordered (path @ [the (fst kv)]) (snd kv))) kvs)))
        (\<lambda>items. Inr (CObject items))"
    by simp
  from canonical_object [where key = "\<lambda>kv. the (fst kv)" and p = "\<lambda>kv. path @ [the (fst kv)]", OF this] False
  show ?thesis unfolding canonical_text_def [of isoformat unordered path] by simp
qed

lemma canonical_text_sequence:
  "canonical_text isoformat unordered path (VSequence vs) =
    (if \<exists>v\<in>set vs. canonical_text isoformat unordered (path @ [ustr ''[]'']) v = None then None
     else Some (list_text ((if path \<in> set unordered then sort else id)
       (map (\<lambda>v. the (canonical_text isoformat unordered (path @ [ustr ''[]'']) v)) vs))))"
  unfolding canonical_text_def [of isoformat unordered path]
  by (rule canonical_list [where arrange = "\<lambda>xs. if path \<in> set unordered then sort_key dumps xs else xs"])
    (simp_all add: map_sort_key)

lemma canonical_text_set:
  "canonical_text isoformat unordered path (VSet vs) =
    (if \<exists>v\<in>set vs. canonical_text isoformat unordered (path @ [ustr ''{}'']) v = None then None
     else Some (list_text (sort
       (map (\<lambda>v. the (canonical_text isoformat unordered (path @ [ustr ''{}'']) v)) vs))))"
  unfolding canonical_text_def [of isoformat unordered path]
  by (rule canonical_list [where arrange = "sort_key dumps"]) (simp_all add: map_sort_key)

text \<open>Permuting and replacing parts by parts of the same text.\<close>

lemma sort_mset: "mset xs = mset ys \<Longrightarrow> sort xs = sort ys"
  by (metis sorted_list_of_multiset_mset)

lemma mset_map_cong: "mset xs = mset ys \<Longrightarrow> mset (map f xs) = mset (map f ys)"
  by simp

lemma object_text_perm:
  assumes "mset xs = mset ys" "distinct (map fst xs)"
  shows "object_text xs = object_text ys"
proof -
  have "inj_on fst (set xs)" using assms(2) by (simp add: distinct_map)
  from sort_key_eq_sort_key [OF assms(1) this] show ?thesis by (simp add: object_text_def)
qed

text \<open>The text of an object from the keys and texts of its entries, in any order.\<close>

definition object_of :: "(pystr \<times> pystr option) list \<Rightarrow> pystr option" where
  "object_of ps =
     (if \<exists>p\<in>set ps. snd p = None then None
      else Some (object_text (map (\<lambda>p. (fst p, the (snd p))) ps)))"

lemma object_of_perm:
  assumes "mset ps = mset qs" "distinct (map fst ps)"
  shows "object_of ps = object_of qs"
proof -
  have "object_text (map (\<lambda>p. (fst p, the (snd p))) ps) = object_text (map (\<lambda>p. (fst p, the (snd p))) qs)"
    using assms by (intro object_text_perm) (simp_all add: comp_def)
  with mset_eq_setD [OF assms(1)] show ?thesis by (simp add: object_of_def)
qed

text \<open>The text of a list from the texts of its items.\<close>

definition list_of :: "(pystr list \<Rightarrow> pystr list) \<Rightarrow> pystr option list \<Rightarrow> pystr option" where
  "list_of arrange ts = (if None \<in> set ts then None else Some (list_text (arrange (map the ts))))"

lemma list_of_perm: "mset ts = mset us \<Longrightarrow> list_of sort ts = list_of sort us"
  using mset_eq_setD [of ts us] sort_mset [OF mset_map_cong [of ts us the]] by (simp add: list_of_def)

lemma canonical_text_object:
  "canonical_text isoformat unordered path (VModel kvs) =
     object_of (map (\<lambda>kv. (fst kv, canonical_text isoformat unordered (path @ [fst kv]) (snd kv))) kvs)"
  "canonical_text isoformat unordered path (VMapping ovs) =
     (if None \<in> set (map fst ovs) then None
      else object_of (map (\<lambda>kv. (the (fst kv), canonical_text isoformat unordered (path @ [the (fst kv)]) (snd kv))) ovs))"
  by (force simp: canonical_text_model canonical_text_mapping object_of_def comp_def)+

lemma canonical_text_list:
  "canonical_text isoformat unordered path (VSequence vs) =
     list_of (if path \<in> set unordered then sort else id)
       (map (canonical_text isoformat unordered (path @ [ustr ''[]''])) vs)"
  "canonical_text isoformat unordered path (VSet vs) =
     list_of sort (map (canonical_text isoformat unordered (path @ [ustr ''{}''])) vs)"
  by (force simp: canonical_text_sequence canonical_text_set list_of_def comp_def)+

lemma list_all2_agree: "list_all2 (\<lambda>a b. f a = f b) xs ys \<Longrightarrow> map f xs = map f ys"
  by (induction rule: list_all2_induct) auto

lemma distinct_keys:
  assumes "distinct (map fst kvs)" "None \<notin> set (map fst kvs)"
  shows "distinct (map (\<lambda>kv. the (fst kv)) kvs)"
proof -
  have "inj_on the (set (map fst kvs))"
    using assms(2) by (intro inj_onI) (metis option.collapse)
  then have "distinct (map the (map fst kvs))" using assms(1) by (simp only: distinct_map)
  then show ?thesis by (simp add: comp_def)
qed

lemma reordered_same_text:
  "reordered unordered path v w \<Longrightarrow>
     canonical_text isoformat unordered path v = canonical_text isoformat unordered path w"
proof (induction rule: reordered.induct)
  case (enum path v w)
  then show ?case by (simp add: canonical_text_def)
next
  case (model path kvs kvs' kvs'')
  let ?f = "\<lambda>kv. (fst kv, canonical_text isoformat unordered (path @ [fst kv]) (snd kv))"
  have "list_all2 (\<lambda>a b. ?f a = ?f b) kvs kvs'"
    using model(1) by (rule list_all2_mono) auto
  then have "map ?f kvs = map ?f kvs'" by (rule list_all2_agree)
  moreover have "object_of (map ?f kvs') = object_of (map ?f kvs'')"
    using model(2,3) by (intro object_of_perm) (simp_all add: comp_def)
  ultimately show ?case by (simp only: canonical_text_object)
next
  case (mapping path kvs kvs' kvs'')
  let ?f = "\<lambda>kv. (the (fst kv), canonical_text isoformat unordered (path @ [the (fst kv)]) (snd kv))"
  have "list_all2 (\<lambda>a b. ?f a = ?f b) kvs kvs'" "list_all2 (\<lambda>a b. fst a = fst b) kvs kvs'"
    using mapping(1) by (auto elim!: list_all2_mono)
  then have eq: "map ?f kvs = map ?f kvs'" "map fst kvs = map fst kvs'" by (simp_all only: list_all2_agree)
  have keys: "set (map fst kvs') = set (map fst kvs'')" using mset_eq_setD [OF mapping(3)] by simp
  show ?case
  proof (cases "None \<in> set (map fst kvs')")
    case True
    with eq keys show ?thesis by (simp only: canonical_text_object if_True)
  next
    case False
    have "object_of (map ?f kvs') = object_of (map ?f kvs'')"
      using mapping(3) distinct_keys [OF mapping(2) False] by (intro object_of_perm) (simp_all add: comp_def)
    with eq keys False show ?thesis by (simp only: canonical_text_object if_False)
  qed
next
  case (sequence path vs ws)
  then have "map (canonical_text isoformat unordered (path @ [ustr ''[]''])) vs
      = map (canonical_text isoformat unordered (path @ [ustr ''[]''])) ws"
    by (auto intro!: list_all2_agree elim!: list_all2_mono)
  then show ?case by (simp only: canonical_text_list)
next
  case (unordered_sequence path vs ws ws')
  then have "map (canonical_text isoformat unordered (path @ [ustr ''[]''])) vs
      = map (canonical_text isoformat unordered (path @ [ustr ''[]''])) ws"
    by (auto intro!: list_all2_agree elim!: list_all2_mono)
  moreover have "path \<in> set unordered" "mset ws = mset ws'" using unordered_sequence by auto
  ultimately show ?case by (simp only: canonical_text_list if_True) (simp add: list_of_perm)
next
  case (set path vs ws ws')
  then have "map (canonical_text isoformat unordered (path @ [ustr ''{}''])) vs
      = map (canonical_text isoformat unordered (path @ [ustr ''{}''])) ws"
    by (auto intro!: list_all2_agree elim!: list_all2_mono)
  moreover have "mset ws = mset ws'" using set by auto
  ultimately show ?case by (simp only: canonical_text_list) (simp add: list_of_perm)
qed simp

section \<open>Fingerprints\<close>

lemma fingerprint_from_text:
  "compute_request_fingerprint sha256 isoformat unordered v = Inr f \<longleftrightarrow>
     (\<exists>t b. canonical_text isoformat unordered [] v = Some t \<and> utf8_encode t = Inr b \<and> f = sha256 b)"
  by (auto simp: compute_request_fingerprint_def canonical_text_def rthen_eq_Inr split: sum.splits)

text \<open>
  C33. The fingerprint of a request depends on what the request says, not on how it is laid
  out: for payloads that differ at any depth in the order of the entries of mappings and
  models, of the elements of sets, and of the items of the sequences whose path is declared
  unordered, one has a fingerprint exactly if the other has it, whatever the hash is.
\<close>

theorem fingerprint_ignores_order:
  assumes "reordered unordered [] payload payload'"
  shows "compute_request_fingerprint sha256 isoformat unordered payload = Inr f \<longleftrightarrow>
    compute_request_fingerprint sha256 isoformat unordered payload' = Inr f"
  unfolding fingerprint_from_text reordered_same_text [OF assms] ..

definition sample_payload :: pyval where
  "sample_payload = VMapping
     [(Some (ustr ''tags''), VSet [VStr (ustr ''b''), VInt (-20)]), (Some (ustr ''a''), VNone)]"

definition sample_payload' :: pyval where
  "sample_payload' = VMapping
     [(Some (ustr ''a''), VNone), (Some (ustr ''tags''), VSet [VInt (-20), VStr (ustr ''b'')])]"

lemma sample_reordered: "reordered [] [] sample_payload sample_payload'"
proof -
  have "reordered [] p (VSet [VStr (ustr ''b''), VInt (-20)]) (VSet [VInt (-20), VStr (ustr ''b'')])" for p
    by (rule reordered.set [where ws = "[VStr (ustr ''b''), VInt (-20)]"])
      (simp_all add: reordered.same add_mset_commute)
  then show ?thesis
    unfolding sample_payload_def sample_payload'_def
    by (intro reordered.mapping [where kvs' = "[(Some (ustr ''tags''), VSet [VInt (-20), VStr (ustr ''b'')]),
        (Some (ustr ''a''), VNone)]"]) (simp_all add: reordered.same ustr_def add_mset_commute)
qed

lemma sample_payload_text:
  "compute_request_fingerprint id (\<lambda>_. []) [] sample_payload
     = Inr (projr (utf8_encode (ustr ''{\"a\":null,\"tags\":[\"b\",-20]}'')))"
  unfolding sample_payload_def by code_simp

theorem fingerprint_ignores_order_witness:
  "reordered [] [] sample_payload sample_payload' \<and> sample_payload \<noteq> sample_payload' \<and>
   compute_request_fingerprint id (\<lambda>_. []) [] sample_payload'
     = Inr (projr (utf8_encode (ustr ''{\"a\":null,\"tags\":[\"b\",-20]}'')))"
proof -
  have "sample_payload \<noteq> sample_payload'"
    by (simp add: sample_payload_def sample_payload'_def ustr_def)
  then show ?thesis
    using sample_reordered sample_payload_text
    by (simp only: fingerprint_ignores_order [OF sample_reordered] simp_thms)
qed

end
