(* ===== verification/Dispatch.thy ===== *)
theory Dispatch
  imports Coordinator_Results Fingerprint Operations
begin

text \<open>
  The way of a command from the bus to its handler and back
  (\<open>src/src/app/application/dispatching\<close>, with \<open>codec.py\<close> and \<open>middleware.py\<close> of
  \<open>src/src/app/application/idempotency\<close>): the codec of results, the registry, the idempotency
  middleware, the execution of one command and the bus. Pydantic's type adapters are parameters.
\<close>

section \<open>The codec of results\<close>

text \<open>
  A \<open>TypeAdapter\<close> by the three operations the codec calls: strict validation of a Python
  value, \<open>dump_python(mode="json", warnings="error")\<close>, and lax validation of a JSON value.
\<close>

record 'r adapter =
  validate_strict :: "'r \<Rightarrow> 'r result"
  dump_json :: "'r \<Rightarrow> pyobj result"
  validate_json :: "pyobj \<Rightarrow> 'r result"

text \<open>
  A result type: whether it is \<open>typing.Any\<close>, whether it is a subclass of \<open>BaseModel\<close>, which
  values are its instances, and the adapter that compiling it gives.
\<close>

record 'r result_schema =
  schema_any :: bool
  schema_model :: bool
  schema_instance :: "'r \<Rightarrow> bool"
  type_adapter :: "'r adapter result"

record 'r codec =
  codec_result_type :: "'r result_schema"
  codec_adapter :: "'r adapter"
  codec_schema_version :: int

definition codec_new :: "'r result_schema \<Rightarrow> int \<Rightarrow> 'r codec result" where
  "codec_new schema schema_version =
     (if schema_version < 1 then Inl ValueError
      else rthen (type_adapter schema) (\<lambda>a.
        Inr \<lparr>codec_result_type = schema, codec_adapter = a, codec_schema_version = schema_version\<rparr>))"

definition codec_validate :: "'r codec \<Rightarrow> 'r \<Rightarrow> 'r result" where
  "codec_validate self res =
     rthen (validate_strict (codec_adapter self) res) (\<lambda>validated.
     if schema_model (codec_result_type self) \<and> \<not> schema_instance (codec_result_type self) res
       then Inl TypeError else Inr validated)"

definition codec_encode :: "'r codec \<Rightarrow> 'r \<Rightarrow> StoredResult result" where
  "codec_encode self res =
     rthen (codec_validate self res) (\<lambda>validated.
     rthen (dump_json (codec_adapter self) validated) (\<lambda>v.
     stored_validate
       \<lparr>result_type = ustr ''snapshot'', result_payload = Some [(ustr ''value'', v)],
        result_version = codec_schema_version self, resource_type = None, resource_id = None,
        resource_version = None\<rparr>))"

text \<open>\<open>except (ValueError, TypeError, KeyError)\<close>; pydantic's \<open>ValidationError\<close> is a \<open>ValueError\<close>.\<close>

fun is_decode_error :: "exn \<Rightarrow> bool" where
  "is_decode_error ValidationError \<longleftrightarrow> True"
| "is_decode_error ValueError \<longleftrightarrow> True"
| "is_decode_error TypeError \<longleftrightarrow> True"
| "is_decode_error KeyError \<longleftrightarrow> True"
| "is_decode_error e \<longleftrightarrow> False"

definition read_snapshot :: "'r codec \<Rightarrow> 'a StoredResult_scheme \<Rightarrow> 'r result" where
  "read_snapshot self stored =
     (if result_version stored \<noteq> codec_schema_version self then Inl ValueError
      else (case result_payload stored of
          None \<Rightarrow> Inl ValueError
        | Some payload \<Rightarrow>
            if set (map fst payload) \<noteq> {ustr ''value''} then Inl ValueError
            else (case map_of payload (ustr ''value'') of
                None \<Rightarrow> Inl KeyError
              | Some v \<Rightarrow> validate_json (codec_adapter self) v)))"

definition codec_decode :: "'r codec \<Rightarrow> 'a StoredResult_scheme \<Rightarrow> 'r result" where
  "codec_decode self stored =
     (if is_completion_only stored then Inl (IdempotencyError IdempotencyResultNotStoredError)
      else (case read_snapshot self stored of
          Inl e \<Rightarrow> Inl (if is_decode_error e then IdempotencyError StoredReplayUnavailableError else e)
        | Inr r \<Rightarrow> Inr r))"

section \<open>The registry\<close>

text \<open>A class by its name, and whether it inherits \<open>BaseCommand\<close>.\<close>

record pyclass =
  class_name :: string
  is_command_class :: bool

text \<open>
  A handler is created over the session of its dispatch; a factory that is not callable is
  \<open>None\<close>.
\<close>

record ('c, 'r) registration =
  handler_factory :: "'c \<Rightarrow> (session, exn, 'r) proc"
  reg_codec :: "'r codec"
  reg_operation :: pystr
  idempotency_policy :: "IdempotencyPolicy option"

record ('c, 'r) registry =
  handlers :: "(pyclass \<times> ('c, 'r) registration) list"
  frozen :: bool

definition registry_new :: "('c, 'r) registry" where
  "registry_new = \<lparr>handlers = [], frozen = False\<rparr>"

definition register ::
  "pyclass \<Rightarrow> ('c \<Rightarrow> (session, exn, 'r) proc) option \<Rightarrow> 'r result_schema \<Rightarrow> pystr \<Rightarrow>
   IdempotencyPolicy option \<Rightarrow> int \<Rightarrow> (('c, 'r) registry, exn, unit) proc" where
  "register command_cls factory schema op policy schema_version self =
     (if frozen self then (Inl RuntimeError, self)
      else if command_cls \<in> set (map fst (handlers self)) then (Inl ValueError, self)
      else if \<not> is_command_class command_cls then (Inl TypeError, self)
      else if strip op = [] \<or> length op > 100 then (Inl ValueError, self)
      else if list_ex (\<lambda>item. reg_operation (snd item) = op) (handlers self) then (Inl ValueError, self)
      else (case factory of
          None \<Rightarrow> (Inl TypeError, self)
        | Some f \<Rightarrow>
            if schema_any schema then (Inl TypeError, self)
            else (case codec_new schema schema_version of
                Inl e \<Rightarrow> (Inl e, self)
              | Inr codec \<Rightarrow>
                  (Inr (), self\<lparr>handlers := handlers self @ [(command_cls,
                     \<lparr>handler_factory = f, reg_codec = codec, reg_operation = op,
                      idempotency_policy = policy\<rparr>)]\<rparr>))))"

definition freeze :: "(('c, 'r) registry, exn, pyclass \<rightharpoonup> ('c, 'r) registration) proc" where
  "freeze self = (Inr (map_of (handlers self)), self\<lparr>frozen := True\<rparr>)"

section \<open>The context of a dispatch\<close>

record CommandContext =
  idempotency_key :: "pystr option"
  idempotency_scope :: "pystr option"
  actor_id :: "pystr option"
  correlation_id :: "pystr option"

definition command_context_new :: "CommandContext \<Rightarrow> CommandContext result" where
  "command_context_new c =
     rthen (rguard (list_all (length_between 1 255)
       [idempotency_key c, idempotency_scope c, actor_id c, correlation_id c]) ValidationError) (\<lambda>_. Inr c)"

definition no_context :: CommandContext where
  "no_context =
     \<lparr>idempotency_key = None, idempotency_scope = None, actor_id = None, correlation_id = None\<rparr>"

datatype ResultMode = REPLAYABLE | COMPLETION_ONLY

section \<open>The middleware\<close>

definition middleware_execute ::
  "(bytes \<Rightarrow> bytes) \<Rightarrow> 'h coordinator \<Rightarrow> operation_proc \<Rightarrow> pystr option \<Rightarrow> pystr option \<Rightarrow> pystr \<Rightarrow>
   bytes \<Rightarrow> IdempotencyPolicy \<Rightarrow> ('h coordination, exn, CompletedIdempotencyResult) proc" where
  "middleware_execute sha coordinator op key scope operation_name fingerprint policy =
     (case key of
        None \<Rightarrow> sraise (IdempotencyError IdempotencyKeyRequiredError)
      | Some raw_key \<Rightarrow>
          if raw_key = [] then sraise (IdempotencyError IdempotencyKeyRequiredError)
          else (case scope of
              None \<Rightarrow> sraise (IdempotencyError IdempotencyScopeRequiredError)
            | Some subject \<Rightarrow>
                if subject = [] then sraise (IdempotencyError IdempotencyScopeRequiredError)
                else
                  sthen (slift (rthen (compute_key_digest sha raw_key)
                    (idempotency_key_new subject operation_name))) (\<lambda>identity.
                  coordinator_execute coordinator identity fingerprint op policy)))"

section \<open>The execution of one command\<close>

definition invoke_handler ::
  "('c, 'r) registration \<Rightarrow> 'c \<Rightarrow> ResultMode \<Rightarrow> operation_proc" where
  "invoke_handler registration command result_mode =
     sthen (handler_factory registration command) (\<lambda>res.
     if result_mode = COMPLETION_ONLY
       then sthen (slift (codec_validate (reg_codec registration) res)) (\<lambda>_. sret stored_completion)
     else slift (codec_encode (reg_codec registration) res))"

definition run_transaction ::
  "('c, 'r) registration \<Rightarrow> 'c \<Rightarrow> ResultMode \<Rightarrow> operation_proc" where
  "run_transaction registration command result_mode = with_uow (invoke_handler registration command result_mode)"

text \<open>
  What a dispatch is given from outside: SHA-256, the ISO text of an instant, and the
  \<open>model_dump\<close> of a command. A result that is not asked for is \<open>None\<close>.
\<close>

definition command_execute ::
  "(bytes \<Rightarrow> bytes) \<Rightarrow> (datetime \<Rightarrow> pystr) \<Rightarrow> ('c \<Rightarrow> pyval) \<Rightarrow> 'h coordinator \<Rightarrow>
   ('c, 'r) registration \<Rightarrow> 'c \<Rightarrow> CommandContext \<Rightarrow> ResultMode \<Rightarrow> ('h coordination, exn, 'r option) proc" where
  "command_execute sha isoformat dump coordinator registration command context result_mode =
     sthen
       (case idempotency_policy registration of
          None \<Rightarrow> on_execution (on_session (run_transaction registration command result_mode))
        | Some policy \<Rightarrow>
            sthen (slift (compute_request_fingerprint sha isoformat [] (dump command))) (\<lambda>fingerprint.
            sthen (middleware_execute sha coordinator
                (if mode policy = HOT_ONLY then run_transaction registration command result_mode
                 else invoke_handler registration command result_mode)
                (idempotency_key context) (idempotency_scope context) (reg_operation registration)
                fingerprint policy) (\<lambda>completed.
            sret (stored_of completed))))
       (\<lambda>stored.
        if result_mode = COMPLETION_ONLY then sret None
        else slift (rthen (codec_decode (reg_codec registration) stored) (\<lambda>r. Inr (Some r))))"

section \<open>The bus\<close>

text \<open>
  Each dispatch has a scope of its own: a fresh session and a fresh execution object over the
  same database, closed at the end. Closing a session that is still in a transaction gives
  its connection back, which rolls the transaction back.
\<close>

definition scope_session :: "session \<Rightarrow> session" where
  "scope_session s =
     s\<lparr>view := committed s, in_transaction := False, aborted := False, uow_open := False\<rparr>"

definition with_scope :: "('h coordination, exn, 'r) proc \<Rightarrow> ('h coordination, exn, 'r) proc" where
  "with_scope body st =
     (case body (st\<lparr>execution := \<lparr>active = False, exec_session = scope_session (exec_session (execution st))\<rparr>\<rparr>) of
        (r, st') \<Rightarrow>
          (r, st'\<lparr>execution := (execution st')\<lparr>exec_session := scope_session (exec_session (execution st'))\<rparr>\<rparr>))"

text \<open>A \<open>result_mode\<close> that is no member of \<open>ResultMode\<close> is \<open>None\<close>.\<close>

definition dispatch ::
  "(bytes \<Rightarrow> bytes) \<Rightarrow> (datetime \<Rightarrow> pystr) \<Rightarrow> ('c \<Rightarrow> pyval) \<Rightarrow> ('c \<Rightarrow> pyclass) \<Rightarrow> 'h coordinator \<Rightarrow>
   (pyclass \<rightharpoonup> ('c, 'r) registration) \<Rightarrow> 'c \<Rightarrow> CommandContext option \<Rightarrow> ResultMode option \<Rightarrow>
   ('h coordination, exn, 'r option) proc" where
  "dispatch sha isoformat dump class_of coordinator bus_handlers command context result_mode =
     (case result_mode of
        None \<Rightarrow> sraise TypeError
      | Some m \<Rightarrow>
          (case bus_handlers (class_of command) of
             None \<Rightarrow> sraise KeyError
           | Some registration \<Rightarrow>
               with_scope (command_execute sha isoformat dump coordinator registration command
                 (case context of None \<Rightarrow> no_context | Some c \<Rightarrow> c) m)))"

end
