(* ===== verification/Service.thy ===== *)
theory Service
  imports Dispatch
begin

text \<open>
  The commands of the service on the bus (\<open>src/src/app/infrastructure/di/commands.py\<close>): the
  five commands and their results, the registry that names them, and the bus of the container.
\<close>

section \<open>Commands and results\<close>

datatype command =
    CreateDefault CreateDefaultProfileCommand
  | UpdateProfile UpdateProfileCommand
  | UpdateAvatar UpdateAvatarCommand
  | UpdateSettings UpdateSettingsCommand
  | ResetSettings ResetSettingsCommand

datatype command_result = NoResult | ProfileResult ProfileDTO | SettingsResult SettingsDTO

definition command_class :: "string \<Rightarrow> pyclass" where
  "command_class name = \<lparr>class_name = name, is_command_class = True\<rparr>"

fun class_of :: "command \<Rightarrow> pyclass" where
  "class_of (CreateDefault _) = command_class ''CreateDefaultProfileCommand''"
| "class_of (UpdateProfile _) = command_class ''UpdateProfileCommand''"
| "class_of (UpdateAvatar _) = command_class ''UpdateAvatarCommand''"
| "class_of (UpdateSettings _) = command_class ''UpdateSettingsCommand''"
| "class_of (ResetSettings _) = command_class ''ResetSettingsCommand''"

text \<open>\<open>model_dump(mode="python")\<close> of the commands: every field in the order of its class.\<close>

definition dump_text :: "pystr option \<Rightarrow> pyval" where
  "dump_text t = (case t of None \<Rightarrow> VNone | Some s \<Rightarrow> VStr s)"

definition dump_member :: "('e \<Rightarrow> pystr) \<Rightarrow> 'e option \<Rightarrow> pyval" where
  "dump_member value_of m = (case m of None \<Rightarrow> VNone | Some x \<Rightarrow> VEnum (VStr (value_of x)))"

definition dump_model :: "(string \<times> pyval) list \<Rightarrow> pyval" where
  "dump_model kvs = VModel (map (\<lambda>kv. (ustr (fst kv), snd kv)) kvs)"

fun dump_command :: "command \<Rightarrow> pyval" where
  "dump_command (CreateDefault c) = dump_model
     [(''user_id'', VUUID (cd_user_id c)), (''registered_at'', VDateTime (Some (cd_registered_at c)))]"
| "dump_command (UpdateProfile c) = dump_model
     [(''user_id'', VUUID (up_user_id c)), (''expected_version'', VInt (up_expected_version c)),
      (''display_name'', dump_text (up_display_name c)), (''bio'', dump_text (up_bio c)),
      (''username'', dump_text (up_username c))]"
| "dump_command (UpdateAvatar c) = dump_model
     [(''user_id'', VUUID (ua_user_id c)), (''expected_version'', VInt (ua_expected_version c)),
      (''avatar_key'', dump_text (ua_avatar_key c))]"
| "dump_command (UpdateSettings c) = dump_model
     [(''user_id'', VUUID (us_user_id c)), (''expected_version'', VInt (us_expected_version c)),
      (''theme'', dump_member theme_value (us_theme c)), (''locale'', dump_member locale_value (us_locale c)),
      (''timezone'', dump_text (us_timezone c)),
      (''who_can_see_avatar'', dump_member scope_value (us_who_can_see_avatar c)),
      (''who_can_find_by_username'', dump_member scope_value (us_who_can_find_by_username c)),
      (''who_can_see_bio'', dump_member scope_value (us_who_can_see_bio c))]"
| "dump_command (ResetSettings c) = dump_model
     [(''user_id'', VUUID (rs_user_id c)), (''expected_version'', VInt (rs_expected_version c))]"

section \<open>Handlers\<close>

text \<open>
  The handler factories. A handler is only ever called with commands of its class, under
  which the bus looked it up; another one would raise on its first field.
\<close>

definition returning :: "('a \<Rightarrow> command_result) \<Rightarrow> (session, exn, 'a) proc \<Rightarrow> (session, exn, command_result) proc" where
  "returning f m = sthen m (\<lambda>x. sret (f x))"

definition create_default_factory :: "(pystr \<Rightarrow> bool) \<Rightarrow> command \<Rightarrow> (session, exn, command_result) proc" where
  "create_default_factory zone_ok command =
     (case command of CreateDefault c \<Rightarrow> returning (\<lambda>_. NoResult) (CreateDefaultProfileHandler zone_ok c)
      | _ \<Rightarrow> sraise TypeError)"

definition update_profile_factory :: "command \<Rightarrow> (session, exn, command_result) proc" where
  "update_profile_factory command =
     (case command of UpdateProfile c \<Rightarrow> returning ProfileResult (UpdateProfileHandler c) | _ \<Rightarrow> sraise TypeError)"

definition update_avatar_factory :: "command \<Rightarrow> (session, exn, command_result) proc" where
  "update_avatar_factory command =
     (case command of UpdateAvatar c \<Rightarrow> returning ProfileResult (UpdateAvatarHandler c) | _ \<Rightarrow> sraise TypeError)"

definition update_settings_factory :: "(pystr \<Rightarrow> bool) \<Rightarrow> command \<Rightarrow> (session, exn, command_result) proc" where
  "update_settings_factory zone_ok command =
     (case command of UpdateSettings c \<Rightarrow> returning SettingsResult (UpdateSettingsHandler zone_ok c)
      | _ \<Rightarrow> sraise TypeError)"

definition reset_settings_factory :: "(pystr \<Rightarrow> bool) \<Rightarrow> command \<Rightarrow> (session, exn, command_result) proc" where
  "reset_settings_factory zone_ok command =
     (case command of ResetSettings c \<Rightarrow> returning SettingsResult (ResetSettingsHandler zone_ok c)
      | _ \<Rightarrow> sraise TypeError)"

section \<open>The registry of the service\<close>

text \<open>The compiled adapters of the three result types.\<close>

record adapters =
  none_adapter :: "command_result adapter"
  profile_adapter :: "command_result adapter"
  settings_adapter :: "command_result adapter"

definition none_type :: "adapters \<Rightarrow> command_result result_schema" where
  "none_type a = \<lparr>schema_any = False, schema_model = False, schema_instance = (\<lambda>r. r = NoResult),
     type_adapter = Inr (none_adapter a)\<rparr>"

definition profile_type :: "adapters \<Rightarrow> command_result result_schema" where
  "profile_type a = \<lparr>schema_any = False, schema_model = True,
     schema_instance = (\<lambda>r. case r of ProfileResult _ \<Rightarrow> True | _ \<Rightarrow> False),
     type_adapter = Inr (profile_adapter a)\<rparr>"

definition settings_type :: "adapters \<Rightarrow> command_result result_schema" where
  "settings_type a = \<lparr>schema_any = False, schema_model = True,
     schema_instance = (\<lambda>r. case r of SettingsResult _ \<Rightarrow> True | _ \<Rightarrow> False),
     type_adapter = Inr (settings_adapter a)\<rparr>"

definition default_policy :: "IdempotencyPolicy result" where
  "default_policy = policy_new HOT_DURABLE 30 86400 300"

definition chosen_policy :: "IdempotencyPolicy option \<Rightarrow> IdempotencyPolicy result" where
  "chosen_policy p = (case p of Some q \<Rightarrow> Inr q | None \<Rightarrow> default_policy)"

definition register_commands ::
  "(pystr \<Rightarrow> bool) \<Rightarrow> adapters \<Rightarrow> IdempotencyPolicy \<Rightarrow> IdempotencyPolicy \<Rightarrow>
   ((command, command_result) registry, exn, unit) proc" where
  "register_commands zone_ok a mut_policy prov_policy =
     sthen (register (command_class ''CreateDefaultProfileCommand'') (Some (create_default_factory zone_ok))
       (none_type a) (ustr ''profile.create_default.v1'') (Some prov_policy) 1) (\<lambda>_.
     sthen (register (command_class ''UpdateProfileCommand'') (Some update_profile_factory)
       (profile_type a) (ustr ''profile.update.v1'') (Some mut_policy) 1) (\<lambda>_.
     sthen (register (command_class ''UpdateAvatarCommand'') (Some update_avatar_factory)
       (profile_type a) (ustr ''profile.update_avatar.v1'') (Some mut_policy) 1) (\<lambda>_.
     sthen (register (command_class ''UpdateSettingsCommand'') (Some (update_settings_factory zone_ok))
       (settings_type a) (ustr ''settings.update.v1'') (Some mut_policy) 1) (\<lambda>_.
     register (command_class ''ResetSettingsCommand'') (Some (reset_settings_factory zone_ok))
       (settings_type a) (ustr ''settings.reset.v1'') (Some mut_policy) 1))))"

definition build_command_registry ::
  "(pystr \<Rightarrow> bool) \<Rightarrow> adapters \<Rightarrow> IdempotencyPolicy option \<Rightarrow> IdempotencyPolicy option \<Rightarrow>
   (command, command_result) registry result" where
  "build_command_registry zone_ok a mutation_policy provisioning_policy =
     rthen (chosen_policy mutation_policy) (\<lambda>mut_policy.
     rthen (chosen_policy provisioning_policy) (\<lambda>prov_policy.
     if mode prov_policy \<noteq> HOT_DURABLE then Inl ValueError
     else (case register_commands zone_ok a mut_policy prov_policy registry_new of
         (Inl e, _) \<Rightarrow> Inl e
       | (Inr _, registry) \<Rightarrow> Inr registry)))"

text \<open>\<open>CommandsProvider.registry\<close>, with the lease and the lifetime of results from the settings.\<close>

definition container_registry ::
  "(pystr \<Rightarrow> bool) \<Rightarrow> adapters \<Rightarrow> int \<Rightarrow> int \<Rightarrow> (command, command_result) registry result" where
  "container_registry zone_ok a lease result_ttl =
     rthen (policy_new HOT_DURABLE lease result_ttl 300) (\<lambda>policy.
     build_command_registry zone_ok a (Some policy) (Some policy))"

definition bus_dispatch ::
  "(bytes \<Rightarrow> bytes) \<Rightarrow> (datetime \<Rightarrow> pystr) \<Rightarrow> 'h coordinator \<Rightarrow> (command, command_result) registry \<Rightarrow>
   command \<Rightarrow> CommandContext option \<Rightarrow> ResultMode option \<Rightarrow> ('h coordination, exn, command_result option) proc" where
  "bus_dispatch sha isoformat coordinator registry =
     dispatch sha isoformat dump_command class_of coordinator (case fst (freeze registry) of Inr hs \<Rightarrow> hs | Inl _ \<Rightarrow> Map.empty)"

section \<open>What the registry holds\<close>

definition service_registration ::
  "(pystr \<Rightarrow> bool) \<Rightarrow> adapters \<Rightarrow> IdempotencyPolicy \<Rightarrow> IdempotencyPolicy \<Rightarrow> command \<Rightarrow>
   (command, command_result) registration" where
  "service_registration zone_ok a mut_policy prov_policy command =
     (let reg = (\<lambda>f schema ad op policy.
        \<lparr>handler_factory = f,
         reg_codec = \<lparr>codec_result_type = schema, codec_adapter = ad, codec_schema_version = 1\<rparr>,
         reg_operation = ustr op, idempotency_policy = Some policy\<rparr>) in
      case command of
        CreateDefault _ \<Rightarrow> reg (create_default_factory zone_ok) (none_type a) (none_adapter a) ''profile.create_default.v1'' prov_policy
      | UpdateProfile _ \<Rightarrow> reg update_profile_factory (profile_type a) (profile_adapter a) ''profile.update.v1'' mut_policy
      | UpdateAvatar _ \<Rightarrow> reg update_avatar_factory (profile_type a) (profile_adapter a) ''profile.update_avatar.v1'' mut_policy
      | UpdateSettings _ \<Rightarrow> reg (update_settings_factory zone_ok) (settings_type a) (settings_adapter a) ''settings.update.v1'' mut_policy
      | ResetSettings _ \<Rightarrow> reg (reset_settings_factory zone_ok) (settings_type a) (settings_adapter a) ''settings.reset.v1'' mut_policy)"

lemma strip_nonblank: "\<not> is_space (hd s) \<Longrightarrow> s \<noteq> [] \<Longrightarrow> strip s \<noteq> []"
  by (cases s) (auto simp: strip_def dropWhile_append)

lemma command_class_simps [simp]:
  "is_command_class (command_class n)" "command_class n = command_class n' \<longleftrightarrow> n = n'"
  by (simp_all add: command_class_def)

lemma register_commands_run:
  "\<exists>reg. register_commands zone_ok a mp pp registry_new = (Inr (), reg) \<and> \<not> frozen reg
     \<and> length (handlers reg) = 5 \<and> (\<forall>command. map_of (handlers reg) (class_of command) = Some (service_registration zone_ok a mp pp command))"
proof -
  let ?r = "service_registration zone_ok a mp pp"
  have blank: "strip (ustr (c # s)) \<noteq> []" if "\<not> is_space (of_char c)" for c s
    using that by (intro strip_nonblank) simp_all
  have "register_commands zone_ok a mp pp registry_new = (Inr (), \<lparr>handlers =
     [(command_class ''CreateDefaultProfileCommand'', ?r (CreateDefault undefined)),
      (command_class ''UpdateProfileCommand'', ?r (UpdateProfile undefined)),
      (command_class ''UpdateAvatarCommand'', ?r (UpdateAvatar undefined)),
      (command_class ''UpdateSettingsCommand'', ?r (UpdateSettings undefined)),
      (command_class ''ResetSettingsCommand'', ?r (ResetSettings undefined))], frozen = False\<rparr>)"
    by (simp add: register_commands_def register_def sthen_def registry_new_def codec_new_def
        none_type_def profile_type_def settings_type_def blank is_space_def service_registration_def
        del: ustr_Cons)
  moreover have "map_of
     [(command_class ''CreateDefaultProfileCommand'', ?r (CreateDefault undefined)),
      (command_class ''UpdateProfileCommand'', ?r (UpdateProfile undefined)),
      (command_class ''UpdateAvatarCommand'', ?r (UpdateAvatar undefined)),
      (command_class ''UpdateSettingsCommand'', ?r (UpdateSettings undefined)),
      (command_class ''ResetSettingsCommand'', ?r (ResetSettings undefined))] (class_of command) = Some (?r command)" for command
    by (cases command) (simp_all add: service_registration_def del: ustr_Cons)
  ultimately show ?thesis by simp
qed

lemma service_policies:
  "idempotency_policy (service_registration zone_ok a p p command) = Some p"
  by (cases command) (simp_all add: service_registration_def)

lemma service_operations:
  "1 \<le> length (reg_operation (service_registration zone_ok a mp pp command))
   \<and> length (reg_operation (service_registration zone_ok a mp pp command)) \<le> 100"
  by (cases command) (simp_all add: service_registration_def)

lemma service_handler_operation:
  "keeps within (handler_factory (service_registration zone_ok a mp pp command) command)"
  "honest (handler_factory (service_registration zone_ok a mp pp command) command)"
  "keeps (guar (keeps_ok records_ok)) (handler_factory (service_registration zone_ok a mp pp command) command)"
  by (cases command; simp add: service_registration_def create_default_factory_def update_profile_factory_def
      update_avatar_factory_def update_settings_factory_def reset_settings_factory_def returning_def;
      intro keeps_within handlers_within honest_intros handlers_honest keeps_guar keeps_ok_reflp
        keeps_ok_transp handlers_keep_records)+

end
