(* ===== verification/Http.thy ===== *)
theory Http
  imports Service Queries
begin

text \<open>
  The HTTP entry points (\<open>src/src/app/entrypoints/http\<close>): the dependencies that turn headers into
  an identity, a version and a context, the request bodies, the routes, and the mapping of
  exceptions to responses. FastAPI, the reading of a body from JSON and the verification of
  tokens are outside; the route functions are modelled from their validated parameters on.
\<close>

section \<open>Responses and errors\<close>

record 'b http_response =
  http_status :: int
  http_headers :: "(string \<times> pystr) list"
  http_body :: 'b

text \<open>An \<open>HTTPException\<close> with its status and detail, or an exception of the application.\<close>

datatype http_exn =
    HTTPException int string "(string \<times> pystr) list"
  | Raised exn

definition no_store :: "string \<times> pystr" where
  "no_store = (''Cache-Control'', ustr ''no-store'')"

definition etag :: "int \<Rightarrow> pystr" where
  "etag ver = 34 # int_text ver @ [34]"

definition set_private_version :: "int \<Rightarrow> (string \<times> pystr) list" where
  "set_private_version ver =
     [(''ETag'', etag ver), (''Cache-Control'', ustr ''private, no-cache'')]"

text \<open>A step of the application inside a route.\<close>

definition app_step :: "('s, exn, 'a) proc \<Rightarrow> ('s, http_exn, 'a) proc" where
  "app_step m s = (case m s of (Inl e, t) \<Rightarrow> (Inl (Raised e), t) | (Inr x, t) \<Rightarrow> (Inr x, t))"

section \<open>Dependencies\<close>

definition authentication_required :: http_exn where
  "authentication_required = HTTPException 401 ''Invalid or missing access token''
     [(''WWW-Authenticate'', ustr ''Bearer''), no_store]"

text \<open>
  \<open>credentials\<close> is what \<open>HTTPBearer\<close> found, \<open>has_header\<close> whether there is an \<open>Authorization\<close> header;
  \<open>verifier\<close> answers \<open>None\<close> for \<open>InvalidAccessTokenError\<close>.
\<close>

definition optional_viewer_id ::
  "bool \<Rightarrow> pystr option \<Rightarrow> (pystr \<Rightarrow> uuid option) option \<Rightarrow> http_exn + uuid option" where
  "optional_viewer_id has_header credentials verifier =
     (case credentials of
        None \<Rightarrow> if has_header then Inl authentication_required else Inr None
      | Some token \<Rightarrow>
          (case verifier of
             None \<Rightarrow> Inl (HTTPException 503 ''Authentication unavailable'' [no_store])
           | Some check \<Rightarrow>
               (case check token of None \<Rightarrow> Inl authentication_required | Some u \<Rightarrow> Inr (Some u))))"

definition current_user_id :: "uuid option \<Rightarrow> http_exn + uuid" where
  "current_user_id viewer_id = (case viewer_id of None \<Rightarrow> Inl authentication_required | Some u \<Rightarrow> Inr u)"

text \<open>\<open>re.fullmatch(r'"[1-9][0-9]{0,18}"', if_match)\<close>, and \<open>int(...)\<close> of ASCII digits.\<close>

definition version_etag_fullmatch :: "pystr \<Rightarrow> bool" where
  "version_etag_fullmatch s \<longleftrightarrow>
     3 \<le> length s \<and> length s \<le> 21 \<and> hd s = 34 \<and> last s = 34
     \<and> list_all is_digit (butlast (tl s)) \<and> hd (tl s) \<noteq> 48"

definition expected_version :: "pystr option \<Rightarrow> http_exn + int" where
  "expected_version if_match =
     (case if_match of
        None \<Rightarrow> Inl (HTTPException 428 ''If-Match is required'' [])
      | Some s \<Rightarrow>
          if \<not> version_etag_fullmatch s then Inl (HTTPException 400 ''Invalid version ETag'' [])
          else (let ver = int (digits_value (butlast (tl s))) in
            if ver > 2 ^ 63 - 1 then Inl (HTTPException 400 ''Invalid version ETag'' [])
            else Inr ver))"

definition command_context :: "uuid \<Rightarrow> pystr \<Rightarrow> CommandContext result" where
  "command_context user_id key = command_context_new
     \<lparr>idempotency_key = Some key, idempotency_scope = Some (ustr ''user:'' @ str_uuid user_id),
      actor_id = Some (str_uuid user_id), correlation_id = None\<rparr>"

text \<open>\<open>compare_digest\<close> of the encoded texts is equality of bytes.\<close>

definition require_identity_service :: "pystr option \<Rightarrow> pystr option \<Rightarrow> http_exn + unit" where
  "require_identity_service token x_service_token =
     (if token = None \<or> token = Some [] then Inl (HTTPException 503 ''Service authentication unavailable'' [])
      else (case x_service_token of
          None \<Rightarrow> Inl (HTTPException 401 ''Invalid or missing service token'' [])
        | Some given \<Rightarrow>
            (case rthen (utf8_encode given) (\<lambda>g. rthen (utf8_encode (the token)) (\<lambda>e. Inr (g = e))) of
               Inl e \<Rightarrow> Inl (Raised e)
             | Inr same \<Rightarrow>
                 if same then Inr () else Inl (HTTPException 401 ''Invalid or missing service token'' []))))"

section \<open>Request bodies\<close>

text \<open>
  A field of a patch is absent (\<open>None\<close>), null (\<open>Some None\<close>) or given. \<open>validate_patch\<close> of the
  base class: something is given, and only nullable fields are null.
\<close>

definition validate_patch :: "(bool \<times> bool \<times> bool) list \<Rightarrow> unit result" where
  "validate_patch fs =
     (if \<not> list_ex (\<lambda>(is_set, _, _). is_set) fs then Inl ValidationError
      else if list_ex (\<lambda>(is_set, is_null, nullable). is_set \<and> \<not> nullable \<and> is_null) fs then Inl ValidationError
      else Inr ())"

definition patch_field :: "bool \<Rightarrow> 'a option option \<Rightarrow> bool \<times> bool \<times> bool" where
  "patch_field nullable f = (f \<noteq> None, f = Some None, nullable)"

definition patch_value :: "'a option option \<Rightarrow> 'a option" where
  "patch_value f = (case f of None \<Rightarrow> None | Some v \<Rightarrow> v)"

record ProfilePatchRequest =
  pp_display_name :: "pystr option option"
  pp_bio :: "pystr option option"
  pp_username :: "pystr option option"

definition profile_patch_new :: "ProfilePatchRequest \<Rightarrow> ProfilePatchRequest result" where
  "profile_patch_new p =
     rthen (rguard (length_between 1 64 (patch_value (pp_display_name p)) \<and> length_between 0 255 (patch_value (pp_bio p))
       \<and> length_between 3 32 (patch_value (pp_username p))) ValidationError) (\<lambda>_.
     rthen (validate_patch [patch_field False (pp_display_name p), patch_field True (pp_bio p),
       patch_field False (pp_username p)]) (\<lambda>_. Inr p))"

record PrivacyPatchRequest =
  vp_avatar :: "PrivacyScope option option"
  vp_find :: "PrivacyScope option option"
  vp_bio :: "PrivacyScope option option"

definition privacy_patch_new :: "PrivacyPatchRequest \<Rightarrow> PrivacyPatchRequest result" where
  "privacy_patch_new p =
     rthen (validate_patch [patch_field False (vp_avatar p), patch_field False (vp_find p), patch_field False (vp_bio p)])
       (\<lambda>_. Inr p)"

record SettingsPatchRequest =
  sp_theme :: "Theme option option"
  sp_locale :: "Locale option option"
  sp_timezone :: "pystr option option"
  sp_privacy :: "PrivacyPatchRequest option option"

definition settings_patch_new :: "SettingsPatchRequest \<Rightarrow> SettingsPatchRequest result" where
  "settings_patch_new p =
     rthen (rguard (length_between 1 64 (patch_value (sp_timezone p))) ValidationError) (\<lambda>_.
     rthen (case patch_value (sp_privacy p) of None \<Rightarrow> Inr () | Some v \<Rightarrow> rthen (privacy_patch_new v) (\<lambda>_. Inr ())) (\<lambda>_.
     rthen (validate_patch [patch_field False (sp_theme p), patch_field False (sp_locale p),
       patch_field False (sp_timezone p), patch_field False (sp_privacy p)]) (\<lambda>_. Inr p)))"

definition batch_request_new :: "uuid list \<Rightarrow> uuid list result" where
  "batch_request_new user_ids =
     (if 1 \<le> length user_ids \<and> length user_ids \<le> 100 then Inr user_ids else Inl ValidationError)"

section \<open>Routes\<close>

text \<open>The bus as a route sees it.\<close>

type_synonym 's bus =
  "command \<Rightarrow> CommandContext option \<Rightarrow> ResultMode option \<Rightarrow> ('s, exn, command_result option) proc"

definition get_my_profile :: "uuid \<Rightarrow> (session, http_exn, ProfileDTO http_response) proc" where
  "get_my_profile user_id =
     sthen (app_step (GetMyProfileHandler \<lparr>gm_user_id = user_id\<rparr>)) (\<lambda>profile.
     sret \<lparr>http_status = 200, http_headers = set_private_version (dto_version profile), http_body = profile\<rparr>)"

definition profile_patch_command :: "uuid \<Rightarrow> int \<Rightarrow> ProfilePatchRequest \<Rightarrow> UpdateProfileCommand" where
  "profile_patch_command user_id ver body =
     \<lparr>up_user_id = user_id, up_expected_version = ver,
      up_display_name = patch_value (pp_display_name body),
      up_bio = (if pp_bio body \<noteq> None then Some (case patch_value (pp_bio body) of None \<Rightarrow> [] | Some t \<Rightarrow> t) else None),
      up_username = patch_value (pp_username body)\<rparr>"

definition patch_my_profile ::
  "'s bus \<Rightarrow> uuid \<Rightarrow> int \<Rightarrow> CommandContext \<Rightarrow> ProfilePatchRequest \<Rightarrow>
   ('s, http_exn, ProfileDTO http_response) proc" where
  "patch_my_profile bus user_id ver context body =
     sthen (app_step (slift (update_profile_command_new (profile_patch_command user_id ver body)))) (\<lambda>command.
     sthen (app_step (bus (UpdateProfile command) (Some context) (Some REPLAYABLE))) (\<lambda>res.
     case res of
       Some (ProfileResult profile) \<Rightarrow>
         sret \<lparr>http_status = 200, http_headers = set_private_version (dto_version profile), http_body = profile\<rparr>
     | _ \<Rightarrow> sraise (Raised TypeError)))"

definition search_profiles ::
  "(pystr \<Rightarrow> bool) \<Rightarrow> pystr \<Rightarrow> uuid option \<Rightarrow> (session, http_exn, PublicProfileDTO http_response) proc" where
  "search_profiles zone_ok name viewer_id =
     sthen (app_step (slift (search_query_new name viewer_id))) (\<lambda>query.
     sthen (app_step (SearchByUsernameHandler zone_ok query)) (\<lambda>profile.
     sret \<lparr>http_status = 200, http_headers = [no_store], http_body = profile\<rparr>))"

definition get_batch_profiles ::
  "(pystr \<Rightarrow> bool) \<Rightarrow> uuid list \<Rightarrow> uuid option \<Rightarrow> (session, http_exn, PublicProfileDTO list http_response) proc" where
  "get_batch_profiles zone_ok user_ids viewer_id =
     sthen (app_step (slift (get_batch_query_new user_ids viewer_id))) (\<lambda>query.
     sthen (app_step (GetBatchProfilesHandler zone_ok query)) (\<lambda>found.
     sret \<lparr>http_status = 200, http_headers = [no_store], http_body = found\<rparr>))"

definition get_public_profile ::
  "(pystr \<Rightarrow> bool) \<Rightarrow> uuid \<Rightarrow> uuid option \<Rightarrow> (session, http_exn, PublicProfileDTO http_response) proc" where
  "get_public_profile zone_ok user_id viewer_id =
     sthen (app_step (GetPublicProfileHandler zone_ok \<lparr>gp_user_id = user_id, gp_viewer_id = viewer_id\<rparr>)) (\<lambda>profile.
     sret \<lparr>http_status = 200, http_headers = [no_store], http_body = profile\<rparr>)"

text \<open>\<open>except UserSettingsNotFoundError\<close> in the settings routes.\<close>

definition settings_missing :: "http_exn \<Rightarrow> ('s, http_exn, 'a) proc" where
  "settings_missing e =
     (if e = Raised (settings_error UserSettingsNotFoundError)
        then sraise (HTTPException 404 ''Settings not found'' []) else sraise e)"

definition get_my_settings ::
  "(pystr \<Rightarrow> bool) \<Rightarrow> uuid \<Rightarrow> (session, http_exn, SettingsDTO http_response) proc" where
  "get_my_settings zone_ok user_id =
     sthen (scatch (app_step (GetMySettingsHandler zone_ok \<lparr>gs_user_id = user_id\<rparr>)) settings_missing) (\<lambda>settings.
     sret \<lparr>http_status = 200, http_headers = set_private_version (sdto_version settings), http_body = settings\<rparr>)"

definition settings_patch_command :: "uuid \<Rightarrow> int \<Rightarrow> SettingsPatchRequest \<Rightarrow> UpdateSettingsCommand" where
  "settings_patch_command user_id ver body =
     (let privacy = patch_value (sp_privacy body);
          scope = (\<lambda>f. case privacy of None \<Rightarrow> None | Some p \<Rightarrow> patch_value (f p)) in
      \<lparr>us_user_id = user_id, us_expected_version = ver, us_theme = patch_value (sp_theme body),
       us_locale = patch_value (sp_locale body), us_timezone = patch_value (sp_timezone body),
       us_who_can_see_avatar = scope vp_avatar, us_who_can_find_by_username = scope vp_find,
       us_who_can_see_bio = scope vp_bio\<rparr>)"

definition patch_my_settings ::
  "'s bus \<Rightarrow> uuid \<Rightarrow> int \<Rightarrow> CommandContext \<Rightarrow> SettingsPatchRequest \<Rightarrow>
   ('s, http_exn, SettingsDTO http_response) proc" where
  "patch_my_settings bus user_id ver context body =
     sthen (scatch
       (sthen (app_step (slift (update_settings_command_new (settings_patch_command user_id ver body)))) (\<lambda>command.
        app_step (bus (UpdateSettings command) (Some context) (Some REPLAYABLE)))) settings_missing) (\<lambda>res.
     case res of
       Some (SettingsResult settings) \<Rightarrow>
         sret \<lparr>http_status = 200, http_headers = set_private_version (sdto_version settings), http_body = settings\<rparr>
     | _ \<Rightarrow> sraise (Raised TypeError))"

definition provision_profile ::
  "'s bus \<Rightarrow> uuid \<Rightarrow> datetime \<Rightarrow> ('s, http_exn, unit http_response) proc" where
  "provision_profile bus user_id registered_at =
     sthen (app_step (slift (command_context_new
       \<lparr>idempotency_key = Some (str_uuid user_id), idempotency_scope = Some (ustr ''identity:profile-provisioning''),
        actor_id = Some (ustr ''identity-service''), correlation_id = None\<rparr>))) (\<lambda>context.
     sthen (app_step (bus (CreateDefault \<lparr>cd_user_id = user_id, cd_registered_at = registered_at\<rparr>) (Some context)
       (Some COMPLETION_ONLY))) (\<lambda>_.
     sret \<lparr>http_status = 204, http_headers = [no_store], http_body = ()\<rparr>))"

definition profile_exists :: "uuid \<Rightarrow> (session, http_exn, unit http_response) proc" where
  "profile_exists user_id =
     sthen (app_step (CheckProfileExistsHandler \<lparr>ce_user_id = user_id\<rparr>)) (\<lambda>exists.
     sret \<lparr>http_status = (if exists then 200 else 404), http_headers = [no_store], http_body = ()\<rparr>)"

definition live :: "string http_response" where
  "live = \<lparr>http_status = 200, http_headers = [], http_body = ''ok''\<rparr>"

definition ready :: "bool \<Rightarrow> string http_response" where
  "ready is_ready = \<lparr>http_status = (if is_ready then 200 else 503), http_headers = [],
     http_body = (if is_ready then ''ready'' else ''unavailable'')\<rparr>"

section \<open>Exception handlers\<close>

text \<open>The response of a registered handler: its detail and the current version, if it tells one.\<close>

record error_body =
  error_detail :: string
  error_current_version :: "int option"

definition error_response :: "int \<Rightarrow> string \<Rightarrow> int option \<Rightarrow> (string \<times> pystr) list \<Rightarrow> error_body http_response" where
  "error_response code detail ver extra =
     \<lparr>http_status = code, http_headers = extra @ [no_store],
      http_body = \<lparr>error_detail = detail, error_current_version = ver\<rparr>\<rparr>"

definition version_conflict :: "int option \<Rightarrow> error_body http_response" where
  "version_conflict v = error_response 409 ''Version conflict'' v []"

definition invalid_input :: "error_body http_response" where
  "invalid_input = error_response 422 ''Invalid request value'' None []"

definition conflict :: "exn \<Rightarrow> error_body http_response" where
  "conflict e = error_response 409
     (if e = profile_error UsernameAlreadyTakenError then ''Username already taken'' else ''Idempotency key conflict'') None []"

definition in_progress :: "error_body http_response" where
  "in_progress = error_response 409 ''Request is in progress'' None [(''Retry-After'', ustr ''1'')]"

definition profile_not_found :: "error_body http_response" where
  "profile_not_found = error_response 404 ''Profile not found'' None []"

definition profile_unavailable :: "error_body http_response" where
  "profile_unavailable = error_response 503 ''Profile temporarily unavailable'' None []"

text \<open>The handler registered for an exception, if there is one.\<close>

fun handle_exception :: "exn \<Rightarrow> error_body http_response option" where
  "handle_exception (DomainError (UserProfileError e)) =
     (case e of
        UserProfileNotFoundError \<Rightarrow> Some profile_not_found
      | ProfileVersionMismatchError v \<Rightarrow> Some (version_conflict v)
      | InvalidDisplayNameError \<Rightarrow> Some invalid_input
      | InvalidBioError \<Rightarrow> Some invalid_input
      | InvalidUsernameError \<Rightarrow> Some invalid_input
      | ReservedUsernameError \<Rightarrow> Some invalid_input
      | UsernameAlreadyTakenError \<Rightarrow> Some (conflict (profile_error UsernameAlreadyTakenError))
      | InvalidProfileStatusError \<Rightarrow> None)"
| "handle_exception (DomainError (UserSettingsError e)) =
     (case e of
        UserSettingsNotFoundError \<Rightarrow> Some profile_unavailable
      | SettingsVersionMismatchError v \<Rightarrow> Some (version_conflict v)
      | InvalidLocaleError \<Rightarrow> Some invalid_input
      | InvalidThemeError \<Rightarrow> Some invalid_input
      | InvalidTimezoneError \<Rightarrow> Some invalid_input
      | InvalidPrivacyScopeError \<Rightarrow> Some invalid_input)"
| "handle_exception (DomainError InvalidTimestampError) = None"
| "handle_exception (PersistenceError e) = Some profile_unavailable"
| "handle_exception (IdempotencyError e) =
     (case e of
        IdempotencyUnavailableError \<Rightarrow> Some profile_unavailable
      | StoredReplayUnavailableError \<Rightarrow> Some profile_unavailable
      | IdempotencyKeyRequiredError \<Rightarrow> Some invalid_input
      | IdempotencyConflictError \<Rightarrow> Some (conflict (IdempotencyError IdempotencyConflictError))
      | IdempotencyInProgressError \<Rightarrow> Some in_progress
      | IdempotencyScopeRequiredError \<Rightarrow> None
      | IdempotencyResultNotStoredError \<Rightarrow> None)"
| "handle_exception _ = None"

end
