(* ===== verification/Http_Properties.thy ===== *)
theory Http_Properties
  imports Http
begin

text \<open>What the HTTP edge promises: entity tags are versions, and validated requests become commands.\<close>

section \<open>Versions\<close>

lemma fullmatch_quoted:
  "version_etag_fullmatch t \<longleftrightarrow>
     (\<exists>s. t = 34 # s @ [34] \<and> s \<noteq> [] \<and> length s \<le> 19 \<and> list_all is_digit s \<and> hd s \<noteq> 48)" (is "?l \<longleftrightarrow> ?r")
proof
  assume l: ?l
  then obtain x s y where t: "t = x # s @ [y]"
    by (cases t; cases "tl t" rule: rev_cases) (auto simp: version_etag_fullmatch_def)
  with l have "s \<noteq> []" by (auto simp: version_etag_fullmatch_def)
  with l t show ?r by (auto simp: version_etag_fullmatch_def butlast_append)
qed (auto simp: version_etag_fullmatch_def butlast_append Suc_le_eq)

text \<open>The tags that are read as a version.\<close>

lemma expected_version_reads:
  "expected_version (Some t) = Inr v \<longleftrightarrow> 1 \<le> v \<and> v \<le> 2 ^ 63 - 1 \<and> (''ETag'', t) \<in> set (set_private_version v)"
proof -
  have tag: "(''ETag'', t) \<in> set (set_private_version v) \<longleftrightarrow> t = 34 # int_text v @ [34]"
    by (auto simp: set_private_version_def etag_def)
  have "expected_version (Some t) = Inr v \<longleftrightarrow>
      version_etag_fullmatch t \<and> v = int (digits_value (butlast (tl t))) \<and> v \<le> 2 ^ 63 - 1"
    by (auto simp: expected_version_def Let_def)
  also have "\<dots> \<longleftrightarrow> (\<exists>s. t = 34 # s @ [34] \<and> s \<noteq> [] \<and> length s \<le> 19 \<and> list_all is_digit s \<and> hd s \<noteq> 48
      \<and> v = int (digits_value s) \<and> v \<le> 2 ^ 63 - 1)"
    unfolding fullmatch_quoted by auto
  also have "\<dots> \<longleftrightarrow> 1 \<le> v \<and> v \<le> 2 ^ 63 - 1 \<and> t = 34 # int_text v @ [34]"
  proof
    assume "\<exists>s. t = 34 # s @ [34] \<and> s \<noteq> [] \<and> length s \<le> 19 \<and> list_all is_digit s \<and> hd s \<noteq> 48
      \<and> v = int (digits_value s) \<and> v \<le> 2 ^ 63 - 1"
    then obtain s where s: "t = 34 # s @ [34]" "s \<noteq> []" "list_all is_digit s" "hd s \<noteq> 48"
      "v = int (digits_value s)" "v \<le> 2 ^ 63 - 1" by blast
    with value_nat_digits [OF s(2-4)] show "1 \<le> v \<and> v \<le> 2 ^ 63 - 1 \<and> t = 34 # int_text v @ [34]"
      by (simp add: int_text_def)
  next
    assume v: "1 \<le> v \<and> v \<le> 2 ^ 63 - 1 \<and> t = 34 # int_text v @ [34]"
    then have "length (nat_digits (nat v)) \<le> 19" by (intro nat_digits_length) auto
    with v nat_digits_props [of "nat v"] nat_digits_value [of "nat v"]
    show "\<exists>s. t = 34 # s @ [34] \<and> s \<noteq> [] \<and> length s \<le> 19 \<and> list_all is_digit s \<and> hd s \<noteq> 48
      \<and> v = int (digits_value s) \<and> v \<le> 2 ^ 63 - 1"
      by (intro exI [of _ "nat_digits (nat v)"]) (auto simp: int_text_def)
  qed
  finally show ?thesis unfolding tag .
qed

text \<open>
  C37. An entity tag is a version. The dependency that reads \<open>If-Match\<close> accepts exactly the tags
  that the responses carry for the versions 1 to \<open>2 ^ 63 - 1\<close>, and reads each as the version it
  was made from: a client that sends back the tag it was given locks the version it has seen,
  no other spelling of a number is taken for one, and what is accepted fits the column.
\<close>

theorem etag_is_version:
  "expected_version (Some t) = Inr v \<longleftrightarrow> 1 \<le> v \<and> v \<le> 2 ^ 63 - 1 \<and> (''ETag'', t) \<in> set (set_private_version v)"
  by (rule expected_version_reads)

section \<open>Requests and commands\<close>

text \<open>The body of a validated patch makes a command that its class accepts.\<close>

lemma profile_patch_accepted:
  assumes "profile_patch_new body = Inr b" "1 \<le> v"
  shows "update_profile_command_new (profile_patch_command u v body) = Inr (profile_patch_command u v body)"
  using assms
  by (auto simp: profile_patch_new_def update_profile_command_new_def profile_patch_command_def length_between_def
      split: option.splits)

lemma settings_patch_accepted:
  assumes "settings_patch_new body = Inr b" "1 \<le> v"
  shows "update_settings_command_new (settings_patch_command u v body) = Inr (settings_patch_command u v body)"
  using assms
  by (auto simp: settings_patch_new_def update_settings_command_new_def settings_patch_command_def Let_def)

end
