(* ===== verification/Dispatch_Properties.thy ===== *)
theory Dispatch_Properties
  imports Dispatch
begin

text \<open>
  What the codec and the registry promise: a stored result reads back as the result that was
  stored, and a registry keeps commands and operation names apart.
\<close>

section \<open>The codec\<close>

text \<open>What the codec needs of a type adapter: what it dumps, it reads back.\<close>

locale result_adapter =
  fixes adapter :: "'r adapter"
  assumes reads_back: "validate_strict adapter r = Inr v \<Longrightarrow> dump_json adapter v = Inr j \<Longrightarrow>
      validate_json adapter j = Inr v"
    and refuses: "validate_json adapter j = Inl e \<Longrightarrow> e = ValidationError"
begin

lemma encode_decode:
  assumes "codec_adapter self = adapter" "codec_encode self r = Inr s"
  shows "\<exists>v. codec_validate self r = Inr v \<and> codec_decode self s = Inr v"
  using assms reads_back
  by (fastforce simp: codec_encode_def codec_validate_def codec_decode_def read_snapshot_def
      stored_validate_def is_completion_only_def split: if_splits)

lemma decode_errors:
  assumes "codec_adapter self = adapter" "codec_decode self s = Inl e"
  shows "e = IdempotencyError (if is_completion_only s then IdempotencyResultNotStoredError
    else StoredReplayUnavailableError)"
  using assms(2) unfolding assms(1)
  by (auto simp: assms(1) dest!: refuses simp: codec_decode_def read_snapshot_def split: if_splits option.splits sum.splits)

end

lemma encoded_version:
  assumes "codec_encode self r = Inr s"
  shows "result_version s = codec_schema_version self" "\<not> is_completion_only s"
  using assms by (auto simp: codec_encode_def stored_validate_def is_completion_only_def)

lemma other_version_refused:
  "result_version s \<noteq> codec_schema_version self \<Longrightarrow> \<not> is_completion_only s \<Longrightarrow>
   codec_decode self s = Inl (IdempotencyError StoredReplayUnavailableError)"
  by (simp add: codec_decode_def read_snapshot_def)

text \<open>
  C34. A replayed result is the result. Given a type adapter that reads back what it dumps
  and refuses other JSON with a \<open>ValidationError\<close>: whatever a codec encodes, it decodes to the
  validated value it encoded; a codec of another schema version never misreads it but raises
  \<open>StoredReplayUnavailableError\<close>; and from anything that is stored, decoding either gives a
  value or raises one of the two documented errors, \<open>IdempotencyResultNotStoredError\<close> exactly
  for a completion without a result.
\<close>

theorem replayed_result_is_the_result:
  fixes self :: "'r codec"
  assumes reads_back: "\<And>r v j. validate_strict (codec_adapter self) r = Inr v \<Longrightarrow>
      dump_json (codec_adapter self) v = Inr j \<Longrightarrow> validate_json (codec_adapter self) j = Inr v"
    and refuses: "\<And>j e. validate_json (codec_adapter self) j = Inl e \<Longrightarrow> e = ValidationError"
  shows "(codec_encode self r = Inr s \<longrightarrow>
       (\<exists>v. codec_validate self r = Inr v \<and> codec_decode self s = Inr v)
       \<and> (codec_schema_version other \<noteq> codec_schema_version self \<longrightarrow>
            codec_decode other s = Inl (IdempotencyError StoredReplayUnavailableError)))
    \<and> (codec_decode self stored = Inl e \<longrightarrow>
         e = IdempotencyError (if is_completion_only stored then IdempotencyResultNotStoredError
           else StoredReplayUnavailableError))"
proof -
  have "result_adapter (codec_adapter self)" by unfold_locales (fact reads_back refuses)+
  note result_adapter.encode_decode [OF this refl] result_adapter.decode_errors [OF this refl]
  then show ?thesis using encoded_version [of self r s] other_version_refused [of s other] by metis
qed

section \<open>The registry\<close>

text \<open>The registries that can be assembled.\<close>

inductive assembled :: "('c, 'r) registry \<Rightarrow> bool" where
  assembled_new: "assembled registry_new"
| assembled_register: "assembled reg \<Longrightarrow>
    register command_cls factory schema op policy schema_version reg = (r, reg') \<Longrightarrow> assembled reg'"
| assembled_freeze: "assembled reg \<Longrightarrow> freeze reg = (hs, reg') \<Longrightarrow> assembled reg'"

definition registration_ok :: "pyclass \<times> ('c, 'r) registration \<Rightarrow> bool" where
  "registration_ok item \<longleftrightarrow> is_command_class (fst item) \<and> strip (reg_operation (snd item)) \<noteq> []
     \<and> length (reg_operation (snd item)) \<le> 100 \<and> 1 \<le> codec_schema_version (reg_codec (snd item))
     \<and> \<not> schema_any (codec_result_type (reg_codec (snd item)))
     \<and> type_adapter (codec_result_type (reg_codec (snd item))) = Inr (codec_adapter (reg_codec (snd item)))"

definition registry_ok :: "('c, 'r) registry \<Rightarrow> bool" where
  "registry_ok reg \<longleftrightarrow> distinct (map fst (handlers reg))
     \<and> distinct (map (\<lambda>item. reg_operation (snd item)) (handlers reg)) \<and> list_all registration_ok (handlers reg)"

lemma register_cases:
  assumes "register command_cls factory schema op policy schema_version reg = (r, reg')"
  shows "(\<exists>e. r = Inl e) \<and> reg' = reg
    \<or> (\<exists>item. r = Inr () \<and> \<not> frozen reg \<and> reg' = reg\<lparr>handlers := handlers reg @ [item]\<rparr> \<and> registration_ok item
         \<and> fst item = command_cls \<and> command_cls \<notin> set (map fst (handlers reg)) \<and> reg_operation (snd item) = op
         \<and> (\<forall>other\<in>set (handlers reg). reg_operation (snd other) \<noteq> op))"
  using assms
  by (auto simp: register_def codec_new_def registration_ok_def list_ex_iff
      split: if_splits option.splits sum.splits)

lemma register_ok:
  assumes "register command_cls factory schema op policy schema_version reg = (r, reg')" "registry_ok reg"
  shows "registry_ok reg'"
  using register_cases [OF assms(1)]
proof (elim disjE exE conjE)
  fix item
  assume new: "reg' = reg\<lparr>handlers := handlers reg @ [item]\<rparr>" "registration_ok item" "fst item = command_cls"
    "command_cls \<notin> set (map fst (handlers reg))" "reg_operation (snd item) = op"
    "\<forall>other\<in>set (handlers reg). reg_operation (snd other) \<noteq> op"
  have "op \<notin> set (map (\<lambda>item. reg_operation (snd item)) (handlers reg))" using new(6) by auto
  with new(1-5) assms(2) show ?thesis by (simp add: registry_ok_def)
qed (simp add: assms(2))

lemma assembled_ok: "assembled reg \<Longrightarrow> registry_ok reg"
  by (induction rule: assembled.induct)
    (auto simp: registry_ok_def registry_new_def freeze_def dest: register_ok)

text \<open>
  C35. Every registry that can be assembled is well formed: its keys are classes of commands,
  each of them once, its operation names are non-blank, at most 100 characters long and
  pairwise different, and every codec has a concrete result type, the adapter compiled from
  it and a positive schema version. So an operation name tells the class of the command, and
  commands of different classes never share an idempotency identity; and a frozen registry
  refuses every further registration.
\<close>

theorem registry_well_formed:
  assumes "assembled reg"
  shows "registry_ok reg
    \<and> (\<forall>cls cls' r r' subject subject' digest digest' i. map_of (handlers reg) cls = Some r \<longrightarrow>
         map_of (handlers reg) cls' = Some r' \<longrightarrow>
         idempotency_key_new subject (reg_operation r) digest = Inr i \<longrightarrow>
         idempotency_key_new subject' (reg_operation r') digest' = Inr i \<longrightarrow> cls = cls')
    \<and> (frozen reg \<longrightarrow> (\<forall>cls f schema op policy v. register cls f schema op policy v reg = (Inl RuntimeError, reg)))"
proof (intro conjI allI impI)
  show ok: "registry_ok reg" using assms by (rule assembled_ok)
  fix cls cls' r r' and subject subject' :: pystr and digest digest' :: bytes and i
  assume "map_of (handlers reg) cls = Some r" "map_of (handlers reg) cls' = Some r'"
    and "idempotency_key_new subject (reg_operation r) digest = Inr i"
    "idempotency_key_new subject' (reg_operation r') digest' = Inr i"
  then have "(cls, r) \<in> set (handlers reg)" "(cls', r') \<in> set (handlers reg)" "reg_operation r = reg_operation r'"
    by (auto simp: idempotency_key_new_def dest: map_of_SomeD split: if_splits)
  with ok have "(cls, r) = (cls', r')"
    unfolding registry_ok_def distinct_map by (metis (mono_tags, lifting) inj_onD snd_conv)
  then show "cls = cls'" by simp
next
  fix cls f schema op policy v
  assume "frozen reg"
  then show "register cls f schema op policy v reg = (Inl RuntimeError, reg)" by (simp add: register_def)
qed

end
