(* ===== verification/Service_Properties.thy ===== *)
theory Service_Properties
  imports Service Dispatch_Properties
begin

text \<open>
  A command on the bus of the container, from the dispatch to the database: where a dispatch
  goes, and that it is atomic and runs under the identity of its command.
\<close>

section \<open>Where a dispatch goes\<close>

definition answer_of ::
  "('c, 'r) registration \<Rightarrow> ResultMode \<Rightarrow> CompletedIdempotencyResult result \<Rightarrow> 'r option result" where
  "answer_of registration m x =
     rthen x (\<lambda>c. if m = COMPLETION_ONLY then Inr None
       else rthen (codec_decode (reg_codec registration) (stored_of c)) (\<lambda>r. Inr (Some r)))"

text \<open>The identity of a dispatch: its scope, the operation of its command and the digest of its key.\<close>

definition identity_for ::
  "(bytes \<Rightarrow> bytes) \<Rightarrow> CommandContext \<Rightarrow> pystr \<Rightarrow> IdempotencyKey \<Rightarrow> bool" where
  "identity_for sha context op i \<longleftrightarrow>
     (\<exists>key subject digest. idempotency_key context = Some key \<and> idempotency_scope context = Some subject
        \<and> compute_key_digest sha key = Inr digest \<and> idempotency_key_new subject op digest = Inr i)"

lemma middleware_cases:
  assumes "middleware_execute sha coordinator op key scope operation_name fp policy st = (x, st')"
  shows "(\<exists>e. x = Inl e) \<and> st' = st
    \<or> (\<exists>raw subject digest i. key = Some raw \<and> scope = Some subject \<and> compute_key_digest sha raw = Inr digest
         \<and> idempotency_key_new subject operation_name digest = Inr i
         \<and> coordinator_execute coordinator i fp op policy st = (x, st'))"
  using assms
  by (auto simp: middleware_execute_def sthen_def split: option.splits if_splits sum.splits prod.splits)

lemma command_execute_cases:
  assumes run: "command_execute sha isoformat dump coordinator registration command context m st = (r, st')"
    and policy: "idempotency_policy registration = Some policy" "mode policy = HOT_DURABLE"
  shows "(\<exists>e. r = Inl e) \<and> st' = st
    \<or> (\<exists>fp i x. compute_request_fingerprint sha isoformat [] (dump command) = Inr fp
         \<and> identity_for sha context (reg_operation registration) i
         \<and> coordinator_execute coordinator i fp (invoke_handler registration command m) policy st = (x, st')
         \<and> r = answer_of registration m x)"
proof (cases "compute_request_fingerprint sha isoformat [] (dump command)")
  case (Inl e)
  with run policy show ?thesis by (auto simp: command_execute_def sthen_def)
next
  case (Inr fp)
  obtain x s where x: "middleware_execute sha coordinator (invoke_handler registration command m)
    (idempotency_key context) (idempotency_scope context) (reg_operation registration) fp policy st = (x, s)"
    by (metis surj_pair)
  have r: "s = st' \<and> r = answer_of registration m x"
    using run policy Inr x
    by (cases x) (auto simp: command_execute_def sthen_def answer_of_def split: if_splits)
  from middleware_cases [OF x] r Inr show ?thesis
    unfolding identity_for_def by (auto simp: answer_of_def)
qed

section \<open>Scopes\<close>

lemma scope_session_fields [simp]:
  "committed (scope_session s) = committed s" "script (scope_session s) = script s"
  "idle (scope_session s)"
  by (simp_all add: scope_session_def idle_def)

lemma untouched_scope [simp]:
  "untouched (scope_session s) t \<longleftrightarrow> untouched s t" "untouched s (scope_session t) \<longleftrightarrow> untouched s t"
  by (simp_all add: untouched_def)

lemma committed_once_scope [simp]:
  "committed_once stored ok op i fp (scope_session s) t c \<longleftrightarrow> committed_once stored ok op i fp s t c"
  "committed_once stored ok op i fp s (scope_session t) c \<longleftrightarrow> committed_once stored ok op i fp s t c"
  by (simp_all add: committed_once_def)

lemma rely_scope [simp]: "rely R (scope_session s) \<longleftrightarrow> rely R s"
  by (simp add: rely_def)

section \<open>The commands of the container\<close>

lemma container_registry_holds:
  assumes "container_registry zone_ok a lease ttl = Inr reg"
  shows "\<exists>policy. mode policy = HOT_DURABLE \<and> (\<forall>command. map_of (handlers reg) (class_of command)
    = Some (service_registration zone_ok a policy policy command))"
proof -
  from assms obtain policy where p: "policy_new HOT_DURABLE lease ttl 300 = Inr policy"
    and b: "build_command_registry zone_ok a (Some policy) (Some policy) = Inr reg"
    by (auto simp: container_registry_def)
  from p have "mode policy = HOT_DURABLE" by (auto simp: policy_new_def split: if_splits)
  with b register_commands_run [of zone_ok a policy policy] show ?thesis
    by (auto simp: build_command_registry_def chosen_policy_def intro!: exI [of _ policy])
qed

text \<open>
  The provider takes the lifetime of results from the settings, which allow every positive
  number, and leaves the cache lifetime at its default of 300 seconds, which the policy does
  not allow to exceed it.
\<close>

lemma short_result_lifetime_refused:
  "0 < lease \<Longrightarrow> 0 < ttl \<Longrightarrow> ttl < 300 \<Longrightarrow> container_registry zone_ok a lease ttl = Inl ValidationError"
  by (simp add: container_registry_def policy_new_def)

lemma invoke_handler_operation:
  "keeps within (invoke_handler (service_registration zone_ok a mp pp command) command m)"
  "honest (invoke_handler (service_registration zone_ok a mp pp command) command m)"
  "keeps (guar (keeps_ok records_ok)) (invoke_handler (service_registration zone_ok a mp pp command) command m)"
  unfolding invoke_handler_def
  by (intro keeps_within keeps_if honest_intros keeps_guar keeps_ok_reflp keeps_ok_transp service_handler_operation)+

lemma bus_dispatch_cases:
  assumes run: "bus_dispatch sha isoformat coordinator reg command context m0 st = (r, st')"
    and reg: "map_of (handlers reg) (class_of command) = Some registration"
  shows "(m0 = None \<and> r = Inl TypeError \<and> st' = st)
    \<or> (\<exists>m st1. m0 = Some m \<and> command_execute sha isoformat dump_command coordinator registration command
          (case context of None \<Rightarrow> no_context | Some c \<Rightarrow> c) m
          (st\<lparr>execution := \<lparr>active = False, exec_session = scope_session (exec_session (execution st))\<rparr>\<rparr>) = (r, st1)
        \<and> metrics st' = metrics st1
        \<and> exec_session (execution st') = scope_session (exec_session (execution st1)))"
  using assms
  by (auto simp: bus_dispatch_def dispatch_def freeze_def with_scope_def split: option.splits prod.splits)

text \<open>What a dispatch leaves, as the property below states it.\<close>

lemma dispatched_atomically:
  assumes "container_registry zone_ok a lease ttl = Inr reg"
    and "durable_execution coordinator = Some transactional"
    and "rely (keeps_ok records_ok) (exec_session (execution st))"
    and "records_ok (committed (exec_session (execution st)))"
    and "bus_dispatch sha isoformat coordinator reg command (Some context) (Some m) st = (r, st')"
  shows "(untouched (exec_session (execution st)) (exec_session (execution st'))
       \<and> (\<forall>y. r = Inr y \<longrightarrow> last (metrics st') = Outcome REPLAY))
    \<or> (\<exists>registration i fp c. map_of (handlers reg) (class_of command) = Some registration
         \<and> identity_for sha context (reg_operation registration) i
         \<and> compute_request_fingerprint sha isoformat [] (dump_command command) = Inr fp
         \<and> committed_once recorded records_ok (invoke_handler registration command m) i fp
             (exec_session (execution st)) (exec_session (execution st')) c
         \<and> (\<forall>y. r = Inr y \<longrightarrow> last (metrics st') = Outcome EXECUTED \<longrightarrow> r = answer_of registration m (Inr c)))"
proof -
  let ?s = "exec_session (execution st)"
  let ?st = "st\<lparr>execution := \<lparr>active = False, exec_session = scope_session ?s\<rparr>\<rparr>"
  from container_registry_holds [OF assms(1)] obtain policy where policy: "mode policy = HOT_DURABLE"
    and reg: "map_of (handlers reg) (class_of command) = Some (service_registration zone_ok a policy policy command)"
    by blast
  let ?r = "service_registration zone_ok a policy policy command"
  from bus_dispatch_cases [OF assms(5) reg] obtain st1 where
    run: "command_execute sha isoformat dump_command coordinator ?r command context m ?st = (r, st1)"
    and st1: "metrics st' = metrics st1" "exec_session (execution st') = scope_session (exec_session (execution st1))"
    by auto
  from command_execute_cases [OF run service_policies policy] show ?thesis
  proof (elim disjE exE conjE)
    fix e
    assume "r = Inl e" "st1 = ?st"
    with st1 show ?thesis by simp
  next
    fix fp i x
    assume fp: "compute_request_fingerprint sha isoformat [] (dump_command command) = Inr fp"
      and i: "identity_for sha context (reg_operation ?r) i"
      and x: "coordinator_execute coordinator i fp (invoke_handler ?r command m) policy ?st = (x, st1)"
      and r: "r = answer_of ?r m x"
    have start: "\<not> active (execution ?st)" "idle (exec_session (execution ?st))"
      "rely (keeps_ok records_ok) (exec_session (execution ?st))" "records_ok (committed (exec_session (execution ?st)))"
      using assms(3,4) by simp_all
    from coordinator_atomic [OF x policy assms(2) start(1,2) invoke_handler_operation start(3,4)]
    have "untouched ?s (exec_session (execution st1)) \<and> (\<forall>c. x = Inr c \<longrightarrow> last (metrics st1) = Outcome REPLAY)
      \<or> (\<exists>c. committed_once recorded records_ok (invoke_handler ?r command m) i fp ?s (exec_session (execution st1)) c
           \<and> (\<forall>c'. x = Inr c' \<longrightarrow> last (metrics st1) = Outcome EXECUTED \<longrightarrow> c' = c))"
      by simp
    moreover have returned: "\<exists>c. x = Inr c" if "r = Inr y" for y
      using r that by (cases x) (auto simp: answer_of_def)
    ultimately show ?thesis
    proof (elim disjE exE conjE)
      assume "untouched ?s (exec_session (execution st1))" "\<forall>c. x = Inr c \<longrightarrow> last (metrics st1) = Outcome REPLAY"
      with returned st1 show ?thesis by auto
    next
      fix c
      assume "committed_once recorded records_ok (invoke_handler ?r command m) i fp ?s (exec_session (execution st1)) c"
        "\<forall>c'. x = Inr c' \<longrightarrow> last (metrics st1) = Outcome EXECUTED \<longrightarrow> c' = c"
      with returned st1 r fp i reg show ?thesis
        by (intro disjI2 exI [of _ ?r] exI [of _ i] exI [of _ fp] exI [of _ c]) auto
    qed
  qed
qed

text \<open>
  C6. A command on the bus is atomic, end to end. On the bus of the container, over any hot
  store and whatever fails on the way, a dispatch of any of the five commands leaves in the
  database either nothing at all, and then a value it returns is a replay, or exactly one run
  of the command's own handler together with its replay record, under the scope and key of
  the request, the operation name of the command and the fingerprint of its fields; and an
  answer that is counted as executed is then the decoded record. Before a handler runs and
  before anything is stored, a request whose fingerprint or identity cannot be formed is refused.
\<close>

theorem dispatch_is_atomic:
  assumes "container_registry zone_ok a lease ttl = Inr reg"
    and "durable_execution coordinator = Some transactional"
    and "rely (keeps_ok records_ok) (exec_session (execution st))"
    and "records_ok (committed (exec_session (execution st)))"
    and "bus_dispatch sha isoformat coordinator reg command (Some context) (Some m) st = (r, st')"
  shows "(untouched (exec_session (execution st)) (exec_session (execution st'))
       \<and> (\<forall>y. r = Inr y \<longrightarrow> last (metrics st') = Outcome REPLAY))
    \<or> (\<exists>registration i fp c. map_of (handlers reg) (class_of command) = Some registration
         \<and> identity_for sha context (reg_operation registration) i
         \<and> compute_request_fingerprint sha isoformat [] (dump_command command) = Inr fp
         \<and> committed_once recorded records_ok (invoke_handler registration command m) i fp
             (exec_session (execution st)) (exec_session (execution st')) c
         \<and> (\<forall>y. r = Inr y \<longrightarrow> last (metrics st') = Outcome EXECUTED \<longrightarrow> r = answer_of registration m (Inr c)))"
  using assms by (rule dispatched_atomically)

end
