(* ===== verification/Configuration.thy ===== *)
theory Configuration
  imports Decimals
begin

text \<open>
  The settings of the service (\<open>src/src/app/core/settings\<close>): what each class reads, the bounds it
  puts on it and the validators it runs. How the variables of the environment are found, how
  their texts become integers, floats, booleans and key rings, and the URLs of the database
  driver are the work of pydantic-settings and SQLAlchemy: they are the operations of a
  \<open>settings_library\<close>. A float is a multiple of the smallest positive float, and infinity
  counts as one beyond the largest.
\<close>

section \<open>The libraries\<close>

record url =
  drivername :: pystr
  url_username :: "pystr option"
  url_password :: "pystr option"
  url_host :: "pystr option"
  url_port :: "int option"
  url_database :: "pystr option"

text \<open>
  \<open>find_variable names\<close> is the text of the first of the names that is set, in the process or in the
  \<open>.env\<close> file. \<open>key_ring_value\<close> reads a text as JSON: it raises when there is none in it, and has
  no ring when it is no object of strings. \<open>render_as_string\<close> fails on a text with surrogates.
\<close>

record settings_library =
  find_variable :: "string list \<Rightarrow> pystr option"
  int_value :: "pystr \<Rightarrow> int option"
  float_value :: "pystr \<Rightarrow> int option"
  bool_value :: "pystr \<Rightarrow> bool option"
  key_ring_value :: "pystr \<Rightarrow> (pystr \<times> pystr) list option result"
  matches_non_space :: "pystr \<Rightarrow> bool"
  strip_whitespace :: "pystr \<Rightarrow> pystr"
  make_url :: "pystr \<Rightarrow> url option"
  render_as_string :: "url \<Rightarrow> pystr option"

text \<open>Fields: a default, a conversion and a bound. A bad value is a \<open>ValidationError\<close>.\<close>

definition text_field :: "settings_library \<Rightarrow> string list \<Rightarrow> pystr \<Rightarrow> pystr" where
  "text_field lib names fallback = (case find_variable lib names of None \<Rightarrow> fallback | Some t \<Rightarrow> t)"

definition parsed_field ::
  "settings_library \<Rightarrow> (pystr \<Rightarrow> 'a option) \<Rightarrow> ('a \<Rightarrow> bool) \<Rightarrow> string list \<Rightarrow> 'a \<Rightarrow> 'a result" where
  "parsed_field lib convert ok names fallback =
     (case find_variable lib names of
        None \<Rightarrow> Inr fallback
      | Some t \<Rightarrow>
          (case convert t of
             None \<Rightarrow> Inl ValidationError
           | Some v \<Rightarrow> if ok v then Inr v else Inl ValidationError))"

lemma parsed_field_sound: "parsed_field lib convert ok names fallback = Inr v \<Longrightarrow> ok fallback \<Longrightarrow> ok v"
  by (auto simp: parsed_field_def split: option.splits if_splits)

lemma parsed_field_fails: "parsed_field lib convert ok names fallback = Inl e \<Longrightarrow> e = ValidationError"
  by (auto simp: parsed_field_def split: option.splits if_splits)

definition port_ok :: "int \<Rightarrow> bool" where
  "port_ok p \<longleftrightarrow> 1 \<le> p \<and> p \<le> 65535"

section \<open>Helpers over the environment (\<open>base.py\<close>)\<close>

text \<open>\<open>str.upper\<close>, as far as the result is ASCII: other code points stand for themselves.\<close>

definition upper_char :: "nat \<Rightarrow> pystr" where
  "upper_char c =
     (if 97 \<le> c \<and> c \<le> 122 then [c - 32]
      else case map_of [(223, [83, 83]), (305, [73]), (329, [700, 78]), (383, [83]), (496, [74, 780]),
          (7830, [72, 817]), (7831, [84, 776]), (7832, [87, 778]), (7833, [89, 778]), (7834, [65, 702]),
          (64256, [70, 70]), (64257, [70, 73]), (64258, [70, 76]), (64259, [70, 70, 73]),
          (64260, [70, 70, 76]), (64261, [83, 84]), (64262, [83, 84])] c of
        None \<Rightarrow> [c] | Some u \<Rightarrow> u)"

definition upper :: "pystr \<Rightarrow> pystr" where
  "upper s = concat (map upper_char s)"

text \<open>\<open>value.split(",")\<close>, and the items that are not blank.\<close>

fun split_comma :: "pystr \<Rightarrow> pystr list" where
  "split_comma [] = [[]]"
| "split_comma (c # s) =
     (if c = 44 then [] # split_comma s
      else (case split_comma s of [] \<Rightarrow> [[c]] | item # items \<Rightarrow> (c # item) # items))"

definition nonblank_items :: "pystr \<Rightarrow> pystr list" where
  "nonblank_items s = map strip (filter (\<lambda>item. strip item \<noteq> []) (split_comma s))"

text \<open>\<open>os.getenv\<close> is the argument \<open>getenv\<close>.\<close>

definition read_bool :: "(pystr \<Rightarrow> pystr option) \<Rightarrow> pystr \<Rightarrow> bool \<Rightarrow> bool result" where
  "read_bool getenv name fallback =
     (case getenv name of
        None \<Rightarrow> Inr fallback
      | Some raw \<Rightarrow>
          (let normalized = lower (strip raw) in
           if normalized \<in> set (map ustr [''1'', ''true'', ''yes'', ''on'']) then Inr True
           else if normalized \<in> set (map ustr [''0'', ''false'', ''no'', ''off'']) then Inr False
           else Inl ValueError))"

text \<open>
  \<open>int(text)\<close>: outside ASCII, white space counts as a blank and a decimal digit of any script
  as its value; \<open>decimal_digit\<close> is the table of the interpreter.
\<close>

definition ascii_text :: "(nat \<Rightarrow> nat option) \<Rightarrow> pystr \<Rightarrow> pystr" where
  "ascii_text decimal_digit s = map (\<lambda>c.
     if c < 127 then c else if is_space c then 32
     else (case decimal_digit c of Some d \<Rightarrow> 48 + d | None \<Rightarrow> 63)) s"

definition read_port :: "(nat \<Rightarrow> nat option) \<Rightarrow> (pystr \<Rightarrow> pystr option) \<Rightarrow> int \<Rightarrow> int result" where
  "read_port decimal_digit getenv fallback =
     (case int_literal (ascii_text decimal_digit
         (case getenv (ustr ''PORT'') of None \<Rightarrow> int_text fallback | Some t \<Rightarrow> t)) of
        None \<Rightarrow> Inl ValueError
      | Some p \<Rightarrow> if \<not> port_ok p then Inl ValueError else Inr p)"

definition read_mute_loggers :: "(pystr \<Rightarrow> pystr option) \<Rightarrow> pystr list" where
  "read_mute_loggers getenv =
     nonblank_items (case getenv (ustr ''MUTE_LOGGERS'') of None \<Rightarrow> [] | Some t \<Rightarrow> t)"

section \<open>Application (\<open>app.py\<close>)\<close>

record AppSettings =
  service_name :: pystr
  app_version :: pystr
  environment :: pystr
  app_host :: pystr
  app_port :: int
  dev_logs :: bool
  log_level :: pystr
  mute_loggers :: "pystr list"

definition non_blank :: "pystr \<Rightarrow> pystr result" where
  "non_blank value = (if strip value = [] then Inl ValidationError else Inr (strip value))"

definition environments :: "pystr list" where
  "environments = map ustr [''development'', ''test'', ''production'']"

definition AppSettings_new :: "settings_library \<Rightarrow> AppSettings result" where
  "AppSettings_new lib =
     rthen (non_blank (text_field lib [''SERVICE_NAME'', ''service_name''] (ustr ''andruha-user-profile-service''))) (\<lambda>name.
     rthen (parsed_field lib Some (\<lambda>t. t \<in> set environments)
       [''APP_ENVIRONMENT'', ''ENVIRONMENT'', ''environment''] (ustr ''development'')) (\<lambda>env.
     rthen (parsed_field lib (int_value lib) port_ok [''PORT'', ''port''] 8002) (\<lambda>port.
     rthen (parsed_field lib (bool_value lib) (\<lambda>_. True) [''DEV_LOGS'', ''dev_logs''] True) (\<lambda>dev.
     Inr \<lparr>service_name = name,
       app_version = text_field lib [''APP_VERSION'', ''VERSION'', ''version''] (ustr ''0.1.0''),
       environment = env,
       app_host = text_field lib [''HOST'', ''host''] (ustr ''0.0.0.0''),
       app_port = port, dev_logs = dev,
       log_level = upper (text_field lib [''LOG_LEVEL'', ''log_level''] (ustr ''INFO'')),
       mute_loggers =
         (case find_variable lib [''MUTE_LOGGERS'', ''mute_loggers''] of
            None \<Rightarrow> [ustr ''uvicorn.access''] | Some t \<Rightarrow> nonblank_items t)\<rparr>))))"

section \<open>Database (\<open>postgres.py\<close>)\<close>

record PostgresSettings =
  database_url :: "pystr option"
  pg_host :: "pystr option"
  pg_port :: int
  pg_user :: "pystr option"
  pg_password :: "pystr option"
  pg_db :: "pystr option"
  database_pool_size :: int
  database_max_overflow :: int
  database_pool_timeout :: int
  database_command_timeout :: int

definition truthy_text :: "pystr option \<Rightarrow> bool" where
  "truthy_text t \<longleftrightarrow> t \<noteq> None \<and> t \<noteq> Some []"

definition asyncpg :: pystr where
  "asyncpg = ustr ''postgresql+asyncpg''"

definition component_url :: "PostgresSettings \<Rightarrow> url" where
  "component_url s = \<lparr>drivername = asyncpg, url_username = pg_user s, url_password = pg_password s,
     url_host = pg_host s, url_port = Some (pg_port s), url_database = pg_db s\<rparr>"

definition validate_or_build_url :: "settings_library \<Rightarrow> PostgresSettings \<Rightarrow> PostgresSettings result" where
  "validate_or_build_url lib self =
     (case database_url self of
        Some raw_url \<Rightarrow>
          (case make_url lib raw_url of
             None \<Rightarrow> Inl ValidationError
           | Some parsed \<Rightarrow>
               if drivername parsed \<noteq> asyncpg \<or> \<not> truthy_text (url_database parsed) then Inl ValidationError
               else Inr self)
      | None \<Rightarrow>
          if truthy_text (pg_host self) \<and> truthy_text (pg_user self) \<and> pg_password self \<noteq> None
             \<and> truthy_text (pg_db self)
          then (case render_as_string lib (component_url self) of
              None \<Rightarrow> Inl ValidationError
            | Some t \<Rightarrow> Inr (self\<lparr>database_url := Some t\<rparr>))
          else Inl ValidationError)"

definition PostgresSettings_fields :: "settings_library \<Rightarrow> PostgresSettings result" where
  "PostgresSettings_fields lib =
     rthen (parsed_field lib (int_value lib) port_ok [''PROFILE_POSTGRES_PORT'', ''POSTGRES_PORT'',
       ''PROFILE_DATABASE_PORT'', ''DATABASE_PORT'', ''port''] 5432) (\<lambda>port.
     rthen (parsed_field lib (int_value lib) (\<lambda>n. 1 \<le> n \<and> n \<le> 100) [''PROFILE_DATABASE_POOL_SIZE'',
       ''DATABASE_POOL_SIZE'', ''database_pool_size'', ''pool_size''] 5) (\<lambda>size.
     rthen (parsed_field lib (int_value lib) (\<lambda>n. 0 \<le> n \<and> n \<le> 100) [''PROFILE_DATABASE_MAX_OVERFLOW'',
       ''DATABASE_MAX_OVERFLOW'', ''database_max_overflow'', ''max_overflow''] 5) (\<lambda>overflow.
     rthen (parsed_field lib (float_value lib) (\<lambda>f. 0 < f) [''PROFILE_DATABASE_POOL_TIMEOUT'',
       ''DATABASE_POOL_TIMEOUT'', ''database_pool_timeout'', ''pool_timeout''] (5 * 2 ^ 1074)) (\<lambda>pool_timeout.
     rthen (parsed_field lib (float_value lib) (\<lambda>f. 0 < f) [''PROFILE_DATABASE_COMMAND_TIMEOUT'',
       ''DATABASE_COMMAND_TIMEOUT'', ''database_command_timeout'', ''command_timeout''] (10 * 2 ^ 1074)) (\<lambda>command_timeout.
     Inr \<lparr>database_url = find_variable lib [''PROFILE_DATABASE_URL'', ''DATABASE_URL'', ''database_url''],
       pg_host = find_variable lib [''PROFILE_POSTGRES_HOST'', ''POSTGRES_HOST'', ''PROFILE_DATABASE_HOST'',
         ''DATABASE_HOST'', ''host''],
       pg_port = port,
       pg_user = find_variable lib [''PROFILE_POSTGRES_USER'', ''POSTGRES_USER'', ''PROFILE_DATABASE_USER'',
         ''DATABASE_USER'', ''user''],
       pg_password = find_variable lib [''PROFILE_POSTGRES_PASSWORD'', ''POSTGRES_PASSWORD'',
         ''PROFILE_DATABASE_PASSWORD'', ''DATABASE_PASSWORD'', ''password''],
       pg_db = find_variable lib [''PROFILE_POSTGRES_DB'', ''POSTGRES_DB'', ''PROFILE_DATABASE_NAME'',
         ''DATABASE_NAME'', ''db'', ''name''],
       database_pool_size = size, database_max_overflow = overflow,
       database_pool_timeout = pool_timeout, database_command_timeout = command_timeout\<rparr>)))))"

definition PostgresSettings_new :: "settings_library \<Rightarrow> PostgresSettings result" where
  "PostgresSettings_new lib = rthen (PostgresSettings_fields lib) (validate_or_build_url lib)"

text \<open>The property \<open>url\<close> asserts that there is one.\<close>

definition postgres_url :: "PostgresSettings \<Rightarrow> pystr result" where
  "postgres_url self = (case database_url self of None \<Rightarrow> Inl AssertionError | Some t \<Rightarrow> Inr t)"

section \<open>Redis (\<open>redis.py\<close>)\<close>

record RedisSettings =
  redis_url :: "pystr option"
  redis_host :: "pystr option"
  redis_port :: int
  redis_db :: int
  redis_key_namespace :: pystr
  max_connections :: int
  socket_timeout :: int
  socket_connect_timeout :: int
  health_check_interval :: int

definition redis_component_url :: "pystr \<Rightarrow> int \<Rightarrow> int \<Rightarrow> pystr" where
  "redis_component_url host port db =
     ustr ''redis://'' @ host @ 58 # int_text port @ 47 # int_text db"

definition redis_validate_or_build_url :: "RedisSettings \<Rightarrow> RedisSettings result" where
  "redis_validate_or_build_url self =
     (if redis_url self \<noteq> None then Inr self
      else (case redis_host self of
          Some (c # cs) \<Rightarrow> Inr (self\<lparr>redis_url :=
            Some (redis_component_url (c # cs) (redis_port self) (redis_db self))\<rparr>)
        | _ \<Rightarrow> Inl ValidationError))"

definition RedisSettings_fields :: "settings_library \<Rightarrow> RedisSettings result" where
  "RedisSettings_fields lib =
     rthen (parsed_field lib (int_value lib) port_ok [''PROFILE_REDIS_PORT'', ''PROFILE_VALKEY_PORT'',
       ''REDIS_PORT'', ''VALKEY_PORT'', ''port''] 6379) (\<lambda>port.
     rthen (parsed_field lib (int_value lib) (\<lambda>n. 0 \<le> n) [''PROFILE_REDIS_DB'', ''PROFILE_VALKEY_DB'',
       ''REDIS_DB'', ''VALKEY_DB'', ''db''] 0) (\<lambda>db.
     rthen (parsed_field lib (int_value lib) (\<lambda>n. 0 < n) [''max_connections''] 10) (\<lambda>connections.
     rthen (parsed_field lib (float_value lib) (\<lambda>f. 0 < f) [''socket_timeout''] (2 * 2 ^ 1074)) (\<lambda>timeout.
     rthen (parsed_field lib (float_value lib) (\<lambda>f. 0 < f) [''socket_connect_timeout''] (2 * 2 ^ 1074)) (\<lambda>connect.
     rthen (parsed_field lib (int_value lib) (\<lambda>n. 0 \<le> n) [''health_check_interval''] 30) (\<lambda>health.
     Inr \<lparr>redis_url = find_variable lib [''PROFILE_REDIS_URL'', ''PROFILE_VALKEY_URL'',
         ''TEST_IDEMPOTENCY_REDIS_URL'', ''REDIS_URL'', ''VALKEY_URL'', ''url''],
       redis_host = find_variable lib [''PROFILE_REDIS_HOST'', ''PROFILE_VALKEY_HOST'', ''REDIS_HOST'',
         ''VALKEY_HOST'', ''host''],
       redis_port = port, redis_db = db,
       redis_key_namespace = text_field lib [''PROFILE_REDIS_KEY_NAMESPACE'', ''KEY_NAMESPACE'', ''key_namespace'']
         (ustr ''andruha-user-profile-service:idempotency:v2''),
       max_connections = connections, socket_timeout = timeout, socket_connect_timeout = connect,
       health_check_interval = health\<rparr>))))))"

definition RedisSettings_new :: "settings_library \<Rightarrow> RedisSettings result" where
  "RedisSettings_new lib = rthen (RedisSettings_fields lib) redis_validate_or_build_url"

section \<open>Idempotency, tokens and the internal interface\<close>

record IdempotencySettings =
  idem_lease_seconds :: int
  idem_result_ttl_seconds :: int
  cb_failures :: int
  cb_recovery_seconds :: int

definition IdempotencySettings_new :: "settings_library \<Rightarrow> IdempotencySettings result" where
  "IdempotencySettings_new lib =
     rthen (parsed_field lib (int_value lib) (\<lambda>n. 0 < n) [''PROFILE_IDEMPOTENCY_LEASE_SECONDS'',
       ''IDEMPOTENCY_LEASE_SECONDS'', ''lease_seconds''] 30) (\<lambda>lease.
     rthen (parsed_field lib (int_value lib) (\<lambda>n. 0 < n) [''PROFILE_IDEMPOTENCY_RESULT_TTL_SECONDS'',
       ''IDEMPOTENCY_RESULT_TTL_SECONDS'', ''result_ttl_seconds''] 86400) (\<lambda>ttl.
     rthen (parsed_field lib (int_value lib) (\<lambda>n. 0 < n) [''PROFILE_IDEMPOTENCY_CB_FAILURES'',
       ''IDEMPOTENCY_CB_FAILURES'', ''cb_failures''] 3) (\<lambda>failures.
     rthen (parsed_field lib (float_value lib) (\<lambda>f. 0 < f) [''PROFILE_IDEMPOTENCY_CB_RECOVERY_SECONDS'',
       ''IDEMPOTENCY_CB_RECOVERY_SECONDS'', ''cb_recovery_seconds''] (10 * 2 ^ 1074)) (\<lambda>recovery.
     Inr \<lparr>idem_lease_seconds = lease, idem_result_ttl_seconds = ttl, cb_failures = failures,
       cb_recovery_seconds = recovery\<rparr>))))"

record JWTSettings =
  public_keys :: "(pystr \<times> pystr) list"
  issuer :: pystr
  audience :: pystr
  clock_skew_seconds :: int

definition trusted_key_id :: "settings_library \<Rightarrow> pystr \<Rightarrow> bool" where
  "trusted_key_id lib k \<longleftrightarrow> 1 \<le> length k \<and> matches_non_space lib k"

definition stripped_field :: "settings_library \<Rightarrow> string list \<Rightarrow> pystr \<Rightarrow> pystr result" where
  "stripped_field lib names fallback =
     parsed_field lib (\<lambda>t. Some (strip_whitespace lib t)) (\<lambda>t. 1 \<le> length t) names fallback"

text \<open>
  A field that is no plain text is decoded before any field of its class is validated; what the
  decoding raises, a \<open>SettingsError\<close>, is no \<open>ValidationError\<close>.
\<close>

definition decoded_key_ring :: "settings_library \<Rightarrow> (pystr \<times> pystr) list option result" where
  "decoded_key_ring lib =
     (case find_variable lib [''JWT_PUBLIC_KEYS''] of None \<Rightarrow> Inr (Some []) | Some t \<Rightarrow> key_ring_value lib t)"

definition trusted_key_ring ::
  "settings_library \<Rightarrow> (pystr \<times> pystr) list option \<Rightarrow> (pystr \<times> pystr) list result" where
  "trusted_key_ring lib ring =
     (case ring of
        None \<Rightarrow> Inl ValidationError
      | Some r \<Rightarrow> if list_all (\<lambda>kv. trusted_key_id lib (fst kv)) r then Inr r else Inl ValidationError)"

definition JWTSettings_new :: "settings_library \<Rightarrow> JWTSettings result" where
  "JWTSettings_new lib =
     rthen (decoded_key_ring lib) (\<lambda>decoded.
     rthen (trusted_key_ring lib decoded) (\<lambda>ring.
     rthen (stripped_field lib [''JWT_ISSUER''] (ustr ''andruha-identity-service'')) (\<lambda>iss.
     rthen (stripped_field lib [''JWT_AUDIENCE''] (ustr ''andruha-user-profile-service'')) (\<lambda>aud.
     rthen (parsed_field lib (int_value lib) (\<lambda>n. 0 \<le> n) [''JWT_CLOCK_SKEW_SECONDS''] 30) (\<lambda>skew.
     Inr \<lparr>public_keys = ring, issuer = iss, audience = aud, clock_skew_seconds = skew\<rparr>)))))"

record InternalAPISettings =
  api_token :: "pystr option"

definition InternalAPISettings_new :: "settings_library \<Rightarrow> InternalAPISettings" where
  "InternalAPISettings_new lib = \<lparr>api_token = find_variable lib [''INTERNAL_API_TOKEN'']\<rparr>"

section \<open>All settings (\<open>__init__.py\<close>)\<close>

record Settings =
  app_settings :: AppSettings
  postgres_settings :: PostgresSettings
  redis_settings :: RedisSettings
  idempotency_settings :: IdempotencySettings
  jwt_settings :: JWTSettings
  internal_api_settings :: InternalAPISettings

definition Settings_new :: "settings_library \<Rightarrow> Settings result" where
  "Settings_new lib =
     rthen (AppSettings_new lib) (\<lambda>a.
     rthen (PostgresSettings_new lib) (\<lambda>p.
     rthen (RedisSettings_new lib) (\<lambda>r.
     rthen (IdempotencySettings_new lib) (\<lambda>i.
     rthen (JWTSettings_new lib) (\<lambda>j.
     Inr \<lparr>app_settings = a, postgres_settings = p, redis_settings = r, idempotency_settings = i,
       jwt_settings = j, internal_api_settings = InternalAPISettings_new lib\<rparr>)))))"

text \<open>\<open>lru_cache(maxsize=1)\<close>: the state is what the cache holds; a raise is not cached.\<close>

definition get_settings :: "settings_library \<Rightarrow> (Settings option, exn, Settings) proc" where
  "get_settings lib cache =
     (case cache of
        Some s \<Rightarrow> (Inr s, cache)
      | None \<Rightarrow> (case Settings_new lib of Inl e \<Rightarrow> (Inl e, None) | Inr s \<Rightarrow> (Inr s, Some s)))"

section \<open>What validated settings are\<close>

text \<open>A text that the database driver takes for a URL of its own with a database in it.\<close>

definition usable_url :: "settings_library \<Rightarrow> pystr \<Rightarrow> bool" where
  "usable_url lib t \<longleftrightarrow>
     (\<exists>u. make_url lib t = Some u \<and> drivername u = asyncpg \<and> truthy_text (url_database u))"

text \<open>
  The URL of the database is a given one that the driver takes, or one made of a host, a user, a
  password and a database.
\<close>

definition database_url_ok :: "settings_library \<Rightarrow> PostgresSettings \<Rightarrow> pystr \<Rightarrow> bool" where
  "database_url_ok lib p t \<longleftrightarrow> usable_url lib t
     \<or> truthy_text (pg_host p) \<and> truthy_text (pg_user p) \<and> pg_password p \<noteq> None \<and> truthy_text (pg_db p)
       \<and> render_as_string lib (component_url p) = Some t"

definition usable_settings :: "settings_library \<Rightarrow> Settings \<Rightarrow> bool" where
  "usable_settings lib s \<longleftrightarrow>
     (let a = app_settings s; p = postgres_settings s; r = redis_settings s;
          i = idempotency_settings s; j = jwt_settings s in
      strip (service_name a) \<noteq> [] \<and> environment a \<in> set environments \<and> port_ok (app_port a)
      \<and> (\<exists>t. postgres_url p = Inr t \<and> database_url_ok lib p t) \<and> port_ok (pg_port p)
      \<and> 1 \<le> database_pool_size p \<and> database_pool_size p \<le> 100
      \<and> 0 \<le> database_max_overflow p \<and> database_max_overflow p \<le> 100
      \<and> 0 < database_pool_timeout p \<and> 0 < database_command_timeout p
      \<and> redis_url r \<noteq> None \<and> port_ok (redis_port r) \<and> 0 \<le> redis_db r \<and> 0 < max_connections r
      \<and> 0 < idem_lease_seconds i \<and> 0 < idem_result_ttl_seconds i \<and> 0 < cb_failures i \<and> 0 < cb_recovery_seconds i
      \<and> list_all (\<lambda>kv. fst kv \<noteq> []) (public_keys j) \<and> issuer j \<noteq> [] \<and> audience j \<noteq> []
      \<and> 0 \<le> clock_skew_seconds j)"

lemma non_blank_cases:
  "non_blank t = Inr v \<Longrightarrow> strip v \<noteq> []" "non_blank t = Inl e \<Longrightarrow> e = ValidationError"
  by (auto simp: non_blank_def strip_stripped stripped_strip split: if_splits)

lemma AppSettings_sound:
  "AppSettings_new lib = Inr a \<Longrightarrow>
     strip (service_name a) \<noteq> [] \<and> environment a \<in> set environments \<and> port_ok (app_port a)"
  by (auto simp: AppSettings_new_def non_blank_cases port_ok_def environments_def
      dest: parsed_field_sound non_blank_cases)

lemma AppSettings_fails: "AppSettings_new lib = Inl e \<Longrightarrow> e = ValidationError"
  by (auto simp: AppSettings_new_def rthen_eq_Inl dest: parsed_field_fails non_blank_cases)

lemma PostgresSettings_fields_sound:
  "PostgresSettings_fields lib = Inr p \<Longrightarrow> port_ok (pg_port p)
     \<and> 1 \<le> database_pool_size p \<and> database_pool_size p \<le> 100
     \<and> 0 \<le> database_max_overflow p \<and> database_max_overflow p \<le> 100
     \<and> 0 < database_pool_timeout p \<and> 0 < database_command_timeout p"
  by (auto simp: PostgresSettings_fields_def port_ok_def dest: parsed_field_sound)

lemma PostgresSettings_fails: "PostgresSettings_new lib = Inl e \<Longrightarrow> e = ValidationError"
  by (auto simp: PostgresSettings_new_def PostgresSettings_fields_def validate_or_build_url_def rthen_eq_Inl
      dest: parsed_field_fails split: option.splits if_splits)

text \<open>A URL that is given is kept; otherwise the components make one.\<close>

lemma validate_or_build_url_ok:
  "validate_or_build_url lib p = Inr q \<Longrightarrow>
     (\<exists>t. postgres_url q = Inr t \<and> database_url_ok lib q t) \<and> (\<exists>t. q = p\<lparr>database_url := t\<rparr>)"
  by (cases p) (auto simp: validate_or_build_url_def usable_url_def database_url_ok_def postgres_url_def
      component_url_def split: option.splits if_splits)

lemma PostgresSettings_sound:
  assumes "PostgresSettings_new lib = Inr p"
  shows "(\<exists>t. postgres_url p = Inr t \<and> database_url_ok lib p t) \<and> port_ok (pg_port p)
     \<and> 1 \<le> database_pool_size p \<and> database_pool_size p \<le> 100
     \<and> 0 \<le> database_max_overflow p \<and> database_max_overflow p \<le> 100
     \<and> 0 < database_pool_timeout p \<and> 0 < database_command_timeout p"
proof -
  from assms obtain q where q: "PostgresSettings_fields lib = Inr q" "validate_or_build_url lib q = Inr p"
    by (auto simp: PostgresSettings_new_def)
  from validate_or_build_url_ok [OF q(2)] PostgresSettings_fields_sound [OF q(1)] show ?thesis by auto
qed

text \<open>
  Components that need no escaping in a URL, but for the user and the password, which are
  percent-encoded.
\<close>

definition plain_text :: "pystr \<Rightarrow> bool" where
  "plain_text t \<longleftrightarrow> t \<noteq> [] \<and> list_all (\<lambda>c. 65 \<le> c \<and> c \<le> 90 \<or> 97 \<le> c \<and> c \<le> 122 \<or> 48 \<le> c \<and> c \<le> 57
     \<or> c \<in> {45, 46, 95}) t"

definition plain_components :: "url \<Rightarrow> bool" where
  "plain_components u \<longleftrightarrow> drivername u = asyncpg
     \<and> truthy_text (url_username u) \<and> url_password u \<noteq> None
     \<and> (\<exists>host. url_host u = Some host \<and> plain_text host)
     \<and> (\<exists>port. url_port u = Some port \<and> port_ok port)
     \<and> (\<exists>db. url_database u = Some db \<and> plain_text db)"

lemma database_url_usable:
  assumes "\<And>u t. plain_components u \<Longrightarrow> render_as_string lib u = Some t \<Longrightarrow> make_url lib t = Some u"
    and "database_url_ok lib p t" "plain_components (component_url p)"
  shows "usable_url lib t"
  using assms(1) [OF assms(3)] assms(2) by (auto simp: database_url_ok_def usable_url_def component_url_def)

lemma redis_validate_or_build_url_cases:
  "redis_validate_or_build_url r = Inr q \<Longrightarrow> redis_url q \<noteq> None \<and> (\<exists>t. q = r\<lparr>redis_url := t\<rparr>)"
  "redis_validate_or_build_url r = Inl e \<Longrightarrow> e = ValidationError"
proof -
  assume "redis_validate_or_build_url r = Inr q"
  then show "redis_url q \<noteq> None \<and> (\<exists>t. q = r\<lparr>redis_url := t\<rparr>)"
    by (cases r) (auto simp: redis_validate_or_build_url_def split: if_splits option.splits list.splits)
qed (simp add: redis_validate_or_build_url_def split: if_splits option.splits list.splits)

lemma RedisSettings_fields_sound:
  "RedisSettings_fields lib = Inr r \<Longrightarrow> port_ok (redis_port r) \<and> 0 \<le> redis_db r \<and> 0 < max_connections r"
  by (auto simp: RedisSettings_fields_def port_ok_def dest: parsed_field_sound)

lemma RedisSettings_fields_fails: "RedisSettings_fields lib = Inl e \<Longrightarrow> e = ValidationError"
  by (auto simp: RedisSettings_fields_def rthen_eq_Inl dest: parsed_field_fails)

lemma RedisSettings_sound:
  assumes "RedisSettings_new lib = Inr r"
  shows "redis_url r \<noteq> None \<and> port_ok (redis_port r) \<and> 0 \<le> redis_db r \<and> 0 < max_connections r"
proof -
  from assms obtain q where "RedisSettings_fields lib = Inr q" "redis_validate_or_build_url q = Inr r"
    by (auto simp: RedisSettings_new_def)
  with RedisSettings_fields_sound redis_validate_or_build_url_cases(1) show ?thesis by fastforce
qed

lemma RedisSettings_fails: "RedisSettings_new lib = Inl e \<Longrightarrow> e = ValidationError"
  using RedisSettings_fields_fails redis_validate_or_build_url_cases(2)
  by (fastforce simp: RedisSettings_new_def rthen_eq_Inl)

lemma IdempotencySettings_sound:
  "IdempotencySettings_new lib = Inr i \<Longrightarrow>
     0 < idem_lease_seconds i \<and> 0 < idem_result_ttl_seconds i \<and> 0 < cb_failures i \<and> 0 < cb_recovery_seconds i"
  by (auto simp: IdempotencySettings_new_def dest: parsed_field_sound)

lemma IdempotencySettings_fails: "IdempotencySettings_new lib = Inl e \<Longrightarrow> e = ValidationError"
  by (auto simp: IdempotencySettings_new_def rthen_eq_Inl dest: parsed_field_fails)

lemma stripped_field_sound: "stripped_field lib names fallback = Inr t \<Longrightarrow> fallback \<noteq> [] \<Longrightarrow> t \<noteq> []"
  by (cases t; cases fallback) (auto simp: stripped_field_def dest: parsed_field_sound)

lemma trusted_key_ring_cases:
  "trusted_key_ring lib ring = Inr r \<Longrightarrow> list_all (\<lambda>kv. fst kv \<noteq> []) r"
  "trusted_key_ring lib ring = Inl e \<Longrightarrow> e = ValidationError"
  by (auto simp: trusted_key_ring_def trusted_key_id_def list_all_iff split: option.splits if_splits)

lemma JWTSettings_sound:
  assumes "JWTSettings_new lib = Inr j"
  shows "list_all (\<lambda>kv. fst kv \<noteq> []) (public_keys j) \<and> issuer j \<noteq> [] \<and> audience j \<noteq> [] \<and> 0 \<le> clock_skew_seconds j"
proof -
  from assms obtain ring where "trusted_key_ring lib ring = Inr (public_keys j)"
    "stripped_field lib [''JWT_ISSUER''] (ustr ''andruha-identity-service'') = Inr (issuer j)"
    "stripped_field lib [''JWT_AUDIENCE''] (ustr ''andruha-user-profile-service'') = Inr (audience j)"
    "parsed_field lib (int_value lib) (\<lambda>n. 0 \<le> n) [''JWT_CLOCK_SKEW_SECONDS''] 30 = Inr (clock_skew_seconds j)"
    by (auto simp: JWTSettings_new_def)
  then show ?thesis by (auto dest: parsed_field_sound stripped_field_sound trusted_key_ring_cases)
qed

text \<open>A set of key-ring variable that is no JSON.\<close>

definition undecodable_key_ring :: "settings_library \<Rightarrow> exn \<Rightarrow> bool" where
  "undecodable_key_ring lib e \<longleftrightarrow>
     (\<exists>t. find_variable lib [''JWT_PUBLIC_KEYS''] = Some t \<and> key_ring_value lib t = Inl e)"

lemma JWTSettings_fails: "JWTSettings_new lib = Inl e \<Longrightarrow> e = ValidationError \<or> undecodable_key_ring lib e"
  by (auto simp: JWTSettings_new_def decoded_key_ring_def undecodable_key_ring_def stripped_field_def rthen_eq_Inl
      dest: parsed_field_fails trusted_key_ring_cases split: option.splits)

lemmas settings_fail =
  AppSettings_fails PostgresSettings_fails RedisSettings_fails IdempotencySettings_fails JWTSettings_fails

lemma settings_validated:
  "case Settings_new lib of Inl e \<Rightarrow> e = ValidationError \<or> undecodable_key_ring lib e | Inr s \<Rightarrow> usable_settings lib s"
proof (cases "Settings_new lib")
  case (Inl e)
  then show ?thesis by (auto simp: Settings_new_def rthen_eq_Inl dest: settings_fail)
next
  case (Inr s)
  then have "AppSettings_new lib = Inr (app_settings s)" "PostgresSettings_new lib = Inr (postgres_settings s)"
    "RedisSettings_new lib = Inr (redis_settings s)" "IdempotencySettings_new lib = Inr (idempotency_settings s)"
    "JWTSettings_new lib = Inr (jwt_settings s)"
    by (auto simp: Settings_new_def)
  from this(1,3-5) PostgresSettings_sound [OF this(2)] Inr show ?thesis
    by (auto simp: usable_settings_def Let_def
        dest!: AppSettings_sound RedisSettings_sound IdempotencySettings_sound JWTSettings_sound)
qed

text \<open>
  C39. Settings that load are usable, whatever variables have been read: every number is within
  its bounds, and the URL of the database is a given one that the driver accepts with an explicit
  database, or assembled from a host, a user, a password and a database. An assembled URL is
  not read again; when its host and database need no escaping, the driver accepts it too, with
  this very database. Variables that do not allow this are refused: with a
  \<open>ValidationError\<close>, or, when the key ring is no JSON, with what its decoding raises. The URL library
  is asked to read back what it renders from such components.
\<close>

theorem settings_are_usable:
  assumes "\<And>u t. plain_components u \<Longrightarrow> render_as_string lib u = Some t \<Longrightarrow> make_url lib t = Some u"
  shows "case Settings_new lib of
      Inl e \<Rightarrow> e = ValidationError \<or> undecodable_key_ring lib e
    | Inr s \<Rightarrow> usable_settings lib s
        \<and> (plain_components (component_url (postgres_settings s)) \<longrightarrow>
             (\<exists>t. postgres_url (postgres_settings s) = Inr t \<and> usable_url lib t))"
proof (cases "Settings_new lib")
  case (Inr s)
  with settings_validated [of lib] have usable: "usable_settings lib s" by simp
  then obtain t where "postgres_url (postgres_settings s) = Inr t" "database_url_ok lib (postgres_settings s) t"
    by (auto simp: usable_settings_def Let_def)
  with database_url_usable [OF assms] usable Inr show ?thesis by auto
qed (use settings_validated [of lib] in simp)

text \<open>The settings do not change while the process lives, whatever happens to the environment.\<close>

lemma get_settings_stable:
  "get_settings lib cache = (Inr s, cache') \<Longrightarrow> get_settings lib' cache' = (Inr s, cache')"
  by (auto simp: get_settings_def split: option.splits sum.splits)

text \<open>The port that \<open>PORT\<close> names is a port; without it, the default is read back from its text.\<close>

lemma read_port_ok: "read_port digit getenv d = Inr p \<Longrightarrow> port_ok p"
  by (auto simp: read_port_def split: option.splits if_splits)

section \<open>A concrete environment\<close>

text \<open>
  A list of variables, read without regard to case, and URLs rendered as the lengths and texts
  of their parts.
\<close>

definition put_text :: "pystr \<Rightarrow> pystr" where
  "put_text t = length t # t"

definition get_text :: "pystr \<Rightarrow> pystr \<times> pystr" where
  "get_text s = (take (hd s) (tl s), drop (hd s) (tl s))"

lemma get_put_text [simp]: "get_text (put_text t @ s) = (t, s)"
  by (simp add: put_text_def get_text_def)

definition put_opt :: "pystr option \<Rightarrow> pystr" where
  "put_opt t = put_text (case t of None \<Rightarrow> [] | Some x \<Rightarrow> 1 # x)"

definition get_opt :: "pystr \<Rightarrow> pystr option \<times> pystr" where
  "get_opt s = (let (t, rest) = get_text s in (if t = [] then None else Some (tl t), rest))"

lemma get_put_opt [simp]: "get_opt (put_opt t @ s) = (t, s)"
  by (cases t) (simp_all add: put_opt_def get_opt_def)

lemma get_put_opt_end [simp]: "get_opt (put_opt t) = (t, [])"
  using get_put_opt [of t "[]"] by simp

definition plain_render :: "url \<Rightarrow> pystr" where
  "plain_render u = put_text (drivername u) @ put_opt (url_username u) @ put_opt (url_password u)
     @ put_opt (url_host u)
     @ put_opt (map_option (\<lambda>i. [if i < 0 then 1 else 0, nat \<bar>i\<bar>]) (url_port u)) @ put_opt (url_database u) @ []"

definition plain_url :: "pystr \<Rightarrow> url option" where
  "plain_url s =
     (let (driver, s) = get_text s; (user, s) = get_opt s; (password, s) = get_opt s; (host, s) = get_opt s;
          (port, s) = get_opt s; (db, s) = get_opt s in
      Some \<lparr>drivername = driver, url_username = user, url_password = password, url_host = host,
        url_port = map_option (\<lambda>t. (if t ! 0 = 1 then - 1 else 1) * int (t ! 1)) port, url_database = db\<rparr>)"

lemma plain_url_render: "plain_url (plain_render u) = Some u"
  by (cases u; cases "url_port u") (auto simp: plain_url_def plain_render_def)

definition environ_library :: "(pystr \<times> pystr) list \<Rightarrow> settings_library" where
  "environ_library environ = \<lparr>
     find_variable = (\<lambda>names.
       (case filter (\<lambda>v. v \<noteq> None) (map (\<lambda>n. map_of (map (\<lambda>(k, v). (lower k, v)) environ) (lower (ustr n))) names) of
          [] \<Rightarrow> None | v # _ \<Rightarrow> v)),
     int_value = int_literal,
     float_value = (\<lambda>t. map_option (\<lambda>i. i * 2 ^ 1074) (int_literal t)),
     bool_value = map_of [(ustr ''true'', True), (ustr ''false'', False)],
     key_ring_value = (\<lambda>t. if t = ustr ''{}'' then Inr (Some []) else Inl SettingsError),
     matches_non_space = list_all (\<lambda>c. \<not> is_space c),
     strip_whitespace = strip,
     make_url = plain_url, render_as_string = (\<lambda>u. Some (plain_render u))\<rparr>"

definition sample_environ :: "(pystr \<times> pystr) list" where
  "sample_environ = map (\<lambda>(k, v). (ustr k, ustr v))
     [(''PORT'', ''8002''), (''POSTGRES_HOST'', ''db''), (''POSTGRES_USER'', ''app''),
      (''POSTGRES_PASSWORD'', ''pw''), (''POSTGRES_DB'', ''profiles''), (''REDIS_HOST'', ''hot'')]"

lemmas environ_simps = environ_library_def sample_environ_def lower_def lower_char_def text_field_def
  parsed_field_def int_literal_def ascii_space_def is_digit_def port_ok_def

lemma sample_app: "\<exists>a. AppSettings_new (environ_library sample_environ) = Inr a \<and> app_port a = 8002
    \<and> log_level a = ustr ''INFO''"
  by (simp add: AppSettings_new_def non_blank_def upper_def upper_char_def strip_def is_space_def environments_def environ_simps)

text \<open>
  The variable \<open>PORT\<close>, which is meant for the port of the service, is also the last name under
  which the settings of PostgreSQL and of Redis look for theirs.
\<close>

lemma sample_postgres:
  "\<exists>p. PostgresSettings_new (environ_library sample_environ) = Inr p \<and> pg_port p = 8002
    \<and> plain_components (component_url p)"
  by (simp add: PostgresSettings_new_def PostgresSettings_fields_def validate_or_build_url_def truthy_text_def
      plain_components_def component_url_def plain_text_def environ_simps)

lemma sample_redis:
  "\<exists>r. RedisSettings_new (environ_library sample_environ) = Inr r \<and> redis_url r = Some (ustr ''redis://hot:8002/0'')
    \<and> redis_key_namespace r \<noteq> []"
  by (simp add: RedisSettings_new_def RedisSettings_fields_def redis_validate_or_build_url_def
      redis_component_url_def int_text_def nat_digits.simps environ_simps)

lemma sample_rest:
  "\<exists>i. IdempotencySettings_new (environ_library sample_environ) = Inr i \<and> idem_result_ttl_seconds i = 86400"
  "\<exists>j. JWTSettings_new (environ_library sample_environ) = Inr j \<and> public_keys j = []"
  by (simp_all add: IdempotencySettings_new_def JWTSettings_new_def decoded_key_ring_def trusted_key_ring_def stripped_field_def environ_simps)

lemma sample_settings: "\<exists>s. Settings_new (environ_library sample_environ) = Inr s
    \<and> log_level (app_settings s) = ustr ''INFO'' \<and> redis_key_namespace (redis_settings s) \<noteq> []
    \<and> pg_port (postgres_settings s) = 8002 \<and> plain_components (component_url (postgres_settings s)) \<and> idem_result_ttl_seconds (idempotency_settings s) = 86400
    \<and> public_keys (jwt_settings s) = []"
  using sample_app sample_postgres sample_redis sample_rest by (auto simp: Settings_new_def)

theorem settings_are_usable_witness:
  "\<exists>s t. Settings_new (environ_library sample_environ) = Inr s \<and> usable_settings (environ_library sample_environ) s
    \<and> postgres_url (postgres_settings s) = Inr t \<and> usable_url (environ_library sample_environ) t"
proof -
  have law: "make_url (environ_library sample_environ) t = Some u"
    if "render_as_string (environ_library sample_environ) u = Some t" for u t
    using that by (auto simp: environ_library_def plain_url_render)
  from sample_settings obtain s where s: "Settings_new (environ_library sample_environ) = Inr s"
    "plain_components (component_url (postgres_settings s))" by auto
  with settings_are_usable [OF law] show ?thesis by force
qed

end
