(* ===== verification/Access_Tokens.thy ===== *)
theory Access_Tokens
  imports Configuration Http
begin

text \<open>
  The verification of access tokens (\<open>src/src/app/entrypoints/http/security/verifier.py\<close>): the key
  ring that is loaded once, what a token must say about itself before one of its keys is used,
  and the claims. Signatures, expiry and the reading of keys are PyJWT and cryptography, which
  are the operations of a \<open>jwt_library\<close>; conversions of claims are pydantic's.
\<close>

section \<open>Libraries\<close>

datatype token_error =
    PyJWTError
  | OverflowError
  | InvalidAccessTokenError
  | OtherError exn

type_synonym 'a token_result = "token_error + 'a"

text \<open>
  A public key by what the code asks of it; \<open>'k\<close> is the key of the library. A claim that is an
  instant is a float, counted in the smallest positive float. \<open>jwt_decode\<close> is given the token, the
  key, the accepted algorithms, the issuer, the audience, the leeway and the required claims.
\<close>

record 'k jwt_library =
  read_bytes :: "pystr \<Rightarrow> bytes token_result"
  load_pem_public_key :: "bytes \<Rightarrow> 'k token_result"
  is_rsa_public_key :: "'k \<Rightarrow> bool"
  key_size :: "'k \<Rightarrow> int"
  get_unverified_header :: "pystr \<Rightarrow> (pystr \<times> pyobj) list token_result"
  jwt_decode :: "pystr \<Rightarrow> 'k \<Rightarrow> pystr list \<Rightarrow> pystr \<Rightarrow> pystr \<Rightarrow> int \<Rightarrow> pystr list \<Rightarrow> (pystr \<times> pyobj) list token_result"
  uuid_claim :: "pyobj \<Rightarrow> uuid option"
  numeric_date :: "pyobj \<Rightarrow> int option"

section \<open>Claims\<close>

datatype role = USER | ADMIN

record AccessTokenClaims =
  sub :: uuid
  jti :: uuid
  claim_role :: role
  iat :: int
  exp_at :: int

definition role_claim :: "pyobj \<Rightarrow> role option" where
  "role_claim v =
     (if v = PyStr (ustr ''USER'') then Some USER else if v = PyStr (ustr ''ADMIN'') then Some ADMIN else None)"

definition required_claim :: "(pystr \<times> pyobj) list \<Rightarrow> string \<Rightarrow> (pyobj \<Rightarrow> 'a option) \<Rightarrow> 'a result" where
  "required_claim payload name convert =
     (case map_of payload (ustr name) of
        None \<Rightarrow> Inl ValidationError
      | Some v \<Rightarrow> (case convert v of None \<Rightarrow> Inl ValidationError | Some x \<Rightarrow> Inr x))"

definition validate_lifetime :: "AccessTokenClaims \<Rightarrow> AccessTokenClaims result" where
  "validate_lifetime self = (if exp_at self \<le> iat self then Inl ValidationError else Inr self)"

definition access_token_claims :: "'k jwt_library \<Rightarrow> (pystr \<times> pyobj) list \<Rightarrow> AccessTokenClaims result" where
  "access_token_claims lib payload =
     rthen (required_claim payload ''sub'' (uuid_claim lib)) (\<lambda>s.
     rthen (required_claim payload ''jti'' (uuid_claim lib)) (\<lambda>j.
     rthen (required_claim payload ''role'' role_claim) (\<lambda>r.
     rthen (required_claim payload ''iat'' (numeric_date lib)) (\<lambda>i.
     rthen (required_claim payload ''exp'' (numeric_date lib)) (\<lambda>e.
     validate_lifetime \<lparr>sub = s, jti = j, claim_role = r, iat = i, exp_at = e\<rparr>)))))"

section \<open>The verifier\<close>

record 'k verifier =
  trusted_keys :: "(pystr \<times> 'k) list"
  trusted_issuer :: pystr
  trusted_audience :: pystr
  leeway :: int

definition load_key :: "'k jwt_library \<Rightarrow> pystr \<Rightarrow> 'k token_result" where
  "load_key lib path =
     rthen (read_bytes lib path) (\<lambda>pem.
     rthen (load_pem_public_key lib pem) (\<lambda>key.
     if \<not> is_rsa_public_key lib key \<or> key_size lib key < 2048 then Inl (OtherError ValueError) else Inr key))"

text \<open>The loop over \<open>public_keys.items()\<close>; later entries replace earlier ones of the same name.\<close>

fun load_keys :: "'k jwt_library \<Rightarrow> (pystr \<times> pystr) list \<Rightarrow> (pystr \<times> 'k) list \<Rightarrow> (pystr \<times> 'k) list token_result" where
  "load_keys lib [] keys = Inr keys"
| "load_keys lib ((key_id, path) # items) keys =
     rthen (load_key lib path) (\<lambda>key. load_keys lib items (AList.update key_id key keys))"

definition verifier_new :: "'k jwt_library \<Rightarrow> JWTSettings \<Rightarrow> 'k verifier token_result" where
  "verifier_new lib settings =
     rthen (load_keys lib (public_keys settings) []) (\<lambda>keys.
     if keys = [] then Inl (OtherError ValueError)
     else Inr \<lparr>trusted_keys = keys, trusted_issuer = issuer settings, trusted_audience = audience settings,
       leeway = clock_skew_seconds settings\<rparr>)"

text \<open>\<open>except (jwt.PyJWTError, TypeError, ValueError, OverflowError)\<close>; a \<open>ValidationError\<close> is a \<open>ValueError\<close>.\<close>

fun rejected :: "token_error \<Rightarrow> token_error" where
  "rejected PyJWTError = InvalidAccessTokenError"
| "rejected OverflowError = InvalidAccessTokenError"
| "rejected (OtherError TypeError) = InvalidAccessTokenError"
| "rejected (OtherError ValueError) = InvalidAccessTokenError"
| "rejected (OtherError ValidationError) = InvalidAccessTokenError"
| "rejected e = e"

definition header_key :: "'k verifier \<Rightarrow> (pystr \<times> pyobj) list \<Rightarrow> 'k token_result" where
  "header_key self header =
     (if map_of header (ustr ''alg'') \<noteq> Some (PyStr (ustr ''RS256''))
         \<or> map_of header (ustr ''typ'') \<noteq> Some (PyStr (ustr ''at+jwt'')) then Inl InvalidAccessTokenError
      else (case map_of header (ustr ''kid'') of
          Some (PyStr key_id) \<Rightarrow>
            (case map_of (trusted_keys self) key_id of
               None \<Rightarrow> Inl InvalidAccessTokenError | Some key \<Rightarrow> Inr key)
        | _ \<Rightarrow> Inl InvalidAccessTokenError))"

definition signing_algorithms :: "pystr list" where
  "signing_algorithms = [ustr ''RS256'']"

definition required_claim_names :: "pystr list" where
  "required_claim_names =
     [ustr ''iss'', ustr ''sub'', ustr ''aud'', ustr ''iat'', ustr ''exp'', ustr ''jti'', ustr ''role'']"

definition verify_body :: "'k jwt_library \<Rightarrow> 'k verifier \<Rightarrow> pystr \<Rightarrow> uuid token_result" where
  "verify_body lib self token =
     rthen (get_unverified_header lib token) (\<lambda>header.
     rthen (header_key self header) (\<lambda>key.
     rthen (jwt_decode lib token key signing_algorithms (trusted_issuer self) (trusted_audience self) (leeway self)
       required_claim_names) (\<lambda>payload.
     (case access_token_claims lib payload of Inl e \<Rightarrow> Inl (OtherError e) | Inr c \<Rightarrow> Inr (sub c)))))"

definition verify_token :: "'k jwt_library \<Rightarrow> 'k verifier \<Rightarrow> pystr \<Rightarrow> uuid token_result" where
  "verify_token lib self token = (case verify_body lib self token of Inl e \<Rightarrow> Inl (rejected e) | Inr u \<Rightarrow> Inr u)"

text \<open>\<open>HTTPProvider.access_token_verifier\<close>\<close>

definition provide_verifier :: "'k jwt_library \<Rightarrow> JWTSettings \<Rightarrow> 'k verifier option token_result" where
  "provide_verifier lib settings =
     (if public_keys settings = [] then Inr None else rthen (verifier_new lib settings) (\<lambda>v. Inr (Some v)))"

text \<open>The verifier as the dependencies of the routes call it: \<open>None\<close> for \<open>InvalidAccessTokenError\<close>.\<close>

definition route_verifier :: "'k jwt_library \<Rightarrow> 'k verifier \<Rightarrow> pystr \<Rightarrow> uuid option" where
  "route_verifier lib v token = (case verify_token lib v token of Inr u \<Rightarrow> Some u | Inl _ \<Rightarrow> None)"

section \<open>What the key ring holds\<close>

lemma load_key_sound: "load_key lib path = Inr key \<Longrightarrow> is_rsa_public_key lib key \<and> 2048 \<le> key_size lib key
    \<and> (\<exists>pem. read_bytes lib path = Inr pem \<and> load_pem_public_key lib pem = Inr key)"
  by (auto simp: load_key_def split: if_splits)

text \<open>Every key of the ring comes from a configured file and is an RSA key of at least 2048 bits.\<close>

definition configured_key :: "'k jwt_library \<Rightarrow> (pystr \<times> pystr) list \<Rightarrow> pystr \<Rightarrow> 'k \<Rightarrow> bool" where
  "configured_key lib items key_id key \<longleftrightarrow>
     (\<exists>path. (key_id, path) \<in> set items \<and> load_key lib path = Inr key)"

lemma load_keys_sound:
  assumes "load_keys lib items keys = Inr ring" "map_of ring key_id = Some key"
  shows "configured_key lib items key_id key \<or> map_of keys key_id = Some key"
  using assms
proof (induction lib items keys rule: load_keys.induct)
  case (2 lib k path items keys)
  then obtain loaded where "load_key lib path = Inr loaded" "load_keys lib items (AList.update k loaded keys) = Inr ring"
    by auto
  from 2(1) [OF this(2) 2(3)] this(1) show ?case
    by (auto simp: configured_key_def update_conv' split: if_splits)
qed simp

lemma verifier_keys:
  assumes "verifier_new lib settings = Inr v" "map_of (trusted_keys v) key_id = Some key"
  shows "configured_key lib (public_keys settings) key_id key"
  using assms load_keys_sound [of lib "public_keys settings" "[]" _ key_id key]
  by (auto simp: verifier_new_def split: if_splits)

lemma header_key_sound:
  "header_key v header = Inr key \<Longrightarrow>
     map_of header (ustr ''alg'') = Some (PyStr (ustr ''RS256''))
     \<and> map_of header (ustr ''typ'') = Some (PyStr (ustr ''at+jwt''))
     \<and> (\<exists>key_id. map_of header (ustr ''kid'') = Some (PyStr key_id) \<and> map_of (trusted_keys v) key_id = Some key)"
  by (auto simp: header_key_def split: if_splits option.splits pyobj.splits)

lemma claims_sound:
  "access_token_claims lib payload = Inr c \<Longrightarrow>
     iat c < exp_at c \<and> (\<exists>s. map_of payload (ustr ''sub'') = Some s \<and> uuid_claim lib s = Some (sub c))"
  by (auto simp: access_token_claims_def required_claim_def validate_lifetime_def split: option.splits if_splits)

lemma claims_fail: "access_token_claims lib payload = Inl e \<Longrightarrow> e = ValidationError"
  by (auto simp: access_token_claims_def required_claim_def validate_lifetime_def rthen_eq_Inl
      split: option.splits if_splits)

text \<open>A token that the verifier vouches for, under the settings it was built from.\<close>

definition vouched :: "'k jwt_library \<Rightarrow> JWTSettings \<Rightarrow> pystr \<Rightarrow> uuid \<Rightarrow> bool" where
  "vouched lib settings token user \<longleftrightarrow>
     (\<exists>header key_id key payload c.
        get_unverified_header lib token = Inr header
        \<and> map_of header (ustr ''alg'') = Some (PyStr (ustr ''RS256''))
        \<and> map_of header (ustr ''typ'') = Some (PyStr (ustr ''at+jwt''))
        \<and> map_of header (ustr ''kid'') = Some (PyStr key_id)
        \<and> configured_key lib (public_keys settings) key_id key
        \<and> is_rsa_public_key lib key \<and> 2048 \<le> key_size lib key
        \<and> jwt_decode lib token key [ustr ''RS256''] (issuer settings) (audience settings) (clock_skew_seconds settings)
            [ustr ''iss'', ustr ''sub'', ustr ''aud'', ustr ''iat'', ustr ''exp'', ustr ''jti'', ustr ''role''] = Inr payload
        \<and> access_token_claims lib payload = Inr c \<and> iat c < exp_at c \<and> user = sub c)"

lemma verify_sound:
  assumes new: "verifier_new lib settings = Inr v" and ok: "verify_token lib v token = Inr user"
  shows "vouched lib settings token user"
proof -
  from ok obtain header key payload c where run: "get_unverified_header lib token = Inr header"
    "header_key v header = Inr key"
    "jwt_decode lib token key signing_algorithms (trusted_issuer v) (trusted_audience v) (leeway v)
      required_claim_names = Inr payload"
    "access_token_claims lib payload = Inr c" "user = sub c"
    by (cases "verify_body lib v token") (auto simp: verify_token_def verify_body_def split: sum.split_asm)
  from header_key_sound [OF run(2)] obtain key_id where head:
    "map_of header (ustr ''alg'') = Some (PyStr (ustr ''RS256''))"
    "map_of header (ustr ''typ'') = Some (PyStr (ustr ''at+jwt''))"
    "map_of header (ustr ''kid'') = Some (PyStr key_id)" "map_of (trusted_keys v) key_id = Some key"
    by auto
  from verifier_keys [OF new head(4)] have key: "configured_key lib (public_keys settings) key_id key" .
  then have size: "is_rsa_public_key lib key" "2048 \<le> key_size lib key"
    by (auto simp: configured_key_def dest: load_key_sound)
  from new have "trusted_issuer v = issuer settings" "trusted_audience v = audience settings"
    "leeway v = clock_skew_seconds settings"
    by (auto simp: verifier_new_def split: if_splits)
  with run(3) have decode:
    "jwt_decode lib token key signing_algorithms (issuer settings) (audience settings) (clock_skew_seconds settings)
      required_claim_names = Inr payload"
    by simp
  from run(1) head(1-3) key size decode run(4) claims_sound [OF run(4), THEN conjunct1] run(5)
  show ?thesis unfolding vouched_def signing_algorithms_def required_claim_names_def by metis
qed

text \<open>A dict has each key once, so a configured key is the one the ring holds under its name.\<close>

lemma load_keys_complete:
  assumes "load_keys lib items keys = Inr ring" "distinct (map fst items)"
  shows "map_of ring key_id =
    (case map_of items key_id of
       None \<Rightarrow> map_of keys key_id
     | Some path \<Rightarrow> (case load_key lib path of Inl _ \<Rightarrow> None | Inr key \<Rightarrow> Some key))"
  using assms
proof (induction lib items keys rule: load_keys.induct)
  case (2 lib k path items keys)
  then obtain loaded where l: "load_key lib path = Inr loaded" "load_keys lib items (AList.update k loaded keys) = Inr ring"
    by auto
  have "distinct (map fst items)" "map_of items k = None"
    using 2(3) by (auto simp: map_of_eq_None_iff)
  with 2(1) [OF l(2)] l(1) show ?case
    by (auto simp: update_conv' split: option.splits)
qed simp

lemma configured_key_held:
  assumes "verifier_new lib settings = Inr v" "distinct (map fst (public_keys settings))"
    "configured_key lib (public_keys settings) key_id key"
  shows "map_of (trusted_keys v) key_id = Some key"
proof -
  from assms(3) obtain path where "(key_id, path) \<in> set (public_keys settings)" and key: "load_key lib path = Inr key"
    by (auto simp: configured_key_def)
  with assms(2) have path: "map_of (public_keys settings) key_id = Some path" by simp
  from assms(1) have ring: "load_keys lib (public_keys settings) [] = Inr (trusted_keys v)"
    by (auto simp: verifier_new_def split: if_splits)
  from load_keys_complete [OF ring assms(2), of key_id] path key show ?thesis by simp
qed

lemma verify_complete:
  assumes new: "verifier_new lib settings = Inr v" and keys: "distinct (map fst (public_keys settings))"
    and trust: "vouched lib settings token user"
  shows "verify_token lib v token = Inr user"
proof -
  from trust obtain header key_id key payload c where t: "get_unverified_header lib token = Inr header"
    "map_of header (ustr ''alg'') = Some (PyStr (ustr ''RS256''))"
    "map_of header (ustr ''typ'') = Some (PyStr (ustr ''at+jwt''))"
    "map_of header (ustr ''kid'') = Some (PyStr key_id)" "configured_key lib (public_keys settings) key_id key"
    "jwt_decode lib token key signing_algorithms (issuer settings) (audience settings) (clock_skew_seconds settings)
      required_claim_names = Inr payload"
    "access_token_claims lib payload = Inr c" "user = sub c"
    unfolding vouched_def signing_algorithms_def required_claim_names_def by blast
  from new have "trusted_issuer v = issuer settings" "trusted_audience v = audience settings"
    "leeway v = clock_skew_seconds settings"
    by (auto simp: verifier_new_def split: if_splits)
  with t configured_key_held [OF new keys t(5)] show ?thesis
    by (simp add: verify_token_def verify_body_def header_key_def)
qed

lemma header_key_fails: "header_key v header = Inl e \<Longrightarrow> e = InvalidAccessTokenError"
  by (auto simp: header_key_def split: if_splits option.splits pyobj.splits)

text \<open>What PyJWT is documented to raise, on reading a header and on decoding.\<close>

definition documented_raises :: "'k jwt_library \<Rightarrow> bool" where
  "documented_raises lib \<longleftrightarrow>
     (\<forall>t e. get_unverified_header lib t = Inl e \<longrightarrow> e = PyJWTError)
     \<and> (\<forall>t k g i a l r e. jwt_decode lib t k g i a l r = Inl e \<longrightarrow>
          e \<in> {PyJWTError, OverflowError, OtherError TypeError, OtherError ValueError})"

lemma verify_body_fails:
  assumes "documented_raises lib" "verify_body lib v token = Inl e"
  shows "rejected e = InvalidAccessTokenError"
proof (cases "get_unverified_header lib token")
  case (Inl e')
  with assms(1) have "e' = PyJWTError" unfolding documented_raises_def by blast
  with Inl assms(2) show ?thesis by (auto simp: verify_body_def)
next
  case (Inr header)
  show ?thesis
  proof (cases "header_key v header")
    case (Inl e')
    with \<open>get_unverified_header lib token = Inr header\<close> assms(2) header_key_fails [OF Inl] show ?thesis
      by (simp add: verify_body_def)
  next
    case (Inr key)
    show ?thesis
    proof (cases "jwt_decode lib token key signing_algorithms (trusted_issuer v) (trusted_audience v) (leeway v)
      required_claim_names")
      case (Inl e')
      with assms(1) have "e' \<in> {PyJWTError, OverflowError, OtherError TypeError, OtherError ValueError}"
        unfolding documented_raises_def by blast
      moreover from Inl Inr \<open>get_unverified_header lib token = Inr header\<close> assms(2) have "e = e'"
        by (simp add: verify_body_def)
      ultimately show ?thesis by auto
    next
      case (Inr payload)
      with \<open>header_key v header = Inr key\<close> \<open>get_unverified_header lib token = Inr header\<close> assms(2)
      obtain e' where "access_token_claims lib payload = Inl e'" "e = OtherError e'"
        by (auto simp: verify_body_def split: sum.splits)
      with claims_fail show ?thesis by fastforce
    qed
  qed
qed

lemma verify_fails:
  assumes "documented_raises lib" "verify_token lib v token = Inl e"
  shows "e = InvalidAccessTokenError"
  using assms verify_body_fails by (auto simp: verify_token_def split: sum.splits)

text \<open>
  C10. The routes act for a user exactly when the token of the request is one that the verifier
  vouches for: an RS256 access token whose header names a configured RSA key of at least 2048
  bits, that PyJWT decodes with this very key, as RS256 only, with the issuer, the audience and the
  leeway of the settings and the seven claims required, and whose claims are well formed, with an
  expiry after the issue; the user is its \<open>sub\<close>. Every other token is refused with 401, whatever
  is wrong with it, and never served anonymously; only a request without any credentials is
  anonymous.
\<close>

theorem routes_trust_exactly_vouched_tokens:
  assumes "verifier_new lib settings = Inr v" "distinct (map fst (public_keys settings))"
    and "documented_raises lib"
  shows "(verify_token lib v token = Inr user \<longleftrightarrow> vouched lib settings token user)
    \<and> ((\<nexists>u. vouched lib settings token u) \<longrightarrow>
        verify_token lib v token = Inl InvalidAccessTokenError
        \<and> optional_viewer_id has_header (Some token) (Some (route_verifier lib v)) = Inl authentication_required)
    \<and> (optional_viewer_id has_header (Some token) (Some (route_verifier lib v)) = Inr viewer \<longleftrightarrow>
        (\<exists>u. viewer = Some u \<and> vouched lib settings token u))"
proof -
  have iff: "verify_token lib v token = Inr u \<longleftrightarrow> vouched lib settings token u" for u
    using verify_sound [OF assms(1)] verify_complete [OF assms(1,2)] by blast
  have refused: "verify_token lib v token = Inl InvalidAccessTokenError" if "\<nexists>u. vouched lib settings token u"
    using verify_fails [OF assms(3)] iff that by (cases "verify_token lib v token") auto
  show ?thesis
    using iff [symmetric] refused
    by (cases "verify_token lib v token") (auto simp: optional_viewer_id_def route_verifier_def)
qed

section \<open>A concrete library\<close>

text \<open>
  Keys are their bit lengths; a token is its key identifier and subject, and only the key of
  3072 bits signs tokens.
\<close>

definition sample_jwt :: "int jwt_library" where
  "sample_jwt = \<lparr>
     read_bytes = (\<lambda>path. Inr []), load_pem_public_key = (\<lambda>pem. Inr 3072),
     is_rsa_public_key = (\<lambda>_. True), key_size = (\<lambda>k. k),
     get_unverified_header = (\<lambda>t. case t of [] \<Rightarrow> Inl PyJWTError
       | k # _ \<Rightarrow> Inr [(ustr ''alg'', PyStr (ustr ''RS256'')), (ustr ''typ'', PyStr (ustr ''at+jwt'')),
           (ustr ''kid'', PyStr [k])]),
     jwt_decode = (\<lambda>t k g i a l r. case t of
         [_, n] \<Rightarrow> Inr [(ustr ''sub'', PyInt (int n)), (ustr ''jti'', PyInt 1), (ustr ''role'', PyStr (ustr ''USER'')),
           (ustr ''iat'', PyInt 5), (ustr ''exp'', PyInt 9)]
       | _ \<Rightarrow> Inl PyJWTError),
     uuid_claim = (\<lambda>v. case v of PyInt n \<Rightarrow> Some (word_of_int n) | _ \<Rightarrow> None),
     numeric_date = (\<lambda>v. case v of PyInt n \<Rightarrow> Some n | _ \<Rightarrow> None)\<rparr>"

definition sample_jwt_settings :: JWTSettings where
  "sample_jwt_settings = \<lparr>public_keys = [([65], [47])], issuer = [105], audience = [97], clock_skew_seconds = 30\<rparr>"

definition sample_verifier :: "int verifier" where
  "sample_verifier = \<lparr>trusted_keys = [([65], 3072)], trusted_issuer = [105], trusted_audience = [97], leeway = 30\<rparr>"

lemma sample_verifier_new: "verifier_new sample_jwt sample_jwt_settings = Inr sample_verifier"
  by (simp add: verifier_new_def sample_jwt_settings_def sample_verifier_def load_key_def sample_jwt_def)

theorem routes_trust_exactly_vouched_tokens_witness:
  "vouched sample_jwt sample_jwt_settings [65, 7] 7
   \<and> optional_viewer_id True (Some [65, 7]) (Some (route_verifier sample_jwt sample_verifier)) = Inr (Some 7)
   \<and> optional_viewer_id True (Some [66, 7]) (Some (route_verifier sample_jwt sample_verifier))
       = Inl authentication_required"
proof -
  note claim = routes_trust_exactly_vouched_tokens
    [where lib = sample_jwt and settings = sample_jwt_settings and v = sample_verifier and has_header = True]
  have raises: "documented_raises sample_jwt"
    by (auto simp: documented_raises_def sample_jwt_def split: list.splits)
  have keys: "distinct (map fst (public_keys sample_jwt_settings))" by (simp add: sample_jwt_settings_def)
  have run: "verify_token sample_jwt sample_verifier [65, 7] = Inr 7"
    "\<exists>e. verify_token sample_jwt sample_verifier [66, 7] = Inl e"
    by (simp_all add: verify_token_def verify_body_def header_key_def sample_jwt_def sample_verifier_def
        access_token_claims_def required_claim_def validate_lifetime_def role_claim_def)
  from claim [OF sample_verifier_new keys raises, where token = "[65, 7]" and user = 7 and viewer = "Some 7"]
    claim [OF sample_verifier_new keys raises, where token = "[66, 7]"] run
  show ?thesis by fastforce
qed

end
