(* ===== verification/Http_Requests.thy ===== *)
theory Http_Requests
  imports Http_Properties Service_Properties Access_Tokens Command_Properties
begin

text \<open>
  A \<open>PATCH\<close> request from its headers to the database: the dependencies of the two routes that
  change what a user owns, the dispatch on the bus of the container, and what is committed.
\<close>

section \<open>The dependencies of a patch\<close>

text \<open>
  What FastAPI reads from a request for \<open>CurrentUserId\<close>, \<open>ExpectedVersion\<close> and
  \<open>HTTPCommandContext\<close>: whether there is an \<open>Authorization\<close> header, the bearer token in it, the
  \<open>If-Match\<close> header, and the \<open>Idempotency-Key\<close>, which it requires.
\<close>

record patch_request =
  authorization_header :: bool
  bearer_token :: "pystr option"
  if_match_header :: "pystr option"
  idempotency_key_header :: pystr

text \<open>The dependencies are resolved in the order of the parameters of the route, and each once.\<close>

definition authorized_patch ::
  "(pystr \<Rightarrow> uuid option) option \<Rightarrow> patch_request \<Rightarrow>
   (uuid \<Rightarrow> int \<Rightarrow> CommandContext \<Rightarrow> ('s, http_exn, 'b) proc) \<Rightarrow> ('s, http_exn, 'b) proc" where
  "authorized_patch verifier request route =
     sthen (slift (optional_viewer_id (authorization_header request) (bearer_token request) verifier)) (\<lambda>viewer_id.
     sthen (slift (current_user_id viewer_id)) (\<lambda>user_id.
     sthen (slift (expected_version (if_match_header request))) (\<lambda>ver.
     sthen (app_step (slift (command_context user_id (idempotency_key_header request)))) (\<lambda>context.
     route user_id ver context))))"

text \<open>A request is for a user and a version when its token and its tag say so.\<close>

definition authorizes :: "(pystr \<Rightarrow> uuid \<Rightarrow> bool) \<Rightarrow> patch_request \<Rightarrow> uuid \<Rightarrow> int \<Rightarrow> bool" where
  "authorizes trusted request user ver \<longleftrightarrow>
     (\<exists>token. bearer_token request = Some token \<and> trusted token user)
     \<and> 1 \<le> ver \<and> ver \<le> 2 ^ 63 - 1 \<and> if_match_header request = Some (etag ver)"

lemma authorized_patch_cases:
  assumes run: "authorized_patch (Some check) request route st = (r, st')"
    and sound: "\<And>token user. check token = Some user \<Longrightarrow> trusted token user"
  shows "(\<exists>e. r = Inl e) \<and> st' = st
    \<or> (\<exists>user ver context. authorizes trusted request user ver
         \<and> command_context user (idempotency_key_header request) = Inr context \<and> route user ver context st = (r, st'))"
proof -
  have tag: "(''ETag'', t) \<in> set (set_private_version v) \<longleftrightarrow> t = etag v" for t v
    by (auto simp: set_private_version_def)
  consider (refused) e where "r = Inl e" "st' = st"
    | (served) token user ver ctx where "bearer_token request = Some token" "check token = Some user"
        "expected_version (if_match_header request) = Inr ver"
        "command_context user (idempotency_key_header request) = Inr ctx" "route user ver ctx st = (r, st')"
    using run
    by (cases "bearer_token request"; cases "expected_version (if_match_header request)")
      (auto simp: authorized_patch_def optional_viewer_id_def current_user_id_def app_step_def sthen_def
        split: option.splits if_splits sum.splits)
  then show ?thesis
  proof cases
    case served
    then obtain t where t: "if_match_header request = Some t"
      by (cases "if_match_header request") (auto simp: expected_version_def)
    with served(3) have "1 \<le> ver" "ver \<le> 2 ^ 63 - 1" "t = etag ver"
      using expected_version_reads [of t ver] by (auto simp: tag)
    with served(1,2) t sound have "authorizes trusted request user ver" by (auto simp: authorizes_def)
    with served(4,5) show ?thesis by blast
  qed simp
qed

section \<open>What is committed\<close>

text \<open>
  A change of one entity, committed between two sessions' states: at the moment of the write
  the contents \<open>d0\<close> had evolved from the start by the work of others, the entity had the
  expected version and was replaced, and what was left has only evolved by the work of others.
\<close>

definition change_committed ::
  "(db \<Rightarrow> db \<Rightarrow> bool) \<Rightarrow> (db \<Rightarrow> uuid \<Rightarrow> 'e VersionedMutableEntity_scheme option) \<Rightarrow>
   (datetime \<Rightarrow> ('e VersionedMutableEntity_scheme, exn, bool) proc) \<Rightarrow> uuid \<Rightarrow> int \<Rightarrow>
   session \<Rightarrow> session \<Rightarrow> 'e VersionedMutableEntity_scheme \<Rightarrow> bool" where
  "change_committed R look change uid expected s t e \<longleftrightarrow>
     (\<exists>d0 d1. R (committed s) d0 \<and> saved look change uid expected d0 d1 e \<and> R d1 (committed t))"

lemma same_tables_evolve:
  assumes "profiles d = profiles d'" "user_settings d = user_settings d'"
  shows "profiles_evolve d' d" "settings_evolve zone_ok d' d"
  using assms
  by (simp_all add: evolves_def table_ok_def lookup_def profile_table_def settings_table_def)

lemma change_committedI:
  assumes R: "reflp R" "transp R" "R (others evs (view u)) d" and rely: "rely R s"
    and s0: "untouched s s0" "script s0 = evs0 @ script u"
    and u: "script u = evs @ evs' @ script t" "committed t = others evs' d"
    and saved: "saved look change uid expected (others evs0 (committed s0)) (view u) e"
  shows "change_committed R look change uid expected s t e"
proof -
  from s0(1) obtain evs1 where s: "script s = evs1 @ script s0" "committed s0 = others evs1 (committed s)"
    by (auto simp: untouched_def)
  have all: "script s = evs1 @ evs0 @ evs @ evs' @ script t" using s(1) s0(2) u(1) by simp
  have step: "R d (others es d)" if "set es \<subseteq> set (evs1 @ evs0 @ evs @ evs')" for es d
    using that rely all by (intro rely_others [OF R(1,2)]) (auto simp: rely_def)
  have "R (committed s) (others evs0 (committed s0))"
    using step [of "evs1 @ evs0" "committed s"] s(2) by auto
  moreover have "R (view u) (committed t)"
  proof -
    have "R (view u) (others evs (view u))" "R d (others evs' d)" by (auto intro: step)
    with R(2,3) u(2) show ?thesis unfolding transp_def by metis
  qed
  ultimately show ?thesis using saved unfolding change_committed_def by blast
qed

section \<open>The adapters of the results\<close>

text \<open>
  What the routes need of pydantic: an instance that is valid is returned as it is, what it
  is dumped to is read back as it was, and other JSON is refused with a \<open>ValidationError\<close>.
\<close>

definition faithful_adapter :: "'r adapter \<Rightarrow> bool" where
  "faithful_adapter ad \<longleftrightarrow>
     (\<forall>r v. validate_strict ad r = Inr v \<longrightarrow> v = r)
     \<and> (\<forall>r j. validate_strict ad r = Inr r \<longrightarrow> dump_json ad r = Inr j \<longrightarrow> validate_json ad j = Inr r)
     \<and> (\<forall>j e. validate_json ad j = Inl e \<longrightarrow> e = ValidationError)"

lemma faithful_decode:
  assumes "faithful_adapter (codec_adapter self)" "codec_encode self res = Inr stored"
  shows "codec_decode self stored = Inr res"
proof -
  have "result_adapter (codec_adapter self)"
    using assms(1) unfolding faithful_adapter_def by unfold_locales blast+
  from result_adapter.encode_decode [OF this refl assms(2)] obtain v where
    v: "codec_validate self res = Inr v" "codec_decode self stored = Inr v" by blast
  from v(1) assms(1) have "v = res"
    by (auto simp: codec_validate_def faithful_adapter_def split: if_splits)
  with v(2) show ?thesis by simp
qed

lemma invoked_and_stored:
  assumes "committed_once recorded records_ok (invoke_handler registration command REPLAYABLE) i fp s t c"
  obtains s0 u d evs evs' res where "untouched s s0"
    "handler_factory registration command (begin_state s0) = (Inr res, u)"
    "codec_encode (reg_codec registration) res = Inr (stored_of c)"
    "script u = evs @ evs' @ script t" "profiles d = profiles (others evs (view u))"
    "user_settings d = user_settings (others evs (view u))" "committed t = others evs' d"
proof -
  from assms obtain s0 u d evs evs' where once: "untouched s s0"
    "invoke_handler registration command REPLAYABLE (begin_state s0) = (Inr (stored_of c), u)"
    "script u = evs @ evs' @ script t" "profiles d = profiles (others evs (view u))"
    "user_settings d = user_settings (others evs (view u))" "committed t = others evs' d"
    by (auto simp: committed_once_def)
  from once(2) obtain res where "handler_factory registration command (begin_state s0) = (Inr res, u)"
    "codec_encode (reg_codec registration) res = Inr (stored_of c)"
    by (auto simp: invoke_handler_def sthen_eq_Inr)
  with once that show thesis by blast
qed

section \<open>The two dispatches\<close>

lemma begin_state_of:
  assumes "untouched s s0" "rely R s" "reflp R" "transp R"
  shows "rely R (begin_state s0)" "R (committed s) (view (begin_state s0))"
proof -
  from assms(1) obtain evs where evs: "script s = evs @ script s0" "committed s0 = others evs (committed s)"
    by (auto simp: untouched_def)
  from assms(2) evs(1) show "rely R (begin_state s0)" by (simp add: rely_def)
  from rely_view [OF assms(2-4) evs(1)] evs(2) show "R (committed s) (view (begin_state s0))" by simp
qed

lemma registered_as:
  assumes "container_registry zone_ok a lease ttl = Inr reg"
    and "map_of (handlers reg) (class_of command) = Some registration"
  obtains policy where "registration = service_registration zone_ok a policy policy command"
  using container_registry_holds [OF assms(1)] assms(2) by (metis option.inject)

text \<open>
  The change of a handler that saves what it was asked to, by the contract of its command, is
  committed, and the record decodes to what the handler returned.
\<close>

lemma dispatch_committed:
  assumes R: "reflp R" "transp R" "\<And>d d'. profiles d = profiles d' \<Longrightarrow> user_settings d = user_settings d' \<Longrightarrow> R d' d"
    and sound: "\<And>d d'. R d d' \<Longrightarrow> ok d \<Longrightarrow> ok d'"
    and handler: "\<And>s res u. handler_factory registration command s = (Inr res, u) \<Longrightarrow> rely R s \<Longrightarrow> ok (view s) \<Longrightarrow>
      \<exists>p evs. res = result_of p \<and> script s = evs @ script u \<and> saved look change uid expected (others evs (view s)) (view u) p"
    and adapter: "faithful_adapter (codec_adapter (reg_codec registration))"
    and s: "rely R s" "ok (committed s)"
    and once: "committed_once recorded records_ok (invoke_handler registration command REPLAYABLE) i fp s t k"
  shows "\<exists>p. change_committed R look change uid expected s t p
    \<and> answer_of registration REPLAYABLE (Inr k) = Inr (Some (result_of p))"
proof -
  from once obtain s0 u d evs evs' res where s0: "untouched s s0"
    and run: "handler_factory registration command (begin_state s0) = (Inr res, u)"
    and stored: "codec_encode (reg_codec registration) res = Inr (stored_of k)"
    and u: "script u = evs @ evs' @ script t" "profiles d = profiles (others evs (view u))"
      "user_settings d = user_settings (others evs (view u))" "committed t = others evs' d"
    by (rule invoked_and_stored)
  from handler [OF run begin_state_of(1) [OF s0 s(1) R(1,2)] sound [OF begin_state_of(2) [OF s0 s(1) R(1,2)] s(2)]]
  obtain p evs0 where p: "res = result_of p" "script s0 = evs0 @ script u"
      "saved look change uid expected (others evs0 (committed s0)) (view u) p"
    by auto
  from faithful_decode [OF adapter stored] p(1)
    change_committedI [OF R(1,2) R(3) [OF u(2,3)] s(1) s0 p(2) u(1,4) p(3)]
  show ?thesis by (auto simp: answer_of_def)
qed

lemma profile_dispatch_committed:
  assumes reg: "container_registry zone_ok a lease ttl = Inr reg"
    and r: "map_of (handlers reg) (class_of (UpdateProfile c)) = Some registration"
    and adapter: "faithful_adapter (profile_adapter a)"
    and s: "rely profiles_evolve s" "profiles_ok (committed s)"
    and once: "committed_once recorded records_ok (invoke_handler registration (UpdateProfile c) REPLAYABLE) i fp s t k"
  shows "\<exists>p. change_committed profiles_evolve profile_at (profile_change c) (up_user_id c) (up_expected_version c) s t p
    \<and> answer_of registration REPLAYABLE (Inr k) = Inr (Some (ProfileResult (profile_dto p)))"
proof -
  from registered_as [OF reg r] obtain policy where
    registration: "registration = service_registration zone_ok a policy policy (UpdateProfile c)" .
  show ?thesis
  proof (rule dispatch_committed [where ok = profiles_ok, OF evolves_reflp evolves_transp same_tables_evolve(1) _ _ _ s once])
    fix s u res
    assume "handler_factory registration (UpdateProfile c) s = (Inr res, u)" "rely profiles_evolve s" "profiles_ok (view s)"
    with update_profile_no_lost_update [of c s _ u] registration
    show "\<exists>p evs. res = ProfileResult (profile_dto p) \<and> script s = evs @ script u
        \<and> saved profile_at (profile_change c) (up_user_id c) (up_expected_version c) (others evs (view s)) (view u) p"
      by (fastforce simp: service_registration_def update_profile_factory_def returning_def sthen_eq_Inr)
  qed (use adapter registration in \<open>auto simp: evolves_def service_registration_def\<close>)
qed

lemma settings_dispatch_committed:
  assumes reg: "container_registry zone_ok a lease ttl = Inr reg"
    and r: "map_of (handlers reg) (class_of (UpdateSettings c)) = Some registration"
    and adapter: "faithful_adapter (settings_adapter a)"
    and s: "rely (settings_evolve zone_ok) s" "settings_ok zone_ok (committed s)"
    and once: "committed_once recorded records_ok (invoke_handler registration (UpdateSettings c) REPLAYABLE) i fp s t k"
  shows "\<exists>p. change_committed (settings_evolve zone_ok) (settings_at zone_ok) (settings_change zone_ok c)
      (us_user_id c) (us_expected_version c) s t p
    \<and> answer_of registration REPLAYABLE (Inr k) = Inr (Some (SettingsResult (settings_dto p)))"
proof -
  from registered_as [OF reg r] obtain policy where
    registration: "registration = service_registration zone_ok a policy policy (UpdateSettings c)" .
  show ?thesis
  proof (rule dispatch_committed [where ok = "settings_ok zone_ok", OF evolves_reflp evolves_transp
      same_tables_evolve(2) _ _ _ s once])
    fix s u res
    assume "handler_factory registration (UpdateSettings c) s = (Inr res, u)" "rely (settings_evolve zone_ok) s"
      "settings_ok zone_ok (view s)"
    with update_settings_no_lost_update [of zone_ok c s _ u] registration
    show "\<exists>p evs. res = SettingsResult (settings_dto p) \<and> script s = evs @ script u
        \<and> saved (settings_at zone_ok) (settings_change zone_ok c) (us_user_id c) (us_expected_version c)
            (others evs (view s)) (view u) p"
      by (fastforce simp: service_registration_def update_settings_factory_def returning_def sthen_eq_Inr)
  qed (use adapter registration in \<open>auto simp: evolves_def service_registration_def\<close>)
qed

section \<open>The two routes\<close>

text \<open>
  How a patch may end: nothing of it is in the database, and then what it answers is replayed;
  or one change is, made by a user and for a version that the request stands for, and an
  answer that counts as executed is what that change has stored, under its new version.
\<close>

definition patch_outcome ::
  "(uuid \<Rightarrow> int \<Rightarrow> bool) \<Rightarrow> (uuid \<Rightarrow> int \<Rightarrow> 'e VersionedMutableEntity_scheme \<Rightarrow> bool) \<Rightarrow>
   ('e VersionedMutableEntity_scheme \<Rightarrow> 'b) \<Rightarrow> 'h coordination \<Rightarrow> http_exn + 'b http_response \<Rightarrow>
   'h coordination \<Rightarrow> bool" where
  "patch_outcome authorized changed body_of st r st' \<longleftrightarrow>
     untouched (exec_session (execution st)) (exec_session (execution st'))
       \<and> (\<forall>response. r = Inr response \<longrightarrow> last (metrics st') = Outcome REPLAY)
     \<or> (\<exists>user ver p. authorized user ver \<and> changed user ver p
         \<and> (\<forall>response. r = Inr response \<longrightarrow> last (metrics st') = Outcome EXECUTED \<longrightarrow>
              response = \<lparr>http_status = 200, http_headers = set_private_version (version p), http_body = body_of p\<rparr>))"

lemma patch_refused [simp]: "patch_outcome authorized changed body_of st (Inl e) st"
  by (simp add: patch_outcome_def)

lemma patch_my_profile_cases:
  assumes "patch_my_profile bus user ver context body st = (r, st')"
  shows "(\<exists>e. r = Inl e) \<and> st' = st
    \<or> (\<exists>y. bus (UpdateProfile (profile_patch_command user ver body)) (Some context) (Some REPLAYABLE) st = (y, st')
         \<and> (\<forall>response. r = Inr response \<longrightarrow> (\<exists>profile. y = Inr (Some (ProfileResult profile))
              \<and> response = \<lparr>http_status = 200, http_headers = set_private_version (dto_version profile), http_body = profile\<rparr>)))"
  using assms
  by (auto simp: patch_my_profile_def app_step_def sthen_def update_profile_command_new_def
      split: prod.splits sum.splits option.splits command_result.splits if_splits)

lemma patch_my_settings_cases:
  assumes "patch_my_settings bus user ver context body st = (r, st')"
  shows "(\<exists>e. r = Inl e) \<and> st' = st
    \<or> (\<exists>y. bus (UpdateSettings (settings_patch_command user ver body)) (Some context) (Some REPLAYABLE) st = (y, st')
         \<and> (\<forall>response. r = Inr response \<longrightarrow> (\<exists>settings. y = Inr (Some (SettingsResult settings))
              \<and> response = \<lparr>http_status = 200, http_headers = set_private_version (sdto_version settings), http_body = settings\<rparr>)))"
  using assms
  by (auto simp: patch_my_settings_def app_step_def sthen_def scatch_def settings_missing_def update_settings_command_new_def
      split: prod.splits sum.splits option.splits command_result.splits if_splits)

lemma dto_versions [simp]: "dto_version (profile_dto p) = version p" "sdto_version (settings_dto q) = version q"
  by (simp_all add: profile_dto_def settings_dto_def)

lemma patch_command_fields [simp]:
  "up_user_id (profile_patch_command user ver body) = user"
  "up_expected_version (profile_patch_command user ver body) = ver"
  "us_user_id (settings_patch_command user ver body') = user"
  "us_expected_version (settings_patch_command user ver body') = ver"
  by (simp_all add: profile_patch_command_def settings_patch_command_def Let_def)

text \<open>A route whose answer is made from what the bus returned.\<close>

lemma dispatched_outcome:
  assumes "container_registry zone_ok a lease ttl = Inr reg"
    and "durable_execution coordinator = Some transactional"
    and "rely (keeps_ok records_ok) (exec_session (execution st))" "records_ok (committed (exec_session (execution st)))"
    and "bus_dispatch sha isoformat coordinator reg command (Some context) (Some REPLAYABLE) st = (y, st')"
    and committed: "\<And>registration i fp c. map_of (handlers reg) (class_of command) = Some registration \<Longrightarrow>
      committed_once recorded records_ok (invoke_handler registration command REPLAYABLE) i fp
        (exec_session (execution st)) (exec_session (execution st')) c \<Longrightarrow>
      \<exists>p. changed user ver p \<and> answer_of registration REPLAYABLE (Inr c) = Inr (Some (result_of p))"
    and response: "\<And>response. r = Inr response \<Longrightarrow> \<exists>z. y = Inr z \<and> (\<forall>p. z = Some (result_of p) \<longrightarrow>
      response = \<lparr>http_status = 200, http_headers = set_private_version (version p), http_body = body_of p\<rparr>)"
    and "authorized user ver"
  shows "patch_outcome authorized changed body_of st r st'"
  using dispatched_atomically [OF assms(1-5)]
proof (elim disjE conjE exE)
  assume "untouched (exec_session (execution st)) (exec_session (execution st'))"
    "\<forall>z. y = Inr z \<longrightarrow> last (metrics st') = Outcome REPLAY"
  with response show ?thesis unfolding patch_outcome_def by blast
next
  fix registration i fp c
  assume registration: "map_of (handlers reg) (class_of command) = Some registration"
    and once: "committed_once recorded records_ok (invoke_handler registration command REPLAYABLE) i fp
      (exec_session (execution st)) (exec_session (execution st')) c"
    and answer: "\<forall>z. y = Inr z \<longrightarrow> last (metrics st') = Outcome EXECUTED \<longrightarrow> y = answer_of registration REPLAYABLE (Inr c)"
  from committed [OF registration once] obtain p where p: "changed user ver p"
    "answer_of registration REPLAYABLE (Inr c) = Inr (Some (result_of p))" by blast
  have "response = \<lparr>http_status = 200, http_headers = set_private_version (version p), http_body = body_of p\<rparr>"
    if "r = Inr response" "last (metrics st') = Outcome EXECUTED" for response
    using response [OF that(1)] that(2) p(2) answer by fastforce
  with p(1) \<open>authorized user ver\<close> show ?thesis unfolding patch_outcome_def by blast
qed

lemma patch_my_profile_outcome:
  assumes reg: "container_registry zone_ok a lease ttl = Inr reg"
    and down: "durable_execution coordinator = Some transactional"
    and adapter: "faithful_adapter (profile_adapter a)"
    and records: "rely (keeps_ok records_ok) (exec_session (execution st))" "records_ok (committed (exec_session (execution st)))"
    and table: "rely profiles_evolve (exec_session (execution st))" "profiles_ok (committed (exec_session (execution st)))"
    and authorized: "authorized user ver"
    and run: "patch_my_profile (bus_dispatch sha isoformat coordinator reg) user ver context body st = (r, st')"
  shows "patch_outcome authorized
    (\<lambda>user ver. change_committed profiles_evolve profile_at (profile_change (profile_patch_command user ver body)) user ver
       (exec_session (execution st)) (exec_session (execution st'))) profile_dto st r st'"
  using patch_my_profile_cases [OF run]
proof (elim disjE conjE exE)
  fix y
  assume y: "bus_dispatch sha isoformat coordinator reg (UpdateProfile (profile_patch_command user ver body)) (Some context)
      (Some REPLAYABLE) st = (y, st')"
    and r: "\<forall>response. r = Inr response \<longrightarrow> (\<exists>profile. y = Inr (Some (ProfileResult profile))
      \<and> response = \<lparr>http_status = 200, http_headers = set_private_version (dto_version profile), http_body = profile\<rparr>)"
  show ?thesis
  proof (rule dispatched_outcome [where result_of = "\<lambda>p. ProfileResult (profile_dto p)" and user = user and ver = ver,
      OF reg down records y])
    fix registration i fp c
    assume "map_of (handlers reg) (class_of (UpdateProfile (profile_patch_command user ver body))) = Some registration"
      "committed_once recorded records_ok (invoke_handler registration (UpdateProfile (profile_patch_command user ver body)) REPLAYABLE)
         i fp (exec_session (execution st)) (exec_session (execution st')) c"
    from profile_dispatch_committed [OF reg this(1) adapter table this(2), unfolded patch_command_fields] show "\<exists>p. change_committed profiles_evolve profile_at (profile_change (profile_patch_command user ver body)) user ver
        (exec_session (execution st)) (exec_session (execution st')) p
      \<and> answer_of registration REPLAYABLE (Inr c) = Inr (Some (ProfileResult (profile_dto p)))" .
  qed (use r authorized in fastforce)+
qed auto

lemma patch_my_settings_outcome:
  assumes reg: "container_registry zone_ok a lease ttl = Inr reg"
    and down: "durable_execution coordinator = Some transactional"
    and adapter: "faithful_adapter (settings_adapter a)"
    and records: "rely (keeps_ok records_ok) (exec_session (execution st))" "records_ok (committed (exec_session (execution st)))"
    and table: "rely (settings_evolve zone_ok) (exec_session (execution st))"
      "settings_ok zone_ok (committed (exec_session (execution st)))"
    and authorized: "authorized user ver"
    and run: "patch_my_settings (bus_dispatch sha isoformat coordinator reg) user ver context body st = (r, st')"
  shows "patch_outcome authorized
    (\<lambda>user ver. change_committed (settings_evolve zone_ok) (settings_at zone_ok)
       (settings_change zone_ok (settings_patch_command user ver body)) user ver
       (exec_session (execution st)) (exec_session (execution st'))) settings_dto st r st'"
  using patch_my_settings_cases [OF run]
proof (elim disjE conjE exE)
  fix y
  assume y: "bus_dispatch sha isoformat coordinator reg (UpdateSettings (settings_patch_command user ver body)) (Some context)
      (Some REPLAYABLE) st = (y, st')"
    and r: "\<forall>response. r = Inr response \<longrightarrow> (\<exists>settings. y = Inr (Some (SettingsResult settings))
      \<and> response = \<lparr>http_status = 200, http_headers = set_private_version (sdto_version settings), http_body = settings\<rparr>)"
  show ?thesis
  proof (rule dispatched_outcome [where result_of = "\<lambda>p. SettingsResult (settings_dto p)" and user = user and ver = ver,
      OF reg down records y])
    fix registration i fp c
    assume "map_of (handlers reg) (class_of (UpdateSettings (settings_patch_command user ver body))) = Some registration"
      "committed_once recorded records_ok (invoke_handler registration (UpdateSettings (settings_patch_command user ver body)) REPLAYABLE)
         i fp (exec_session (execution st)) (exec_session (execution st')) c"
    from settings_dispatch_committed [OF reg this(1) adapter table this(2), unfolded patch_command_fields] show "\<exists>p. change_committed (settings_evolve zone_ok) (settings_at zone_ok)
        (settings_change zone_ok (settings_patch_command user ver body)) user ver
        (exec_session (execution st)) (exec_session (execution st')) p
      \<and> answer_of registration REPLAYABLE (Inr c) = Inr (Some (SettingsResult (settings_dto p)))" .
  qed (use r authorized in fastforce)+
qed auto

lemma authorized_outcome:
  assumes "authorized_patch (Some check) request route st = (r, st')"
    and "\<And>token user. check token = Some user \<Longrightarrow> trusted token user"
    and "\<And>user ver context. authorizes trusted request user ver \<Longrightarrow> route user ver context st = (r, st') \<Longrightarrow>
      patch_outcome (authorizes trusted request) changed body_of st r st'"
  shows "((\<nexists>user ver. authorizes trusted request user ver) \<longrightarrow> (\<exists>e. r = Inl e) \<and> st' = st)
    \<and> patch_outcome (authorizes trusted request) changed body_of st r st'"
  using authorized_patch_cases [where trusted = trusted, OF assms(1,2)] assms(3) by auto

text \<open>
  C7. A patch changes only what its token and its tag allow. On the bus of the container, over
  any hot store and whatever fails on the way: a request whose token is not vouched for, or
  whose \<open>If-Match\<close> is not the entity tag of a version, is refused and leaves every state as it
  was. Any other one leaves in the database either nothing, and then what it answers is
  replayed, or one change of the profile (or the settings) of the very user its token is
  vouched for, made when the version was the one of its tag, whatever other sessions did in
  between; and an answer that counts as executed carries the stored entity and the tag of its
  new version, which the client can send back.
\<close>

theorem patches_are_authorized_changes:
  assumes "container_registry zone_ok a lease ttl = Inr reg"
    and "durable_execution coordinator = Some transactional"
    and "verifier_new lib settings = Inr v"
    and "faithful_adapter (profile_adapter a)" "faithful_adapter (settings_adapter a)"
    and "rely (keeps_ok records_ok) (exec_session (execution st))" "records_ok (committed (exec_session (execution st)))"
    and "rely profiles_evolve (exec_session (execution st))" "profiles_ok (committed (exec_session (execution st)))"
    and "rely (settings_evolve zone_ok) (exec_session (execution st))" "settings_ok zone_ok (committed (exec_session (execution st)))"
  shows "(\<forall>body r st'. authorized_patch (Some (route_verifier lib v)) request
          (\<lambda>user ver context. patch_my_profile (bus_dispatch sha isoformat coordinator reg) user ver context body) st = (r, st') \<longrightarrow>
        ((\<nexists>user ver. authorizes (vouched lib settings) request user ver) \<longrightarrow> (\<exists>e. r = Inl e) \<and> st' = st)
        \<and> patch_outcome (authorizes (vouched lib settings) request)
            (\<lambda>user ver. change_committed profiles_evolve profile_at (profile_change (profile_patch_command user ver body))
               user ver (exec_session (execution st)) (exec_session (execution st'))) profile_dto st r st')
    \<and> (\<forall>body r st'. authorized_patch (Some (route_verifier lib v)) request
          (\<lambda>user ver context. patch_my_settings (bus_dispatch sha isoformat coordinator reg) user ver context body) st = (r, st') \<longrightarrow>
        ((\<nexists>user ver. authorizes (vouched lib settings) request user ver) \<longrightarrow> (\<exists>e. r = Inl e) \<and> st' = st)
        \<and> patch_outcome (authorizes (vouched lib settings) request)
            (\<lambda>user ver. change_committed (settings_evolve zone_ok) (settings_at zone_ok)
               (settings_change zone_ok (settings_patch_command user ver body))
               user ver (exec_session (execution st)) (exec_session (execution st'))) settings_dto st r st')"
proof -
  have sound: "vouched lib settings token user" if "route_verifier lib v token = Some user" for token user
    using that verify_sound [OF assms(3)] by (auto simp: route_verifier_def split: sum.splits)
  show ?thesis
    by (intro conjI allI; intro impI; rule authorized_outcome [OF _ sound],
        (assumption | erule (1) patch_my_profile_outcome [OF assms(1,2,4,6-9)]
         | erule (1) patch_my_settings_outcome [OF assms(1,2,5-7,10,11)])+)
qed

end
