(* ===== verification/Metrics.thy ===== *)
theory Metrics
  imports Coordinator
begin

text \<open>
  \<open>infrastructure/idempotency/observability/idempotency_metrics.py\<close>: the two counters of
  Prometheus, and what a call of the coordinator adds to them. The labels are the values of the
  two enumerations, which differ from each other, so a counter is a function of the enumeration.
\<close>

section \<open>The counters\<close>

record counters =
  outcomes_total :: "ExecutionStatus \<Rightarrow> nat"
  hot_degraded_total :: "HotDegradationStage \<Rightarrow> nat"

definition counters_new :: counters where
  "counters_new = \<lparr>outcomes_total = (\<lambda>_. 0), hot_degraded_total = (\<lambda>_. 0)\<rparr>"

definition observe_outcome :: "ExecutionStatus \<Rightarrow> counters \<Rightarrow> counters" where
  "observe_outcome outcome c = c\<lparr>outcomes_total := (outcomes_total c)(outcome := outcomes_total c outcome + 1)\<rparr>"

definition observe_hot_degraded :: "HotDegradationStage \<Rightarrow> counters \<Rightarrow> counters" where
  "observe_hot_degraded stage c =
     c\<lparr>hot_degraded_total := (hot_degraded_total c)(stage := hot_degraded_total c stage + 1)\<rparr>"

text \<open>The counters after what the coordinator observed.\<close>

fun count_metric :: "metric \<Rightarrow> counters \<Rightarrow> counters" where
  "count_metric (Outcome outcome) = observe_outcome outcome"
| "count_metric (HotDegraded stage) = observe_hot_degraded stage"

definition scrape :: "metric list \<Rightarrow> counters" where
  "scrape xs = fold count_metric xs counters_new"

lemma count_metric_step:
  "outcomes_total (count_metric x c) s = outcomes_total c s + of_bool (x = Outcome s)"
  "hot_degraded_total (count_metric x c) d = hot_degraded_total c d + of_bool (x = HotDegraded d)"
  by (cases x; simp add: observe_outcome_def observe_hot_degraded_def)+

lemma fold_count:
  "outcomes_total (fold count_metric xs c) s = outcomes_total c s + count_list xs (Outcome s)"
  "hot_degraded_total (fold count_metric xs c) d = hot_degraded_total c d + count_list xs (HotDegraded d)"
  by (induction xs arbitrary: c) (simp_all add: count_metric_step)

lemma scrape_counts:
  "outcomes_total (scrape xs) s = count_list xs (Outcome s)"
  "hot_degraded_total (scrape xs) d = count_list xs (HotDegraded d)"
  by (simp_all add: scrape_def fold_count counters_new_def)

section \<open>What a procedure observes\<close>

text \<open>Whatever the state, the metrics it adds and its result are related.\<close>

definition observing :: "('h coordination, exn, 'a) proc \<Rightarrow> (exn + 'a \<Rightarrow> metric list \<Rightarrow> bool) \<Rightarrow> bool" where
  "observing p Q \<longleftrightarrow> (\<forall>st r st'. p st = (r, st') \<longrightarrow> (\<exists>xs. metrics st' = metrics st @ xs \<and> Q r xs))"

lemma observingI: "(\<And>st r st'. p st = (r, st') \<Longrightarrow> \<exists>xs. metrics st' = metrics st @ xs \<and> Q r xs) \<Longrightarrow> observing p Q"
  by (simp add: observing_def)

lemma observingD: "observing p Q \<Longrightarrow> p st = (r, st') \<Longrightarrow> \<exists>xs. metrics st' = metrics st @ xs \<and> Q r xs"
  by (simp add: observing_def)

lemma observing_sthen:
  assumes "observing m P" "\<And>x. observing (f x) (F x)"
    and "\<And>e xs. P (Inl e) xs \<Longrightarrow> Q (Inl e) xs"
    and "\<And>x r xs ys. P (Inr x) xs \<Longrightarrow> F x r ys \<Longrightarrow> Q r (xs @ ys)"
  shows "observing (sthen m f) Q"
proof (rule observingI)
  fix st r u assume "sthen m f st = (r, u)"
  then consider e where "m st = (Inl e, u)" "r = Inl e" | x t where "m st = (Inr x, t)" "f x t = (r, u)"
    by (auto simp: sthen_cases)
  then show "\<exists>xs. metrics u = metrics st @ xs \<and> Q r xs"
  proof cases
    case 1
    with observingD [OF assms(1) 1(1)] assms(3) show ?thesis by blast
  next
    case 2
    from observingD [OF assms(1) 2(1)] observingD [OF assms(2) 2(2)] assms(4) show ?thesis by fastforce
  qed
qed

lemma observing_scatch:
  assumes "observing m P" "\<And>e. observing (h e) (H e)"
    and "\<And>x xs. P (Inr x) xs \<Longrightarrow> Q (Inr x) xs"
    and "\<And>e r xs ys. P (Inl e) xs \<Longrightarrow> H e r ys \<Longrightarrow> Q r (xs @ ys)"
  shows "observing (scatch m h) Q"
proof (rule observingI)
  fix st r u assume "scatch m h st = (r, u)"
  then consider x where "m st = (Inr x, u)" "r = Inr x" | e t where "m st = (Inl e, t)" "h e t = (r, u)"
    by (auto simp: scatch_cases)
  then show "\<exists>xs. metrics u = metrics st @ xs \<and> Q r xs"
  proof cases
    case 1
    with observingD [OF assms(1) 1(1)] assms(3) show ?thesis by blast
  next
    case 2
    from observingD [OF assms(1) 2(1)] observingD [OF assms(2) 2(2)] assms(4) show ?thesis by fastforce
  qed
qed

lemma observing_weaken: "observing p P \<Longrightarrow> (\<And>r xs. P r xs \<Longrightarrow> Q r xs) \<Longrightarrow> observing p Q"
  unfolding observing_def by blast

abbreviation silent :: "('h coordination, exn, 'a) proc \<Rightarrow> bool" where
  "silent p \<equiv> observing p (\<lambda>r xs. xs = [])"

lemma silent_steps:
  "silent (sret x)" "silent (sraise e)" "silent (slift res)" "silent (on_hot m)" "silent (on_execution m2)"
  "silent next_lease_token" "silent next_wake_ups" "silent (beat self identity token policy n)"
  by (auto simp: observing_def on_hot_def on_execution_def next_lease_token_def next_wake_ups_def beat_def
      split: prod.splits list.splits)

lemma silent_sthen: "silent m \<Longrightarrow> (\<And>x. silent (f x)) \<Longrightarrow> silent (sthen m f)"
  by (rule observing_sthen [where P = "\<lambda>r xs. xs = []" and F = "\<lambda>x r xs. xs = []"]) simp_all

lemma observing_observe: "observing (observe x) (\<lambda>r xs. r = Inr () \<and> xs = [x])"
  by (simp add: observing_def observe_def)

section \<open>What a call of the coordinator observes\<close>

text \<open>
  At most one degradation first, then at most one outcome. An execution or a replay is
  returned, or refused as expired or without a result; a conflict and a running execution are
  raised as such. In the hot-only mode a degraded call returns nothing.
\<close>

fun outcome_fits :: "ExecutionStatus \<Rightarrow> exn + 'a \<Rightarrow> bool" where
  "outcome_fits CONFLICT r \<longleftrightarrow> r = Inl (IdempotencyError IdempotencyConflictError)"
| "outcome_fits IN_PROGRESS r \<longleftrightarrow> r = Inl (IdempotencyError IdempotencyInProgressError)"
| "outcome_fits s r \<longleftrightarrow>
     (\<exists>c. r = Inr c) \<or> r = Inl RuntimeError \<or> r = Inl (IdempotencyError IdempotencyUnavailableError)"

definition evaluated :: "exn + 'a \<Rightarrow> metric list \<Rightarrow> bool" where
  "evaluated r xs \<longleftrightarrow> (\<exists>s. xs = [Outcome s] \<and> outcome_fits s r) \<or> xs = [] \<and> (\<exists>e. r = Inl e)"

definition degraded :: "metric list \<Rightarrow> bool" where
  "degraded xs \<longleftrightarrow> xs = [] \<or> (\<exists>d. xs = [HotDegraded d])"

definition accounted :: "IdempotencyMode \<Rightarrow> exn + 'a \<Rightarrow> metric list \<Rightarrow> bool" where
  "accounted m r xs \<longleftrightarrow> (\<exists>ds os. xs = ds @ os \<and> degraded ds \<and> evaluated r os
     \<and> (m = HOT_ONLY \<and> (\<exists>c. r = Inr c) \<longrightarrow> ds = []))"

lemma evaluated_Inl [simp]: "evaluated (Inl e) []"
  by (simp add: evaluated_def)

lemma accountedI:
  "degraded ds \<Longrightarrow> evaluated r os \<Longrightarrow> (m = HOT_ONLY \<and> (\<exists>c. r = Inr c) \<longrightarrow> ds = []) \<Longrightarrow> accounted m r (ds @ os)"
  unfolding accounted_def by blast

lemma accounted_evaluated: "evaluated r xs \<Longrightarrow> accounted m r xs"
  using accountedI [of "[]"] by (simp add: degraded_def)

lemma accounted_degraded: "degraded xs \<Longrightarrow> accounted m (Inl e) xs"
  using accountedI [of xs "Inl e" "[]"] by simp

text \<open>What follows a step that observes nothing.\<close>

lemma after_silent: "silent m \<Longrightarrow> (\<And>x. observing (f x) Q) \<Longrightarrow> (\<And>e. Q (Inl e) []) \<Longrightarrow> observing (sthen m f) Q"
  by (rule observing_sthen [where P = "\<lambda>r xs. xs = []" and F = "\<lambda>x. Q"]) simp_all

lemma after_observe:
  "observing p P \<Longrightarrow> (\<And>r xs. P r xs \<Longrightarrow> Q r (x # xs)) \<Longrightarrow> observing (sthen (observe x) (\<lambda>_. p)) Q"
  by (rule observing_sthen [OF observing_observe, where F = "\<lambda>x. P"]) auto

lemma observing_sraise: "observing (sraise e) (\<lambda>r xs. xs = [] \<and> (\<exists>e. r = Inl e))"
  by (simp add: observing_def)

lemma observing_evaluate_result:
  "observing (evaluate_result res) (\<lambda>r xs. evaluated r xs \<and> ((\<exists>c. r = Inr c) \<longrightarrow> exec_completed res \<noteq> None))"
proof (cases "exec_status res = CONFLICT \<or> exec_status res = IN_PROGRESS")
  case True
  then show ?thesis
    by (auto simp: evaluate_result_def observing_def observe_def sthen_def evaluated_def)
next
  case False
  then have "exec_status res = EXECUTED \<or> exec_status res = REPLAY"
    by (cases "exec_status res") simp_all
  then show ?thesis
    by (auto simp: evaluate_result_def observing_def observe_def sthen_def evaluated_def on_execution_def
        on_session_def utc_now_def split: option.splits prod.splits list.splits)
qed

lemma observing_evaluated: "observing (evaluate_result res) evaluated"
  by (rule observing_weaken [OF observing_evaluate_result]) simp

lemma silent_execute_durable: "silent (execute_durable self i fp op retention)"
  by (simp add: execute_durable_def silent_steps split: option.split)

lemma observing_resolve_busy: "observing (resolve_busy self i fp busy policy) evaluated"
proof -
  have busy: "observing (sthen (slift decision) evaluate_result) evaluated" for decision
    by (rule after_silent) (simp_all add: silent_steps observing_evaluated)
  have "observing (sthen (on_execution m) (\<lambda>existing. case existing of Some found \<Rightarrow> evaluate_result found
      | None \<Rightarrow> sthen (slift decision) evaluate_result)) evaluated" for m decision
    by (rule after_silent) (simp_all add: silent_steps observing_evaluated busy split: option.split)
  with busy show ?thesis
    by (auto simp: resolve_busy_def Let_def observing_def [of "sraise _"] split: option.split)
qed

text \<open>The two calls on the lease: at most one degradation.\<close>

text \<open>\<open>K\<close> says that a degraded call does not return.\<close>

lemma observing_lease_call:
  assumes "\<And>e. observing (h e) (\<lambda>r xs. degraded xs \<and> ((\<exists>x. r = Inr (Some x)) \<or> K \<and> (\<exists>x. r = Inr x) \<longrightarrow> xs = []))"
    and "\<And>x. observing (f x) (\<lambda>r xs. degraded xs \<and> (x = None \<or> K \<and> r = Inr () \<longrightarrow> xs = []))"
  shows "observing (sthen (scatch (sthen (on_hot m) (\<lambda>y. sret (Some y))) h) f)
    (\<lambda>r xs. degraded xs \<and> (K \<and> r = Inr () \<longrightarrow> xs = []))"
proof -
  have "silent (sthen (on_hot m) (\<lambda>y. sret (Some y)))"
    by (rule silent_sthen) (simp_all add: silent_steps)
  then have call: "observing (scatch (sthen (on_hot m) (\<lambda>y. sret (Some y))) h)
      (\<lambda>r xs. degraded xs \<and> ((\<exists>x. r = Inr (Some x)) \<or> K \<and> (\<exists>x. r = Inr x) \<longrightarrow> xs = []))"
    by (rule observing_scatch [OF _ assms(1)]) (simp_all add: degraded_def)
  show ?thesis
    by (rule observing_sthen [OF call assms(2)]) (auto simp: degraded_def)
qed

lemma observing_complete_lease:
  "observing (complete_lease self i token c policy) (\<lambda>r xs. degraded xs \<and> (mode policy = HOT_ONLY \<and> r = Inr () \<longrightarrow> xs = []))"
  unfolding complete_lease_def
  by (rule observing_lease_call) (auto simp: observing_def observe_def degraded_def sthen_def)

lemma observing_release_lease: "observing (release_lease self i token) (\<lambda>r xs. degraded xs)"
proof -
  have "observing (release_lease self i token) (\<lambda>r xs. degraded xs \<and> (False \<and> r = Inr () \<longrightarrow> xs = []))"
    unfolding release_lease_def
    by (rule observing_lease_call) (auto simp: observing_def observe_def degraded_def sthen_def)
  then show ?thesis by simp
qed

section \<open>The whole call\<close>

lemma silent_run_claimed: "silent (run_claimed self i fp op policy)"
  unfolding run_claimed_def by (auto intro!: silent_sthen simp: silent_steps silent_execute_durable)

lemma accounted_sthen_evaluate:
  assumes "observing m (\<lambda>r xs. degraded xs \<and> (how = HOT_ONLY \<and> exec_completed res \<noteq> None \<and> r = Inr () \<longrightarrow> xs = []))"
  shows "observing (sthen m (\<lambda>_. evaluate_result res)) (accounted how)"
proof (rule observing_sthen [OF assms observing_evaluate_result], goal_cases)
  case (1 e xs)
  then show ?case by (simp add: accounted_degraded)
next
  case (2 x r xs ys)
  then show ?case by (intro accountedI) auto
qed

lemma observing_raise: "observing (sraise e) (\<lambda>r xs. degraded xs \<and> (\<exists>e. r = Inl e))"
  by (rule observing_weaken [OF observing_sraise]) (simp add: degraded_def)

lemma observing_release_raise:
  "observing (sthen (release_lease self i token) (\<lambda>_. sthen (beat self i token policy n) (\<lambda>_. sraise e)))
    (\<lambda>r xs. degraded xs \<and> (\<exists>e. r = Inl e))"
proof (rule observing_sthen [OF observing_release_lease])
  show "observing (sthen (beat self i token policy n) (\<lambda>_. sraise e)) (\<lambda>r xs. xs = [] \<and> (\<exists>e. r = Inl e))"
    by (rule after_silent) (simp_all add: silent_steps observing_sraise)
qed simp_all

lemma observing_execute_claimed: "observing (execute_claimed self i fp token op policy) (accounted (mode policy))"
proof (rule observingI)
  fix st r u
  assume run: "execute_claimed self i fp token op policy st = (r, u)"
  let ?wake = "sthen next_wake_ups (\<lambda>(during, after). sthen (beat self i token policy during) (\<lambda>lost. sret (lost, after)))"
  have wake: "silent ?wake"
    by (auto intro!: silent_sthen simp: silent_steps)
  have failing: "observing (if lost then sraise e else sthen (release_lease self i token) (\<lambda>_.
      sthen (beat self i token policy after) (\<lambda>_. sraise e))) (\<lambda>r xs. degraded xs \<and> (\<exists>e. r = Inl e))"
    for lost e after
    by (simp add: observing_raise observing_release_raise)
  have ending: "observing (sthen (if lost then sthen (observe (HotDegraded LEASE)) (\<lambda>_.
        if mode policy = HOT_ONLY then sraise (IdempotencyError IdempotencyUnavailableError) else sret ())
      else (case exec_completed res of Some c \<Rightarrow> complete_lease self i token c policy
        | None \<Rightarrow> release_lease self i token)) (\<lambda>_. evaluate_result res)) (accounted (mode policy))" for lost res
  proof (rule accounted_sthen_evaluate, cases lost)
    case True
    then show "observing (if lost then sthen (observe (HotDegraded LEASE)) (\<lambda>_.
        if mode policy = HOT_ONLY then sraise (IdempotencyError IdempotencyUnavailableError) else sret ())
      else (case exec_completed res of Some c \<Rightarrow> complete_lease self i token c policy
        | None \<Rightarrow> release_lease self i token))
      (\<lambda>r xs. degraded xs \<and> (mode policy = HOT_ONLY \<and> exec_completed res \<noteq> None \<and> r = Inr () \<longrightarrow> xs = []))"
      by (auto simp: observing_def observe_def degraded_def sthen_def)
  next
    case False
    then show "observing (if lost then sthen (observe (HotDegraded LEASE)) (\<lambda>_.
        if mode policy = HOT_ONLY then sraise (IdempotencyError IdempotencyUnavailableError) else sret ())
      else (case exec_completed res of Some c \<Rightarrow> complete_lease self i token c policy
        | None \<Rightarrow> release_lease self i token))
      (\<lambda>r xs. degraded xs \<and> (mode policy = HOT_ONLY \<and> exec_completed res \<noteq> None \<and> r = Inr () \<longrightarrow> xs = []))"
      by (cases "exec_completed res") (simp_all add: observing_complete_lease observing_release_lease)
  qed
  show "\<exists>xs. metrics u = metrics st @ xs \<and> accounted (mode policy) r xs"
  proof (cases "?wake st")
    case (Pair w t)
    from observingD [OF wake Pair] have t: "metrics t = metrics st" by simp
    show ?thesis
    proof (cases w)
      case (Inl e)
      with run Pair t show ?thesis by (auto simp: execute_claimed_def accounted_degraded degraded_def)
    next
      case (Inr la)
      obtain lost after where la: "la = (lost, after)" by (cases la)
      obtain q v where claimed: "run_claimed self i fp op policy t = (q, v)" by (cases "run_claimed self i fp op policy t")
      from observingD [OF silent_run_claimed this] t have v: "metrics v = metrics st" by simp
      from run have "(case q of Inl e \<Rightarrow> (if lost then sraise e
          else sthen (release_lease self i token) (\<lambda>_. sthen (beat self i token policy after) (\<lambda>_. sraise e))) v
        | Inr res \<Rightarrow> sthen (if lost then sthen (observe (HotDegraded LEASE)) (\<lambda>_.
              if mode policy = HOT_ONLY then sraise (IdempotencyError IdempotencyUnavailableError) else sret ())
            else (case exec_completed res of Some c \<Rightarrow> complete_lease self i token c policy
              | None \<Rightarrow> release_lease self i token)) (\<lambda>_. evaluate_result res) v) = (r, u)"
        unfolding execute_claimed_def Pair Inr la by (simp add: claimed split: sum.splits)
      then show ?thesis
        using observingD [OF failing] observingD [OF ending] v
        by (cases q) (fastforce dest: accounted_degraded)+
    qed
  qed
qed

lemma observing_coordinator_execute:
  "observing (coordinator_execute self i fp op policy) (accounted (mode policy))"
proof -
  let ?claim = "\<lambda>token. scatch
      (sthen (on_hot (port_claim (coord_hot_store self) i fp token (lease_seconds policy))) (\<lambda>claim. sret (Some claim)))
      (\<lambda>e. if e = IdempotencyError IdempotencyUnavailableError then
         sthen (observe (HotDegraded BEGIN)) (\<lambda>_. if mode policy = HOT_ONLY then sraise e else sret None)
       else sraise e)"
  have claim: "observing (?claim token) (\<lambda>r xs. degraded xs
      \<and> ((\<exists>x. r = Inr (Some x)) \<or> mode policy = HOT_ONLY \<and> (\<exists>x. r = Inr x) \<longrightarrow> xs = []))" for token
  proof (rule observing_scatch [where P = "\<lambda>r xs. xs = []"])
    show "silent (sthen (on_hot (port_claim (coord_hot_store self) i fp token (lease_seconds policy))) (\<lambda>claim. sret (Some claim)))"
      by (rule silent_sthen) (simp_all add: silent_steps)
    show "observing (if e = IdempotencyError IdempotencyUnavailableError then
         sthen (observe (HotDegraded BEGIN)) (\<lambda>_. if mode policy = HOT_ONLY then sraise e else sret None)
       else sraise e) (\<lambda>r xs. degraded xs
      \<and> ((\<exists>x. r = Inr (Some x)) \<or> mode policy = HOT_ONLY \<and> (\<exists>x. r = Inr x) \<longrightarrow> xs = []))" for e
      by (auto simp: observing_def observe_def degraded_def sthen_def)
  qed (simp_all add: degraded_def)
  have durable: "observing (sthen (execute_durable self i fp op retention) evaluate_result) evaluated" for retention
    by (rule after_silent) (simp_all add: silent_execute_durable observing_evaluated)
  have replay: "observing (sthen (slift decision) evaluate_result) (accounted (mode policy))" for decision
    by (rule after_silent)
      (simp_all add: silent_steps observing_weaken [OF observing_evaluated] accounted_evaluated)
  have rest: "observing (case claim_status c of
        CLAIM_REPLAY \<Rightarrow> sthen (slift (idempotency_result_new REPLAY (claim_completed c))) evaluate_result
      | CLAIM_CONFLICT \<Rightarrow> resolve_busy self i fp CLAIM_CONFLICT policy
      | CLAIM_IN_PROGRESS \<Rightarrow> resolve_busy self i fp CLAIM_IN_PROGRESS policy
      | ACQUIRED \<Rightarrow> execute_claimed self i fp token op policy) (accounted (mode policy))" for c token
    using replay observing_execute_claimed
    by (cases "claim_status c") (simp_all add: observing_weaken [OF observing_resolve_busy] accounted_evaluated)
  have decide: "observing (sthen (?claim token) (\<lambda>claim. case claim of
        None \<Rightarrow> sthen (execute_durable self i fp op (retention_seconds policy)) evaluate_result
      | Some c \<Rightarrow> (case claim_status c of
          CLAIM_REPLAY \<Rightarrow> sthen (slift (idempotency_result_new REPLAY (claim_completed c))) evaluate_result
        | CLAIM_CONFLICT \<Rightarrow> resolve_busy self i fp CLAIM_CONFLICT policy
        | CLAIM_IN_PROGRESS \<Rightarrow> resolve_busy self i fp CLAIM_IN_PROGRESS policy
        | ACQUIRED \<Rightarrow> execute_claimed self i fp token op policy))) (accounted (mode policy))" for token
    by (rule observing_sthen [OF claim,
          where F = "\<lambda>claim r xs. if claim = None then evaluated r xs else accounted (mode policy) r xs"])
      (auto simp: durable rest accounted_degraded accounted_evaluated intro: accountedI split: option.split if_splits)
  show ?thesis
    unfolding coordinator_execute_def
    using after_silent [OF silent_steps(6) decide]
    by (auto simp: accounted_degraded degraded_def intro: observing_weaken [OF observing_sraise])
qed

lemma call_is_counted:
  assumes "coordinator_execute self i fp op policy st = (r, st')"
  obtains ds os where
    "metrics st' = metrics st @ (case ds of None \<Rightarrow> [] | Some d \<Rightarrow> [HotDegraded d])
       @ (case os of None \<Rightarrow> [] | Some s \<Rightarrow> [Outcome s])"
    "case os of None \<Rightarrow> \<exists>e. r = Inl e | Some s \<Rightarrow> outcome_fits s r"
    "mode policy = HOT_ONLY \<and> (\<exists>c. r = Inr c) \<longrightarrow> ds = None"
proof -
  from observingD [OF observing_coordinator_execute assms] obtain ds os where
    m: "metrics st' = metrics st @ ds @ os" and d: "degraded ds" and e: "evaluated r os"
      and h: "mode policy = HOT_ONLY \<and> (\<exists>c. r = Inr c) \<longrightarrow> ds = []"
    by (auto simp: accounted_def)
  obtain d' where d': "ds = (case d' of None \<Rightarrow> [] | Some d \<Rightarrow> [HotDegraded d])"
    using d that [of None] that [of "Some d" for d] by (auto simp: degraded_def)
  obtain s' where s': "os = (case s' of None \<Rightarrow> [] | Some s \<Rightarrow> [Outcome s])"
      "case s' of None \<Rightarrow> \<exists>e. r = Inl e | Some s \<Rightarrow> outcome_fits s r"
    using e that [of None] that [of "Some s" for s] by (auto simp: evaluated_def)
  from that [of d' s'] m d' s' h show ?thesis by (cases d') auto
qed

text \<open>
  C29. The counters tell what happened. Whatever the stores do and however they fail, a call of
  the coordinator raises at most one counter of an outcome and at most one of a degradation, each
  by one, and no counter ever falls. A call that returns a result raises exactly one outcome, an
  execution or a replay; a counted conflict is a call that raises the conflict, a counted running
  execution one that raises this, and a counted execution or replay that returns nothing is one
  whose result had expired or was missing. In the hot-only mode a call that counts a degradation
  returns no result.
\<close>

theorem calls_are_counted:
  assumes "coordinator_execute self i fp op policy st = (r, st')"
  shows "\<exists>os ds.
      (\<forall>s. outcomes_total (scrape (metrics st')) s = outcomes_total (scrape (metrics st)) s + of_bool (os = Some s))
    \<and> (\<forall>d. hot_degraded_total (scrape (metrics st')) d
          = hot_degraded_total (scrape (metrics st)) d + of_bool (ds = Some d))
    \<and> (\<forall>c. r = Inr c \<longrightarrow> os \<in> {Some EXECUTED, Some REPLAY} \<and> (mode policy = HOT_ONLY \<longrightarrow> ds = None))
    \<and> (os = Some CONFLICT \<longrightarrow> r = Inl (IdempotencyError IdempotencyConflictError))
    \<and> (os = Some IN_PROGRESS \<longrightarrow> r = Inl (IdempotencyError IdempotencyInProgressError))
    \<and> (os \<in> {Some EXECUTED, Some REPLAY} \<longrightarrow>
         (\<exists>c. r = Inr c) \<or> r \<in> {Inl RuntimeError, Inl (IdempotencyError IdempotencyUnavailableError)})"
proof -
  from call_is_counted [OF assms] obtain ds os where
    m: "metrics st' = metrics st @ (case ds of None \<Rightarrow> [] | Some d \<Rightarrow> [HotDegraded d])
        @ (case os of None \<Rightarrow> [] | Some s \<Rightarrow> [Outcome s])"
      and o: "case os of None \<Rightarrow> \<exists>e. r = Inl e | Some s \<Rightarrow> outcome_fits s r"
      and h: "mode policy = HOT_ONLY \<and> (\<exists>c. r = Inr c) \<longrightarrow> ds = None" .
  have "outcomes_total (scrape (metrics st')) s = outcomes_total (scrape (metrics st)) s + of_bool (os = Some s)"
    "hot_degraded_total (scrape (metrics st')) d = hot_degraded_total (scrape (metrics st)) d + of_bool (ds = Some d)" for s d
    using m by (simp_all add: scrape_counts split: option.split)
  moreover from o have "\<forall>c. r = Inr c \<longrightarrow> os \<in> {Some EXECUTED, Some REPLAY}"
    "os = Some CONFLICT \<longrightarrow> r = Inl (IdempotencyError IdempotencyConflictError)"
    "os = Some IN_PROGRESS \<longrightarrow> r = Inl (IdempotencyError IdempotencyInProgressError)"
    "os \<in> {Some EXECUTED, Some REPLAY} \<longrightarrow>
       (\<exists>c. r = Inr c) \<or> r \<in> {Inl RuntimeError, Inl (IdempotencyError IdempotencyUnavailableError)}"
    by (auto split: option.splits elim: outcome_fits.elims)
  ultimately show ?thesis using h by (intro exI [of _ os] exI [of _ ds]) simp
qed

end
