(* ===== verification/Exactly_Once_Witnesses.thy ===== *)
theory Exactly_Once_Witnesses
  imports Exactly_Once
begin

text \<open>A concrete execution and its repetition.\<close>

lemmas [run_defs] = execute_once_def exclusive_use_def on_session_def execute_once_inner_def
  find_existing_inner_def validate_fingerprint_def durable_body_def seconds_def with_uow_def
  uow_enter_def uow_exit_def commit_transaction_def rollback_transaction_def close_with_def
  get_completed_def select_completed_def try_add_completed_def upsert_record_def record_of_def
  identity_of_def record_check_def record_columns_ok_def integer_ok_def completed_new_def
  stored_validate_def stored_fields_ok_def validate_replayability_def is_completion_only_def
  stored_completion_def

definition sample_identity :: IdempotencyKey where
  "sample_identity = \<lparr>subject_id = ustr ''user:1'', operation = ustr ''profile.update'',
     key_digest = replicate 32 7\<rparr>"

definition sample_fingerprint :: bytes where
  "sample_fingerprint = replicate 32 9"

definition sample_operation :: operation_proc where
  "sample_operation = sthen (UpdateProfileHandler sample_update) (\<lambda>_. sret stored_completion)"

definition sample_execution :: execution_state where
  "sample_execution = \<lparr>active = False, exec_session = (fresh_session sample_db [])\<lparr>ticks := [5]\<rparr>\<rparr>"

lemmas [run_defs] = sample_identity_def sample_fingerprint_def sample_operation_def
  sample_execution_def sample_update_def

lemma sample_operation_ok:
  "keeps within sample_operation" "honest sample_operation"
  "keeps (guar (keeps_ok records_ok)) sample_operation"
  unfolding sample_operation_def
  by (intro keeps_within handlers_within honest_intros handlers_honest keeps_guar keeps_ok_reflp
      keeps_ok_transp handlers_keep_records)+

definition sample_completed :: CompletedIdempotencyResult where
  "sample_completed = \<lparr>result_type = ustr ''completion'', result_payload = None, result_version = 1,
     resource_type = None, resource_id = None, resource_version = None,
     expires_at = 5 + seconds 60, request_fingerprint = sample_fingerprint\<rparr>"

lemma sample_execution_run:
  "fst (execute_once get_completed try_add_completed sample_identity sample_fingerprint sample_operation 60
     sample_execution) = Inr \<lparr>exec_status = EXECUTED, exec_completed = Some sample_completed\<rparr>"
  by (simp add: run_defs sample_completed_def)

lemma sample_execution_clock:
  "ticks (exec_session (snd (execute_once get_completed try_add_completed sample_identity
      sample_fingerprint sample_operation 60 sample_execution))) = []
   \<and> now (exec_session (snd (execute_once get_completed try_add_completed sample_identity
      sample_fingerprint sample_operation 60 sample_execution))) = 5"
  by (simp add: run_defs)

lemma sample_execution_start [simp]:
  "\<not> active sample_execution" "quiet (exec_session sample_execution)" "idle (exec_session sample_execution)"
  "records_ok (committed (exec_session sample_execution))"
  "rely (keeps_ok records_ok) (exec_session sample_execution)"
  by (simp_all add: sample_execution_def quiet_def idle_def fresh_session_def records_ok_def sample_db_def
      rely_def)

theorem durable_execution_atomic_witness:
  "\<exists>c. committed_once recorded records_ok sample_operation sample_identity sample_fingerprint
     (exec_session sample_execution)
     (exec_session (snd (execute_once get_completed try_add_completed sample_identity
        sample_fingerprint sample_operation 60 sample_execution))) c \<and> c = sample_completed"
  using durable_execution_atomic [OF run_with_state [OF sample_execution_run] sample_execution_start(1,3)
      sample_operation_ok sample_execution_start(5,4)]
  by auto

definition recorded_db :: db where
  "recorded_db = sample_db\<lparr>idempotency_records := [record_of sample_identity sample_completed 5]\<rparr>"

lemma sample_completed_valid: "valid_completed sample_completed"
  by (simp add: valid_completed_def sample_completed_def sample_fingerprint_def stored_fields_ok_def
      validate_replayability_def is_completion_only_def)

lemma recorded_db_record:
  "records_ok recorded_db" "recorded recorded_db sample_identity = Some sample_completed"
  using sample_completed_valid by (simp_all add: recorded_db_def records_ok_def recorded_def)

lemma repetition_replays_witness:
  "\<exists>st'. execute_once get_completed try_add_completed sample_identity sample_fingerprint (sraise ValueError) 60
      \<lparr>active = False, exec_session = fresh_session recorded_db []\<rparr>
    = (Inr \<lparr>exec_status = REPLAY, exec_completed = Some sample_completed\<rparr>, st')"
  using repetition_replays [of "\<lparr>active = False, exec_session = fresh_session recorded_db []\<rparr>"
      sample_identity sample_completed sample_fingerprint 60 "sraise ValueError"] recorded_db_record
  by (auto simp: quiet_def fresh_session_def idle_def clock_below_def sample_completed_def seconds_def
      sample_fingerprint_def replay_of_def)

theorem exactly_once_witness:
  "fst (execute_again sample_identity sample_fingerprint [(sample_operation, 60), (sample_operation, 1)]
      (snd (execute_once get_completed try_add_completed sample_identity sample_fingerprint sample_operation 60
         sample_execution)))
    = replicate 2 (Inr \<lparr>exec_status = REPLAY, exec_completed = Some sample_completed\<rparr>)"
proof -
  let ?res = "\<lparr>exec_status = EXECUTED, exec_completed = Some sample_completed\<rparr>"
  let ?st = "snd (execute_once get_completed try_add_completed sample_identity sample_fingerprint
      sample_operation 60 sample_execution)"
  have res: "exec_status ?res = EXECUTED" by simp
  have below: "\<forall>c. exec_completed ?res = Some c \<longrightarrow> clock_below (exec_session ?st) (expires_at c)"
    using sample_execution_clock by (simp add: clock_below_def sample_completed_def seconds_def)
  have fp: "length sample_fingerprint = 32" by (simp add: sample_fingerprint_def)
  have runs: "list_all (\<lambda>run. 0 < snd run) [(sample_operation, 60 :: int), (sample_operation, 1)]" by simp
  from exactly_once [OF run_with_state [OF sample_execution_run] res sample_execution_start(1-3)
      sample_operation_ok sample_execution_start(4) below fp runs]
  show ?thesis by (auto simp: numeral_eq_Suc)
qed

end
