(* ===== verification/Hot_Witnesses.thy ===== *)
theory Hot_Witnesses
  imports Hot_Adapter
begin

text \<open>
  Concrete runs of the hot store on the in-memory server, where the hypotheses of its
  properties hold.
\<close>

definition empty_memory :: memory where
  "empty_memory = \<lparr>mem = (\<lambda>_. RHash []), mem_deadline = (\<lambda>_. None), mem_now = 0\<rparr>"

definition key1 :: pystr where
  "key1 = [107]"

definition two_claims :: "event list" where
  "two_claims =
     [Script key1 (Claim [1] [10] 30), Elapse 1000000, Script key1 (Claim [1] [11] 30)]"

definition claim_and_replay :: "event list" where
  "claim_and_replay =
     [Script key1 (Claim [1] [10] 30), Script key1 (Complete [10] [7] 5000 [1] 9000), Elapse 1000000,
      Script key1 (Claim [1] [11] 30)]"

abbreviation run_memory :: "event list \<Rightarrow> memory \<Rightarrow> log \<times> memory" where
  "run_memory \<equiv> hot_run memory_redis mem_now mem_elapse mem_evict"

lemma memory_is_world: "redis_world memory_redis mem_hash_at mem_deadline_of mem_now mem_elapse mem_evict"
  by (rule memory_world.redis_world_axioms)

lemma empty_memory_cells: "cell_at mem_hash_at mem_deadline_of empty_memory k = (Free, None)"
  by (simp add: cell_at_def mem_hash_at_def mem_deadline_of_def empty_memory_def)

lemmas memory_run_defs = empty_memory_def claim_script_def complete_script_def memory_redis_def
  on_hash_def mem_expire_def mem_elapse_def mem_deadline_of_def lit_def ascii_def

lemma two_claims_log: "fst (run_memory two_claims empty_memory) =
    [(0, key1, Claim [1] [10] 30, Inr (ArrayReply [IntReply 1])),
     (1000, key1, Claim [1] [11] 30, Inr (ArrayReply [IntReply 4]))]"
  by (simp add: two_claims_def memory_run_defs)

lemma claim_and_replay_log: "fst (run_memory claim_and_replay empty_memory) =
    [(0, key1, Claim [1] [10] 30, Inr (ArrayReply [IntReply 1])),
     (0, key1, Complete [10] [7] 5000 [1] 9000, Inr (IntReply 1)),
     (1000, key1, Claim [1] [11] 30, Inr (ArrayReply [IntReply 2, BulkReply [7]]))]"
  by (simp add: claim_and_replay_def memory_run_defs)

lemma events_ok: "list_all (event_ok (\<lambda>_. True)) two_claims" "list_all (event_ok (\<lambda>_. True)) claim_and_replay"
  by (simp_all add: two_claims_def claim_and_replay_def)

lemma memory_sound: "\<forall>k. True \<longrightarrow> fst (cell_at mem_hash_at mem_deadline_of empty_memory k) \<noteq> Corrupt"
  by (simp add: empty_memory_cells)

theorem hot_store_refines_lease_machine_witness:
  "fst (lease_run two_claims (world mem_now mem_hash_at mem_deadline_of empty_memory)) =
    [(0, key1, Claim [1] [10] 30, Inr (ArrayReply [IntReply 1])),
     (1000, key1, Claim [1] [11] 30, Inr (ArrayReply [IntReply 4]))]"
  using hot_store_refines_lease_machine [OF memory_is_world events_ok(1) memory_sound] two_claims_log
  by (simp split: prod.splits)

theorem lease_excludes_witness: "refused_at key1 [(1000, key1, Claim [1] [11] 30, Inr (ArrayReply [IntReply 4]))]"
proof -
  have es: "two_claims = Script key1 (Claim [1] [10] 30) # tl two_claims" by (simp add: two_claims_def)
  have run: "run_memory (Script key1 (Claim [1] [10] 30) # tl two_claims) empty_memory =
    ((0, key1, Claim [1] [10] 30, Inr (ArrayReply [IntReply 1]))
       # [(1000, key1, Claim [1] [11] 30, Inr (ArrayReply [IntReply 4]))],
     snd (run_memory two_claims empty_memory))"
    using two_claims_log by (metis es prod.collapse)
  show ?thesis
    using lease_excludes [OF memory_is_world _ memory_sound run] events_ok(1)
    by (simp add: two_claims_def empty_memory_def)
qed

theorem replay_is_published_witness:
  "published [(0, key1, Claim [1] [10] 30, Inr (ArrayReply [IntReply 1])),
     (0, key1, Complete [10] [7] 5000 [1] 9000, Inr (IntReply 1))] key1 [1] [7] 1000"
proof -
  have run: "run_memory claim_and_replay empty_memory =
    ([(0, key1, Claim [1] [10] 30, Inr (ArrayReply [IntReply 1])),
      (0, key1, Complete [10] [7] 5000 [1] 9000, Inr (IntReply 1))]
     @ (1000, key1, Claim [1] [11] 30, Inr (ArrayReply [IntReply 2, BulkReply [7]])) # [],
     snd (run_memory claim_and_replay empty_memory))"
    using claim_and_replay_log by (simp add: prod_eq_iff)
  show ?thesis
    using replay_is_published [OF memory_is_world events_ok(2) _ run] by (simp add: empty_memory_cells)
qed

section \<open>Through the adapter\<close>

definition hot_identity :: IdempotencyKey where
  "hot_identity = \<lparr>subject_id = [117], operation = [111], key_digest = [1]\<rparr>"

definition hot_result :: CompletedIdempotencyResult where
  "hot_result = \<lparr>result_type = ustr ''completion'', result_payload = None, result_version = 1,
     resource_type = None, resource_id = None, resource_version = None,
     expires_at = 60000000, request_fingerprint = replicate 32 9\<rparr>"

definition one_result_json :: json_lib where
  "one_result_json =
     \<lparr>model_dump = (\<lambda>_. []), json_dumps = (\<lambda>_. [123, 125]),
      validate_json = (\<lambda>_. Inr [(ustr ''request_fingerprint'', PyStr (hex (replicate 32 9)))]),
      model_validate = (\<lambda>_ _. Inr hot_result)\<rparr>"

definition memory_config :: "memory hot_config" where
  "memory_config = \<lparr>redis_api = memory_redis, key_namespace = [110], sha256 = (\<lambda>b. b),
     json = one_result_json, timestamp_ms = ms\<rparr>"

definition clear_link :: "memory link" where
  "clear_link = \<lparr>server = empty_memory, traffic = []\<rparr>"

definition hot_key :: pystr where
  "hot_key = [110, 58] @ hex [117, 0, 111, 0, 1]"

lemma hot_key_eq: "storage_key memory_config hot_identity = Inr hot_key"
  by (simp add: storage_key_def key_material_def utf8_encode_def utf8_char_def memory_config_def
      hot_identity_def hot_key_def)

lemma memory_config_world:
  "redis_world (redis_api memory_config) mem_hash_at mem_deadline_of mem_now mem_elapse mem_evict"
  using memory_is_world by (simp add: memory_config_def)

theorem storage_key_separates_witness: "hot_identity = hot_identity\<lparr>key_digest := [1]\<rparr>"
  by (rule storage_key_separates [of memory_config _ hot_key])
    (use hot_key_eq in \<open>simp_all add: hot_identity_def memory_config_def\<close>)

theorem claim_fails_closed_witness:
  "fst (hot_claim memory_config hot_identity (replicate 32 9) 5 30
     (clear_link\<lparr>traffic := [\<lparr>meanwhile = (\<lambda>d. d), fate_of = ReplyLost RedisError\<rparr>]\<rparr>)) = Inl hot_unavailable
   \<or> (\<exists>c. fst (hot_claim memory_config hot_identity (replicate 32 9) 5 30
     (clear_link\<lparr>traffic := [\<lparr>meanwhile = (\<lambda>d. d), fate_of = ReplyLost RedisError\<rparr>]\<rparr>)) = Inr c
     \<and> (claim_status c = CLAIM_REPLAY \<longleftrightarrow> claim_completed c \<noteq> None)
     \<and> pred_option (\<lambda>done. request_fingerprint done = replicate 32 9) (claim_completed c))"
  using claim_fails_closed [of memory_config mem_hash_at mem_deadline_of mem_now
      "clear_link\<lparr>traffic := [\<lparr>meanwhile = (\<lambda>d. d), fate_of = ReplyLost RedisError\<rparr>]\<rparr>"
      hot_identity hot_key "replicate 32 9" 30 5, OF _ _ _ hot_key_eq _ _ prod.collapse [symmetric]]
    memory_laws
  by (simp add: memory_config_def one_result_json_def json_errors_def redis_faults_def)

lemma claim_publish_replay_witness:
  "fst (hot_claim memory_config hot_identity (replicate 32 9) 6 30
     ((snd (hot_complete memory_config hot_identity 5 hot_result 20
        (snd (hot_claim memory_config hot_identity (replicate 32 9) 5 30 clear_link))))
      \<lparr>server := mem_elapse 1000000 (server (snd (hot_complete memory_config hot_identity 5 hot_result 20
        (snd (hot_claim memory_config hot_identity (replicate 32 9) 5 30 clear_link)))))\<rparr>))
   = Inr \<lparr>claim_status = CLAIM_REPLAY, claim_completed = Some hot_result\<rparr>"
proof -
  have fp: "request_fingerprint hot_result = replicate 32 9" by (simp add: hot_result_def)
  have codec: "codec_ok (json memory_config) hot_result"
    by (simp add: codec_ok_def memory_config_def one_result_json_def fp)
  have enc: "utf8_encode (encode_completed (json memory_config) hot_result) = Inr [123, 125]"
    by (simp add: encode_completed_def memory_config_def one_result_json_def utf8_encode_def utf8_char_def)
  have sample: "timestamp_ms memory_config = ms" "expires_at hot_result = 60000000"
    "server clear_link = empty_memory" "traffic clear_link = []" "mem_now empty_memory = 0"
    by (simp_all add: memory_config_def hot_result_def clear_link_def empty_memory_def)
  show ?thesis
    using claim_publish_replay [OF memory_config_world hot_key_eq codec enc _ _ _ _ _ _ _
        prod.collapse [symmetric] prod.collapse [symmetric] prod.collapse [symmetric],
        of 30 20 "replicate 32 9" 30 clear_link 1000000 5 6]
    by (simp add: fp sample empty_memory_cells Let_def)
qed

end
