(* ===== verification/Coordinator_Witnesses.thy ===== *)
theory Coordinator_Witnesses
  imports Coordinator_Results Metrics Exactly_Once_Witnesses Hot_Witnesses
begin

text \<open>Concrete calls of the coordinator, at which its properties apply.\<close>

lemmas [run_defs] = coordinator_execute_def supports_policy_def next_lease_token_def on_hot_def
  observe_def execute_durable_def on_execution_def evaluate_result_def execute_claimed_def
  next_wake_ups_def beat_def run_claimed_def complete_lease_def release_lease_def
  hot_result_ttl_seconds_def

section \<open>A hot store that is down, and one that agrees to everything\<close>

definition down_port :: "unit hot_port" where
  "down_port =
     \<lparr>port_claim = (\<lambda>_ _ _ _. sraise hot_unavailable), port_renew = (\<lambda>_ _ _. sraise hot_unavailable),
      port_complete = (\<lambda>_ _ _ _. sraise hot_unavailable), port_release = (\<lambda>_ _. sraise hot_unavailable)\<rparr>"

definition agreeing_port :: "unit hot_port" where
  "agreeing_port =
     \<lparr>port_claim = (\<lambda>_ _ _ _. sret \<lparr>claim_status = ACQUIRED, claim_completed = None\<rparr>),
      port_renew = (\<lambda>_ _ _. sret True), port_complete = (\<lambda>_ _ _ _. sret True),
      port_release = (\<lambda>_ _. sret True)\<rparr>"

definition sample_policy :: "IdempotencyMode \<Rightarrow> IdempotencyPolicy" where
  "sample_policy m =
     \<lparr>mode = m, lease_seconds = 30, retention_seconds = 60, hot_cache_seconds = 30\<rparr>"

definition sample_coordinator :: "'h hot_port \<Rightarrow> 'h coordinator" where
  "sample_coordinator port = \<lparr>coord_hot_store = port, durable_execution = Some transactional\<rparr>"

definition sample_call :: "'h \<Rightarrow> 'h coordination" where
  "sample_call h =
     \<lparr>hot = h, execution = sample_execution, metrics = [], lease_tokens = [5], wake_ups = [(1, 0)]\<rparr>"

abbreviation durable_call :: "CompletedIdempotencyResult result \<times> unit coordination" where
  "durable_call \<equiv> coordinator_execute (sample_coordinator down_port) sample_identity sample_fingerprint
     sample_operation (sample_policy HOT_DURABLE) (sample_call ())"

abbreviation hot_only_call :: "CompletedIdempotencyResult result \<times> unit coordination" where
  "hot_only_call \<equiv> coordinator_execute (sample_coordinator agreeing_port) sample_identity sample_fingerprint
     (sret stored_completion) (sample_policy HOT_ONLY) (sample_call ())"

lemma durable_call_run:
  "fst durable_call = Inr sample_completed \<and> last (metrics (snd durable_call)) = Outcome EXECUTED"
proof -
  let ?run = "execute_once get_completed try_add_completed sample_identity sample_fingerprint sample_operation 60
     sample_execution"
  obtain e where e: "?run = (Inr \<lparr>exec_status = EXECUTED, exec_completed = Some sample_completed\<rparr>, e)"
    using sample_execution_run by (metis prod.collapse)
  with sample_execution_clock have "ticks (exec_session e) = []" "now (exec_session e) = 5" by simp_all
  with e show ?thesis
    by (simp add: coordinator_execute_def sample_coordinator_def supports_policy_def sample_call_def
        sample_policy_def next_lease_token_def sthen_def on_hot_def down_port_def scatch_def observe_def
        execute_durable_def on_execution_def transactional_def evaluate_result_def on_session_def utc_now_def
        sample_fingerprint_def sample_completed_def seconds_def)
qed

theorem hot_store_cannot_break_atomicity_witness:
  "\<exists>c. committed_once recorded records_ok sample_operation sample_identity sample_fingerprint
     (exec_session sample_execution) (exec_session (execution (snd durable_call))) c \<and> c = sample_completed"
proof -
  have call: "mode (sample_policy HOT_DURABLE) = HOT_DURABLE"
    "durable_execution (sample_coordinator down_port) = Some transactional"
    "execution (sample_call ()) = sample_execution"
    by (simp_all add: sample_policy_def sample_coordinator_def sample_call_def)
  have run: "durable_call = (Inr sample_completed, snd durable_call)"
    using durable_call_run by (metis prod.collapse)
  from hot_store_cannot_break_atomicity [OF run call(1,2), unfolded call(3), OF sample_execution_start(1,3)
      sample_operation_ok sample_execution_start(5,4)] durable_call_run
  show ?thesis by auto
qed

lemma hot_only_call_run:
  "fst hot_only_call = Inr (sample_completed\<lparr>expires_at := 5 + seconds 60\<rparr>)"
  by (simp add: coordinator_execute_def sample_coordinator_def supports_policy_def sample_call_def
      sample_policy_def next_lease_token_def sthen_def on_hot_def agreeing_port_def scatch_def observe_def
      execute_claimed_def next_wake_ups_def beat_def numeral_eq_Suc run_claimed_def on_execution_def
      on_session_def utc_now_def complete_lease_def evaluate_result_def sample_execution_def
      fresh_session_def completed_new_def stored_validate_def stored_fields_ok_def
      validate_replayability_def is_completion_only_def stored_completion_def sample_completed_def
      sample_fingerprint_def seconds_def)

text \<open>A call in the hot-only mode that publishes its result.\<close>

lemma hot_only_call_publishes:
  "\<exists>tok d h n h1 e1. port_claim agreeing_port sample_identity sample_fingerprint tok 30 () = (Inr d, h)
     \<and> claim_status d = ACQUIRED
     \<and> on_session (sret stored_completion) sample_execution = (Inr (stored_of sample_completed), e1)
     \<and> request_fingerprint sample_completed = sample_fingerprint
     \<and> heartbeat agreeing_port sample_identity tok 30 n h = (False, h1)
     \<and> port_complete agreeing_port sample_identity tok sample_completed 60 h1 = (Inr True, hot (snd hot_only_call))"
proof -
  have run: "hot_only_call = (Inr sample_completed, snd hot_only_call)"
    using hot_only_call_run by (simp add: prod_eq_iff sample_completed_def)
  have mode: "mode (sample_policy HOT_ONLY) = HOT_ONLY" by (simp add: sample_policy_def)
  have call: "coord_hot_store (sample_coordinator agreeing_port) = agreeing_port"
    "lease_seconds (sample_policy HOT_ONLY) = 30" "hot_result_ttl_seconds (sample_policy HOT_ONLY) = 60"
    "hot (sample_call ()) = ()" "execution (sample_call ()) = sample_execution"
    by (simp_all add: sample_coordinator_def sample_policy_def sample_call_def hot_result_ttl_seconds_def)
  have "\<not> hot_replay agreeing_port sample_identity sample_fingerprint
      \<lparr>exec_status = REPLAY, exec_completed = Some sample_completed\<rparr>"
    by (auto simp: hot_replay_def agreeing_port_def)
  with hot_only_returns [OF run mode, unfolded call] show ?thesis by blast
qed

theorem calls_are_counted_witness:
  "let c = scrape (metrics (snd durable_call)) in
     outcomes_total c EXECUTED + outcomes_total c REPLAY = 1 \<and> outcomes_total c CONFLICT = 0"
proof -
  have run: "durable_call = (Inr sample_completed, snd durable_call)"
    using durable_call_run by (metis prod.collapse)
  have zero: "outcomes_total (scrape (metrics (sample_call ()))) s = 0" for s
    by (simp add: sample_call_def scrape_counts)
  from calls_are_counted [OF run] zero show ?thesis by (auto simp: Let_def)
qed

section \<open>The coordinator of the container\<close>

text \<open>The store of the container, on the in-memory server, behind a closed breaker.\<close>

definition container_state :: "memory \<Rightarrow> memory link guarded" where
  "container_state d =
     \<lparr>guard = sample_breaker, inner_state = \<lparr>server = d, traffic = []\<rparr>, turns = []\<rparr>"

definition container_call :: "memory link guarded coordination" where
  "container_call = (sample_call (container_state empty_memory))\<lparr>wake_ups := []\<rparr>"

abbreviation container_run ::
  "CompletedIdempotencyResult result \<times> memory link guarded coordination" where
  "container_run \<equiv> coordinator_execute (container_coordinator memory_config) sample_identity sample_fingerprint
     sample_operation (sample_policy HOT_DURABLE) container_call"

lemma container_operation:
  "m \<lparr>server = d, traffic = []\<rparr> = (Inr x, \<lparr>server = d', traffic = []\<rparr>) \<Longrightarrow>
   scatch (guarded_call m) open_is_unavailable (container_state d) = (Inr x, container_state d')"
  by (simp add: container_state_def scatch_def guarded_call_def next_turn_def breaker_call_def
      sample_breaker_def admit_def check_state_def outcome_of_def handle_success_def)

lemma container_claim:
  "\<exists>d. hot_claim memory_config sample_identity sample_fingerprint 5 30 \<lparr>server = empty_memory, traffic = []\<rparr>
     = (Inr \<lparr>claim_status = ACQUIRED, claim_completed = None\<rparr>, \<lparr>server = d, traffic = []\<rparr>)
   \<and> (\<exists>b d'. hot_complete memory_config sample_identity 5 sample_completed 30 \<lparr>server = d, traffic = []\<rparr>
     = (Inr b, \<lparr>server = d', traffic = []\<rparr>))"
proof -
  let ?l = "\<lparr>server = empty_memory, traffic = []\<rparr> :: memory link"
  obtain k where k: "storage_key memory_config sample_identity = Inr k"
    by (simp add: storage_key_def key_material_def utf8_encode_def utf8_char_def memory_config_def
        sample_identity_def)
  have "cell_at mem_hash_at mem_deadline_of (server ?l) k = (Free, None)" "length sample_fingerprint = 32"
    by (simp_all add: empty_memory_cells sample_fingerprint_def)
  with redis_server.hot_claim_step [OF memory_laws _ k, of ?l sample_fingerprint 30 Free None 5]
  obtain d where d: "hot_claim memory_config sample_identity sample_fingerprint 5 30 ?l
      = (Inr \<lparr>claim_status = ACQUIRED, claim_completed = None\<rparr>, ?l\<lparr>server := d\<rparr>)"
    and cell: "cell_at mem_hash_at mem_deadline_of d k
      = (Leased (ascii (hex sample_fingerprint)) (ascii (str_uuid 5)), Some (ms (mem_now empty_memory) + 30 * 1000))"
    by (auto simp: memory_config_def read_claim_simps)
  have enc: "utf8_encode (encode_completed (json memory_config) sample_completed) = Inr [123, 125]"
    by (simp add: encode_completed_def memory_config_def one_result_json_def utf8_encode_def utf8_char_def)
  obtain reply c where step: "lease_step (ms (mem_now (server (?l\<lparr>server := d\<rparr>))))
      (Complete (ascii (str_uuid 5)) [123, 125] (30 * 1000) (ascii (hex (request_fingerprint sample_completed)))
        (timestamp_ms memory_config (expires_at sample_completed)))
      (Leased (ascii (hex sample_fingerprint)) (ascii (str_uuid 5)), Some (ms (mem_now empty_memory) + 30 * 1000))
      = (reply, c)"
    by (metis surj_pair)
  have api: "redis_api memory_config = memory_redis" by (simp add: memory_config_def)
  from redis_server.hot_complete_step [OF memory_laws api k _ _ enc _ _ step] cell
  obtain d' where "hot_complete memory_config sample_identity 5 sample_completed 30 (?l\<lparr>server := d\<rparr>)
      = (Inr (bool_of_reply reply), ?l\<lparr>server := d'\<rparr>)"
    by auto
  with d show ?thesis by auto
qed

lemma container_run_result: "fst container_run = Inr sample_completed"
proof -
  from container_claim obtain d b d' where
    claim: "hot_claim memory_config sample_identity sample_fingerprint 5 30 \<lparr>server = empty_memory, traffic = []\<rparr>
       = (Inr \<lparr>claim_status = ACQUIRED, claim_completed = None\<rparr>, \<lparr>server = d, traffic = []\<rparr>)"
    and complete: "hot_complete memory_config sample_identity 5 sample_completed 30 \<lparr>server = d, traffic = []\<rparr>
       = (Inr b, \<lparr>server = d', traffic = []\<rparr>)" by blast
  have ports: "port_claim (circuit_breaking (redis_hot_store memory_config)) sample_identity sample_fingerprint 5 30
      (container_state empty_memory) = (Inr \<lparr>claim_status = ACQUIRED, claim_completed = None\<rparr>, container_state d)"
    "port_complete (circuit_breaking (redis_hot_store memory_config)) sample_identity 5 sample_completed 30
      (container_state d) = (Inr b, container_state d')"
    using claim complete by (simp_all add: circuit_breaking_def redis_hot_store_def container_operation)
  let ?run = "execute_once get_completed try_add_completed sample_identity sample_fingerprint sample_operation 60
     sample_execution"
  obtain e where e: "?run = (Inr \<lparr>exec_status = EXECUTED, exec_completed = Some sample_completed\<rparr>, e)"
    using sample_execution_run by (metis prod.collapse)
  with sample_execution_clock have "ticks (exec_session e) = []" "now (exec_session e) = 5" by simp_all
  with e ports show ?thesis
    by (cases b) (simp_all add: coordinator_execute_def container_coordinator_def supports_policy_def
        container_call_def sample_call_def sample_policy_def next_lease_token_def sthen_def on_hot_def
        scatch_def observe_def execute_claimed_def next_wake_ups_def beat_def run_claimed_def
        execute_durable_def on_execution_def transactional_def complete_lease_def hot_result_ttl_seconds_def
        evaluate_result_def on_session_def utc_now_def sample_fingerprint_def sample_completed_def seconds_def)
qed

theorem returned_result_is_live_witness:
  "request_fingerprint sample_completed = sample_fingerprint
   \<and> now (exec_session (execution (snd container_run))) < expires_at sample_completed"
proof -
  have "container_run = (Inr sample_completed, snd container_run)"
    using container_run_result by (metis prod.collapse)
  then show ?thesis by (rule returned_result_is_live)
qed

end
