(* ===== verification/Service_Witnesses.thy ===== *)
theory Service_Witnesses
  imports Service_Properties Coordinator_Witnesses
begin

text \<open>A concrete bus, with the adapter of \<open>type(None)\<close>, and a dispatch on it.\<close>

section \<open>Adapters\<close>

text \<open>The adapter of \<open>type(None)\<close>, the result type of provisioning: \<open>None\<close> and \<open>null\<close>.\<close>

definition none_type_adapter :: "command_result adapter" where
  "none_type_adapter =
     \<lparr>validate_strict = (\<lambda>r. if r = NoResult then Inr r else Inl ValidationError),
      dump_json = (\<lambda>r. if r = NoResult then Inr PyNone else Inl ValueError),
      validate_json = (\<lambda>j. if j = PyNone then Inr NoResult else Inl ValidationError)\<rparr>"

interpretation no_result: result_adapter none_type_adapter
  by unfold_locales (auto simp: none_type_adapter_def split: if_splits)

text \<open>Adapters that accept the instances of their type and whose dumps are not asked for.\<close>

definition instance_adapter :: "(command_result \<Rightarrow> bool) \<Rightarrow> command_result adapter" where
  "instance_adapter P =
     \<lparr>validate_strict = (\<lambda>r. if P r then Inr r else Inl ValidationError),
      dump_json = (\<lambda>_. Inl ValueError), validate_json = (\<lambda>_. Inl ValidationError)\<rparr>"

definition sample_adapters :: adapters where
  "sample_adapters =
     \<lparr>none_adapter = none_type_adapter,
      profile_adapter = instance_adapter (\<lambda>r. case r of ProfileResult _ \<Rightarrow> True | _ \<Rightarrow> False),
      settings_adapter = instance_adapter (\<lambda>r. case r of SettingsResult _ \<Rightarrow> True | _ \<Rightarrow> False)\<rparr>"

definition sample_codec :: "int \<Rightarrow> command_result codec" where
  "sample_codec v = \<lparr>codec_result_type = none_type sample_adapters, codec_adapter = none_type_adapter,
     codec_schema_version = v\<rparr>"

theorem replayed_result_is_the_result_witness:
  "\<exists>s. codec_encode (sample_codec 1) NoResult = Inr s \<and> codec_decode (sample_codec 1) s = Inr NoResult
     \<and> codec_decode (sample_codec 2) s = Inl (IdempotencyError StoredReplayUnavailableError)"
proof -
  have a: "codec_adapter (sample_codec 1) = none_type_adapter" by (simp add: sample_codec_def)
  obtain s where s: "codec_encode (sample_codec 1) NoResult = Inr s"
    by (simp add: sample_codec_def codec_encode_def codec_validate_def none_type_adapter_def none_type_def
        stored_validate_def stored_fields_ok_def validate_replayability_def is_completion_only_def)
  have v: "codec_validate (sample_codec 1) NoResult = Inr NoResult"
    by (simp add: sample_codec_def codec_validate_def none_type_adapter_def none_type_def)
  have "codec_schema_version (sample_codec 2) \<noteq> codec_schema_version (sample_codec 1)"
    by (simp add: sample_codec_def)
  moreover have "(codec_encode (sample_codec 1) NoResult = Inr s \<longrightarrow>
       (\<exists>v. codec_validate (sample_codec 1) NoResult = Inr v \<and> codec_decode (sample_codec 1) s = Inr v)
       \<and> (codec_schema_version (sample_codec 2) \<noteq> codec_schema_version (sample_codec 1) \<longrightarrow>
            codec_decode (sample_codec 2) s = Inl (IdempotencyError StoredReplayUnavailableError)))
    \<and> (codec_decode (sample_codec 1) stored_completion = Inl KeyError \<longrightarrow>
         KeyError = IdempotencyError (if is_completion_only stored_completion then IdempotencyResultNotStoredError
           else StoredReplayUnavailableError))"
    by (rule replayed_result_is_the_result)
      (unfold a, erule (1) no_result.reads_back, erule no_result.refuses)
  ultimately show ?thesis using s v by auto
qed

section \<open>The registry\<close>

lemma register_commands_assembled: "keeps (\<lambda>s t. assembled s \<longrightarrow> assembled t) (register_commands zone_ok a mp pp)"
proof -
  have "transp (\<lambda>s t. assembled s \<longrightarrow> assembled t)" by (auto simp: transp_def)
  moreover have "keeps (\<lambda>s t. assembled s \<longrightarrow> assembled t) (register cls f schema op policy v)" for cls f schema op policy v
    by (rule keepsI) (auto intro: assembled_register)
  ultimately show ?thesis unfolding register_commands_def by (intro keeps_sthen)
qed

definition sample_registry :: "(command, command_result) registry" where
  "sample_registry = snd (register_commands (\<lambda>_. True) sample_adapters (sample_policy HOT_DURABLE)
     (sample_policy HOT_DURABLE) registry_new)"

lemma sample_registry_assembled: "assembled sample_registry"
  using register_commands_assembled [unfolded keeps_def] assembled_new unfolding sample_registry_def by blast

theorem registry_well_formed_witness:
  "registry_ok (snd (freeze sample_registry)) \<and> length (handlers (snd (freeze sample_registry))) = 5
   \<and> register (command_class ''Late'') None (none_type sample_adapters) (ustr ''late'') None 1
       (snd (freeze sample_registry)) = (Inl RuntimeError, snd (freeze sample_registry))"
proof -
  have a: "assembled (snd (freeze sample_registry))"
    using assembled_freeze [OF sample_registry_assembled, of "fst (freeze sample_registry)"] by simp
  moreover have "frozen (snd (freeze sample_registry))" by (simp add: freeze_def)
  moreover have "length (handlers (snd (freeze sample_registry))) = 5"
    using register_commands_run [of "\<lambda>_. True" sample_adapters "sample_policy HOT_DURABLE" "sample_policy HOT_DURABLE"]
    by (auto simp: sample_registry_def freeze_def)
  ultimately show ?thesis using registry_well_formed [OF a] by blast
qed

section \<open>A dispatch\<close>

definition sample_context :: CommandContext where
  "sample_context = \<lparr>idempotency_key = Some (ustr ''k1''), idempotency_scope = Some (ustr ''user:1''),
     actor_id = None, correlation_id = None\<rparr>"

abbreviation sample_sha :: "bytes \<Rightarrow> bytes" where
  "sample_sha \<equiv> (\<lambda>_. replicate 32 9)"

lemma sample_command_fingerprint:
  "compute_request_fingerprint sample_sha (\<lambda>_. []) [] (dump_command (UpdateProfile sample_update)) = Inr (replicate 32 9)"
  unfolding sample_update_def by code_simp

definition sample_bus_policy :: IdempotencyPolicy where
  "sample_bus_policy = \<lparr>mode = HOT_DURABLE, lease_seconds = 30, retention_seconds = 86400, hot_cache_seconds = 300\<rparr>"

definition sample_command_identity :: IdempotencyKey where
  "sample_command_identity =
     \<lparr>subject_id = ustr ''user:1'', operation = ustr ''profile.update.v1'', key_digest = replicate 32 9\<rparr>"

abbreviation sample_registration :: "(command, command_result) registration" where
  "sample_registration \<equiv> service_registration (\<lambda>_. True) sample_adapters sample_bus_policy sample_bus_policy
     (UpdateProfile sample_update)"

abbreviation sample_registered :: "(command, command_result) registry" where
  "sample_registered \<equiv> projr (container_registry (\<lambda>_. True) sample_adapters 30 86400)"

lemma sample_registered:
  "container_registry (\<lambda>_. True) sample_adapters 30 86400 = Inr sample_registered"
  "map_of (handlers sample_registered) (class_of (UpdateProfile sample_update)) = Some sample_registration"
proof -
  obtain reg where "register_commands (\<lambda>_. True) sample_adapters sample_bus_policy sample_bus_policy registry_new = (Inr (), reg)"
    "map_of (handlers reg) (class_of (UpdateProfile sample_update)) = Some sample_registration"
    using register_commands_run [of "\<lambda>_. True" sample_adapters sample_bus_policy sample_bus_policy] by blast
  moreover have "policy_new HOT_DURABLE 30 86400 300 = Inr sample_bus_policy" "mode sample_bus_policy = HOT_DURABLE"
    by (simp_all add: policy_new_def sample_bus_policy_def)
  ultimately show "container_registry (\<lambda>_. True) sample_adapters 30 86400 = Inr sample_registered"
    "map_of (handlers sample_registered) (class_of (UpdateProfile sample_update)) = Some sample_registration"
    by (simp_all add: container_registry_def build_command_registry_def chosen_policy_def del: class_of.simps)
qed

lemma sthen_slift_Inr: "sthen (slift (Inr y)) f = f y"
  by (simp add: fun_eq_iff sthen_def)

lemma sample_invoke: "invoke_handler sample_registration (UpdateProfile sample_update) COMPLETION_ONLY = sample_operation"
  by (simp add: invoke_handler_def service_registration_def update_profile_factory_def returning_def sthen_assoc
      sample_operation_def codec_validate_def sample_adapters_def instance_adapter_def profile_type_def sthen_slift_Inr
      del: sret_simp slift_simp)

lemma sample_command_run:
  "fst (execute_once get_completed try_add_completed sample_command_identity (replicate 32 9) sample_operation 86400
     sample_execution) = Inr \<lparr>exec_status = EXECUTED, exec_completed = Some (sample_completed\<lparr>expires_at := 5 + seconds 86400\<rparr>)\<rparr>
   \<and> ticks (exec_session (snd (execute_once get_completed try_add_completed sample_command_identity (replicate 32 9)
     sample_operation 86400 sample_execution))) = []
   \<and> now (exec_session (snd (execute_once get_completed try_add_completed sample_command_identity (replicate 32 9)
     sample_operation 86400 sample_execution))) = 5"
  by (simp add: run_defs sample_completed_def sample_command_identity_def)

abbreviation sample_dispatch :: "command_result option result \<times> unit coordination" where
  "sample_dispatch \<equiv> bus_dispatch sample_sha (\<lambda>_. []) (sample_coordinator down_port) sample_registered
     (UpdateProfile sample_update) (Some sample_context) (Some COMPLETION_ONLY) (sample_call ())"

lemma sample_scope:
  "(sample_call ())\<lparr>execution := \<lparr>active = False,
     exec_session = scope_session (exec_session (execution (sample_call ())))\<rparr>\<rparr> = sample_call ()"
  by (simp add: sample_call_def sample_execution_def scope_session_def fresh_session_def)

lemma sample_coordination:
  "fst (coordinator_execute (sample_coordinator down_port) sample_command_identity (replicate 32 9) sample_operation
     sample_bus_policy (sample_call ())) = Inr (sample_completed\<lparr>expires_at := 5 + seconds 86400\<rparr>)
   \<and> last (metrics (snd (coordinator_execute (sample_coordinator down_port) sample_command_identity (replicate 32 9)
     sample_operation sample_bus_policy (sample_call ())))) = Outcome EXECUTED"
proof -
  let ?run = "execute_once get_completed try_add_completed sample_command_identity (replicate 32 9) sample_operation 86400
     sample_execution"
  obtain e where e: "?run = (Inr \<lparr>exec_status = EXECUTED, exec_completed = Some (sample_completed\<lparr>expires_at := 5 + seconds 86400\<rparr>)\<rparr>, e)"
    using sample_command_run by (metis prod.collapse)
  with sample_command_run have "ticks (exec_session e) = []" "now (exec_session e) = 5" by simp_all
  with e show ?thesis
    by (simp add: coordinator_execute_def sample_coordinator_def supports_policy_def sample_call_def
        sample_bus_policy_def next_lease_token_def sthen_def on_hot_def down_port_def scatch_def observe_def
        execute_durable_def on_execution_def transactional_def evaluate_result_def on_session_def utc_now_def
        sample_completed_def seconds_def)
qed

lemma sample_dispatch_run: "fst sample_dispatch = Inr None \<and> last (metrics (snd sample_dispatch)) = Outcome EXECUTED"
proof -
  obtain st' where run: "coordinator_execute (sample_coordinator down_port) sample_command_identity (replicate 32 9) sample_operation
     sample_bus_policy (sample_call ()) = (Inr (sample_completed\<lparr>expires_at := 5 + seconds 86400\<rparr>), st')"
    and m: "last (metrics st') = Outcome EXECUTED"
    using sample_coordination by (metis prod.collapse)
  have digest: "compute_key_digest sample_sha (ustr ''k1'') = Inr (replicate 32 9)" by code_simp
  have identity: "idempotency_key_new (ustr ''user:1'') (reg_operation sample_registration) (replicate 32 9) = Inr sample_command_identity"
    by (simp add: idempotency_key_new_def service_registration_def sample_command_identity_def del: ustr_Cons)
  have mode: "mode sample_bus_policy = HOT_DURABLE" by (simp add: sample_bus_policy_def)
  have mid: "middleware_execute sample_sha (sample_coordinator down_port) sample_operation (Some (ustr ''k1''))
      (Some (ustr ''user:1'')) (reg_operation sample_registration) (replicate 32 9) sample_bus_policy (sample_call ())
    = (Inr (sample_completed\<lparr>expires_at := 5 + seconds 86400\<rparr>), st')"
    using run digest identity by (simp add: middleware_execute_def sthen_def slift_def)
  have "command_execute sample_sha (\<lambda>_. []) dump_command (sample_coordinator down_port) sample_registration
      (UpdateProfile sample_update) sample_context COMPLETION_ONLY (sample_call ()) = (Inr None, st')"
    using mid
    by (simp add: command_execute_def service_policies sample_command_fingerprint mode sample_invoke sample_context_def
        sthen_def del: ustr_Cons dump_command.simps)
  then show ?thesis
    using m sample_registered(2)
    by (simp add: bus_dispatch_def dispatch_def freeze_def with_scope_def sample_scope del: class_of.simps)
qed

theorem dispatch_is_atomic_witness:
  "\<exists>(registration :: (command, command_result) registration) i fp c. identity_for sample_sha sample_context (reg_operation registration) i
     \<and> committed_once recorded records_ok (invoke_handler registration (UpdateProfile sample_update) COMPLETION_ONLY) i fp
         (exec_session sample_execution) (exec_session (execution (snd sample_dispatch))) c"
proof -
  have d: "durable_execution (sample_coordinator down_port) = Some transactional" "execution (sample_call ()) = sample_execution"
    by (simp_all add: sample_coordinator_def sample_call_def)
  have run: "sample_dispatch = (Inr None, snd sample_dispatch)"
    using sample_dispatch_run by (metis prod.collapse)
  show ?thesis
    using dispatch_is_atomic [OF sample_registered(1) d(1), of "sample_call ()", unfolded d(2),
      OF sample_execution_start(5,4) run]
  proof (elim disjE exE conjE)
    assume "\<forall>y. (Inr None :: command_result option result) = Inr y \<longrightarrow> last (metrics (snd sample_dispatch)) = Outcome REPLAY"
    with sample_dispatch_run show ?thesis by (metis ExecutionStatus.distinct(1) metric.inject(1))
  next
    fix registration :: "(command, command_result) registration" and i fp c
    assume "identity_for sample_sha sample_context (reg_operation registration) i"
      and "committed_once recorded records_ok (invoke_handler registration (UpdateProfile sample_update) COMPLETION_ONLY) i fp
         (exec_session sample_execution) (exec_session (execution (snd sample_dispatch))) c"
    then show ?thesis by (intro exI [of _ registration] exI [of _ i] exI [of _ fp] exI [of _ c] conjI)
  qed
qed

end
