(* ===== verification/Http_Witnesses.thy ===== *)
theory Http_Witnesses
  imports Http_Requests Service_Witnesses
begin

text \<open>A patch of the sample profile, with an adapter that writes profiles as JSON objects.\<close>

section \<open>The adapter of profiles\<close>

definition json_option :: "('a \<Rightarrow> pyobj) \<Rightarrow> 'a option \<Rightarrow> pyobj" where
  "json_option f x = (case x of None \<Rightarrow> PyNone | Some y \<Rightarrow> f y)"

definition profile_members :: "ProfileDTO \<Rightarrow> (pystr \<times> pyobj) list" where
  "profile_members p =
     [(ustr ''user_id'', PyInt (uint (dto_user_id p))), (ustr ''username'', json_option PyStr (dto_username p)),
      (ustr ''display_name'', PyStr (dto_display_name p)), (ustr ''bio'', json_option PyStr (dto_bio p)),
      (ustr ''avatar_key'', json_option PyStr (dto_avatar_key p)), (ustr ''status'', PyStr (status_value (dto_status p))),
      (ustr ''is_verified'', PyBool (dto_is_verified p)), (ustr ''version'', PyInt (dto_version p)),
      (ustr ''created_at'', PyInt (dto_created_at p)), (ustr ''updated_at'', json_option PyInt (dto_updated_at p))]"

definition member :: "(pystr \<times> pyobj) list \<Rightarrow> string \<Rightarrow> pyobj" where
  "member kvs name = (case map_of kvs (ustr name) of None \<Rightarrow> PyNone | Some v \<Rightarrow> v)"

definition read_str :: "pyobj \<Rightarrow> pystr option" where
  "read_str v = (case v of PyStr s \<Rightarrow> Some s | _ \<Rightarrow> None)"

definition read_int :: "pyobj \<Rightarrow> int option" where
  "read_int v = (case v of PyInt n \<Rightarrow> Some n | _ \<Rightarrow> None)"

definition read_profile :: "pyobj \<Rightarrow> command_result result" where
  "read_profile j =
     (case j of
        PyDict kvs \<Rightarrow>
          (case (read_int (member kvs ''user_id''), read_str (member kvs ''display_name''), status_of (member kvs ''status''),
              read_int (member kvs ''version''), read_int (member kvs ''created_at'')) of
             (Some u, Some name, Inr st, Some ver, Some created) \<Rightarrow>
               Inr (ProfileResult \<lparr>dto_user_id = word_of_int u, dto_username = read_str (member kvs ''username''),
                 dto_display_name = name, dto_bio = read_str (member kvs ''bio''),
                 dto_avatar_key = read_str (member kvs ''avatar_key''), dto_status = st,
                 dto_is_verified = (member kvs ''is_verified'' = PyBool True), dto_version = ver,
                 dto_created_at = created, dto_updated_at = read_int (member kvs ''updated_at'')\<rparr>)
           | _ \<Rightarrow> Inl ValidationError)
      | _ \<Rightarrow> Inl ValidationError)"

definition json_adapter :: "command_result adapter" where
  "json_adapter =
     \<lparr>validate_strict = (\<lambda>r. case r of ProfileResult _ \<Rightarrow> Inr r | _ \<Rightarrow> Inl ValidationError),
      dump_json = (\<lambda>r. case r of ProfileResult p \<Rightarrow> Inr (PyDict (profile_members p)) | _ \<Rightarrow> Inl ValueError),
      validate_json = read_profile\<rparr>"

lemma profile_member:
  "member (profile_members p) ''user_id'' = PyInt (uint (dto_user_id p))"
  "member (profile_members p) ''username'' = json_option PyStr (dto_username p)"
  "member (profile_members p) ''display_name'' = PyStr (dto_display_name p)"
  "member (profile_members p) ''bio'' = json_option PyStr (dto_bio p)"
  "member (profile_members p) ''avatar_key'' = json_option PyStr (dto_avatar_key p)"
  "member (profile_members p) ''status'' = PyStr (status_value (dto_status p))"
  "member (profile_members p) ''is_verified'' = PyBool (dto_is_verified p)"
  "member (profile_members p) ''version'' = PyInt (dto_version p)"
  "member (profile_members p) ''created_at'' = PyInt (dto_created_at p)"
  "member (profile_members p) ''updated_at'' = json_option PyInt (dto_updated_at p)"
  by (simp_all add: member_def profile_members_def)

lemma read_profile_members: "read_profile (PyDict (profile_members p)) = Inr (ProfileResult p)"
proof -
  have "status_of (PyStr (status_value s)) = Inr s" for s
    by (cases s) (simp_all add: status_of_def)
  moreover have "read_str (json_option PyStr x) = x" "read_int (json_option PyInt y) = y"
    "read_str (PyStr t) = Some t" "read_int (PyInt n) = Some n" for x y t n
    by (simp_all add: read_str_def read_int_def json_option_def split: option.split)
  ultimately show ?thesis
    by (simp add: read_profile_def profile_member)
qed

lemma json_adapter_faithful: "faithful_adapter json_adapter"
proof -
  have "read_profile j = Inl e \<Longrightarrow> e = ValidationError" for j e
    by (auto simp: read_profile_def split: pyobj.splits prod.splits option.splits sum.splits)
  then show ?thesis
    by (auto simp: faithful_adapter_def json_adapter_def read_profile_members split: command_result.splits)
qed

section \<open>The bus\<close>

definition http_adapters :: adapters where
  "http_adapters =
     \<lparr>none_adapter = none_type_adapter, profile_adapter = json_adapter,
      settings_adapter = instance_adapter (\<lambda>r. case r of SettingsResult _ \<Rightarrow> True | _ \<Rightarrow> False)\<rparr>"

lemma http_adapters_faithful:
  "faithful_adapter (profile_adapter http_adapters)" "faithful_adapter (settings_adapter http_adapters)"
  using json_adapter_faithful by (auto simp: http_adapters_def faithful_adapter_def instance_adapter_def)

abbreviation http_registration :: "(command, command_result) registration" where
  "http_registration \<equiv> service_registration moscow http_adapters sample_bus_policy sample_bus_policy
     (UpdateProfile sample_update)"

abbreviation http_registry :: "(command, command_result) registry" where
  "http_registry \<equiv> projr (container_registry moscow http_adapters 30 86400)"

lemma http_registered:
  "container_registry moscow http_adapters 30 86400 = Inr http_registry"
  "map_of (handlers http_registry) (class_of (UpdateProfile sample_update)) = Some http_registration"
proof -
  obtain reg where "register_commands moscow http_adapters sample_bus_policy sample_bus_policy registry_new = (Inr (), reg)"
    "map_of (handlers reg) (class_of (UpdateProfile sample_update)) = Some http_registration"
    using register_commands_run [of moscow http_adapters sample_bus_policy sample_bus_policy] by blast
  moreover have "policy_new HOT_DURABLE 30 86400 300 = Inr sample_bus_policy" "mode sample_bus_policy = HOT_DURABLE"
    by (simp_all add: policy_new_def sample_bus_policy_def)
  ultimately show "container_registry moscow http_adapters 30 86400 = Inr http_registry"
    "map_of (handlers http_registry) (class_of (UpdateProfile sample_update)) = Some http_registration"
    by (simp_all add: container_registry_def build_command_registry_def chosen_policy_def del: class_of.simps)
qed

section \<open>The run\<close>

definition snapshot :: "ProfileDTO \<Rightarrow> StoredResult" where
  "snapshot p = \<lparr>result_type = ustr ''snapshot'', result_payload = Some [(ustr ''value'', PyDict (profile_members p))],
     result_version = 1, resource_type = None, resource_id = None, resource_version = None\<rparr>"

definition patch_operation :: operation_proc where
  "patch_operation = sthen (UpdateProfileHandler sample_update) (\<lambda>p. sret (snapshot p))"

lemma patch_codec:
  "codec_encode (reg_codec http_registration) (ProfileResult p) = Inr (snapshot p)"
  by (simp add: codec_encode_def codec_validate_def service_registration_def http_adapters_def json_adapter_def
      profile_type_def stored_validate_def stored_fields_ok_def validate_replayability_def is_completion_only_def
      snapshot_def)

lemma patch_invoke: "invoke_handler http_registration (UpdateProfile sample_update) REPLAYABLE = patch_operation"
proof -
  have "handler_factory http_registration (UpdateProfile sample_update) = returning ProfileResult (UpdateProfileHandler sample_update)"
    by (simp add: service_registration_def update_profile_factory_def)
  then show ?thesis
    by (simp add: invoke_handler_def fun_eq_iff patch_operation_def returning_def sthen_def patch_codec
        split: prod.split sum.split)
qed

definition patch_identity :: IdempotencyKey where
  "patch_identity = \<lparr>subject_id = ustr ''user:00000000-0000-0000-0000-000000000001'',
     operation = ustr ''profile.update.v1'', key_digest = replicate 32 9\<rparr>"

definition patch_completed :: CompletedIdempotencyResult where
  "patch_completed = \<lparr>result_type = ustr ''snapshot'',
     result_payload = Some [(ustr ''value'', PyDict (profile_members (profile_dto updated_profile)))],
     result_version = 1, resource_type = None, resource_id = None, resource_version = None,
     expires_at = 5 + seconds 86400, request_fingerprint = replicate 32 9\<rparr>"

lemma patch_storable: "json_ok (PyDict [(ustr ''value'', PyDict (profile_members (profile_dto updated_profile)))])"
  by (simp add: profile_members_def profile_dto_def updated_profile_def sample_profile_def json_option_def text_ok_def storable_char_def)

abbreviation patch_execution :: "IdempotencyResult result \<times> execution_state" where
  "patch_execution \<equiv> execute_once get_completed try_add_completed patch_identity (replicate 32 9) patch_operation 86400
     sample_execution"

lemma patch_execution_run:
  "fst patch_execution = Inr \<lparr>exec_status = EXECUTED, exec_completed = Some patch_completed\<rparr>
   \<and> ticks (exec_session (snd patch_execution)) = [] \<and> now (exec_session (snd patch_execution)) = 5"
  using patch_storable
  by (simp add: run_defs patch_completed_def patch_identity_def patch_operation_def snapshot_def updated_profile_def)

abbreviation patch_coordination :: "CompletedIdempotencyResult result \<times> unit coordination" where
  "patch_coordination \<equiv> coordinator_execute (sample_coordinator down_port) patch_identity (replicate 32 9) patch_operation
     sample_bus_policy (sample_call ())"

lemma patch_coordination_run:
  "fst patch_coordination = Inr patch_completed \<and> last (metrics (snd patch_coordination)) = Outcome EXECUTED"
proof -
  obtain e where e: "patch_execution = (Inr \<lparr>exec_status = EXECUTED, exec_completed = Some patch_completed\<rparr>, e)"
    using patch_execution_run by (metis prod.collapse)
  with patch_execution_run have "ticks (exec_session e) = []" "now (exec_session e) = 5" by simp_all
  with e show ?thesis
    by (simp add: coordinator_execute_def sample_coordinator_def supports_policy_def sample_call_def
        sample_bus_policy_def next_lease_token_def sthen_def on_hot_def down_port_def scatch_def observe_def
        execute_durable_def on_execution_def transactional_def evaluate_result_def on_session_def utc_now_def
        patch_completed_def seconds_def)
qed

definition patch_context :: CommandContext where
  "patch_context = \<lparr>idempotency_key = Some (ustr ''k1''),
     idempotency_scope = Some (ustr ''user:00000000-0000-0000-0000-000000000001''),
     actor_id = Some (ustr ''00000000-0000-0000-0000-000000000001''), correlation_id = None\<rparr>"

abbreviation sample_bus :: "unit coordination bus" where
  "sample_bus \<equiv> bus_dispatch sample_sha (\<lambda>_. []) (sample_coordinator down_port) http_registry"

lemma patch_dispatch_run:
  "sample_bus (UpdateProfile sample_update) (Some patch_context) (Some REPLAYABLE) (sample_call ()) = (x, st') \<Longrightarrow>
   x = Inr (Some (ProfileResult (profile_dto updated_profile))) \<and> last (metrics st') = Outcome EXECUTED"
proof -
  assume dispatch: "sample_bus (UpdateProfile sample_update) (Some patch_context) (Some REPLAYABLE) (sample_call ()) = (x, st')"
  obtain st1 where run: "patch_coordination = (Inr patch_completed, st1)" and m: "last (metrics st1) = Outcome EXECUTED"
    using patch_coordination_run by (metis prod.collapse)
  have digest: "compute_key_digest sample_sha (ustr ''k1'') = Inr (replicate 32 9)" by code_simp
  have identity: "idempotency_key_new (ustr ''user:00000000-0000-0000-0000-000000000001'') (reg_operation http_registration)
      (replicate 32 9) = Inr patch_identity"
    by (simp add: idempotency_key_new_def service_registration_def patch_identity_def del: ustr_Cons)
  have mode: "mode sample_bus_policy = HOT_DURABLE" by (simp add: sample_bus_policy_def)
  have mid: "middleware_execute sample_sha (sample_coordinator down_port) patch_operation (Some (ustr ''k1''))
      (Some (ustr ''user:00000000-0000-0000-0000-000000000001'')) (reg_operation http_registration) (replicate 32 9)
      sample_bus_policy (sample_call ()) = (Inr patch_completed, st1)"
    using run digest identity by (simp add: middleware_execute_def sthen_def slift_def)
  have "stored_of patch_completed = snapshot (profile_dto updated_profile)"
    by (simp add: stored_of_def patch_completed_def snapshot_def)
  moreover have "codec_decode (reg_codec http_registration) (snapshot (profile_dto updated_profile))
      = Inr (ProfileResult (profile_dto updated_profile))"
    using http_adapters_faithful(1) patch_codec by (intro faithful_decode) (simp_all add: service_registration_def)
  ultimately have "command_execute sample_sha (\<lambda>_. []) dump_command (sample_coordinator down_port) http_registration
      (UpdateProfile sample_update) patch_context REPLAYABLE (sample_call ())
    = (Inr (Some (ProfileResult (profile_dto updated_profile))), st1)"
    using mid
    by (simp add: command_execute_def service_policies sample_command_fingerprint mode patch_invoke patch_context_def
        sthen_def del: ustr_Cons dump_command.simps)
  with dispatch m http_registered(2) show ?thesis
    by (auto simp: bus_dispatch_def dispatch_def freeze_def with_scope_def sample_scope simp del: class_of.simps)
qed

section \<open>The request\<close>

definition sample_patch :: patch_request where
  "sample_patch = \<lparr>authorization_header = True, bearer_token = Some [65, 1], if_match_header = Some (ustr ''\"1\"''),
     idempotency_key_header = ustr ''k1''\<rparr>"

definition sample_body :: ProfilePatchRequest where
  "sample_body = \<lparr>pp_display_name = None, pp_bio = Some (Some (ustr ''new'')), pp_username = Some (Some (ustr '' BOB''))\<rparr>"

abbreviation answered_patch :: "(http_exn + ProfileDTO http_response) \<times> unit coordination" where
  "answered_patch \<equiv> authorized_patch (Some (route_verifier sample_jwt sample_verifier)) sample_patch
     (\<lambda>user ver context. patch_my_profile sample_bus user ver context sample_body) (sample_call ())"

lemma sample_token: "verify_token sample_jwt sample_verifier [65, 1] = Inr 1"
  by (simp add: verify_token_def verify_body_def header_key_def sample_jwt_def sample_verifier_def
      access_token_claims_def required_claim_def validate_lifetime_def role_claim_def)

lemma sample_tag: "expected_version (Some (ustr ''\"1\"'')) = Inr 1"
  by code_simp

lemma sample_patch_authorizes:
  assumes "authorizes (vouched sample_jwt sample_jwt_settings) sample_patch user ver"
  shows "user = 1 \<and> ver = 1"
proof -
  from assms have trust: "vouched sample_jwt sample_jwt_settings [65, 1] user"
    and tag: "1 \<le> ver" "ver \<le> 2 ^ 63 - 1" "ustr ''\"1\"'' = etag ver"
    by (auto simp: authorizes_def sample_patch_def simp del: ustr_Cons)
  have "distinct (map fst (public_keys sample_jwt_settings))" by (simp add: sample_jwt_settings_def)
  from verify_complete [OF sample_verifier_new this trust] sample_token have "user = 1" by simp
  moreover from tag have "expected_version (Some (ustr ''\"1\"'')) = Inr ver"
    unfolding expected_version_reads by (simp add: set_private_version_def del: ustr_Cons)
  with sample_tag have "ver = 1" by simp
  ultimately show ?thesis ..
qed

lemma sample_patch_command: "profile_patch_command 1 1 sample_body = sample_update"
  by (simp add: profile_patch_command_def sample_body_def sample_update_def patch_value_def)

lemma sample_patch_context: "command_context 1 (ustr ''k1'') = Inr patch_context"
proof -
  have "str_uuid 1 = ustr ''00000000-0000-0000-0000-000000000001''" by code_simp
  then show ?thesis by (simp add: command_context_def command_context_new_def patch_context_def length_between_def)
qed

lemma answered_patch_run:
  "fst answered_patch = Inr \<lparr>http_status = 200, http_headers = set_private_version 2, http_body = profile_dto updated_profile\<rparr>
   \<and> last (metrics (snd answered_patch)) = Outcome EXECUTED"
proof -
  have token: "route_verifier sample_jwt sample_verifier [65, 1] = Some 1"
    by (simp add: route_verifier_def sample_token del: One_nat_def)
  obtain x st' where d: "sample_bus (UpdateProfile sample_update) (Some patch_context) (Some REPLAYABLE) (sample_call ()) = (x, st')"
    by (metis surj_pair)
  from patch_dispatch_run [OF d] have x: "x = Inr (Some (ProfileResult (profile_dto updated_profile)))"
    "last (metrics st') = Outcome EXECUTED" by simp_all
  have new: "update_profile_command_new sample_update = Inr sample_update"
    by (simp add: update_profile_command_new_def sample_update_def length_between_def)
  have "version updated_profile = 2" by (simp add: updated_profile_def)
  with token sample_tag d x new show ?thesis
    by (simp add: authorized_patch_def sample_patch_def optional_viewer_id_def current_user_id_def sthen_def app_step_def
        patch_my_profile_def sample_patch_command sample_patch_context del: ustr_Cons)
qed

text \<open>The patch of user 1 for version 1 is committed, and answered with version 2.\<close>

theorem patches_are_authorized_changes_witness:
  "\<exists>p. change_committed profiles_evolve profile_at (profile_change sample_update) 1 1 (exec_session sample_execution)
      (exec_session (execution (snd answered_patch))) p
    \<and> fst answered_patch = Inr \<lparr>http_status = 200, http_headers = set_private_version (version p), http_body = profile_dto p\<rparr>"
proof -
  have down: "durable_execution (sample_coordinator down_port) = Some transactional"
    "execution (sample_call ()) = sample_execution"
    by (simp_all add: sample_coordinator_def sample_call_def)
  have start: "rely R (exec_session sample_execution)" "profiles_ok (committed (exec_session sample_execution))"
    "settings_ok moscow (committed (exec_session sample_execution))" for R
    using sample_ok by (simp_all add: sample_execution_def fresh_session_def rely_def sample_session_def begin_state_def)
  have run: "answered_patch = (fst answered_patch, snd answered_patch)" by simp
  from patches_are_authorized_changes [OF http_registered(1) down(1) sample_verifier_new http_adapters_faithful,
      of "sample_call ()", unfolded down(2), OF start(1) sample_execution_start(4) start(1,2) start(1,3)] run
  have "patch_outcome (authorizes (vouched sample_jwt sample_jwt_settings) sample_patch)
    (\<lambda>user ver. change_committed profiles_evolve profile_at (profile_change (profile_patch_command user ver sample_body))
       user ver (exec_session sample_execution) (exec_session (execution (snd answered_patch)))) profile_dto
    (sample_call ()) (fst answered_patch) (snd answered_patch)" by blast
  with answered_patch_run obtain user ver p where "authorizes (vouched sample_jwt sample_jwt_settings) sample_patch user ver"
    "change_committed profiles_evolve profile_at (profile_change (profile_patch_command user ver sample_body))
       user ver (exec_session sample_execution) (exec_session (execution (snd answered_patch))) p"
    "fst answered_patch = Inr \<lparr>http_status = 200, http_headers = set_private_version (version p), http_body = profile_dto p\<rparr>"
    unfolding patch_outcome_def by (metis ExecutionStatus.distinct(1) metric.inject(1))
  with sample_patch_authorizes [of user ver] show ?thesis by (auto simp: sample_patch_command)
qed

end
