(* ===== verification/Failures.thy ===== *)
theory Failures
  imports Command_Properties Http
begin

text \<open>
  What a command that fails says. A failure of a handler is the truth about the contents of the
  database at some moment of the call, or a broken connection; and the exception handlers of
  the entry point (\<open>src/src/app/entrypoints/http/exception_handlers.py\<close>) answer it accordingly.
\<close>

section \<open>Failing statements\<close>

text \<open>The errors that the connection may still raise in a session.\<close>

definition breaks :: "'a session_scheme \<Rightarrow> sql_error \<Rightarrow> bool" where
  "breaks s q \<longleftrightarrow> Fails q \<in> set (script s) \<or> Lost q \<in> set (script s)"

text \<open>What breaks a connection is no violated constraint.\<close>

definition plain_network :: "'a session_scheme \<Rightarrow> bool" where
  "plain_network s \<longleftrightarrow> (\<forall>q. breaks s q \<longrightarrow> sql_class q \<noteq> IntegrityError)"

text \<open>A session in the middle of a transaction in which no statement has failed.\<close>

definition working :: "'a session_scheme \<Rightarrow> bool" where
  "working s \<longleftrightarrow> in_transaction s \<and> \<not> aborted s"

lemma breaks_suffix: "script s = evs @ script t \<Longrightarrow> breaks t q \<Longrightarrow> breaks s q"
  by (auto simp: breaks_def)

lemma execute_fails:
  assumes "execute stmt s = (Inl e, t)" "\<not> aborted s"
  shows "(\<exists>q. e = SqlError q \<and> breaks s q)
    \<or> (\<exists>q evs. e = SqlError q \<and> script s = evs @ script t \<and> fst (stmt (others evs (view s))) = Inl q)"
proof -
  have ev: "next_event s \<in> set (script s)" if "next_event s \<noteq> Quiet"
    using that by (cases "script s") (simp_all add: next_event_def)
  show ?thesis
  proof (cases "next_event s")
    case (Fails q)
    with assms(1) ev show ?thesis by (auto simp: execute_def Let_def breaks_def)
  next
    case (Lost q)
    with assms(1) ev show ?thesis by (auto simp: execute_def Let_def breaks_def)
  next
    case Quiet
    with assms obtain q where "e = SqlError q" "fst (stmt (others (consumed s) (view s))) = Inl q"
      "script s = consumed s @ script t"
      by (auto simp: execute_def Let_def split: prod.splits sum.splits)
    then show ?thesis by blast
  next
    case (Others f)
    with assms obtain q where "e = SqlError q" "fst (stmt (others (consumed s) (view s))) = Inl q"
      "script s = consumed s @ script t"
      by (auto simp: execute_def Let_def split: prod.splits sum.splits)
    then show ?thesis by blast
  qed
qed

lemma execute_works: "execute stmt s = (Inr x, t) \<Longrightarrow> working t"
  by (auto simp: execute_def Let_def working_def split: db_event.splits if_splits prod.splits sum.splits)

lemma require_works: "working s \<Longrightarrow> require_transaction s = (Inr (), s)"
  by (simp add: require_transaction_def working_def)

lemma utc_now_works: "utc_now s = (r, t) \<Longrightarrow> (working t \<longleftrightarrow> working s) \<and> (\<exists>clock. r = Inr clock)"
  by (auto simp: utc_now_def working_def split: list.splits)

lemma select_never_fails [simp]:
  "fst (select_pk tb u d) = Inr (filter (\<lambda>r. t_pk tb r = u) (t_get tb d))"
  "fst (select_exists tb u d) = Inr (list_ex (\<lambda>r. t_pk tb r = u) (t_get tb d))"
  by (simp_all add: select_pk_def select_exists_def)

section \<open>Failing repositories\<close>

text \<open>A row that the table refuses: a check of its own, or another row with a value that is unique.\<close>

definition refuses :: "('r, 'e) table_ops \<Rightarrow> 'e \<Rightarrow> db \<Rightarrow> 'r \<Rightarrow> sql_error \<Rightarrow> bool" where
  "refuses tb e d r q \<longleftrightarrow> t_check tb (t_assign tb e r) = Some q
     \<or> t_unique tb (filter (\<lambda>r. t_pk tb r \<noteq> t_id tb e) (t_get tb d)) (t_assign tb e r) = Some q"

lemma first_error_one: "first_error [a, b] = Some q \<Longrightarrow> a = Some q \<or> b = Some q"
  by (cases a; cases b) auto

context table_adapter
begin

lemma get_by_id_fails:
  assumes run: "repo_get_by_id tb u s = (Inl e, t)" and s: "working s"
    and ok: "\<And>evs. script s = evs @ script t \<Longrightarrow> table_ok tb (others evs (view s))"
  shows "\<exists>q. e = SqlError q \<and> breaks s q"
proof (cases "execute (select_pk tb u) s")
  case (Pair r w)
  show ?thesis
  proof (cases r)
    case (Inl e')
    with Pair run s have "e' = e" by (simp add: repo_get_by_id_def sthen_def require_works)
    with execute_fails [of "select_pk tb u" s e' w] Pair Inl s show ?thesis by (auto simp: working_def)
  next
    case (Inr rows)
    with Pair run s have "t = w" "rthen (one_or_none rows) (hydrate_optional tb) = Inl e"
      by (simp_all add: repo_get_by_id_def sthen_def require_works)
    moreover from Pair Inr have "reads s w" "rows = filter (\<lambda>r. t_pk tb r = u) (t_get tb (view w))"
      using execute_reads [of "select_pk tb u" s r w] execute_select_pk [of tb u s rows w] by auto
    moreover from this(1) ok \<open>t = w\<close> have "table_ok tb (view w)" by (auto simp: reads_def)
    ultimately show ?thesis using one_row [of "view w" u] by simp
  qed
qed

lemma get_by_id_works: "repo_get_by_id tb u s = (Inr x, t) \<Longrightarrow> working s \<Longrightarrow> working t"
  by (auto simp: repo_get_by_id_def sthen_eq_Inr require_works dest: execute_works)

lemma update_rows_fails:
  assumes ok: "table_ok tb d" and old: "lookup tb d (t_id tb e) = Some old"
    and run: "fst (update_rows tb e (Some v) d) = Inl q"
  shows "ver old = v \<and> (\<exists>r. t_hydrate tb r = Inr old \<and> t_pk tb r = t_id tb e \<and> refuses tb e d r q)"
proof -
  let ?rows = "t_get tb d"
  let ?hit = "\<lambda>r. t_pk tb r = t_id tb e \<and> t_version tb r = v"
  have hit: "update_hit tb (t_id tb e) (Some v) = ?hit" by (simp add: update_hit_def fun_eq_iff)
  from ok old obtain r where r: "r \<in> set ?rows" "t_pk tb r = t_id tb e" "t_hydrate tb r = Inr old"
    and only: "filter (\<lambda>r. t_pk tb r = t_id tb e) ?rows = [r]" by (rule lookup_Some)
  have ver: "ver old = t_version tb r" using hydrate_base [OF r(3)] by simp
  have uniq: "r' = r" if "r' \<in> set ?rows" "t_pk tb r' = t_id tb e" for r'
  proof -
    from that have "r' \<in> set (filter (\<lambda>r. t_pk tb r = t_id tb e) ?rows)" by simp
    with only show ?thesis by simp
  qed
  have err: "first_error (map (t_check tb) (map (t_assign tb e) (filter ?hit ?rows))
      @ map (t_unique tb (filter (\<lambda>r. \<not> ?hit r) ?rows)) (map (t_assign tb e) (filter ?hit ?rows))) = Some q"
    using run by (auto simp: update_rows_def hit Let_def split: option.splits)
  show ?thesis
  proof (cases "ver old = v")
    case True
    then have "filter ?hit ?rows = filter (\<lambda>r. t_pk tb r = t_id tb e) ?rows"
      using uniq ver by (auto intro: filter_cong)
    with True have "filter ?hit ?rows = [r]" "filter (\<lambda>r. \<not> ?hit r) ?rows = filter (\<lambda>r. t_pk tb r \<noteq> t_id tb e) ?rows"
      using only uniq ver by (auto intro: filter_cong cong: filter_cong)
    with err first_error_one r True show ?thesis by (auto simp: refuses_def)
  next
    case False
    then have "filter ?hit ?rows = []" using uniq ver by (auto simp: filter_empty_conv)
    with err show ?thesis by simp
  qed
qed

lemma exists_finds:
  assumes "repo_exists tb u s = (r, t)" "working s" "table_ok tb (view t)" "lookup tb (view t) u \<noteq> None"
  shows "r = Inr True \<or> (\<exists>q. r = Inl (SqlError q) \<and> breaks s q)"
proof (cases r)
  case (Inl e)
  with assms(1,2) execute_fails [of "select_exists tb u" s e t] show ?thesis
    by (auto simp: repo_exists_def sthen_def require_works working_def)
next
  case (Inr b)
  with assms(1,2) have "execute (select_exists tb u) s = (Inr b, t)"
    by (simp add: repo_exists_def sthen_def require_works)
  then have "b = list_ex (\<lambda>r. t_pk tb r = u) (t_get tb (view t))"
    using execute_query [of "select_exists tb u" s b t] by auto
  moreover have "u \<in> t_pk tb ` set (t_get tb (view t))"
    using lookup_None [OF assms(3), of u] assms(4) by blast
  ultimately show ?thesis using Inr by (auto simp: list_ex_iff)
qed

lemma update_fails:
  assumes run: "repo_update tb e (Some v) s = (Inl x, t)" and s: "working s" and inv: "invar e"
    and all: "\<forall>evs rest. script s = evs @ rest \<longrightarrow> table_ok tb (others evs (view s))
      \<and> (\<exists>old. lookup tb (others evs (view s)) (t_id tb e) = Some old \<and> created old = created e)"
  shows "(\<exists>q. x = SqlError q \<and> breaks s q)
    \<or> (\<exists>evs rest old. script s = evs @ rest \<and> lookup tb (others evs (view s)) (t_id tb e) = Some old
         \<and> (x = t_conflict tb \<and> ver old \<noteq> v
            \<or> ver old = v \<and> (\<exists>q r. x = SqlError q \<and> t_hydrate tb r = Inr old \<and> t_pk tb r = t_id tb e
                \<and> refuses tb e (others evs (view s)) r q)))"
proof (cases "execute (update_rows tb e (Some v)) s")
  note held = all [rule_format]
  case (Pair res w)
  show ?thesis
  proof (cases res)
    case (Inl x')
    with Pair run s have x: "x' = x" by (simp add: repo_update_def sthen_def require_works)
    from s have "\<not> aborted s" by (simp add: working_def)
    from Pair Inl x have "execute (update_rows tb e (Some v)) s = (Inl x, w)" by simp
    from execute_fails [OF this \<open>\<not> aborted s\<close>] show ?thesis
    proof (elim disjE exE conjE)
      fix q evs
      assume q: "x = SqlError q" "script s = evs @ script w" "fst (update_rows tb e (Some v) (others evs (view s))) = Inl q"
      from held [OF q(2)] obtain old where "table_ok tb (others evs (view s))"
        "lookup tb (others evs (view s)) (t_id tb e) = Some old" by blast
      with update_rows_fails [OF this q(3)] q(1,2) show ?thesis by blast
    qed auto
  next
    case (Inr rows)
    with Pair have ex: "execute (update_rows tb e (Some v)) s = (Inr rows, w)" by simp
    then obtain evs where evs: "script s = evs @ script w"
      and up: "update_rows tb e (Some v) (others evs (view s)) = (Inr rows, view w)" by (rule execute_Inr)
    from held [OF evs] obtain old where old: "table_ok tb (others evs (view s))"
      "lookup tb (others evs (view s)) (t_id tb e) = Some old" "created old = created e" by blast
    from update_rows_versioned [OF old(1) inv up] old(2,3)
    consider "rows = []" "view w = others evs (view s)" "ver old \<noteq> v"
      | r where "rows = [t_assign tb e r]" "t_hydrate tb (t_assign tb e r) = Inr e"
      by auto
    then show ?thesis
    proof cases
      case 1
      with run ex s obtain r where r: "repo_exists tb (t_id tb e) w = (r, t)"
        "x = (case r of Inl y \<Rightarrow> y | Inr found \<Rightarrow> if found then t_conflict tb else t_missing tb)"
        by (auto simp: repo_update_def sthen_def require_works split: prod.splits sum.splits if_splits)
      from exists_reads [OF r(1)] obtain evs2 where evs2: "script w = evs2 @ script t" "view t = others evs2 (view w)"
        by (auto simp: reads_def)
      with evs 1(2) have "script s = (evs @ evs2) @ script t" "view t = others (evs @ evs2) (view s)" by simp_all
      with held have "table_ok tb (view t)" "lookup tb (view t) (t_id tb e) \<noteq> None" by (metis option.discI)+
      from exists_finds [OF r(1) execute_works [OF ex] this] r(2) breaks_suffix [OF evs] 1(3) evs old(2)
      show ?thesis by auto
    next
      case 2
      with run ex s have False by (simp add: repo_update_def sthen_def require_works)
      then show ?thesis ..
    qed
  qed
qed

end

section \<open>Failing changes\<close>

text \<open>
  Why load, change and save may fail on the contents \<open>d\<close>: there is no such entity; it has
  another version than expected; the change itself fails on it; or what it makes of it is
  \<open>unfit\<close> for the table.
\<close>

definition failure ::
  "(db \<Rightarrow> uuid \<Rightarrow> 'e option) \<Rightarrow> ('e \<Rightarrow> int) \<Rightarrow> exn \<Rightarrow> ('e \<Rightarrow> exn) \<Rightarrow> exn \<Rightarrow> (db \<Rightarrow> 'e \<Rightarrow> exn \<Rightarrow> bool) \<Rightarrow>
   (datetime \<Rightarrow> ('e, exn, bool) proc) \<Rightarrow> uuid \<Rightarrow> int \<Rightarrow> db \<Rightarrow> exn \<Rightarrow> bool" where
  "failure look ver missing mismatch stale unfit change uid expected d x \<longleftrightarrow>
     (case look d uid of
        None \<Rightarrow> x = missing
      | Some old \<Rightarrow>
          if ver old \<noteq> expected then x = mismatch old \<or> x = stale
          else (\<exists>clock. fst (change clock old) = Inl x
            \<or> (\<exists>new. change clock old = (Inr True, new) \<and> unfit d new x)))"

text \<open>A failure that was the truth at some moment of the call, or what the connection raised.\<close>

definition truthful :: "session \<Rightarrow> (db \<Rightarrow> exn \<Rightarrow> bool) \<Rightarrow> exn \<Rightarrow> bool" where
  "truthful s why x \<longleftrightarrow>
     (\<exists>q. x = SqlError q \<and> breaks s q) \<or> (\<exists>evs rest. script s = evs @ rest \<and> why (others evs (view s)) x)"

text \<open>
  What a client can do something about: the transaction lost against another one, the
  connection is gone, or there was none to be had in time.
\<close>

definition outage :: "sql_error \<Rightarrow> bool" where
  "outage q \<longleftrightarrow>
     sql_class q \<in> {DisconnectionError, TimeoutError}
     \<or> sql_class q \<in> {IntegrityError, OtherDBAPIError}
       \<and> (connection_invalidated q
          \<or> (\<exists>st. sqlstate q = Some st \<and> (st = ''40001'' \<or> st = ''40P01'' \<or> take 2 st = ''08'')))"

text \<open>
  What becomes of a failure. An error of the database leaves the unit of work as what
  \<open>_raise_persistence_error\<close> makes of it: an outage is answered with 503; another error that the
  connection raised is not answered, and neither is a refusal of the data. Of the others only
  the clock, which must be past the creation of the entity, has no answer.
\<close>

definition answered :: "session \<Rightarrow> exn \<Rightarrow> bool" where
  "answered s x \<longleftrightarrow>
     (case x of
        SqlError q \<Rightarrow>
          if outage q then \<exists>r. handle_exception (raise_persistence_error q) = Some r \<and> http_status r = 503
          else handle_exception (raise_persistence_error q) = None \<and> (breaks s q \<or> q = data_error)
      | _ \<Rightarrow>
          (case handle_exception x of
             None \<Rightarrow> x = DomainError InvalidTimestampError
           | Some r \<Rightarrow> http_status r \<in> {404, 409, 422, 503}))"

lemma outage_answered:
  "outage q \<Longrightarrow> \<exists>r. handle_exception (raise_persistence_error q) = Some r \<and> http_status r = 503"
  by (cases "sql_class q")
    (auto simp: outage_def raise_persistence_error_def is_dbapi_error_def profile_unavailable_def error_response_def)

lemma no_outage_unanswered: "\<not> outage q \<Longrightarrow> handle_exception (raise_persistence_error q) = None"
  by (cases "sql_class q")
    (auto simp: outage_def raise_persistence_error_def is_dbapi_error_def split: option.split)

lemma sql_answered: "breaks s q \<or> q = data_error \<Longrightarrow> answered s (SqlError q)"
  using outage_answered no_outage_unanswered by (simp add: answered_def)

locale failing_port = repository_port look ok ident invar ver created get upd provide
  for look :: "db \<Rightarrow> uuid \<Rightarrow> 'e option" and ok ident invar ver created get upd provide +
  fixes stale :: exn
    and unfit :: "db \<Rightarrow> 'e \<Rightarrow> exn \<Rightarrow> bool"
  assumes get_fails: "get u s = (Inl x, t) \<Longrightarrow> working s \<Longrightarrow>
      (\<And>evs. script s = evs @ script t \<Longrightarrow> ok (others evs (view s))) \<Longrightarrow> \<exists>q. x = SqlError q \<and> breaks s q"
    and get_works: "get u s = (Inr r, t) \<Longrightarrow> working s \<Longrightarrow> working t"
    and upd_fails: "upd e (Some v) s = (Inl x, t) \<Longrightarrow> working s \<Longrightarrow> invar e \<Longrightarrow>
      plain_network s \<Longrightarrow>
      (\<And>evs rest. script s = evs @ rest \<Longrightarrow> ok (others evs (view s))
         \<and> (\<exists>old. look (others evs (view s)) (ident e) = Some old \<and> created old = created e)) \<Longrightarrow>
      (\<exists>q. x = SqlError q \<and> breaks s q)
      \<or> (\<exists>evs rest old. script s = evs @ rest \<and> look (others evs (view s)) (ident e) = Some old
           \<and> (x = stale \<and> ver old \<noteq> v \<or> ver old = v \<and> unfit (others evs (view s)) e x))"
begin

lemma load_change_save_fails:
  fixes change :: "datetime \<Rightarrow> ('e, exn, bool) proc"
  assumes run: "load_change_save get upd ver missing mismatch change uid expected s = (Inl x, t)"
    and proper: "\<forall>clock e changed e'. invar e \<longrightarrow> change clock e = (Inr changed, e') \<longrightarrow>
      invar e' \<and> (if changed then ver e' = ver e + 1 \<and> ident e' = ident e \<and> created e' = created e else e' = e)"
    and rely: "rely evolve s" and ok: "ok (view s)" and s: "working s"
    and net: "plain_network s"
  shows "(\<exists>q. x = SqlError q \<and> breaks s q)
    \<or> (\<exists>evs rest. script s = evs @ rest
         \<and> failure look ver missing mismatch stale unfit change uid expected (others evs (view s)) x)"
proof (cases "get uid s")
  case (Pair r t1)
  then have get: "get uid s = (r, t1)" by simp
  from get_reads [OF get] obtain evs where evs: "script s = evs @ script t1" "view t1 = others evs (view s)"
    by (auto simp: reads_def)
  show ?thesis
  proof (cases r)
    case (Inl y)
    with run get have "x = y" by (simp add: load_change_save_def sthen_def)
    with get_fails [of uid s y t1] get Inl s rely_ok [OF rely ok] show ?thesis by blast
  next
    case (Inr found)
    with run get have body: "(case found of None \<Rightarrow> sraise missing | Some e \<Rightarrow>
       if ver e \<noteq> expected then sraise (mismatch e)
       else sthen utc_now (\<lambda>clock. case change clock e of (Inl x, _) \<Rightarrow> sraise x
         | (Inr changed, e) \<Rightarrow> if changed then upd e (Some expected) else sret e)) t1 = (Inl x, t)"
      by (simp add: load_change_save_def sthen_def)
    have ok1: "ok (view t1)" using reads_ok [OF rely ok get_reads [OF get]] .
    with get Inr have seen: "look (others evs (view s)) uid = found" using get_sees [of uid s found t1] evs(2) by simp
    show ?thesis
    proof (cases found)
      case None
      with body have "x = missing" by simp
      with None seen evs(1) show ?thesis by (auto simp: failure_def)
    next
      case (Some e)
      show ?thesis
      proof (cases "ver e = expected")
        case False
        with Some body seen evs(1) show ?thesis by (auto simp: failure_def)
      next
        case True
        obtain clock t2 where t2: "utc_now t1 = (Inr clock, t2)"
          using utc_now_works by (metis surj_pair)
        obtain c e' where change: "change clock e = (c, e')" by (metis surj_pair)
        show ?thesis
        proof (cases c)
          case (Inl y)
          with body True Some t2 change have "fst (change clock e) = Inl x" by (simp add: sthen_def)
          with Some seen True have "failure look ver missing mismatch stale unfit change uid expected
              (others evs (view s)) x" by (auto simp: failure_def)
          with evs(1) show ?thesis by blast
        next
          case (Inr changed)
          with body True Some t2 change have changed and upd: "upd e' (Some expected) t2 = (Inl x, t)"
            by (auto simp: sthen_def split: if_splits)
          from ok1 seen evs(2) Some look_sound [of "view t1" uid e] have e: "invar e" "ident e = uid" by simp_all
          with proper change Inr \<open>changed\<close> have e': "invar e'" "ident e' = uid" "created e' = created e" by fastforce+
          have r12: "script t2 = script t1" "view t2 = view t1"
            using t2 by (auto simp: utc_now_def split: list.splits)
          have s2: "working t2" using get_works [of uid s found t1] get \<open>r = Inr found\<close> s utc_now_works [OF t2] by simp
          have rely2: "rely evolve t2" using rely r12(1) evs(1) by (auto simp: rely_def)
          have later: "ok (others es (view t2)) \<and> (\<exists>old. look (others es (view t2)) uid = Some old
              \<and> created old = created e \<and> (ver old = ver e \<longrightarrow> old = e))" if es: "script t2 = es @ rest" for es rest
          proof -
            from es have "script t2 = es @ script (t2\<lparr>script := rest\<rparr>)" by simp
            from rely_view [OF rely2 evolves_reflp evolves_transp this]
            have "evolve (view t2) (others es (view t2))" .
            moreover have t2: "ok (view t2)" "look (view t2) uid = Some e" using ok1 r12 seen evs(2) Some by simp_all
            ultimately have "ok (others es (view t2))" "\<exists>old. look (others es (view t2)) uid = Some old
                \<and> created old = created e \<and> ver e \<le> ver old \<and> (ver old = ver e \<longrightarrow> old = e)"
              by (simp_all add: evolves_def)
            then show ?thesis by blast
          qed
          have net2: "plain_network t2"
            using net r12(1) evs(1) by (simp add: plain_network_def breaks_def)
          have held: "ok (others es (view t2)) \<and> (\<exists>old. look (others es (view t2)) (ident e') = Some old
              \<and> created old = created e')" if "script t2 = es @ rest" for es rest
            using later [OF that] e'(2,3) by auto
          have "(\<exists>q. x = SqlError q \<and> breaks t2 q)
            \<or> (\<exists>es rest old. script t2 = es @ rest \<and> look (others es (view t2)) (ident e') = Some old
                 \<and> (x = stale \<and> ver old \<noteq> expected \<or> ver old = expected \<and> unfit (others es (view t2)) e' x))"
            by (rule upd_fails [OF upd s2 e'(1) net2]) (erule held)
          then show ?thesis
          proof (elim disjE exE conjE)
            fix q
            assume "x = SqlError q" "breaks t2 q"
            with r12(1) breaks_suffix [OF evs(1)] show ?thesis by (auto simp: breaks_def)
          next
            fix es rest old
            assume old: "script t2 = es @ rest" "look (others es (view t2)) (ident e') = Some old"
              and "x = stale" "ver old \<noteq> expected"
            with e'(2) evs r12 show ?thesis
              by (intro disjI2 exI [of _ "evs @ es"] exI [of _ rest]) (simp add: failure_def)
          next
            fix es rest old
            assume old: "script t2 = es @ rest" "look (others es (view t2)) (ident e') = Some old"
              and x: "ver old = expected" "unfit (others es (view t2)) e' x"
            from later [OF old(1)] old(2) e'(2) x(1) True have "old = e" by auto
            with old x e'(2) evs r12 change Inr \<open>changed\<close> show ?thesis
              by (intro disjI2 exI [of _ "evs @ es"] exI [of _ rest]) (auto simp: failure_def)
          qed
        qed
      qed
    qed
  qed
qed

lemma failure_told:
  fixes change :: "datetime \<Rightarrow> ('e, exn, bool) proc"
  assumes run: "load_change_save get upd ver missing mismatch change uid expected s = (Inl x, t)"
    and proper: "\<forall>clock e changed e'. invar e \<longrightarrow> change clock e = (Inr changed, e') \<longrightarrow>
      invar e' \<and> (if changed then ver e' = ver e + 1 \<and> ident e' = ident e \<and> created e' = created e else e' = e)"
    and s: "rely evolve s" "ok (view s)" "working s" "plain_network s"
    and errors: "answered s missing" "answered s stale" "\<And>e. answered s (mismatch e)"
      "\<And>d e y. unfit d e y \<Longrightarrow> answered s y"
      "\<And>old moment y. invar old \<Longrightarrow> fst (change moment old) = Inl y \<Longrightarrow> answered s y"
  shows "truthful s (failure look ver missing mismatch stale unfit change uid expected) x \<and> answered s x"
  using load_change_save_fails [OF run proper s]
proof (elim disjE exE conjE)
  fix evs rest
  let ?d = "others evs (view s)"
  assume evs: "script s = evs @ rest" and f: "failure look ver missing mismatch stale unfit change uid expected ?d x"
  from evs have "script s = evs @ script (s\<lparr>script := rest\<rparr>)" by simp
  from rely_ok [OF s(1,2) this] have ok: "ok ?d" .
  have "answered s x"
  proof (cases "look ?d uid")
    case None
    with f errors(1) show ?thesis by (simp add: failure_def)
  next
    case (Some old)
    with f errors(2,3,4) errors(5) look_sound [OF ok Some] show ?thesis
      by (auto simp: failure_def split: if_splits)
  qed
  with evs f show ?thesis unfolding truthful_def by blast
qed (auto simp: truthful_def sql_answered)

end

section \<open>The two tables\<close>

text \<open>
  A profile does not fit if its username belongs to another user, or if the columns cannot hold
  it; settings only if the columns cannot hold them.
\<close>

definition profile_unfit :: "db \<Rightarrow> UserProfile \<Rightarrow> exn \<Rightarrow> bool" where
  "profile_unfit d p x \<longleftrightarrow>
     x = profile_error UsernameAlreadyTakenError
       \<and> (\<exists>u other. u \<noteq> entity_id p \<and> profile_at d u = Some other \<and> username p \<noteq> None \<and> username other = username p)
     \<or> x = SqlError data_error \<and> \<not> (profile_texts_ok p \<and> version p < 2 ^ 63)"

definition settings_unfit :: "db \<Rightarrow> UserSettings \<Rightarrow> exn \<Rightarrow> bool" where
  "settings_unfit d s x \<longleftrightarrow> x = SqlError data_error \<and> \<not> (text_ok (timezone s) \<and> version s < 2 ^ 63)"

lemma profile_refused:
  assumes ok: "profiles_ok d" and p: "valid_profile p"
    and r: "profile_hydrate r = Inr old" "col_user_id r = entity_id p" "created_at old = created_at p"
    and q: "refuses profile_table p d r q"
  shows "q = data_error \<and> \<not> (profile_texts_ok p \<and> version p < 2 ^ 63)
    \<or> q = integrity_error ''profiles_username_key''
      \<and> (\<exists>u other. u \<noteq> entity_id p \<and> profile_at d u = Some other \<and> username p \<noteq> None \<and> username other = username p)"
proof -
  have "profile_assign p r = profile_row_of p"
    using r profile_hydrate_base [OF r(1)] by (intro profile_assign_row) simp_all
  with q consider "profile_check (profile_row_of p) = Some q"
    | "profile_unique (filter (\<lambda>r. col_user_id r \<noteq> entity_id p) (profiles d)) (profile_row_of p) = Some q"
    by (auto simp: refuses_def profile_table_def)
  then show ?thesis
  proof cases
    case 1
    with valid_profile_meets_schema [OF p] show ?thesis by (auto split: if_splits)
  next
    case 2
    then obtain r' where r': "r' \<in> set (profiles d)" "col_user_id r' \<noteq> entity_id p"
      "col_username r' = username p" "username p \<noteq> None" and q: "q = integrity_error ''profiles_username_key''"
      by (auto simp: profile_unique_def list_ex_iff profile_row_of_def split: if_splits)
    from ok r'(1) obtain other where other: "profile_hydrate r' = Inr other"
      by (auto simp: table_ok_def profile_table_def list_all_iff)
    from profile_adapter.lookup_row [OF ok, of r' other] r'(1) other
    have "profile_at d (col_user_id r') = Some other" by (simp add: profile_table_def)
    moreover have "username other = username p"
    proof -
      from p have "pred_option valid_username (username p)" by (simp add: valid_profile_def)
      with r'(3) have "read_optional Username (col_username r') = Inr (username p)"
        by (simp add: read_optional_fixed [where P = valid_username])
      with other show ?thesis by (auto simp: profile_hydrate_def profile_validate_def)
    qed
    ultimately show ?thesis using r' q by blast
  qed
qed

interpretation profile_failures: failing_port profile_at profiles_ok entity_id valid_profile version created_at
  profile_repo_get_by_id profile_repo_update "repo_create_default_if_absent profile_table"
  "profile_error (ProfileVersionMismatchError None)" profile_unfit
proof (unfold_locales, goal_cases)
  case (1 u s x t)
  show ?case
    by (rule profile_adapter.get_by_id_fails [OF 1(1) [unfolded profile_repo_get_by_id_def] 1(2)]) (erule 1(3))
next
  case 2
  then show ?case using profile_adapter.get_by_id_works by (simp add: profile_repo_get_by_id_def)
next
  case (3 e v s x t)
  from 3(1) obtain y where y: "repo_update profile_table e (Some v) s = (Inl y, t)" "username_taken y t = (Inl x, t)"
    by (auto simp: profile_repo_update_def scatch_def username_taken_def split: prod.splits sum.splits exn.splits if_splits)
  have all: "\<forall>evs rest. script s = evs @ rest \<longrightarrow> profiles_ok (others evs (view s))
      \<and> (\<exists>old. profile_at (others evs (view s)) (t_id profile_table e) = Some old \<and> created_at old = created_at e)"
    using 3(5) by simp
  from profile_adapter.update_fails [OF y(1) 3(2,3) all] show ?case
  proof (elim disjE exE conjE)
    fix q
    assume "y = SqlError q" "breaks s q"
    with y(2) 3(4) show ?case by (auto simp: username_taken_def plain_network_def)
  next
    fix evs rest old
    assume "script s = evs @ rest" "profile_at (others evs (view s)) (t_id profile_table e) = Some old"
      "y = t_conflict profile_table" "version old \<noteq> v"
    with y(2) show ?case by (auto simp: username_taken_def profile_table_def [abs_def])
  next
    fix evs rest old q r
    assume at: "script s = evs @ rest" "profile_at (others evs (view s)) (t_id profile_table e) = Some old" "version old = v"
      and q: "y = SqlError q" "t_hydrate profile_table r = Inr old" "t_pk profile_table r = t_id profile_table e"
        "refuses profile_table e (others evs (view s)) r q"
    from all [rule_format, OF at(1)] at(2) have "profiles_ok (others evs (view s))" "created_at old = created_at e" by auto
    from profile_refused [OF this(1) 3(3) _ _ this(2) q(4)] q(2,3)
    have "profile_unfit (others evs (view s)) e x"
      using y(2) q(1)
      by (auto simp: profile_unfit_def username_taken_def profile_table_def integrity_error_def data_error_def)
    with at show ?case by auto
  qed
qed

interpretation settings_failures: failing_port "settings_at zone_ok" "settings_ok zone_ok" entity_id
  "valid_settings zone_ok" version created_at "settings_repo_get_by_id zone_ok" "settings_repo_update zone_ok"
  "repo_create_default_if_absent (settings_table zone_ok)" "settings_error (SettingsVersionMismatchError None)"
  settings_unfit for zone_ok
proof (unfold_locales, goal_cases)
  case (1 u s x t)
  show ?case
    by (rule settings_adapter.get_by_id_fails [OF 1(1) [unfolded settings_repo_get_by_id_def] 1(2)]) (erule 1(3))
next
  case 2
  then show ?case using settings_adapter.get_by_id_works by (simp add: settings_repo_get_by_id_def)
next
  case (3 e v s x t)
  from 3(1) have y: "repo_update (settings_table zone_ok) e (Some v) s = (Inl x, t)"
    by (simp add: settings_repo_update_def)
  have all: "\<forall>evs rest. script s = evs @ rest \<longrightarrow> settings_ok zone_ok (others evs (view s))
      \<and> (\<exists>old. settings_at zone_ok (others evs (view s)) (t_id (settings_table zone_ok) e) = Some old
           \<and> created_at old = created_at e)"
    using 3(5) by simp
  from settings_adapter.update_fails [OF y 3(2,3) all] show ?case
  proof (elim disjE exE conjE)
    fix evs rest old
    assume "script s = evs @ rest" "settings_at zone_ok (others evs (view s)) (t_id (settings_table zone_ok) e) = Some old"
      "x = t_conflict (settings_table zone_ok)" "version old \<noteq> v"
    then show ?case by (auto simp: settings_table_def [abs_def])
  next
    fix evs rest old q r
    assume at: "script s = evs @ rest" "settings_at zone_ok (others evs (view s)) (t_id (settings_table zone_ok) e) = Some old"
        "version old = v"
      and q: "x = SqlError q" "t_hydrate (settings_table zone_ok) r = Inr old"
        "t_pk (settings_table zone_ok) r = t_id (settings_table zone_ok) e"
        "refuses (settings_table zone_ok) e (others evs (view s)) r q"
    from all [rule_format, OF at(1)] at(2) have "created_at old = created_at e" by auto
    with q(2,3) settings_hydrate_base [of zone_ok r old] have "settings_assign e r = settings_row_of e"
      by (intro settings_assign_row) (simp_all add: settings_table_def)
    with q(1,4) valid_settings_meet_schema [OF 3(3)] have "settings_unfit (others evs (view s)) e x"
      by (auto simp: settings_unfit_def refuses_def settings_table_def split: if_splits)
    with at show ?case by auto
  qed auto
qed

section \<open>The failures of the commands\<close>

definition update_profile_failure :: "UpdateProfileCommand \<Rightarrow> db \<Rightarrow> exn \<Rightarrow> bool" where
  "update_profile_failure c =
     failure profile_at version (profile_error UserProfileNotFoundError)
       (\<lambda>p. profile_error (ProfileVersionMismatchError (Some (version p))))
       (profile_error (ProfileVersionMismatchError None)) profile_unfit
       (profile_change c) (up_user_id c) (up_expected_version c)"

definition update_avatar_failure :: "UpdateAvatarCommand \<Rightarrow> db \<Rightarrow> exn \<Rightarrow> bool" where
  "update_avatar_failure c =
     failure profile_at version (profile_error UserProfileNotFoundError)
       (\<lambda>p. profile_error (ProfileVersionMismatchError None))
       (profile_error (ProfileVersionMismatchError None)) profile_unfit
       (avatar_change c) (ua_user_id c) (ua_expected_version c)"

definition update_settings_failure :: "(pystr \<Rightarrow> bool) \<Rightarrow> UpdateSettingsCommand \<Rightarrow> db \<Rightarrow> exn \<Rightarrow> bool" where
  "update_settings_failure zone_ok c =
     failure (settings_at zone_ok) version (settings_error UserSettingsNotFoundError)
       (\<lambda>s. settings_error (SettingsVersionMismatchError (Some (version s))))
       (settings_error (SettingsVersionMismatchError None)) settings_unfit
       (settings_change zone_ok c) (us_user_id c) (us_expected_version c)"

definition reset_settings_failure :: "(pystr \<Rightarrow> bool) \<Rightarrow> ResetSettingsCommand \<Rightarrow> db \<Rightarrow> exn \<Rightarrow> bool" where
  "reset_settings_failure zone_ok c =
     failure (settings_at zone_ok) version (settings_error UserSettingsNotFoundError)
       (\<lambda>s. settings_error (SettingsVersionMismatchError None))
       (settings_error (SettingsVersionMismatchError None)) settings_unfit
       (reset_to_defaults zone_ok) (rs_user_id c) (rs_expected_version c)"

lemma answered_domain [simp]:
  "answered sess (DomainError InvalidTimestampError)" "answered sess (SqlError data_error)"
  "answered sess (profile_error InvalidUsernameError)" "answered sess (profile_error ReservedUsernameError)"
  "answered sess (profile_error InvalidDisplayNameError)" "answered sess (profile_error InvalidBioError)"
  "answered sess (profile_error UserProfileNotFoundError)" "answered sess (profile_error (ProfileVersionMismatchError v))"
  "answered sess (profile_error UsernameAlreadyTakenError)"
  "answered sess (settings_error InvalidTimezoneError)" "answered sess (settings_error UserSettingsNotFoundError)"
  "answered sess (settings_error (SettingsVersionMismatchError w))"
  by (simp_all add: sql_answered) (simp_all add: answered_def invalid_input_def profile_not_found_def profile_unavailable_def version_conflict_def
      conflict_def error_response_def)

text \<open>What validating a change of a valid aggregate may raise.\<close>

lemma username_fails: "read_optional Username u = Inl e \<Longrightarrow> answered sess e"
  by (cases u) (auto simp: Username_def Let_def split: if_splits)

lemma display_name_fails: "validate_display_name (PyStr d) = Inl e \<Longrightarrow> answered sess e"
  by (auto simp: validate_display_name_def Let_def contains_emoji_def rthen_eq_Inl split: if_splits)

lemma bio_fails: "read_optional validate_bio b = Inl e \<Longrightarrow> answered sess e"
  by (cases b) (auto simp: validate_bio_def split: if_splits)

lemma timezone_fails: "validate_timezone zone_ok (PyStr z) = Inl e \<Longrightarrow> answered sess e"
  by (auto simp: validate_timezone_def Let_def split: if_splits)

lemma profile_apply_fails:
  assumes "fst (profile_apply moment changes self) = Inl e" "valid_profile self" "keeps_base changes"
    and "\<exists>st. in_status (changes (profile_dump self)) = Member st"
  shows "answered sess e"
proof -
  have "version (changes (profile_dump self)) = version self" "1 \<le> version self"
    using assms(2,3) by (simp_all add: keeps_base_def profile_dump_def valid_profile_def)
  with assms(1,4) show ?thesis
    by (auto simp: profile_apply_def profile.apply_changes_eq profile_validate_def rthen_eq_Inl validate_timestamps_eq
        rguard_def dest: username_fails display_name_fails bio_fails split: sum.splits if_splits)
qed

lemma settings_apply_fails:
  assumes "fst (settings_apply zone_ok moment changes self) = Inl e" "valid_settings zone_ok self" "keeps_base changes"
    and "\<exists>t l q. in_theme (changes (settings_dump self)) = Member t \<and> in_locale (changes (settings_dump self)) = Member l
      \<and> in_privacy (changes (settings_dump self)) = Member q"
  shows "answered sess e"
proof -
  have "version (changes (settings_dump self)) = version self" "1 \<le> version self"
    using assms(2,3) by (simp_all add: keeps_base_def settings_dump_def valid_settings_def)
  with assms(1,4) show ?thesis
    by (auto simp: settings_apply_def settings.apply_changes_eq settings_validate_def rthen_eq_Inl validate_timestamps_eq
        rguard_def dest: timezone_fails split: sum.splits if_splits)
qed

lemma profile_changes_fail:
  "valid_profile p \<Longrightarrow> fst (profile_change c moment p) = Inl e \<Longrightarrow> answered sess e"
  "valid_profile p \<Longrightarrow> fst (avatar_change a moment p) = Inl e \<Longrightarrow> answered sess e"
  unfolding profile_change_def update_profile_def avatar_change_def update_avatar_def
  by (erule profile_apply_fails; simp add: profile_dump_def keeps_base_def)+

lemma settings_changes_fail:
  "valid_settings zone_ok s \<Longrightarrow> fst (settings_change zone_ok u moment s) = Inl e \<Longrightarrow> answered sess e"
  "valid_settings zone_ok s \<Longrightarrow> fst (reset_to_defaults zone_ok moment s) = Inl e \<Longrightarrow> answered sess e"
  unfolding settings_change_def reset_to_defaults_def update_settings_def
  by (erule settings_apply_fails; simp add: settings_dump_def keeps_base_def split: option.split)+

lemma unfit_answered: "profile_unfit d p x \<Longrightarrow> answered sess x" "settings_unfit d q x \<Longrightarrow> answered sess x"
  by (auto simp: profile_unfit_def settings_unfit_def)

lemma sthen_sret_Inl: "sthen m (\<lambda>p. sret (f p)) s = (Inl x, t) \<longleftrightarrow> m s = (Inl x, t)"
  by (auto simp: sthen_def split: prod.splits sum.splits)

lemma profile_commands_told:
  assumes "rely profiles_evolve s" "profiles_ok (view s)" "working s" "plain_network s"
  shows "UpdateProfileHandler c s = (Inl x, t) \<Longrightarrow> truthful s (update_profile_failure c) x \<and> answered s x"
    and "UpdateAvatarHandler a s = (Inl x, t) \<Longrightarrow> truthful s (update_avatar_failure a) x \<and> answered s x"
  unfolding UpdateProfileHandler_eq UpdateAvatarHandler_eq sthen_sret_Inl update_profile_failure_def
    update_avatar_failure_def
  by (erule profile_failures.failure_told [OF _ proper_change_apply [OF proper_changes(1)] assms]
      profile_failures.failure_told [OF _ proper_change_apply [OF proper_changes(2)] assms];
      (erule profile_changes_fail unfit_answered | rule answered_domain), assumption?)+

lemma settings_commands_told:
  assumes "rely (settings_evolve zone_ok) s" "settings_ok zone_ok (view s)" "working s" "plain_network s"
  shows "UpdateSettingsHandler zone_ok c s = (Inl x, t) \<Longrightarrow>
      truthful s (update_settings_failure zone_ok c) x \<and> answered s x"
    and "ResetSettingsHandler zone_ok a s = (Inl x, t) \<Longrightarrow>
      truthful s (reset_settings_failure zone_ok a) x \<and> answered s x"
  unfolding UpdateSettingsHandler_eq ResetSettingsHandler_eq sthen_sret_Inl update_settings_failure_def
    reset_settings_failure_def
  by (erule settings_failures.failure_told [OF _ proper_change_apply [OF proper_changes(3)] assms]
      settings_failures.failure_told [OF _ proper_change_apply [OF proper_changes(4)] assms];
      (erule settings_changes_fail unfit_answered | rule answered_domain), assumption?)+

text \<open>
  C30. A command that fails tells the truth, and it is told to the client. Whatever other
  sessions do meanwhile: if one of the four changing commands raises, then either the connection
  broke with this very error, or at some moment of the call what it says was so: there was no
  such profile or settings; the version was another one than the client expected, and it is the
  one that the error tells, if it tells one; the change is not possible on what was stored, by
  the validators and the clock; the username belonged to another user; or it is a text or a
  version that only the database refuses. And every such error is answered: what it says of the
  stored data with status 404, 409, 422 or 503, except for a clock that is not past the creation and
  for what only the database refuses; and the error of a connection with 503 if it is a conflict
  of transactions, a lost connection or a timeout. Any other error that the connection raises
  leaves the unit of work as it is and has no response of its own.
\<close>

theorem failures_are_true_and_answered:
  assumes "working s" "plain_network s" "rely profiles_evolve s" "rely (settings_evolve zone_ok) s"
    and "profiles_ok (view s)" "settings_ok zone_ok (view s)"
  shows "(\<forall>c x t. UpdateProfileHandler c s = (Inl x, t) \<longrightarrow> truthful s (update_profile_failure c) x \<and> answered s x)
    \<and> (\<forall>c x t. UpdateAvatarHandler c s = (Inl x, t) \<longrightarrow> truthful s (update_avatar_failure c) x \<and> answered s x)
    \<and> (\<forall>c x t. UpdateSettingsHandler zone_ok c s = (Inl x, t) \<longrightarrow>
         truthful s (update_settings_failure zone_ok c) x \<and> answered s x)
    \<and> (\<forall>c x t. ResetSettingsHandler zone_ok c s = (Inl x, t) \<longrightarrow>
         truthful s (reset_settings_failure zone_ok c) x \<and> answered s x)"
  using profile_commands_told [OF assms(3,5,1,2)] settings_commands_told [OF assms(4,6,1,2)] by blast

end
