(* ===== verification/Failure_Witnesses.thy ===== *)
theory Failure_Witnesses
  imports Failures Command_Witnesses
begin

text \<open>Commands that fail on the sample database while another session commits.\<close>

definition stale_update :: UpdateProfileCommand where
  "stale_update = sample_update\<lparr>up_expected_version := 3\<rparr>"

definition reserved_update :: UpdateProfileCommand where
  "reserved_update = sample_update\<lparr>up_username := Some (ustr ''Admin'')\<rparr>"

lemma failing_runs:
  "fst (UpdateProfileHandler stale_update (sample_session sample_db [other_commit]))
     = Inl (profile_error (ProfileVersionMismatchError (Some 1)))"
  "fst (UpdateProfileHandler reserved_update (sample_session sample_db [other_commit]))
     = Inl (profile_error ReservedUsernameError)"
  by (simp_all add: run_defs stale_update_def reserved_update_def sample_update_def)

text \<open>Both errors are the truth, and both have a response.\<close>

theorem failures_are_true_and_answered_witness:
  "(\<exists>evs rest. [other_commit] = evs @ rest \<and> update_profile_failure stale_update (others evs sample_db)
      (profile_error (ProfileVersionMismatchError (Some 1))))
   \<and> (\<exists>evs rest. [other_commit] = evs @ rest \<and> update_profile_failure reserved_update (others evs sample_db)
      (profile_error ReservedUsernameError))
   \<and> answered (sample_session sample_db [other_commit]) (profile_error ReservedUsernameError)"
proof -
  let ?s = "sample_session sample_db [other_commit]"
  have s: "working ?s" "plain_network ?s" "script ?s = [other_commit]" "view ?s = sample_db"
    by (simp_all add: working_def plain_network_def breaks_def sample_session_def begin_state_def fresh_session_def
        other_commit_def)
  note told = failures_are_true_and_answered [OF s(1,2) sample_rely sample_ok(1,2), THEN conjunct1, rule_format]
  from told [of stale_update _ "snd (UpdateProfileHandler stale_update ?s)"] failing_runs(1)
    told [of reserved_update _ "snd (UpdateProfileHandler reserved_update ?s)"] failing_runs(2)
  show ?thesis unfolding truthful_def s(3,4) by (metis exn.distinct prod.collapse)
qed

end
