(* ===== verification/Request_Id.thy ===== *)
theory Request_Id
  imports Http
begin

text \<open>
  The middleware around the application (\<open>src/src/app/entrypoints/http/middlewares\<close>): it gives
  every request a safe identifier, returns it in every response, records the lifecycle of the
  request and answers for an application that fails. The application is a program that sends
  messages and ends; the network may break at any message.
\<close>

section \<open>Identifiers\<close>

text \<open>\<open>_SAFE_REQUEST_ID.fullmatch\<close>: \<open>[A-Za-z0-9][A-Za-z0-9._:-]*\<close>\<close>

definition is_alnum :: "nat \<Rightarrow> bool" where
  "is_alnum c \<longleftrightarrow> (65 \<le> c \<and> c \<le> 90) \<or> (97 \<le> c \<and> c \<le> 122) \<or> (48 \<le> c \<and> c \<le> 57)"

definition safe_request_id :: "pystr \<Rightarrow> bool" where
  "safe_request_id s \<longleftrightarrow> s \<noteq> [] \<and> is_alnum (hd s)
     \<and> list_all (\<lambda>c. is_alnum c \<or> c = 46 \<or> c = 95 \<or> c = 58 \<or> c = 45) s"

record resolver =
  max_length :: int
  generated :: pystr

definition resolver_new :: "int \<Rightarrow> pystr \<Rightarrow> resolver result" where
  "resolver_new len gen =
     (if len < 1 then Inl ValueError else Inr \<lparr>max_length = len, generated = gen\<rparr>)"

definition is_valid_id :: "resolver \<Rightarrow> pystr \<Rightarrow> bool" where
  "is_valid_id self s \<longleftrightarrow> int (length s) \<le> max_length self \<and> safe_request_id s"

text \<open>\<open>generated\<close> is what the generator returns, should it be asked.\<close>

definition resolve :: "resolver \<Rightarrow> pystr option \<Rightarrow> pystr result" where
  "resolve self candidate =
     (case candidate of
        Some c \<Rightarrow> if is_valid_id self c then Inr c
          else if is_valid_id self (generated self) then Inr (generated self) else Inl ValueError
      | None \<Rightarrow> if is_valid_id self (generated self) then Inr (generated self) else Inl ValueError)"

section \<open>The state of a response\<close>

record HttpResponseState =
  status_code :: int
  response_started :: bool
  failed :: bool
  client_disconnected :: bool

definition response_new :: HttpResponseState where
  "response_new = \<lparr>status_code = 500, response_started = False, failed = False, client_disconnected = False\<rparr>"

definition mark_failure :: "HttpResponseState \<Rightarrow> HttpResponseState" where
  "mark_failure r = (let r = r\<lparr>failed := True\<rparr> in if \<not> response_started r then r\<lparr>status_code := 500\<rparr> else r)"

definition mark_client_disconnected :: "HttpResponseState \<Rightarrow> HttpResponseState" where
  "mark_client_disconnected r = r\<lparr>failed := True, client_disconnected := True\<rparr>"

text \<open>\<open>start\<close>: \<open>None\<close> if it raises, which the second start of a response does.\<close>

definition start_response :: "int \<Rightarrow> HttpResponseState \<Rightarrow> bool \<times> HttpResponseState" where
  "start_response code r =
     (if response_started r then (False, mark_failure r)
      else (True, r\<lparr>response_started := True, status_code := code, failed := failed r \<or> code \<ge> 500\<rparr>))"

section \<open>Messages, programs and events\<close>

datatype message =
    ResponseStart int "(pystr \<times> pystr) list"
  | ResponseBody pystr

text \<open>
  \<open>ACancelledError\<close> and \<open>AOtherBaseException\<close> (\<open>SystemExit\<close>, \<open>KeyboardInterrupt\<close>, \<open>GeneratorExit\<close>, a
  \<open>BaseExceptionGroup\<close>) are no \<open>Exception\<close>.
\<close>

datatype asgi_exn = AOSError | ARuntimeError | AOtherException | ACancelledError | AOtherBaseException

text \<open>
  An application: it ends, raises, or sends a message and goes on according to whether and how
  the sending raised (it may catch that).
\<close>

datatype asgi = Return | Throw asgi_exn | Send message "asgi_exn option \<Rightarrow> asgi"

text \<open>
  The calls of the observer, with what it reads of the response: whether it had started and, at
  the end, its status and whether it failed or the client left.
\<close>

datatype observation =
    Started
  | Failed bool asgi_exn
  | Disconnected bool
  | Finished int bool bool

text \<open>
  What the middleware sees and keeps: the response state, what went out, what was observed, the
  bound context variable, and how the network will answer each message.
\<close>

record exchange =
  response :: HttpResponseState
  sent :: "message list"
  observed :: "observation list"
  bound_id :: "pystr option"
  network :: "asgi_exn option list"

text \<open>
  \<open>MutableHeaders(...)[name] = value\<close>: the first header of that name is replaced and the others
  go, or the header is added. Names are in lower case.
\<close>

fun set_header :: "pystr \<Rightarrow> pystr \<Rightarrow> (pystr \<times> pystr) list \<Rightarrow> (pystr \<times> pystr) list" where
  "set_header name val [] = [(name, val)]"
| "set_header name val (h # hs) =
     (if fst h = name then (name, val) # filter (\<lambda>g. fst g \<noteq> name) hs else h # set_header name val hs)"

definition raw_send :: "message \<Rightarrow> (exchange, asgi_exn, unit) proc" where
  "raw_send msg x =
     (case network x of
        [] \<Rightarrow> (Inr (), x\<lparr>sent := sent x @ [msg]\<rparr>)
      | None # ns \<Rightarrow> (Inr (), x\<lparr>sent := sent x @ [msg], network := ns\<rparr>)
      | Some e # ns \<Rightarrow> (Inl e, x\<lparr>network := ns\<rparr>))"

section \<open>The middleware\<close>

definition deliver :: "message \<Rightarrow> (exchange, asgi_exn, unit) proc" where
  "deliver msg x =
     (case raw_send msg x of
        (Inl e, y) \<Rightarrow>
          (Inl e, if e = AOSError
             then y\<lparr>response := mark_client_disconnected (response y), 
               observed := observed y @ [Disconnected (response_started (response y))]\<rparr>
             else y)
      | (Inr _, y) \<Rightarrow> (Inr (), y))"

definition send_with_request_id :: "pystr \<Rightarrow> pystr \<Rightarrow> message \<Rightarrow> (exchange, asgi_exn, unit) proc" where
  "send_with_request_id header_name request_id msg x =
     (case msg of
        ResponseStart code hs \<Rightarrow>
          (case start_response code (response x) of
             (False, r) \<Rightarrow> (Inl ARuntimeError, x\<lparr>response := r\<rparr>)
           | (True, r) \<Rightarrow> deliver (ResponseStart code (set_header header_name request_id hs)) (x\<lparr>response := r\<rparr>))
      | ResponseBody _ \<Rightarrow> deliver msg x)"

text \<open>Running a program with a given \<open>send\<close>.\<close>

primrec run_asgi :: "(message \<Rightarrow> (exchange, asgi_exn, unit) proc) \<Rightarrow> asgi \<Rightarrow> (exchange, asgi_exn, unit) proc" where
  "run_asgi send Return = (\<lambda>x. (Inr (), x))"
| "run_asgi send (Throw e) = (\<lambda>x. (Inl e, x))"
| "run_asgi send (Send msg k) = (\<lambda>x.
     case send msg x of
       (Inl e, y) \<Rightarrow> run_asgi send (k (Some e)) y
     | (Inr _, y) \<Rightarrow> run_asgi send (k None) y)"

definition internal_error_response :: asgi where
  "internal_error_response =
     Send (ResponseStart 500 [(ustr ''cache-control'', ustr ''no-store''), (ustr ''content-length'', ustr ''34''),
       (ustr ''content-type'', ustr ''application/json'')]) (\<lambda>r. case r of
         Some e \<Rightarrow> Throw e
       | None \<Rightarrow> Send (ResponseBody (ustr ''{\"detail\":\"internal server error\"}'')) (\<lambda>r. case r of
           Some e \<Rightarrow> Throw e
         | None \<Rightarrow> Return))"

record request_id_middleware =
  id_resolver :: resolver
  header_name :: pystr
  state_key :: pystr

text \<open>\<open>[!#$%&'*+\-.^_`|~0-9A-Za-z]+\<close>; a header is looked up and set in lower case.\<close>

definition header_name_char :: "nat \<Rightarrow> bool" where
  "header_name_char c \<longleftrightarrow> is_alnum c \<or> c \<in> {33, 35, 36, 37, 38, 39, 42, 43, 45, 46, 94, 95, 96, 124, 126}"

definition middleware_new :: "resolver \<Rightarrow> pystr \<Rightarrow> pystr \<Rightarrow> request_id_middleware result" where
  "middleware_new res name key =
     (if \<not> (name \<noteq> [] \<and> list_all header_name_char name) then Inl ValueError
      else if key = [] then Inl ValueError
      else Inr \<lparr>id_resolver = res, header_name = lower name, state_key = key\<rparr>)"

definition resolve_request_id :: "request_id_middleware \<Rightarrow> pystr list \<Rightarrow> pystr result" where
  "resolve_request_id self candidates =
     resolve (id_resolver self) (if length candidates = 1 then Some (hd candidates) else None)"

definition copy_scope :: "request_id_middleware \<Rightarrow> pystr \<Rightarrow> (pystr \<rightharpoonup> pystr) \<Rightarrow> (pystr \<rightharpoonup> pystr)" where
  "copy_scope self request_id scope_state = scope_state(state_key self \<mapsto> request_id)"

text \<open>\<open>except Exception\<close> in the call.\<close>

definition recover :: "(message \<Rightarrow> (exchange, asgi_exn, unit) proc) \<Rightarrow> asgi_exn \<Rightarrow> (exchange, asgi_exn, unit) proc" where
  "recover send e x =
     (let x = x\<lparr>response := mark_failure (response x)\<rparr> in
      if client_disconnected (response x) then (Inl e, x)
      else
        (let x = x\<lparr>observed := observed x @ [Failed (response_started (response x)) e]\<rparr> in
         if response_started (response x) then (Inl e, x)
         else run_asgi send internal_error_response x))"

definition guarded_run :: "(message \<Rightarrow> (exchange, asgi_exn, unit) proc) \<Rightarrow> asgi \<Rightarrow> (exchange, asgi_exn, unit) proc" where
  "guarded_run send app x =
     (case run_asgi send app x of
        (Inr _, y) \<Rightarrow> if response_started (response y) then (Inr (), y) else recover send ARuntimeError y
      | (Inl e, y) \<Rightarrow>
          if e = ACancelledError then (Inl e, y\<lparr>response := mark_failure (response y)\<rparr>)
          else if e = AOtherBaseException then (Inl e, y)
          else recover send e y)"

definition finish :: "exchange \<Rightarrow> exchange" where
  "finish x =
     (let r = (if response_started (response x) then response x else mark_failure (response x)) in
      x\<lparr>response := r, observed := observed x @ [Finished (status_code r) (failed r) (client_disconnected r)],
        bound_id := None\<rparr>)"

text \<open>
  \<open>__call__\<close> on a request: an identifier that cannot be resolved raises before anything else.
  Other connections pass through.
\<close>

definition middleware_call ::
  "request_id_middleware \<Rightarrow> bool \<Rightarrow> pystr list \<Rightarrow> (pystr \<rightharpoonup> pystr) \<Rightarrow> ((pystr \<rightharpoonup> pystr) \<Rightarrow> asgi) \<Rightarrow>
   exchange \<Rightarrow> (exn + (asgi_exn + unit)) \<times> exchange" where
  "middleware_call self is_http candidates scope_state app x =
     (if \<not> is_http then (case run_asgi raw_send (app scope_state) x of (r, y) \<Rightarrow> (Inr r, y))
      else (case resolve_request_id self candidates of
          Inl e \<Rightarrow> (Inl e, x)
        | Inr request_id \<Rightarrow>
            (case guarded_run (send_with_request_id (header_name self) request_id)
                    (app (copy_scope self request_id scope_state))
                    (x\<lparr>response := response_new, bound_id := Some request_id, observed := observed x @ [Started]\<rparr>) of
               (r, y) \<Rightarrow> (Inr r, finish y))))"

end
