(* ===== verification/Request_Id_Properties.thy ===== *)
theory Request_Id_Properties
  imports Request_Id
begin

text \<open>
  The middleware answers every request once and under one identifier: what is kept while an
  application sends messages, then the whole call.
\<close>

section \<open>What goes out\<close>

fun is_start :: "message \<Rightarrow> bool" where
  "is_start (ResponseStart _ _) = True"
| "is_start (ResponseBody _) = False"

fun carries_id :: "pystr \<Rightarrow> pystr \<Rightarrow> message \<Rightarrow> bool" where
  "carries_id name request_id (ResponseStart _ hs) = (filter (\<lambda>h. fst h = name) hs = [(name, request_id)])"
| "carries_id name request_id (ResponseBody _) = True"

lemma set_header_carries: "carries_id name request_id (ResponseStart code (set_header name request_id hs))"
  by (induction hs) (auto simp: filter_empty_conv)

text \<open>
  Kept by everything that is sent: at most one start went out, and only if the response has
  started, with its status; every start carries the identifier; a response with a server error and
  one whose client left count as failed. On a network that does not fail, a started response has
  gone out.
\<close>

definition starts :: "exchange \<Rightarrow> message list" where
  "starts x = filter is_start (sent x)"

definition quiet_network :: "exchange \<Rightarrow> bool" where
  "quiet_network x \<longleftrightarrow> list_all (\<lambda>e. e = None) (network x)"

definition well_sent :: "pystr \<Rightarrow> pystr \<Rightarrow> exchange \<Rightarrow> bool" where
  "well_sent name request_id x \<longleftrightarrow>
     (starts x = [] \<or> response_started (response x)
        \<and> (\<exists>hs. starts x = [ResponseStart (status_code (response x)) hs]))
     \<and> (response_started (response x) \<and> status_code (response x) \<ge> 500 \<or> client_disconnected (response x)
          \<longrightarrow> failed (response x))
     \<and> list_all (carries_id name request_id) (sent x)"

definition delivered :: "exchange \<Rightarrow> bool" where
  "delivered x \<longleftrightarrow> response_started (response x) \<longrightarrow> starts x \<noteq> []"

fun is_failed :: "observation \<Rightarrow> bool" where
  "is_failed (Failed _ _) = True"
| "is_failed _ = False"

fun is_disconnected :: "observation \<Rightarrow> bool" where
  "is_disconnected (Disconnected _) = True"
| "is_disconnected _ = False"

lemma disconnected_not_failed: "is_disconnected v \<Longrightarrow> \<not> is_failed v"
  by (cases v) simp_all

text \<open>How a state evolves while messages are sent.\<close>

definition sends :: "pystr \<Rightarrow> pystr \<Rightarrow> exchange \<Rightarrow> exchange \<Rightarrow> bool" where
  "sends name request_id x y \<longleftrightarrow>
     (well_sent name request_id x \<longrightarrow> well_sent name request_id y)
     \<and> bound_id y = bound_id x
     \<and> (\<exists>ds. observed y = observed x @ ds \<and> list_all is_disconnected ds)
     \<and> (failed (response x) \<longrightarrow> failed (response y))
     \<and> (client_disconnected (response y) \<longrightarrow> client_disconnected (response x) \<or> \<not> quiet_network x)
     \<and> (quiet_network x \<longrightarrow> quiet_network y \<and> (delivered x \<longrightarrow> delivered y))
     \<and> (response_started (response x) \<longrightarrow> response_started (response y))"

lemma sends_refl [simp]: "sends name request_id x x"
  by (simp add: sends_def)

lemma sends_trans:
  assumes "sends name request_id x y" "sends name request_id y z"
  shows "sends name request_id x z"
proof -
  from assms obtain ds es where "observed y = observed x @ ds" "list_all is_disconnected ds"
    "observed z = observed y @ es" "list_all is_disconnected es" unfolding sends_def by blast
  then have "\<exists>ds. observed z = observed x @ ds \<and> list_all is_disconnected ds"
    by (intro exI [of _ "ds @ es"]) simp
  moreover have "bound_id z = bound_id x" using assms by (simp add: sends_def)
  ultimately show ?thesis using assms unfolding sends_def by blast
qed

lemma raw_send_cases:
  assumes "raw_send msg x = (r, y)"
  obtains (out) "r = Inr ()" "\<exists>ns. y = x\<lparr>sent := sent x @ [msg], network := ns\<rparr> \<and> (quiet_network x \<longrightarrow> list_all (\<lambda>e. e = None) ns)"
  | (lost) e ns where "r = Inl e" "y = x\<lparr>network := ns\<rparr>" "\<not> quiet_network x"
proof (cases "network x")
  case Nil
  with assms show thesis by (intro out) (auto simp: raw_send_def intro!: exI [of _ "[]"])
next
  case (Cons n ns)
  with assms that show thesis by (cases n) (auto simp: raw_send_def quiet_network_def)
qed

lemmas sends_defs = sends_def well_sent_def delivered_def starts_def quiet_network_def mark_client_disconnected_def

lemma deliver_body: "deliver (ResponseBody b) x = (r, y) \<Longrightarrow> sends name request_id x y"
proof -
  assume d: "deliver (ResponseBody b) x = (r, y)"
  obtain r' z where z: "raw_send (ResponseBody b) x = (r', z)" by (metis surj_pair)
  then show ?thesis
  proof (cases rule: raw_send_cases)
    case out
    with d z show ?thesis by (clarsimp simp: deliver_def sends_defs; blast?)
  next
    case (lost e ns)
    with d z show ?thesis
      by (cases "e = AOSError") (clarsimp simp: deliver_def sends_defs; blast?)+
  qed
qed

lemma deliver_start:
  assumes "deliver (ResponseStart code hs) x = (r, y)" "carries_id name request_id (ResponseStart code hs)"
    and x: "x = w\<lparr>response := q\<rparr>" "\<not> response_started (response w)" "response_started q"
      "client_disconnected q = client_disconnected (response w)" "status_code q = code"
      "failed q \<longleftrightarrow> failed (response w) \<or> code \<ge> 500"
  shows "sends name request_id w y"
proof -
  obtain r' z where z: "raw_send (ResponseStart code hs) x = (r', z)" by (metis surj_pair)
  then show ?thesis
  proof (cases rule: raw_send_cases)
    case out
    with assms z show ?thesis by (clarsimp simp: deliver_def sends_defs; blast?)
  next
    case (lost e ns)
    with assms z show ?thesis
      by (cases "e = AOSError") (clarsimp simp: deliver_def sends_defs; blast?)+
  qed
qed

lemma send_sends:
  assumes "send_with_request_id name request_id msg x = (r, y)"
  shows "sends name request_id x y"
proof (cases msg)
  case (ResponseBody b)
  with assms deliver_body show ?thesis by (simp add: send_with_request_id_def)
next
  case (ResponseStart code hs)
  show ?thesis
  proof (cases "response_started (response x)")
    case True
    with assms ResponseStart show ?thesis
      by (auto simp: send_with_request_id_def start_response_def mark_failure_def sends_defs)
  next
    case False
    let ?q = "(response x)\<lparr>response_started := True, status_code := code, failed := failed (response x) \<or> code \<ge> 500\<rparr>"
    have "deliver (ResponseStart code (set_header name request_id hs)) (x\<lparr>response := ?q\<rparr>) = (r, y)"
      using assms ResponseStart False by (simp add: send_with_request_id_def start_response_def)
    from deliver_start [OF this set_header_carries refl False] show ?thesis by simp
  qed
qed

lemma run_asgi_Send:
  "run_asgi send (Send msg k) x = (r, y) \<Longrightarrow> \<exists>s z v. send msg x = (s, z) \<and> run_asgi send (k v) z = (r, y)"
  by (auto split: prod.splits sum.splits)

lemma run_asgi_sends:
  "run_asgi (send_with_request_id name request_id) app x = (r, y) \<Longrightarrow> sends name request_id x y"
proof (induction app arbitrary: x)
  case (Send msg k)
  from run_asgi_Send [OF Send.prems] obtain s z v where s: "send_with_request_id name request_id msg x = (s, z)"
    and "run_asgi (send_with_request_id name request_id) (k v) z = (r, y)" by blast
  from Send.IH [OF _ this(2)] send_sends [OF s] show ?case by (metis rangeI sends_trans)
qed auto

section \<open>The whole call\<close>

text \<open>What a stretch of the call adds to the observations, and that it ends answered.\<close>

definition noted :: "exchange \<Rightarrow> exchange \<Rightarrow> nat \<Rightarrow> bool" where
  "noted x y n \<longleftrightarrow>
     (\<exists>ds. observed y = observed x @ ds \<and> list_all (\<lambda>v. is_failed v \<or> is_disconnected v) ds
       \<and> length (filter is_failed ds) \<le> n)"

lemma sends_noted: "sends name request_id x y \<Longrightarrow> noted x y 0"
proof -
  assume "sends name request_id x y"
  then obtain ds where "observed y = observed x @ ds" "list_all is_disconnected ds" by (auto simp: sends_def)
  then show ?thesis
    unfolding noted_def by (intro exI [of _ ds]) (auto simp: list_all_iff filter_empty_conv disconnected_not_failed)
qed

lemma noted_trans: "noted x y m \<Longrightarrow> noted y z n \<Longrightarrow> noted x z (m + n)"
proof -
  assume "noted x y m" "noted y z n"
  then obtain ds es where "observed y = observed x @ ds" "list_all (\<lambda>v. is_failed v \<or> is_disconnected v) ds"
    "length (filter is_failed ds) \<le> m" "observed z = observed y @ es"
    "list_all (\<lambda>v. is_failed v \<or> is_disconnected v) es" "length (filter is_failed es) \<le> n"
    by (auto simp: noted_def)
  then show ?thesis unfolding noted_def by (intro exI [of _ "ds @ es"]) auto
qed

lemma start_starts:
  "send_with_request_id name request_id (ResponseStart code hs) x = (s, z) \<Longrightarrow> \<not> response_started (response x)
    \<Longrightarrow> response_started (response z)"
  by (auto simp: send_with_request_id_def start_response_def deliver_def raw_send_def mark_client_disconnected_def
      split: list.splits option.splits if_splits)

lemma error_response_starts:
  assumes "run_asgi (send_with_request_id name request_id) internal_error_response x = (r, y)"
    and "\<not> response_started (response x)"
  shows "response_started (response y)"
proof -
  from run_asgi_Send [OF assms(1) [unfolded internal_error_response_def]] obtain s z k hs
    where s: "send_with_request_id name request_id (ResponseStart 500 hs) x = (s, z)"
      and k: "run_asgi (send_with_request_id name request_id) k z = (r, y)" by blast
  from start_starts [OF s assms(2)] run_asgi_sends [OF k] show ?thesis unfolding sends_def by blast
qed

lemma mark_failure_fields [simp]:
  "response_started (mark_failure q) = response_started q" "client_disconnected (mark_failure q) = client_disconnected q"
  "failed (mark_failure q)" "response_started q \<Longrightarrow> status_code (mark_failure q) = status_code q"
  "\<not> response_started q \<Longrightarrow> status_code (mark_failure q) = 500"
  by (simp_all add: mark_failure_def Let_def)

definition settled :: "pystr \<Rightarrow> pystr \<Rightarrow> exchange \<Rightarrow> exchange \<Rightarrow> bool" where
  "settled name request_id x y \<longleftrightarrow>
     well_sent name request_id y \<and> bound_id y = bound_id x \<and> noted x y 1 \<and> failed (response y)
     \<and> (quiet_network x \<and> delivered x \<and> \<not> client_disconnected (response x) \<longrightarrow>
          response_started (response y) \<and> delivered y)"

lemma recover_settles:
  assumes run: "recover (send_with_request_id name request_id) e x = (r, y)" and ok: "well_sent name request_id x"
  shows "settled name request_id x y"
proof -
  let ?f = "x\<lparr>response := mark_failure (response x)\<rparr>"
  let ?g = "?f\<lparr>observed := observed x @ [Failed (response_started (response x)) e]\<rparr>"
  have g: "noted x ?g 1" unfolding noted_def by (intro exI [of _ "[Failed (response_started (response x)) e]"]) simp
  consider "client_disconnected (response x)" "y = ?f" | "\<not> client_disconnected (response x)" "response_started (response x)" "y = ?g"
    | "\<not> response_started (response x)" "run_asgi (send_with_request_id name request_id) internal_error_response ?g = (r, y)"
    using run by (auto simp: recover_def Let_def split: if_splits)
  then show ?thesis
  proof cases
    case 1
    then show ?thesis
      using ok by (auto simp: settled_def well_sent_def starts_def noted_def intro: exI [of _ "[]"])
  next
    case 2
    then show ?thesis
      using ok g by (auto simp: settled_def well_sent_def starts_def delivered_def)
  next
    case 3
    from run_asgi_sends [OF 3(2)] have s: "sends name request_id ?g y" .
    have "well_sent name request_id ?g" "quiet_network ?g = quiet_network x" "delivered ?g = delivered x"
      using ok by (auto simp: well_sent_def starts_def quiet_network_def delivered_def)
    with s error_response_starts [OF 3(2)] 3(1) noted_trans [OF g sends_noted [OF s]]
    show ?thesis by (auto simp: settled_def sends_def)
  qed
qed

lemma guarded_run_settles:
  assumes run: "guarded_run (send_with_request_id name request_id) app x = (r, y)" and ok: "well_sent name request_id x"
    and fresh: "delivered x" "\<not> client_disconnected (response x)"
  shows "well_sent name request_id y \<and> bound_id y = bound_id x \<and> noted x y 1 \<and> (r \<notin> {Inr (), Inl AOtherBaseException} \<longrightarrow> failed (response y))
    \<and> (quiet_network x \<and> r \<notin> {Inl ACancelledError, Inl AOtherBaseException} \<longrightarrow> response_started (response y) \<and> delivered y)"
proof -
  obtain s z where s: "run_asgi (send_with_request_id name request_id) app x = (s, z)" by (metis surj_pair)
  from run_asgi_sends [OF s] have z: "sends name request_id x z" .
  then have wz: "well_sent name request_id z" "bound_id z = bound_id x"
    "quiet_network x \<longrightarrow> quiet_network z \<and> delivered z \<and> \<not> client_disconnected (response z)"
    using ok fresh by (auto simp: sends_def)
  have "(r = Inr () \<and> y = z \<and> response_started (response z))
    \<or> (r = Inl ACancelledError \<and> y = z\<lparr>response := mark_failure (response z)\<rparr>)
    \<or> (r = Inl AOtherBaseException \<and> y = z)
    \<or> (\<exists>e. recover (send_with_request_id name request_id) e z = (r, y))"
    using run s by (cases s) (simp_all add: guarded_run_def split: if_splits, blast+)
  then consider (answered) "r = Inr ()" "y = z" "response_started (response z)"
    | (cancelled) "r = Inl ACancelledError" "y = z\<lparr>response := mark_failure (response z)\<rparr>"
    | (uncaught) "r = Inl AOtherBaseException" "y = z"
    | (failed) e where "recover (send_with_request_id name request_id) e z = (r, y)"
    by blast
  then show ?thesis
  proof cases
    case answered
    with wz noted_trans [OF sends_noted [OF z], of z 1] show ?thesis
      by (auto simp: noted_def)
  next
    case cancelled
    have "noted x y 1"
      using sends_noted [OF z] cancelled by (auto simp: noted_def)
    with wz cancelled show ?thesis by (auto simp: well_sent_def starts_def)
  next
    case uncaught
    with wz noted_trans [OF sends_noted [OF z], of z 1] show ?thesis
      by (auto simp: noted_def)
  next
    case failed
    from recover_settles [OF failed wz(1)] have "settled name request_id z y" .
    with wz noted_trans [OF sends_noted [OF z], of y 1] show ?thesis by (auto simp: settled_def)
  qed
qed

lemma resolve_valid: "resolve self candidate = Inr request_id \<Longrightarrow> is_valid_id self request_id"
  by (auto simp: resolve_def split: option.splits if_splits)

lemma call_observed:
  assumes "middleware_call self True candidates scope_state app x = (Inr r, x')" "sent x = []"
  shows "\<exists>mid code bad gone. observed x' = observed x @ Started # mid @ [Finished code bad gone]
    \<and> list_all (\<lambda>v. is_failed v \<or> is_disconnected v) mid \<and> length (filter is_failed mid) \<le> 1"
proof -
  from assms(1) obtain request_id y where
    y: "guarded_run (send_with_request_id (header_name self) request_id) (app (copy_scope self request_id scope_state))
      (x\<lparr>response := response_new, bound_id := Some request_id, observed := observed x @ [Started]\<rparr>) = (r, y)"
    and x': "x' = finish y"
    by (auto simp: middleware_call_def split: prod.splits sum.splits)
  have "noted (x\<lparr>response := response_new, bound_id := Some request_id, observed := observed x @ [Started]\<rparr>) y 1"
    using guarded_run_settles [OF y] assms(2)
    by (simp add: well_sent_def starts_def delivered_def response_new_def)
  then show ?thesis by (auto simp: noted_def x' finish_def Let_def)
qed

text \<open>
  C16. Every request is answered once, under one safe identifier. Whatever the application does
  and however the network behaves, a request that gets an identifier gets a safe one of bounded
  length, the client's own if it sent exactly one and that is safe; at most one response is
  started, it carries the identifier in exactly one header, and its status is the one observed
  at the end; the lifecycle is observed from its start to its one end, with at most one failure,
  and the identifier is unbound afterwards; a request that is not observed as failed had
  its response started, did not raise an \<open>Exception\<close> and was not cancelled, kept its client and has
  a status below 500. On a network that does not break, exactly one response is started, also when the application raises or returns without answering, unless
  the request is cancelled or an exception that is no \<open>Exception\<close> passes through: that one is not
  caught, and if the response had started it is not observed as a failure either.
\<close>

theorem every_request_is_answered_once:
  assumes "middleware_call self True candidates scope_state app x = (Inr r, x')" "sent x = []"
  shows "\<exists>request_id mid code bad gone.
    resolve_request_id self candidates = Inr request_id
    \<and> is_valid_id (id_resolver self) request_id
    \<and> (\<forall>c. candidates = [c] \<longrightarrow> is_valid_id (id_resolver self) c \<longrightarrow> request_id = c)
    \<and> list_all (carries_id (header_name self) request_id) (sent x')
    \<and> (starts x' = [] \<or> (\<exists>hs. starts x' = [ResponseStart code hs]))
    \<and> (quiet_network x \<longrightarrow> r \<notin> {Inl ACancelledError, Inl AOtherBaseException} \<longrightarrow> starts x' \<noteq> [])
    \<and> observed x' = observed x @ Started # mid @ [Finished code bad gone]
    \<and> list_all (\<lambda>v. is_failed v \<or> is_disconnected v) mid \<and> length (filter is_failed mid) \<le> 1
    \<and> (bad \<or> r \<in> {Inr (), Inl AOtherBaseException} \<and> response_started (response x') \<and> \<not> gone \<and> code < 500) \<and> bound_id x' = None"
proof -
  from assms(1) obtain request_id where id: "resolve_request_id self candidates = Inr request_id"
    by (auto simp: middleware_call_def split: sum.splits)
  let ?x = "x\<lparr>response := response_new, bound_id := Some request_id, observed := observed x @ [Started]\<rparr>"
  from assms(1) id obtain y where
    y: "guarded_run (send_with_request_id (header_name self) request_id) (app (copy_scope self request_id scope_state)) ?x = (r, y)"
    and x': "x' = finish y"
    by (auto simp: middleware_call_def split: prod.splits)
  have start: "well_sent (header_name self) request_id ?x" "delivered ?x" "\<not> client_disconnected (response ?x)"
    "quiet_network ?x = quiet_network x"
    using assms(2) by (simp_all add: well_sent_def starts_def delivered_def response_new_def quiet_network_def)
  note settled = guarded_run_settles [OF y start(1-3)]
  then obtain mid where mid: "observed y = observed x @ Started # mid"
    "list_all (\<lambda>v. is_failed v \<or> is_disconnected v) mid" "length (filter is_failed mid) \<le> 1"
    by (auto simp: noted_def)
  have started: "response_started (response x') = response_started (response y)" by (simp add: x' finish_def Let_def)
  obtain code bad gone where fin: "observed x' = observed y @ [Finished code bad gone]"
    "starts x' = starts y" "sent x' = sent y" "bound_id x' = None"
    and last: "response_started (response y) \<longrightarrow> code = status_code (response y) \<and> bad = failed (response y)
        \<and> gone = client_disconnected (response y)" "\<not> response_started (response y) \<longrightarrow> bad"
    by (auto simp: x' finish_def starts_def Let_def)
  have "starts x' = [] \<or> (\<exists>hs. starts x' = [ResponseStart code hs])"
    "list_all (carries_id (header_name self) request_id) (sent x')"
    "bad \<or> r \<in> {Inr (), Inl AOtherBaseException} \<and> response_started (response x') \<and> \<not> gone \<and> code < 500"
    using settled fin last started by (auto simp: well_sent_def)
  moreover have "starts x' \<noteq> []" if "quiet_network x" "r \<notin> {Inl ACancelledError, Inl AOtherBaseException}"
    using settled that start(4) fin by (auto simp: delivered_def)
  moreover have "is_valid_id (id_resolver self) request_id"
    "\<forall>c. candidates = [c] \<longrightarrow> is_valid_id (id_resolver self) c \<longrightarrow> request_id = c"
    using id by (auto simp: resolve_request_id_def resolve_def intro: resolve_valid split: if_splits)
  ultimately show ?thesis using id mid fin by auto
qed

section \<open>A failing application\<close>

definition sample_middleware :: request_id_middleware where
  "sample_middleware = \<lparr>id_resolver = \<lparr>max_length = 128, generated = ustr ''new''\<rparr>,
     header_name = ustr ''x-request-id'', state_key = ustr ''request_id''\<rparr>"

definition sample_exchange :: exchange where
  "sample_exchange = \<lparr>response = response_new, sent = [], observed = [], bound_id = None, network = []\<rparr>"

text \<open>It raises before it answers, and the client sent an unsafe identifier.\<close>

abbreviation sample_request :: "(exn + (asgi_exn + unit)) \<times> exchange" where
  "sample_request \<equiv> middleware_call sample_middleware True [ustr ''a b''] Map.empty (\<lambda>_. Throw AOtherException) sample_exchange"

lemma sample_request_run: "fst sample_request = Inr (Inr ())"
  unfolding sample_middleware_def sample_exchange_def by code_simp

theorem every_request_is_answered_once_witness:
  "starts (snd sample_request) \<noteq> [] \<and> bound_id (snd sample_request) = None
   \<and> list_all (carries_id (ustr ''x-request-id'') (ustr ''new'')) (sent (snd sample_request))"
proof -
  have "sent sample_exchange = []" "quiet_network sample_exchange"
    "header_name sample_middleware = ustr ''x-request-id''"
    by (simp_all add: sample_exchange_def quiet_network_def sample_middleware_def)
  moreover have "sample_request = (Inr (Inr ()), snd sample_request)"
    using sample_request_run by (metis prod.collapse)
  moreover have "resolve_request_id sample_middleware [ustr ''a b''] = Inr (ustr ''new'')"
    unfolding sample_middleware_def by code_simp
  ultimately show ?thesis
    using every_request_is_answered_once [of sample_middleware "[ustr ''a b'']" Map.empty "\<lambda>_. Throw AOtherException"
        sample_exchange "Inr ()" "snd sample_request"]
    by (simp del: ustr_Cons) metis
qed

end
