(* ===== verification/Request_Log.thy ===== *)
theory Request_Log
  imports Request_Id_Properties
begin

text \<open>
  What \<open>StructlogRequestLifecycleObserver\<close> writes (\<open>middlewares/request_lifecycle.py\<close>): one line
  of the log per call of the observer, under the identifier that is bound during the request.
\<close>

section \<open>The observer\<close>

text \<open>The duration is a float of the clock; its text is an argument, as is the name of an exception's type.\<close>

datatype log_value = LogStr pystr | LogInt int | LogBool bool

datatype log_method = LogInfo | LogException

record log_line =
  log_method :: log_method
  log_event :: string
  log_fields :: "(string \<times> log_value) list"

record HttpRequestMetadata =
  request_id :: pystr
  request_method :: pystr
  request_path :: pystr

definition request_started :: "HttpRequestMetadata \<Rightarrow> log_line" where
  "request_started request =
     \<lparr>log_method = LogInfo, log_event = ''request started'',
      log_fields = [(''method'', LogStr (request_method request)), (''path'', LogStr (request_path request))]\<rparr>"

definition request_failed :: "(asgi_exn \<Rightarrow> pystr) \<Rightarrow> HttpRequestMetadata \<Rightarrow> bool \<Rightarrow> asgi_exn \<Rightarrow> log_line" where
  "request_failed type_name request started e =
     \<lparr>log_method = LogException, log_event = ''request failed'',
      log_fields = [(''method'', LogStr (request_method request)), (''path'', LogStr (request_path request)),
        (''response_started'', LogBool started), (''error_type'', LogStr (type_name e))]\<rparr>"

definition request_disconnected :: "HttpRequestMetadata \<Rightarrow> bool \<Rightarrow> log_line" where
  "request_disconnected request started =
     \<lparr>log_method = LogInfo, log_event = ''request disconnected'',
      log_fields = [(''method'', LogStr (request_method request)), (''path'', LogStr (request_path request)),
        (''response_started'', LogBool started)]\<rparr>"

definition request_finished :: "HttpRequestMetadata \<Rightarrow> int \<Rightarrow> bool \<Rightarrow> bool \<Rightarrow> pystr \<Rightarrow> log_line" where
  "request_finished request code bad gone duration_ms =
     \<lparr>log_method = LogInfo, log_event = ''request finished'',
      log_fields = [(''method'', LogStr (request_method request)), (''path'', LogStr (request_path request)),
        (''status_code'', LogInt code), (''duration_ms'', LogStr duration_ms),
        (''failed'', LogBool bad), (''client_disconnected'', LogBool gone)]\<rparr>"

fun log_observation :: "(asgi_exn \<Rightarrow> pystr) \<Rightarrow> pystr \<Rightarrow> HttpRequestMetadata \<Rightarrow> observation \<Rightarrow> log_line" where
  "log_observation type_name duration_ms request Started = request_started request"
| "log_observation type_name duration_ms request (Failed started e) = request_failed type_name request started e"
| "log_observation type_name duration_ms request (Disconnected started) = request_disconnected request started"
| "log_observation type_name duration_ms request (Finished code bad gone) =
     request_finished request code bad gone duration_ms"

text \<open>The lines of one exchange.\<close>

definition request_log :: "(asgi_exn \<Rightarrow> pystr) \<Rightarrow> pystr \<Rightarrow> HttpRequestMetadata \<Rightarrow> exchange \<Rightarrow> log_line list" where
  "request_log type_name duration_ms request x = map (log_observation type_name duration_ms request) (observed x)"

section \<open>The log of a request\<close>

lemmas line_defs = request_started_def request_failed_def request_disconnected_def request_finished_def

lemma middle_lines:
  assumes "list_all (\<lambda>v. is_failed v \<or> is_disconnected v) vs"
  shows "list_all (\<lambda>l. log_event l \<in> {''request failed'', ''request disconnected''}) (map (log_observation f d q) vs)"
    and "filter (\<lambda>l. log_method l = LogException) (map (log_observation f d q) vs)
      = map (log_observation f d q) (filter is_failed vs)"
proof -
  have "is_failed v \<or> is_disconnected v \<Longrightarrow>
      log_event (log_observation f d q v) \<in> {''request failed'', ''request disconnected''}
      \<and> (log_method (log_observation f d q v) = LogException \<longleftrightarrow> is_failed v)" for v
    by (cases v) (simp_all add: line_defs)
  then show "list_all (\<lambda>l. log_event l \<in> {''request failed'', ''request disconnected''}) (map (log_observation f d q) vs)"
    "filter (\<lambda>l. log_method l = LogException) (map (log_observation f d q) vs)
      = map (log_observation f d q) (filter is_failed vs)"
    using assms by (induction vs) auto
qed

text \<open>
  A request writes the line of its start, then lines about failures and a client that left, at
  most one of them with an exception, and at last the line of its end.
\<close>

lemma request_is_logged:
  assumes "middleware_call self True candidates scope_state app x = (Inr r, x')" "sent x = []" "observed x = []"
  shows "\<exists>mid code bad gone. request_log type_name d q x'
      = request_started q # mid @ [request_finished q code bad gone d]
    \<and> list_all (\<lambda>l. log_event l \<in> {''request failed'', ''request disconnected''}) mid
    \<and> length (filter (\<lambda>l. log_method l = LogException) mid) \<le> 1"
proof -
  from call_observed [OF assms(1,2)] obtain mid code bad gone where
    "observed x' = Started # mid @ [Finished code bad gone]"
    and mid: "list_all (\<lambda>v. is_failed v \<or> is_disconnected v) mid" "length (filter is_failed mid) \<le> 1"
    using assms(3) by auto
  then show ?thesis
    using middle_lines [OF mid(1), of type_name d q]
    by (intro exI [of _ "map (log_observation type_name d q) mid"] exI [of _ code] exI [of _ bad] exI [of _ gone])
      (simp add: request_log_def)
qed

end
