(* ===== verification/Base64.thy ===== *)
theory Base64
  imports Encodings
begin

text \<open>
  Base 64 as \<open>base64.b64encode\<close> and \<open>base64.b64decode(..., validate=True)\<close> have it, on texts: three
  bytes are four characters, the last group is padded, and nothing else is accepted.
\<close>

section \<open>Characters\<close>

definition b64_char :: "nat \<Rightarrow> nat" where
  "b64_char n =
     (if n < 26 then 65 + n else if n < 52 then 71 + n else if n < 62 then n - 4
      else if n = 62 then 43 else 47)"

definition b64_value :: "nat \<Rightarrow> nat option" where
  "b64_value c =
     (if 65 \<le> c \<and> c \<le> 90 then Some (c - 65)
      else if 97 \<le> c \<and> c \<le> 122 then Some (c - 71)
      else if 48 \<le> c \<and> c \<le> 57 then Some (c + 4)
      else if c = 43 then Some 62 else if c = 47 then Some 63 else None)"

lemma b64_value_char [simp]: "n < 64 \<Longrightarrow> b64_value (b64_char n) = Some n"
  by (auto simp: b64_value_def b64_char_def)

lemma b64_char_not_pad [simp]: "n < 64 \<Longrightarrow> b64_char n \<noteq> 61"
  by (auto simp: b64_char_def)

section \<open>Encoding\<close>

fun b64_points :: "nat list \<Rightarrow> pystr" where
  "b64_points [] = []"
| "b64_points [a] = [b64_char (a div 4), b64_char (a mod 4 * 16), 61, 61]"
| "b64_points [a, b] = [b64_char (a div 4), b64_char (a mod 4 * 16 + b div 16), b64_char (b mod 16 * 4), 61]"
| "b64_points (a # b # c # bs) =
     [b64_char (a div 4), b64_char (a mod 4 * 16 + b div 16), b64_char (b mod 16 * 4 + c div 64), b64_char (c mod 64)]
     @ b64_points bs"

definition b64encode :: "bytes \<Rightarrow> pystr" where
  "b64encode bs = b64_points (map unat bs)"

section \<open>Decoding\<close>

text \<open>A group is full, or the last one and padded; the bits that its padding leaves over are dropped.\<close>

fun b64_scan :: "pystr \<Rightarrow> nat list result" where
  "b64_scan [] = Inr []"
| "b64_scan (w # x # y # z # s) =
     (case (b64_value w, b64_value x) of
        (Some i, Some j) \<Rightarrow>
          if y = 61 then (if z = 61 \<and> s = [] then Inr [i * 4 + j div 16] else Inl ValueError)
          else (case b64_value y of
              None \<Rightarrow> Inl ValueError
            | Some k \<Rightarrow>
                if z = 61 then (if s = [] then Inr [i * 4 + j div 16, j mod 16 * 16 + k div 4] else Inl ValueError)
                else (case b64_value z of
                    None \<Rightarrow> Inl ValueError
                  | Some l \<Rightarrow> rthen (b64_scan s) (\<lambda>bs.
                      Inr ([i * 4 + j div 16, j mod 16 * 16 + k div 4, k mod 4 * 64 + l] @ bs))))
      | _ \<Rightarrow> Inl ValueError)"
| "b64_scan _ = Inl ValueError"

definition b64decode :: "pystr \<Rightarrow> bytes result" where
  "b64decode s = rthen (b64_scan s) (\<lambda>bs. Inr (map word_of_nat bs))"

section \<open>Round trip\<close>

lemma b64_scan_points: "\<forall>b\<in>set bs. b < 256 \<Longrightarrow> b64_scan (b64_points bs) = Inr bs"
proof (induction bs rule: b64_points.induct)
  case (2 a)
  then have "a div 4 < 64" "a mod 4 * 16 < 64" by auto
  then show ?case by simp
next
  case (3 a b)
  then have "a div 4 < 64" "a mod 4 * 16 + b div 16 < 64" "b mod 16 * 4 < 64" by auto
  moreover have "(a mod 4 * 16 + b div 16) div 16 = a mod 4" "(a mod 4 * 16 + b div 16) mod 16 = b div 16"
    using 3 by auto
  ultimately show ?case by simp
next
  case (4 a b c bs)
  then have "a div 4 < 64" "a mod 4 * 16 + b div 16 < 64" "b mod 16 * 4 + c div 64 < 64" "c mod 64 < 64" by auto
  moreover have "(a mod 4 * 16 + b div 16) div 16 = a mod 4" "(a mod 4 * 16 + b div 16) mod 16 = b div 16"
    "(b mod 16 * 4 + c div 64) div 4 = b mod 16" "(b mod 16 * 4 + c div 64) mod 4 = c div 64"
    using 4 by auto
  ultimately show ?case using 4 by simp
qed simp

lemma b64decode_encode [simp]: "b64decode (b64encode bs) = Inr bs"
proof -
  have "\<forall>b\<in>set (map unat bs). b < 256"
    using unsigned_less [where 'a = nat and 'b = 8] by auto
  from b64_scan_points [OF this] show ?thesis by (simp add: b64decode_def b64encode_def comp_def)
qed

lemma b64decode_error: "b64decode s = Inl e \<Longrightarrow> e = ValueError"
proof -
  have "b64_scan s = Inl e \<Longrightarrow> e = ValueError" for s
    by (induction s rule: b64_scan.induct) (auto simp: rthen_eq_Inl split: option.splits if_splits)
  then show "b64decode s = Inl e \<Longrightarrow> e = ValueError" by (auto simp: b64decode_def rthen_eq_Inl)
qed

end
