(* ===== verification/Protector.thy ===== *)
theory Protector
  imports Base64 Fingerprint
begin

text \<open>
  Envelopes for stored results
  (\<open>src/src/app/infrastructure/idempotency/security/stored_result_protector.py\<close>): a payload is
  dumped as JSON, encrypted with AES-GCM under the active key and bound to additional data. The
  cipher and pydantic's reading of JSON are parameters.
\<close>

section \<open>The JSON of the standard library\<close>

text \<open>The escapes of \<open>json.dumps\<close> in its default form: everything outside printable ASCII.\<close>

definition json_unit :: "nat \<Rightarrow> pystr" where
  "json_unit c = [92, 117] @ hex_digits 4 c"

definition json_ascii_char :: "nat \<Rightarrow> pystr" where
  "json_ascii_char c =
     (if c = 34 then [92, 34] else if c = 92 then [92, 92]
      else if c = 10 then [92, 110] else if c = 13 then [92, 114] else if c = 9 then [92, 116]
      else if c = 8 then [92, 98] else if c = 12 then [92, 102]
      else if 32 \<le> c \<and> c \<le> 126 then [c]
      else if c < 65536 then json_unit c
      else json_unit (55296 + (c - 65536) div 1024) @ json_unit (56320 + (c - 65536) mod 1024))"

definition json_ascii_string :: "pystr \<Rightarrow> pystr" where
  "json_ascii_string s = 34 # concat (map json_ascii_char s) @ [34]"

text \<open>\<open>json.dumps(value, sort_keys=True, separators=(",", ":"))\<close>\<close>

fun json_ascii :: "pyobj \<Rightarrow> pystr" where
  "json_ascii PyNone = ustr ''null''"
| "json_ascii (PyBool b) = ustr (if b then ''true'' else ''false'')"
| "json_ascii (PyInt i) = int_text i"
| "json_ascii (PyStr s) = json_ascii_string s"
| "json_ascii (PyList vs) = 91 # join_comma (map json_ascii vs) @ [93]"
| "json_ascii (PyDict kvs) =
     123 # join_comma (map (\<lambda>kt. json_ascii_string (fst kt) @ 58 # snd kt)
             (sort_key fst (map (\<lambda>kv. (fst kv, json_ascii (snd kv))) kvs))) @ [125]"

section \<open>The protector\<close>

text \<open>
  \<open>AESGCM(key).encrypt(nonce, data, aad)\<close> and \<open>decrypt\<close>, which answers \<open>None\<close> when it raises
  \<open>InvalidTag\<close> or refuses the nonce; \<open>_PAYLOAD_ADAPTER.validate_json\<close>; and \<open>str\<close> of a list or a
  dictionary.
\<close>

record crypto =
  aes_encrypt :: "bytes \<Rightarrow> bytes \<Rightarrow> bytes \<Rightarrow> bytes \<Rightarrow> bytes"
  aes_decrypt :: "bytes \<Rightarrow> bytes \<Rightarrow> bytes \<Rightarrow> bytes \<Rightarrow> bytes option"
  payload_json :: "bytes \<Rightarrow> (pystr \<times> pyobj) list result"
  container_str :: "pyobj \<Rightarrow> pystr"

record protector =
  active_key_id :: pystr
  replay_keys :: "(pystr \<times> bytes) list"

definition protector_new :: "pystr \<Rightarrow> (pystr \<times> bytes) list \<Rightarrow> protector result" where
  "protector_new active keys =
     (if active \<notin> set (map fst keys) \<or> list_ex (\<lambda>k. length (snd k) \<noteq> 32) keys then Inl ValueError
      else Inr \<lparr>active_key_id = active, replay_keys = keys\<rparr>)"

text \<open>\<open>nonce\<close> is what \<open>os.urandom(12)\<close> gave.\<close>

definition protect :: "crypto \<Rightarrow> protector \<Rightarrow> bytes \<Rightarrow> (pystr \<times> pyobj) list \<Rightarrow> bytes \<Rightarrow> (pystr \<times> pyobj) list result" where
  "protect lib self nonce payload aad =
     rthen (utf8_encode (json_ascii (PyDict payload))) (\<lambda>plaintext.
     case map_of (replay_keys self) (active_key_id self) of
       None \<Rightarrow> Inl KeyError
     | Some key \<Rightarrow> Inr
         [(ustr ''version'', PyInt 1), (ustr ''algorithm'', PyStr (ustr ''AES-256-GCM'')),
          (ustr ''key_id'', PyStr (active_key_id self)),
          (ustr ''nonce'', PyStr (b64encode nonce)),
          (ustr ''ciphertext'', PyStr (b64encode (aes_encrypt lib key nonce plaintext aad)))])"

definition py_str :: "crypto \<Rightarrow> pyobj \<Rightarrow> pystr" where
  "py_str lib v =
     (case v of
        PyStr s \<Rightarrow> s
      | PyInt i \<Rightarrow> int_text i
      | PyBool b \<Rightarrow> ustr (if b then ''True'' else ''False'')
      | PyNone \<Rightarrow> ustr ''None''
      | _ \<Rightarrow> container_str lib v)"

definition dict_item :: "(pystr \<times> pyobj) list \<Rightarrow> string \<Rightarrow> pyobj result" where
  "dict_item d k = (case map_of d (ustr k) of None \<Rightarrow> Inl KeyError | Some v \<Rightarrow> Inr v)"

text \<open>In Python \<open>True == 1\<close>.\<close>

definition supported_format :: "(pystr \<times> pyobj) list \<Rightarrow> bool" where
  "supported_format envelope \<longleftrightarrow>
     map_of envelope (ustr ''version'') \<in> {Some (PyInt 1), Some (PyBool True)}
     \<and> map_of envelope (ustr ''algorithm'') = Some (PyStr (ustr ''AES-256-GCM''))"

definition restore_inner :: "crypto \<Rightarrow> protector \<Rightarrow> (pystr \<times> pyobj) list \<Rightarrow> bytes \<Rightarrow> (pystr \<times> pyobj) list option result" where
  "restore_inner lib self envelope aad =
     (if \<not> supported_format envelope then Inl ValueError
      else
        rthen (dict_item envelope ''key_id'') (\<lambda>kid.
        rthen (case map_of (replay_keys self) (py_str lib kid) of None \<Rightarrow> Inl KeyError | Some k \<Rightarrow> Inr k) (\<lambda>key.
        rthen (rthen (dict_item envelope ''nonce'') (\<lambda>v. b64decode (py_str lib v))) (\<lambda>nonce.
        rthen (rthen (dict_item envelope ''ciphertext'') (\<lambda>v. b64decode (py_str lib v))) (\<lambda>ciphertext.
        case aes_decrypt lib key nonce ciphertext aad of
          None \<Rightarrow> Inr None
        | Some plaintext \<Rightarrow> rthen (payload_json lib plaintext) (\<lambda>p. Inr (Some p)))))))"

text \<open>\<open>except (InvalidTag, KeyError, TypeError, ValidationError, ValueError)\<close>\<close>

fun is_restore_error :: "exn \<Rightarrow> bool" where
  "is_restore_error KeyError \<longleftrightarrow> True"
| "is_restore_error TypeError \<longleftrightarrow> True"
| "is_restore_error ValidationError \<longleftrightarrow> True"
| "is_restore_error ValueError \<longleftrightarrow> True"
| "is_restore_error e \<longleftrightarrow> False"

definition restore :: "crypto \<Rightarrow> protector \<Rightarrow> (pystr \<times> pyobj) list \<Rightarrow> bytes \<Rightarrow> (pystr \<times> pyobj) list result" where
  "restore lib self envelope aad =
     (case restore_inner lib self envelope aad of
        Inl e \<Rightarrow> Inl (if is_restore_error e then IdempotencyError StoredReplayUnavailableError else e)
      | Inr None \<Rightarrow> Inl (IdempotencyError StoredReplayUnavailableError)
      | Inr (Some payload) \<Rightarrow> Inr payload)"

text \<open>\<open>load_replay_key\<close>, on what the file contains.\<close>

definition strip_bytes :: "bytes \<Rightarrow> bytes" where
  "strip_bytes bs = (let blank = (\<lambda>b. ascii_space (unat b)) in rev (dropWhile blank (rev (dropWhile blank bs))))"

definition load_replay_key :: "bytes \<Rightarrow> bytes result" where
  "load_replay_key raw =
     (if length raw = 32 then Inr raw
      else (case b64decode (map unat (strip_bytes raw)) of
          Inl e \<Rightarrow> Inl ValueError
        | Inr decoded \<Rightarrow> if length decoded \<noteq> 32 then Inl ValueError else Inr decoded))"

section \<open>Envelopes open again, and only as they were closed\<close>

lemma restore_inner_errors:
  assumes "\<And>bs e. payload_json lib bs = Inl e \<Longrightarrow> e = ValidationError" "restore_inner lib self envelope aad = Inl e"
  shows "is_restore_error e"
  using assms(2)
  by (auto simp: restore_inner_def rthen_eq_Inl dict_item_def dest!: assms(1) b64decode_error
      split: if_splits option.splits)

lemma restore_protected:
  assumes "protect lib self nonce payload aad = Inr envelope"
    and "map_of (replay_keys other) (active_key_id self) = map_of (replay_keys self) (active_key_id self)"
  shows "\<exists>key plaintext. utf8_encode (json_ascii (PyDict payload)) = Inr plaintext
    \<and> map_of (replay_keys self) (active_key_id self) = Some key
    \<and> restore lib other envelope aad' =
        (case aes_decrypt lib key nonce (aes_encrypt lib key nonce plaintext aad) aad' of
           None \<Rightarrow> Inl (IdempotencyError StoredReplayUnavailableError)
         | Some p \<Rightarrow> (case payload_json lib p of
             Inl e \<Rightarrow> Inl (if is_restore_error e then IdempotencyError StoredReplayUnavailableError else e)
           | Inr d \<Rightarrow> Inr d))"
proof -
  from assms(1) obtain plaintext key where p: "utf8_encode (json_ascii (PyDict payload)) = Inr plaintext"
    and k: "map_of (replay_keys self) (active_key_id self) = Some key"
    and e: "envelope = [(ustr ''version'', PyInt 1), (ustr ''algorithm'', PyStr (ustr ''AES-256-GCM'')),
          (ustr ''key_id'', PyStr (active_key_id self)), (ustr ''nonce'', PyStr (b64encode nonce)),
          (ustr ''ciphertext'', PyStr (b64encode (aes_encrypt lib key nonce plaintext aad)))]"
    by (auto simp: protect_def split: option.splits simp del: ustr_Cons)
  from e have "supported_format envelope" "dict_item envelope ''key_id'' = Inr (PyStr (active_key_id self))"
    "dict_item envelope ''nonce'' = Inr (PyStr (b64encode nonce))"
    "dict_item envelope ''ciphertext'' = Inr (PyStr (b64encode (aes_encrypt lib key nonce plaintext aad)))"
    by (simp_all add: supported_format_def dict_item_def)
  with k assms(2) have "restore_inner lib other envelope aad' =
      (case aes_decrypt lib key nonce (aes_encrypt lib key nonce plaintext aad) aad' of
         None \<Rightarrow> Inr None | Some p \<Rightarrow> rthen (payload_json lib p) (\<lambda>d. Inr (Some d)))"
    by (simp add: restore_inner_def py_str_def)
  with p k show ?thesis
    by (auto simp: restore_def split: option.split sum.split)
qed

text \<open>
  What an envelope must be to be opened: of the supported format, under a key of the ring, and its
  ciphertext the encryption of \<open>p\<close> under that key, the envelope's nonce and the given data.
\<close>

definition sealed :: "crypto \<Rightarrow> protector \<Rightarrow> (pystr \<times> pyobj) list \<Rightarrow> bytes \<Rightarrow> bytes \<Rightarrow> bool" where
  "sealed lib self envelope aad p \<longleftrightarrow> supported_format envelope
     \<and> (\<exists>kid key n v c. map_of envelope (ustr ''key_id'') = Some kid
          \<and> map_of (replay_keys self) (py_str lib kid) = Some key
          \<and> map_of envelope (ustr ''nonce'') = Some v \<and> b64decode (py_str lib v) = Inr n
          \<and> map_of envelope (ustr ''ciphertext'') = Some c
          \<and> b64decode (py_str lib c) = Inr (aes_encrypt lib key n p aad))"

lemma restore_opens_sealed:
  assumes "\<And>k n c p a. aes_decrypt lib k n c a = Some p \<Longrightarrow> c = aes_encrypt lib k n p a"
    and "restore lib self envelope aad = Inr d"
  shows "\<exists>p. sealed lib self envelope aad p \<and> payload_json lib p = Inr d"
proof -
  from assms(2) have "restore_inner lib self envelope aad = Inr (Some d)"
    by (auto simp: restore_def split: sum.splits option.splits)
  then obtain kid key v n c cs p where "supported_format envelope"
    "map_of envelope (ustr ''key_id'') = Some kid" "map_of (replay_keys self) (py_str lib kid) = Some key"
    "map_of envelope (ustr ''nonce'') = Some v" "b64decode (py_str lib v) = Inr n"
    "map_of envelope (ustr ''ciphertext'') = Some c" "b64decode (py_str lib c) = Inr cs"
    and p: "aes_decrypt lib key n cs aad = Some p" "payload_json lib p = Inr d"
    by (auto simp: restore_inner_def dict_item_def split: if_splits option.splits simp del: ustr_Cons)
  with assms(1) [OF p(1)] show ?thesis unfolding sealed_def by blast
qed

lemma restore_fails:
  assumes "\<And>bs e. payload_json lib bs = Inl e \<Longrightarrow> e = ValidationError" "restore lib self envelope aad = Inl e"
  shows "e = IdempotencyError StoredReplayUnavailableError"
proof (cases "restore_inner lib self envelope aad")
  case (Inl x)
  with restore_inner_errors [of lib self envelope aad x] assms show ?thesis by (simp add: restore_def)
next
  case (Inr p)
  with assms(2) show ?thesis by (cases p) (simp_all add: restore_def)
qed

text \<open>
  C36. A protected result opens again, and nothing else does. Let the cipher open what it sealed
  (with keys of 32 bytes, nonces of 12 and texts it can take) and open nothing but an encryption
  under the same key, nonce and additional data. Then an envelope is restored to its payload
  by every protector that still has the key it was sealed with, also after another key became the
  active one; whatever else is restored is the JSON document in an encryption under a key of the
  ring and the given data; and every other envelope raises \<open>StoredReplayUnavailableError\<close>.
\<close>

theorem protected_result_is_restored:
  assumes opens: "\<And>k n p a. length k = 32 \<Longrightarrow> length n = 12 \<Longrightarrow> length p < 2 ^ 31 - 16 \<Longrightarrow> length a < 2 ^ 31 - 16
      \<Longrightarrow> aes_decrypt lib k n (aes_encrypt lib k n p a) a = Some p"
    and authentic: "\<And>k n c p a. aes_decrypt lib k n c a = Some p \<Longrightarrow> c = aes_encrypt lib k n p a"
    and invalid: "\<And>bs e. payload_json lib bs = Inl e \<Longrightarrow> e = ValidationError"
    and made: "protector_new active ring = Inr self"
    and closed: "protect lib self nonce payload aad = Inr envelope" "length nonce = 12" "length aad < 2 ^ 31 - 16"
    and reads: "\<And>bs. utf8_encode (json_ascii (PyDict payload)) = Inr bs
      \<Longrightarrow> length bs < 2 ^ 31 - 16 \<and> payload_json lib bs = Inr payload"
    and keys: "map_of (replay_keys other) (active_key_id self) = map_of (replay_keys self) (active_key_id self)"
  shows "restore lib other envelope aad = Inr payload
    \<and> (\<forall>any data d. restore lib other any data = Inr d \<longrightarrow>
         (\<exists>p. sealed lib other any data p \<and> payload_json lib p = Inr d))
    \<and> (\<forall>any data. (\<nexists>p d. sealed lib other any data p \<and> payload_json lib p = Inr d) \<longrightarrow>
         restore lib other any data = Inl (IdempotencyError StoredReplayUnavailableError))"
proof (intro conjI allI impI)
  from restore_protected [OF closed(1) keys, of aad] obtain key plaintext where
    p: "utf8_encode (json_ascii (PyDict payload)) = Inr plaintext"
    and k: "map_of (replay_keys self) (active_key_id self) = Some key"
    and run: "restore lib other envelope aad =
        (case aes_decrypt lib key nonce (aes_encrypt lib key nonce plaintext aad) aad of
           None \<Rightarrow> Inl (IdempotencyError StoredReplayUnavailableError)
         | Some p \<Rightarrow> (case payload_json lib p of
             Inl e \<Rightarrow> Inl (if is_restore_error e then IdempotencyError StoredReplayUnavailableError else e)
           | Inr d \<Rightarrow> Inr d))" by blast
  have ring: "\<forall>k\<in>set (replay_keys self). length (snd k) = 32"
    using made by (force simp: protector_new_def list_ex_iff split: if_splits)
  from bspec [OF ring map_of_SomeD [OF k]] have "length key = 32" by simp
  with run opens [OF _ closed(2) _ closed(3)] reads [OF p] show "restore lib other envelope aad = Inr payload"
    by simp
next
  fix any data d
  assume "restore lib other any data = Inr d"
  with authentic show "\<exists>p. sealed lib other any data p \<and> payload_json lib p = Inr d"
    by (rule restore_opens_sealed)
next
  fix any data
  assume none: "\<nexists>p d. sealed lib other any data p \<and> payload_json lib p = Inr d"
  show "restore lib other any data = Inl (IdempotencyError StoredReplayUnavailableError)"
  proof (cases "restore lib other any data")
    case (Inl e)
    with invalid have "e = IdempotencyError StoredReplayUnavailableError" by (rule restore_fails)
    with Inl show ?thesis by simp
  next
    case (Inr d)
    with authentic have "\<exists>p. sealed lib other any data p \<and> payload_json lib p = Inr d"
      by (rule restore_opens_sealed)
    with none show ?thesis by blast
  qed
qed

section \<open>A concrete protector\<close>

text \<open>A cipher that marks the bytes of the data and of the text, and a reader of one document.\<close>

fun unmark :: "bytes \<Rightarrow> bytes \<times> bytes" where
  "unmark (m # b # bs) = (case unmark bs of (a, p) \<Rightarrow> if m = 1 then (b # a, p) else (a, b # p))"
| "unmark _ = ([], [])"

definition mark :: "8 word \<Rightarrow> bytes \<Rightarrow> bytes" where
  "mark m bs = concat (map (\<lambda>b. [m, b]) bs)"

lemma unmark_mark: "unmark (mark 1 a @ mark 0 p) = (a, p)"
proof (induction a)
  case Nil
  show ?case by (induction p) (simp_all add: mark_def)
qed (simp add: mark_def)

definition sample_payload_dict :: "(pystr \<times> pyobj) list" where
  "sample_payload_dict = [(ustr ''n'', PyInt 7), (ustr ''s'', PyStr (ustr ''x''))]"

definition sample_crypto :: crypto where
  "sample_crypto =
     \<lparr>aes_encrypt = (\<lambda>k n p a. mark 1 a @ mark 0 p),
      aes_decrypt = (\<lambda>k n c a. case unmark c of (a', p) \<Rightarrow> if c = mark 1 a @ mark 0 p then Some p else None),
      payload_json = (\<lambda>bs. if utf8_encode (json_ascii (PyDict sample_payload_dict)) = Inr bs
        then Inr sample_payload_dict else Inl ValidationError),
      container_str = (\<lambda>_. [])\<rparr>"

definition sample_protector :: "string \<Rightarrow> protector" where
  "sample_protector active =
     \<lparr>active_key_id = ustr active, replay_keys = [(ustr ''old'', replicate 32 1), (ustr ''new'', replicate 32 2)]\<rparr>"

lemma sample_sealed: "\<exists>envelope. protect sample_crypto (sample_protector ''old'') (replicate 12 5) sample_payload_dict [9] = Inr envelope"
proof -
  have "utf8_encode (json_ascii (PyDict sample_payload_dict))
      = Inr (projr (utf8_encode (json_ascii (PyDict sample_payload_dict))))"
    unfolding sample_payload_dict_def by code_simp
  then obtain bs where "utf8_encode (json_ascii (PyDict sample_payload_dict)) = Inr bs" by blast
  then show ?thesis by (auto simp: protect_def sample_protector_def)
qed

theorem protected_result_is_restored_witness:
  "\<exists>envelope. protect sample_crypto (sample_protector ''old'') (replicate 12 5) sample_payload_dict [9] = Inr envelope
     \<and> restore sample_crypto (sample_protector ''new'') envelope [9] = Inr sample_payload_dict
     \<and> restore sample_crypto (sample_protector ''new'') [] [9] = Inl (IdempotencyError StoredReplayUnavailableError)"
proof -
  obtain envelope where e: "protect sample_crypto (sample_protector ''old'') (replicate 12 5) sample_payload_dict [9] = Inr envelope"
    using sample_sealed by blast
  have law: "aes_decrypt sample_crypto k n (aes_encrypt sample_crypto k n p a) a = Some p"
    "aes_decrypt sample_crypto k n c a = Some p \<Longrightarrow> c = aes_encrypt sample_crypto k n p a"
    "payload_json sample_crypto bs = Inl x \<Longrightarrow> x = ValidationError" for k n c p a bs x
    by (auto simp: sample_crypto_def unmark_mark split: if_splits prod.splits)
  have made: "protector_new (ustr ''old'') [(ustr ''old'', replicate 32 1), (ustr ''new'', replicate 32 2)]
      = Inr (sample_protector ''old'')"
    by (simp add: protector_new_def sample_protector_def)
  have short: "length (replicate 12 (5 :: 8 word)) = 12" "length [9 :: 8 word] < 2 ^ 31 - 16" by simp_all
  have reads: "length bs < 2 ^ 31 - 16 \<and> payload_json sample_crypto bs = Inr sample_payload_dict"
    if "utf8_encode (json_ascii (PyDict sample_payload_dict)) = Inr bs" for bs
  proof -
    have "length (projr (utf8_encode (json_ascii (PyDict sample_payload_dict)))) < 100"
      unfolding sample_payload_dict_def by code_simp
    with that show ?thesis by (simp add: sample_crypto_def)
  qed
  have keys: "map_of (replay_keys (sample_protector ''new'')) (active_key_id (sample_protector ''old''))
      = map_of (replay_keys (sample_protector ''old'')) (active_key_id (sample_protector ''old''))"
    by (simp add: sample_protector_def)
  have all: "restore sample_crypto (sample_protector ''new'') envelope [9] = Inr sample_payload_dict
    \<and> (\<forall>any data d. restore sample_crypto (sample_protector ''new'') any data = Inr d \<longrightarrow>
         (\<exists>p. sealed sample_crypto (sample_protector ''new'') any data p \<and> payload_json sample_crypto p = Inr d))
    \<and> (\<forall>any data. (\<nexists>p d. sealed sample_crypto (sample_protector ''new'') any data p \<and> payload_json sample_crypto p = Inr d) \<longrightarrow>
         restore sample_crypto (sample_protector ''new'') any data = Inl (IdempotencyError StoredReplayUnavailableError))"
    by (rule protected_result_is_restored [OF _ _ _ made e short _ keys])
      (erule law(2) law(3) reads | rule law(1))+
  have "\<not> sealed sample_crypto (sample_protector ''new'') [] [9] p" for p
    by (simp add: sealed_def supported_format_def)
  with all e show ?thesis by blast
qed

end
