(* ===== verification/Service_Retries.thy ===== *)
theory Service_Retries
  imports Service_Properties
begin

text \<open>
  A command sent again: what a dispatch does when the database already holds the live record of
  its identity.
\<close>

section \<open>The coordinator over a recorded request\<close>

text \<open>A request of identity \<open>i\<close> is on record with result \<open>c\<close>, and the session is not disturbed.\<close>

definition on_record :: "session \<Rightarrow> IdempotencyKey \<Rightarrow> CompletedIdempotencyResult \<Rightarrow> bool" where
  "on_record s i c \<longleftrightarrow> quiet s \<and> idle s \<and> records_ok (committed s) \<and> recorded (committed s) i = Some c
     \<and> clock_below s (expires_at c)"

lemma durable_find_on_record:
  assumes "on_record (exec_session e) i c" "\<not> active e" "length fp = 32"
    and "durable_find transactional i fp e = (x, e')"
  shows "x = Inr (Some (replay_of fp c)) \<and> committed (exec_session e') = committed (exec_session e)"
proof -
  from assms(1) obtain t where "find_existing_inner get_completed i fp (exec_session e) = (Inr (Some (replay_of fp c)), t)"
    "committed t = committed (exec_session e)"
    unfolding on_record_def using find_existing_live [of "exec_session e" i c fp] assms(3) by metis
  with assms(2,4) show ?thesis
    by (auto simp: transactional_def find_existing_def exclusive_use_def on_session_def scatch_def)
qed

lemma durable_execute_on_record:
  assumes "on_record (exec_session e) i c" "\<not> active e" "length fp = 32" "0 < ret"
    and "durable_execute transactional i fp op ret e = (x, e')"
  shows "x = Inr (replay_of fp c) \<and> committed (exec_session e') = committed (exec_session e)"
  using execute_once_live [of e i c fp ret op] assms by (auto simp: on_record_def transactional_def)

lemma evaluate_replay:
  assumes "evaluate_result (replay_of fp c) st = (r, st')"
  shows "\<forall>c'. r = Inr c' \<longrightarrow> c' = c \<and> request_fingerprint c = fp"
    "committed (exec_session (execution st')) = committed (exec_session (execution st))"
proof -
  show "\<forall>c'. r = Inr c' \<longrightarrow> c' = c \<and> request_fingerprint c = fp"
    using evaluate_result_run(5) [OF assms] by (auto simp: replay_of_def split: if_splits)
  have "committed t = committed s" if "utc_now s = (x, t)" for s t :: session and x
    using that by (auto simp: utc_now_def split: list.splits)
  then show "committed (exec_session (execution st')) = committed (exec_session (execution st))"
    using evaluate_result_run(4) [OF assms] by metis
qed

lemma coordinator_on_record:
  assumes run: "coordinator_execute self i fp op policy st = (r, st')"
    and self: "mode policy = HOT_DURABLE" "0 < retention_seconds policy" "durable_execution self = Some transactional"
    and st: "on_record (exec_session (execution st)) i c" "\<not> active (execution st)" and fp: "length fp = 32"
  shows "committed (exec_session (execution st')) = committed (exec_session (execution st))
    \<and> (\<forall>c'. r = Inr c' \<longrightarrow> (c' = c \<and> request_fingerprint c = fp)
         \<or> hot_replay (coord_hot_store self) i fp \<lparr>exec_status = REPLAY, exec_completed = Some c'\<rparr>)"
  using coordinator_cases [OF run self(1,3)]
proof (elim disjE exE conjE)
  fix e assume "r = Inl e" "execution st' = execution st"
  then show ?thesis by simp
next
  fix e x assume "r = Inl e" "durable_find transactional i fp (execution st) = (x, execution st')"
  with durable_find_on_record [OF st fp] show ?thesis by simp
next
  fix e x assume "r = Inl e" "durable_execute transactional i fp op (retention_seconds policy) (execution st) = (x, execution st')"
  with durable_execute_on_record [OF st fp self(2)] show ?thesis by simp
next
  fix res st1
  assume ev: "evaluate_result res st1 = (r, st')"
    and dec: "decided (coord_hot_store self) transactional i fp op (retention_seconds policy) (execution st) res (execution st1)"
  from dec [unfolded decided_def]
  have "(hot_replay (coord_hot_store self) i fp res \<and> execution st1 = execution st)
    \<or> (res = replay_of fp c \<and> committed (exec_session (execution st1)) = committed (exec_session (execution st)))"
    using durable_find_on_record [OF st fp] durable_execute_on_record [OF st fp self(2)]
    by (elim disjE exE) (simp_all, blast+)
  then show ?thesis
  proof (elim disjE conjE)
    assume h: "hot_replay (coord_hot_store self) i fp res" "execution st1 = execution st"
    have "committed t = committed s" if "utc_now s = (x, t)" for s t :: session and x
      using that by (auto simp: utc_now_def split: list.splits)
    moreover have "res = \<lparr>exec_status = REPLAY, exec_completed = Some c'\<rparr>" if "r = Inr c'" for c'
      using evaluate_result_run(5) [OF ev that] h(1) by (auto simp: hot_replay_def)
    ultimately show ?thesis using h evaluate_result_run(4) [OF ev] by metis
  next
    assume res: "res = replay_of fp c" "committed (exec_session (execution st1)) = committed (exec_session (execution st))"
    with evaluate_replay [OF ev [unfolded res(1)]] show ?thesis by auto
  qed
qed

text \<open>Without the hot store the recorded result is returned.\<close>

lemma degraded_on_record:
  assumes self: "mode policy = HOT_DURABLE" "0 < retention_seconds policy" "durable_execution self = Some transactional"
    and st: "on_record (exec_session (execution st)) i c" "\<not> active (execution st)"
    and fp: "length fp = 32" "request_fingerprint c = fp"
    and claim: "lease_tokens st = tok # toks"
      "port_claim (coord_hot_store self) i fp tok (lease_seconds policy) (hot st) = (Inl (IdempotencyError IdempotencyUnavailableError), h)"
  shows "fst (coordinator_execute self i fp op policy st) = Inr c"
proof -
  obtain e where e: "execute_once get_completed try_add_completed i fp op (retention_seconds policy) (execution st) = (Inr (replay_of fp c), e)"
    "clock_below (exec_session e) (expires_at c)"
    using execute_once_live_clock [of "execution st" i c fp "retention_seconds policy" op] st fp(1) self(2)
    by (auto simp: on_record_def)
  obtain clock t where clock: "utc_now (exec_session e) = (Inr clock, t)" by (rule utc_now_run)
  with utc_now_below [OF clock e(2)] have "clock < expires_at c" by auto
  with degraded_call [OF fp(1) self(1,3) claim] e clock fp(2) show ?thesis
    by (simp add: sthen_def on_execution_def transactional_def evaluate_result_def observe_def replay_of_def on_session_def)
qed

section \<open>A command sent again\<close>

lemma on_record_scope: "on_record s i c \<Longrightarrow> on_record (scope_session s) i c"
  by (simp add: on_record_def quiet_def scope_session_def idle_def clock_below_def)

lemma identity_unique: "identity_for sha context op i \<Longrightarrow> identity_for sha context op j \<Longrightarrow> i = j"
  by (auto simp: identity_for_def)

lemma identity_middleware:
  assumes "identity_for sha context name i"
  shows "middleware_execute sha coordinator op (idempotency_key context) (idempotency_scope context) name fp policy
    = coordinator_execute coordinator i fp op policy"
  using assms
  by (auto simp: identity_for_def middleware_execute_def sthen_def compute_key_digest_def idempotency_key_new_def
      fun_eq_iff split: if_splits)

lemma command_execute_runs:
  assumes "idempotency_policy registration = Some policy" "mode policy = HOT_DURABLE"
    and "compute_request_fingerprint sha isoformat [] (dump command) = Inr fp"
    and "identity_for sha context (reg_operation registration) i"
    and x: "coordinator_execute coordinator i fp (invoke_handler registration command m) policy st = (x, st')"
  shows "command_execute sha isoformat dump coordinator registration command context m st = (answer_of registration m x, st')"
proof -
  have mid: "middleware_execute sha coordinator (invoke_handler registration command m) (idempotency_key context)
      (idempotency_scope context) (reg_operation registration) fp policy st = (x, st')"
    using x by (simp add: identity_middleware [OF assms(4)])
  show ?thesis
    using assms(1-3) mid by (cases x) (simp_all add: command_execute_def sthen_def answer_of_def)
qed

lemma container_registration:
  assumes "container_registry zone_ok a lease ttl = Inr reg" "map_of (handlers reg) (class_of command) = Some registration"
  shows "\<exists>policy. mode policy = HOT_DURABLE \<and> 0 < retention_seconds policy \<and> lease_seconds policy = lease
    \<and> idempotency_policy registration = Some policy"
proof -
  from assms(1) obtain policy where p: "policy_new HOT_DURABLE lease ttl 300 = Inr policy"
    and b: "build_command_registry zone_ok a (Some policy) (Some policy) = Inr reg"
    by (auto simp: container_registry_def)
  from b assms(2) register_commands_run [of zone_ok a policy policy]
  have "registration = service_registration zone_ok a policy policy command"
    by (auto simp: build_command_registry_def chosen_policy_def split: if_splits)
  with p show ?thesis by (auto simp: service_policies policy_new_def split: if_splits)
qed

text \<open>
  C8. A command sent again is not executed again. While the live record of its identity is in
  the database and nobody else is at work, a dispatch of any command changes nothing in the
  database and whatever it returns is the answer decoded from the record, if the request is
  the recorded one by its fingerprint, or a replay of the hot store; under another
  fingerprint, only the hot store can answer at all. Without the hot store, the recorded answer is
  returned.
\<close>

theorem repeated_dispatch_is_replayed:
  assumes registry: "container_registry zone_ok a lease ttl = Inr reg"
      "map_of (handlers reg) (class_of command) = Some registration"
    and coordinator: "durable_execution coordinator = Some transactional"
    and request: "compute_request_fingerprint sha isoformat [] (dump_command command) = Inr fp" "length fp = 32"
      "identity_for sha context (reg_operation registration) i"
    and recorded: "on_record (exec_session (execution st)) i c"
    and run: "bus_dispatch sha isoformat coordinator reg command (Some context) (Some m) st = (r, st')"
  shows "committed (exec_session (execution st')) = committed (exec_session (execution st))
    \<and> (\<forall>y. r = Inr y \<longrightarrow>
         request_fingerprint c = fp \<and> r = answer_of registration m (Inr c)
         \<or> (\<exists>c'. hot_replay (coord_hot_store coordinator) i fp \<lparr>exec_status = REPLAY, exec_completed = Some c'\<rparr>
              \<and> r = answer_of registration m (Inr c')))
    \<and> (\<forall>tok toks h. request_fingerprint c = fp \<longrightarrow> lease_tokens st = tok # toks \<longrightarrow>
         port_claim (coord_hot_store coordinator) i fp tok lease (hot st)
           = (Inl (IdempotencyError IdempotencyUnavailableError), h) \<longrightarrow>
         r = answer_of registration m (Inr c))"
proof -
  from container_registration [OF registry] obtain policy where policy: "mode policy = HOT_DURABLE"
    "0 < retention_seconds policy" "lease_seconds policy = lease" "idempotency_policy registration = Some policy" by blast
  let ?st = "st\<lparr>execution := \<lparr>active = False, exec_session = scope_session (exec_session (execution st))\<rparr>\<rparr>"
  let ?op = "invoke_handler registration command m"
  from bus_dispatch_cases [OF run registry(2)] obtain st1 where
    exec: "command_execute sha isoformat dump_command coordinator registration command context m ?st = (r, st1)"
    and st1: "exec_session (execution st') = scope_session (exec_session (execution st1))" by auto
  obtain x st2 where x: "coordinator_execute coordinator i fp ?op policy ?st = (x, st2)" by (metis surj_pair)
  have r: "st1 = st2" "r = answer_of registration m x"
    using exec command_execute_runs [where dump = dump_command, OF policy(4,1) request(1,3) x] by simp_all
  have start: "on_record (exec_session (execution ?st)) i c" "\<not> active (execution ?st)"
    using on_record_scope [OF recorded] by simp_all
  from coordinator_on_record [OF x policy(1,2) coordinator start request(2)]
  have c: "committed (exec_session (execution st2)) = committed (exec_session (execution st))"
    "\<forall>c'. x = Inr c' \<longrightarrow> (c' = c \<and> request_fingerprint c = fp)
         \<or> hot_replay (coord_hot_store coordinator) i fp \<lparr>exec_status = REPLAY, exec_completed = Some c'\<rparr>"
    by simp_all
  have returned: "\<exists>c'. x = Inr c'" if "r = Inr y" for y
    using r(2) that by (cases x) (auto simp: answer_of_def)
  have degraded: "x = Inr c" if "request_fingerprint c = fp" "lease_tokens st = tok # toks"
      "port_claim (coord_hot_store coordinator) i fp tok lease (hot st) = (Inl (IdempotencyError IdempotencyUnavailableError), h)"
    for tok toks h
    using degraded_on_record [OF policy(1,2) coordinator start request(2) that(1), of tok toks h ?op] that(2,3) x policy(3)
    by simp
  from c(1) st1 r(1) have "committed (exec_session (execution st')) = committed (exec_session (execution st))" by simp
  moreover have "request_fingerprint c = fp \<and> r = answer_of registration m (Inr c)
         \<or> (\<exists>c'. hot_replay (coord_hot_store coordinator) i fp \<lparr>exec_status = REPLAY, exec_completed = Some c'\<rparr>
              \<and> r = answer_of registration m (Inr c'))" if "r = Inr y" for y
  proof -
    from returned [OF that] obtain c' where c': "x = Inr c'" ..
    with c(2) r(2) show ?thesis by auto
  qed
  ultimately show ?thesis using degraded r(2) by blast
qed

end
