(* ===== verification/Retry_Witnesses.thy ===== *)
theory Retry_Witnesses
  imports Service_Retries Service_Witnesses
begin

text \<open>The dispatch of the sample command over a database that holds its record.\<close>

definition repeated_db :: db where
  "repeated_db = sample_db\<lparr>idempotency_records := [record_of sample_command_identity sample_completed 5]\<rparr>"

definition repeated_call :: "unit coordination" where
  "repeated_call = (sample_call ())\<lparr>execution := \<lparr>active = False, exec_session = fresh_session repeated_db []\<rparr>\<rparr>"

lemma repeated_on_record: "on_record (exec_session (execution repeated_call)) sample_command_identity sample_completed"
  using sample_completed_valid
  by (simp add: on_record_def repeated_call_def quiet_def idle_def fresh_session_def clock_below_def
      sample_completed_def seconds_def repeated_db_def records_ok_def recorded_def)

lemma sample_command_identity_for:
  "identity_for sample_sha sample_context (reg_operation sample_registration) sample_command_identity"
proof -
  have "compute_key_digest sample_sha (ustr ''k1'') = Inr (replicate 32 9)" by code_simp
  moreover have "idempotency_key_new (ustr ''user:1'') (reg_operation sample_registration) (replicate 32 9)
      = Inr sample_command_identity"
    by (simp add: idempotency_key_new_def service_registration_def sample_command_identity_def del: ustr_Cons)
  ultimately show ?thesis by (simp add: identity_for_def sample_context_def del: ustr_Cons)
qed

abbreviation repeated_dispatch :: "command_result option result \<times> unit coordination" where
  "repeated_dispatch \<equiv> bus_dispatch sample_sha (\<lambda>_. []) (sample_coordinator down_port) sample_registered
     (UpdateProfile sample_update) (Some sample_context) (Some COMPLETION_ONLY) repeated_call"

theorem repeated_dispatch_is_replayed_witness:
  "fst repeated_dispatch = Inr None
   \<and> committed (exec_session (execution (snd repeated_dispatch))) = repeated_db"
proof -
  have down: "durable_execution (sample_coordinator down_port) = Some transactional"
    "port_claim (coord_hot_store (sample_coordinator down_port)) i fp tok lease h
      = (Inl (IdempotencyError IdempotencyUnavailableError), h)" for i fp tok lease h
    by (simp_all add: sample_coordinator_def down_port_def)
  have "length (replicate 32 (9 :: 8 word)) = 32" by simp
  note replayed = repeated_dispatch_is_replayed [OF sample_registered(1,2) down(1) sample_command_fingerprint this
      sample_command_identity_for repeated_on_record, of COMPLETION_ONLY, OF prod.collapse [symmetric]]
  have "request_fingerprint sample_completed = replicate 32 9" "lease_tokens repeated_call = [5]"
    "committed (exec_session (execution repeated_call)) = repeated_db"
    by (simp_all add: sample_completed_def sample_fingerprint_def repeated_call_def sample_call_def fresh_session_def)
  with replayed down(2) have "fst repeated_dispatch = answer_of sample_registration COMPLETION_ONLY (Inr sample_completed)"
    "committed (exec_session (execution (snd repeated_dispatch))) = repeated_db"
    by metis+
  then show ?thesis by (simp add: answer_of_def)
qed

end
