(* ===== verification/Json_Text.thy ===== *)
theory Json_Text
  imports Fingerprint
begin

text \<open>
  The JSON text of a canonical form determines it: every token ends where only one continuation
  is possible, so two canonical forms with the same text differ at most in the order in which
  the entries of their objects are listed.
\<close>

section \<open>Strings\<close>

lemma json_char_cases:
  obtains (plain) "json_char c = [c]" "32 \<le> c" "c \<noteq> 34" "c \<noteq> 92"
  | (short) e where "json_char c = [92, e]" "e \<noteq> 117"
  | (code) "json_char c = [92, 117] @ hex_digits 4 c" "c < 32"
  by (cases "c \<in> {34, 92, 10, 13, 9, 8, 12}"; cases "c < 32") (auto simp: json_char_def)

lemma json_char_head: "\<exists>h t. json_char c = h # t \<and> h \<noteq> 34"
  by (cases c rule: json_char_cases) auto

lemma short_escape_inject: "json_char c = [92, e] \<Longrightarrow> json_char d = [92, e] \<Longrightarrow> e \<noteq> 117 \<Longrightarrow> c = d"
  by (simp add: json_char_def split: if_splits)

lemma json_char_prefix:
  assumes "json_char c @ q = json_char d @ q'"
  shows "c = d \<and> q = q'"
proof (cases c rule: json_char_cases)
  case plain
  with assms show ?thesis by (cases d rule: json_char_cases) auto
next
  case (short e)
  with assms show ?thesis
    by (cases d rule: json_char_cases) (auto dest: short_escape_inject)
next
  case code
  show ?thesis
  proof (cases d rule: json_char_cases)
    case c': code
    with assms code have "hex_digits 4 c @ q = hex_digits 4 d @ q'" by simp
    then have "hex_digits 4 c = hex_digits 4 d" "q = q'" by simp_all
    with hex_digits_inject [of c 4 d] code(2) c'(2) show ?thesis by simp
  qed (use assms code in auto)
qed

lemma json_chars_prefix:
  "concat (map json_char s) @ 34 # q = concat (map json_char t) @ 34 # q' \<Longrightarrow> s = t \<and> q = q'"
proof (induction s arbitrary: t)
  case Nil
  then show ?case using json_char_head [of "hd t"] by (cases t) auto
next
  case (Cons c s)
  show ?case
  proof (cases t)
    case Nil
    with Cons(2) json_char_head [of c] show ?thesis by auto
  next
    fix d u
    assume t: "t = d # u"
    with Cons(2) have "json_char c @ (concat (map json_char s) @ 34 # q) = json_char d @ (concat (map json_char u) @ 34 # q')"
      by simp
    from json_char_prefix [OF this] Cons(1) [of u] t show ?thesis by simp
  qed
qed

lemma json_string_prefix: "json_string s @ q = json_string t @ q' \<Longrightarrow> s = t \<and> q = q'"
  by (rule json_chars_prefix) (simp add: json_string_def)

section \<open>Lists of parts\<close>

text \<open>What may follow a value: nothing, a comma or a closing bracket.\<close>

definition delimited :: "pystr \<Rightarrow> bool" where
  "delimited q \<longleftrightarrow> q = [] \<or> hd q \<in> {44, 93, 125}"

lemma delimited_Cons [simp]: "delimited (c # q) \<longleftrightarrow> c = 44 \<or> c = 93 \<or> c = 125"
  by (simp add: delimited_def)

definition self_delimiting :: "('a \<Rightarrow> pystr) \<Rightarrow> ('a \<Rightarrow> bool) \<Rightarrow> 'a \<Rightarrow> bool" where
  "self_delimiting f ok x \<longleftrightarrow>
     (\<forall>y q q'. ok y \<longrightarrow> delimited q \<longrightarrow> delimited q' \<longrightarrow> f x @ q = f y @ q' \<longrightarrow> x = y \<and> q = q')"

lemma self_delimitingD:
  "self_delimiting f ok x \<Longrightarrow> ok y \<Longrightarrow> f x @ q = f y @ q' \<Longrightarrow> delimited q \<Longrightarrow> delimited q' \<Longrightarrow> x = y \<and> q = q'"
  unfolding self_delimiting_def by blast

lemma join_comma_Cons: "join_comma (x # xs) = x @ concat (map (\<lambda>y. 44 # y) xs)"
  by (induction xs arbitrary: x) auto

lemma tails_prefix:
  assumes "\<And>x. x \<in> set xs \<Longrightarrow> self_delimiting f ok x" "\<And>y. y \<in> set ys \<Longrightarrow> ok y" "e = 93 \<or> e = 125"
    and "concat (map (\<lambda>x. 44 # f x) xs) @ e # q = concat (map (\<lambda>x. 44 # f x) ys) @ e # q'"
  shows "xs = ys \<and> q = q'"
  using assms
proof (induction xs arbitrary: ys)
  case Nil
  then show ?case by (cases ys) auto
next
  case (Cons x xs)
  have delimited: "delimited (concat (map (\<lambda>x. 44 # f x) zs) @ e # p)" for zs p
    using Cons.prems(3) by (cases zs) auto
  show ?case
  proof (cases ys)
    case Nil
    with Cons.prems show ?thesis by auto
  next
    fix y zs
    assume ys: "ys = y # zs"
    from Cons.prems(4) ys have "f x @ (concat (map (\<lambda>x. 44 # f x) xs) @ e # q) = f y @ (concat (map (\<lambda>x. 44 # f x) zs) @ e # q')"
      by simp
    from self_delimitingD [OF Cons.prems(1) Cons.prems(2) this delimited delimited] ys
    have "x = y \<and> concat (map (\<lambda>x. 44 # f x) xs) @ e # q = concat (map (\<lambda>x. 44 # f x) zs) @ e # q'"
      by simp
    with Cons.IH [of zs] Cons.prems ys show ?thesis by simp
  qed
qed

lemma join_prefix:
  assumes parts: "\<And>x. x \<in> set xs \<Longrightarrow> self_delimiting f ok x" "\<And>y. y \<in> set ys \<Longrightarrow> ok y" "e = 93 \<or> e = 125"
    and heads: "\<And>x. x \<in> set xs \<union> set ys \<Longrightarrow> f x \<noteq> [] \<and> hd (f x) \<noteq> e"
    and eq: "join_comma (map f xs) @ e # q = join_comma (map f ys) @ e # q'"
  shows "xs = ys \<and> q = q'"
proof -
  have closing: "join_comma (map f (z # zs)) @ p \<noteq> e # p'" if "z \<in> set xs \<union> set ys" for z zs p p'
    using heads [OF that] by (cases "f z") (auto simp: join_comma_Cons)
  show ?thesis
  proof (cases xs)
    case Nil
    show ?thesis
    proof (cases ys)
      fix y vs
      assume "ys = y # vs"
      with Nil eq closing [of y vs "e # q'" q] show ?thesis by simp
    qed (use Nil eq in simp)
  next
    fix x us
    assume xs: "xs = x # us"
    show ?thesis
    proof (cases ys)
      case Nil
      with eq xs closing [of x us "e # q" q'] show ?thesis by simp
    next
      fix y vs
      assume ys: "ys = y # vs"
      have delimited: "delimited (concat (map (\<lambda>x. 44 # f x) zs) @ e # p)" for zs p
        using parts(3) by (cases zs) auto
      from eq xs ys have "f x @ (concat (map (\<lambda>x. 44 # f x) us) @ e # q) = f y @ (concat (map (\<lambda>x. 44 # f x) vs) @ e # q')"
        by (simp add: join_comma_Cons comp_def)
      from self_delimitingD [OF parts(1) parts(2) this delimited delimited] xs ys
      have "x = y" "concat (map (\<lambda>x. 44 # f x) us) @ e # q = concat (map (\<lambda>x. 44 # f x) vs) @ e # q'"
        by simp_all
      with tails_prefix [of us f ok vs e q q'] parts xs ys show ?thesis by simp
    qed
  qed
qed

section \<open>Canonical forms\<close>

text \<open>A canonical form with the entries of its objects in the order of their keys, and its text.\<close>

fun sorted_form :: "canonical \<Rightarrow> canonical" where
  "sorted_form (CList xs) = CList (map sorted_form xs)"
| "sorted_form (CObject kvs) = CObject (sort_key fst (map (\<lambda>kv. (fst kv, sorted_form (snd kv))) kvs))"
| "sorted_form c = c"

fun json_print :: "canonical \<Rightarrow> pystr" where
  "json_print (CList xs) = 91 # join_comma (map json_print xs) @ [93]"
| "json_print (CObject kvs) = 123 # join_comma (map (\<lambda>kv. json_string (fst kv) @ 58 # json_print (snd kv)) kvs) @ [125]"
| "json_print c = dumps c"

lemma dumps_print: "dumps c = json_print (sorted_form c)"
proof (induction c)
  case (CList xs)
  then show ?case by (simp add: comp_def cong: map_cong)
next
  case (CObject kvs)
  then have ih: "dumps (snd kv) = json_print (sorted_form (snd kv))" if "kv \<in> set kvs" for kv
    using that by (metis prod.collapse snds.intros)
  have "dumps (CObject kvs) = 123 # join_comma (map (\<lambda>kv. json_string (fst kv) @ 58 # dumps (snd kv)) (sort_key fst kvs)) @ [125]"
    by (simp add: sort_key_map_commute [where k = fst and h = "\<lambda>kv. (fst kv, dumps (snd kv))"] comp_def)
  moreover have "json_print (sorted_form (CObject kvs)) = 123 # join_comma (map (\<lambda>kv. json_string (fst kv) @ 58
      # json_print (sorted_form (snd kv))) (sort_key fst kvs)) @ [125]"
    by (simp add: sort_key_map_commute [where k = fst and h = "\<lambda>kv. (fst kv, sorted_form (snd kv))"] comp_def)
  moreover have "map (\<lambda>kv. json_string (fst kv) @ 58 # dumps (snd kv)) (sort_key fst kvs)
      = map (\<lambda>kv. json_string (fst kv) @ 58 # json_print (sorted_form (snd kv))) (sort_key fst kvs)"
    using ih by simp
  ultimately show ?case by simp
qed simp_all

text \<open>
  The text of a finite float: digits, a sign, an exponent, and at least a point or an exponent,
  which the text of an integer never has.
\<close>

definition float_text :: "pystr \<Rightarrow> bool" where
  "float_text r \<longleftrightarrow> r \<noteq> [] \<and> (hd r = 45 \<or> is_digit (hd r))
     \<and> list_all (\<lambda>c. is_digit c \<or> c \<in> {43, 45, 46, 101}) r \<and> (46 \<in> set r \<or> 101 \<in> set r)"

fun plain :: "canonical \<Rightarrow> bool" where
  "plain (CFloat r) = float_text r"
| "plain (CList xs) = list_all plain xs"
| "plain (CObject kvs) = list_all (\<lambda>kv. plain (snd kv)) kvs"
| "plain c = True"

lemma int_text_chars: "c \<in> set (int_text i) \<Longrightarrow> is_digit c \<or> c = 45"
  using nat_digits_props by (auto simp: int_text_def list_all_iff split: if_splits)

lemma int_text_head: "\<exists>h t. int_text i = h # t \<and> (h = 45 \<or> is_digit h)"
  using nat_digits_props [of "nat i"] by (cases "nat_digits (nat i)") (auto simp: int_text_def)

text \<open>The first character tells which kind of value it is.\<close>

fun kind :: "canonical \<Rightarrow> nat" where
  "kind CNull = 110"
| "kind (CBool b) = (if b then 116 else 102)"
| "kind (CInt i) = 45"
| "kind (CFloat r) = 45"
| "kind (CStr s) = 34"
| "kind (CList xs) = 91"
| "kind (CObject kvs) = 123"

definition head_kind :: "nat \<Rightarrow> nat" where
  "head_kind h = (if is_digit h then 45 else h)"

lemma json_print_head: "plain c \<Longrightarrow> \<exists>h t. json_print c = h # t \<and> head_kind h = kind c"
proof (cases c)
  case (CInt i)
  then show ?thesis using int_text_head [of i] by (auto simp: head_kind_def)
next
  case (CFloat r)
  moreover assume "plain c"
  ultimately show ?thesis by (cases r) (auto simp: float_text_def head_kind_def)
qed (auto simp: head_kind_def is_digit_def json_string_def)

lemma kind_not_closing: "plain c \<Longrightarrow> e = 93 \<or> e = 125 \<Longrightarrow> json_print c \<noteq> [] \<and> hd (json_print c) \<noteq> e"
  using json_print_head [of c] by (cases c) (auto simp: head_kind_def is_digit_def split: if_splits)

lemma json_print_kind:
  assumes "plain c" "plain d" "json_print c @ q = json_print d @ q'"
  shows "kind c = kind d"
  using json_print_head [OF assms(1)] json_print_head [OF assms(2)] assms(3) by auto

lemma number_prefix:
  assumes "\<And>c. c \<in> set s \<union> set t \<Longrightarrow> c \<noteq> 44 \<and> c \<noteq> 93 \<and> c \<noteq> 125" "delimited q" "delimited q'"
    "s @ q = t @ q'"
  shows "s = t \<and> q = q'"
proof -
  let ?in = "\<lambda>c. c \<noteq> 44 \<and> c \<noteq> 93 \<and> c \<noteq> 125"
  have "takeWhile ?in (u @ p) = u" if "\<And>c. c \<in> set u \<Longrightarrow> ?in c" "delimited p" for u p
    using that by (cases p) (auto simp: takeWhile_append delimited_def)
  from this [of s q] this [of t q'] assms show ?thesis by auto
qed

text \<open>The text of a number and what it is a number of.\<close>

lemma kind_number: "kind c = 45 \<Longrightarrow> (\<exists>i. c = CInt i) \<or> (\<exists>r. c = CFloat r)"
  by (cases c) (auto split: if_splits)

lemma number_inject:
  assumes "plain c" "plain d" "kind c = 45" "kind d = 45" "json_print c = json_print d"
  shows "c = d"
proof -
  have distinct: "int_text i \<noteq> r" if "float_text r" for i r
    using that int_text_chars [of 46 i] int_text_chars [of 101 i] by (auto simp: float_text_def is_digit_def)
  from kind_number [OF assms(3)] kind_number [OF assms(4)] assms(1,2,5) distinct show ?thesis by fastforce
qed

lemma number_self_delimiting:
  assumes "plain c" "kind c = 45"
  shows "self_delimiting json_print plain c"
proof -
  have chars: "x \<noteq> 44 \<and> x \<noteq> 93 \<and> x \<noteq> 125" if "plain d" "kind d = 45" "x \<in> set (json_print d)" for d x
    using that by (cases d) (auto simp: float_text_def list_all_iff is_digit_def dest: int_text_chars split: if_splits)
  show ?thesis unfolding self_delimiting_def
  proof (intro allI impI)
    fix d q q'
    assume d: "plain d" "delimited q" "delimited q'" "json_print c @ q = json_print d @ q'"
    from json_print_kind [OF assms(1) d(1,4)] assms(2) have kind: "kind d = 45" by simp
    have "json_print c = json_print d \<and> q = q'"
      by (rule number_prefix) (use chars [OF assms] chars [OF d(1) kind] d in auto)
    with number_inject [OF assms(1) d(1) assms(2) kind] show "c = d \<and> q = q'" by simp
  qed
qed

lemma entries_self_delimiting:
  assumes "self_delimiting json_print plain (snd kv)"
  shows "self_delimiting (\<lambda>kv. json_string (fst kv) @ 58 # json_print (snd kv)) (\<lambda>kv. plain (snd kv)) kv"
  unfolding self_delimiting_def
proof (intro allI impI)
  fix kw :: "pystr \<times> canonical" and q q'
  assume ok: "plain (snd kw)" "delimited q" "delimited q'"
    and eq: "(json_string (fst kv) @ 58 # json_print (snd kv)) @ q = (json_string (fst kw) @ 58 # json_print (snd kw)) @ q'"
  from eq have "json_string (fst kv) @ (58 # json_print (snd kv) @ q) = json_string (fst kw) @ (58 # json_print (snd kw) @ q')"
    by simp
  from json_string_prefix [OF this] have "fst kv = fst kw" "json_print (snd kv) @ q = json_print (snd kw) @ q'" by simp_all
  with self_delimitingD [OF assms ok(1) _ ok(2,3)] show "kv = kw \<and> q = q'" by (simp add: prod_eq_iff)
qed

lemma json_print_self_delimiting: "plain c \<Longrightarrow> self_delimiting json_print plain c"
proof (induction c)
  case (CInt i)
  show ?case by (rule number_self_delimiting) simp_all
next
  case (CFloat r)
  then show ?case by (intro number_self_delimiting) simp_all
next
  case (CList xs)
  then have parts: "\<And>x. x \<in> set xs \<Longrightarrow> plain x" "\<And>x. x \<in> set xs \<Longrightarrow> self_delimiting json_print plain x"
    by (auto simp: list_all_iff)
  show ?case unfolding self_delimiting_def
  proof (intro allI impI)
    fix d q q'
    assume d: "plain d" "json_print (CList xs) @ q = json_print d @ q'"
    from json_print_kind [OF CList(2) d] obtain ys where ys: "d = CList ys"
      by (cases d) (auto split: if_splits)
    with d(1) have ok: "\<And>y. y \<in> set ys \<Longrightarrow> plain y" by (simp add: list_all_iff)
    have heads: "x \<in> set xs \<union> set ys \<Longrightarrow> json_print x \<noteq> [] \<and> hd (json_print x) \<noteq> 93" for x
      using kind_not_closing [of x 93] parts(1) ok by blast
    from d(2) ys have "join_comma (map json_print xs) @ 93 # q = join_comma (map json_print ys) @ 93 # q'" by simp
    from join_prefix [OF parts(2) ok disjI1 [OF refl] heads this] ys show "CList xs = d \<and> q = q'" by simp
  qed
next
  case (CObject kvs)
  let ?f = "\<lambda>kv. json_string (fst kv) @ 58 # json_print (snd kv)"
  have parts: "self_delimiting ?f (\<lambda>kv. plain (snd kv)) kv" if "kv \<in> set kvs" for kv
  proof (rule entries_self_delimiting)
    from that have "snd kv \<in> Basic_BNFs.snds kv" by (simp add: snds.intros)
    with CObject that show "self_delimiting json_print plain (snd kv)" by (auto simp: list_all_iff)
  qed
  show ?case unfolding self_delimiting_def
  proof (intro allI impI)
    fix d q q'
    assume d: "plain d" "json_print (CObject kvs) @ q = json_print d @ q'"
    from json_print_kind [OF CObject(2) d] obtain kws where kws: "d = CObject kws"
      by (cases d) (auto split: if_splits)
    with d(1) have ok: "\<And>kw. kw \<in> set kws \<Longrightarrow> plain (snd kw)" by (simp add: list_all_iff)
    have heads: "kv \<in> set kvs \<union> set kws \<Longrightarrow> ?f kv \<noteq> [] \<and> hd (?f kv) \<noteq> 125" for kv
      by (simp add: json_string_def)
    from d(2) kws have "join_comma (map ?f kvs) @ 125 # q = join_comma (map ?f kws) @ 125 # q'" by simp
    from join_prefix [OF parts ok disjI2 [OF refl] heads this] kws show "CObject kvs = d \<and> q = q'" by simp
  qed
next
  case CNull
  show ?case unfolding self_delimiting_def
  proof (intro allI impI)
    fix d q q'
    assume d: "plain d" "json_print CNull @ q = json_print d @ q'"
    from json_print_kind [OF _ d] have "d = CNull" by (cases d) (auto split: if_splits)
    with d(2) show "CNull = d \<and> q = q'" by simp
  qed
next
  case (CBool b)
  show ?case unfolding self_delimiting_def
  proof (intro allI impI)
    fix d q q'
    assume d: "plain d" "json_print (CBool b) @ q = json_print d @ q'"
    from json_print_kind [OF _ d] have "d = CBool b" by (cases d; cases b) (auto split: if_splits)
    with d(2) show "CBool b = d \<and> q = q'" by simp
  qed
next
  case (CStr s)
  show ?case unfolding self_delimiting_def
  proof (intro allI impI)
    fix d q q'
    assume d: "plain d" "json_print (CStr s) @ q = json_print d @ q'"
    from json_print_kind [OF _ d] obtain t where t: "d = CStr t" by (cases d) (auto split: if_splits)
    with d(2) have "json_string s @ q = json_string t @ q'" by simp
    from json_string_prefix [OF this] t show "CStr s = d \<and> q = q'" by simp
  qed
qed

lemma plain_sorted_form: "plain c \<Longrightarrow> plain (sorted_form c)"
proof (induction c)
  case (CObject kvs)
  then have "plain (sorted_form (snd kv))" if "kv \<in> set kvs" for kv
    using CObject(1) [OF that, of "snd kv"] that CObject(2) by (auto simp: list_all_iff snds.intros)
  then show ?case by (auto simp: list_all_iff)
qed (auto simp: list_all_iff)

text \<open>Two canonical forms with the same text are the same up to the order of keys.\<close>

theorem dumps_inject:
  assumes "plain c" "plain d" "dumps c = dumps d"
  shows "sorted_form c = sorted_form d"
  using self_delimitingD [OF json_print_self_delimiting [OF plain_sorted_form [OF assms(1)]]
      plain_sorted_form [OF assms(2)], of "[]" "[]"] assms(3)
  by (simp add: dumps_print delimited_def)

section \<open>Canonical forms of values are plain\<close>

text \<open>The text of every float in the value is what \<open>float.__repr__\<close> is documented to give.\<close>

fun float_texts :: "pyval \<Rightarrow> bool" where
  "float_texts (VFloat f) = float_text (float_repr f)"
| "float_texts (VEnum v) = float_texts v"
| "float_texts (VModel kvs) = list_all (\<lambda>kv. float_texts (snd kv)) kvs"
| "float_texts (VMapping kvs) = list_all (\<lambda>kv. float_texts (snd kv)) kvs"
| "float_texts (VSequence vs) = list_all float_texts vs"
| "float_texts (VSet vs) = list_all float_texts vs"
| "float_texts v = True"

lemma object_items:
  assumes "rsequence_values (sort_key fst (map (\<lambda>kv. (key kv, r kv)) kvs)) = Inr items"
  shows "(k, x) \<in> set items \<longleftrightarrow> (\<exists>kv\<in>set kvs. key kv = k \<and> r kv = Inr x)"
    "\<And>kv. kv \<in> set kvs \<Longrightarrow> \<exists>x. r kv = Inr x"
proof -
  let ?ks = "sort_key fst (map (\<lambda>kv. (key kv, r kv)) kvs)"
  from assms obtain xs where xs: "map snd ?ks = map Inr xs" "items = zip (map fst ?ks) xs"
    by (auto simp: rsequence_values_def rsequence_eq)
  then have items: "map (\<lambda>i. (fst i, Inr (snd i))) items = ?ks"
    by (intro nth_equalityI) (auto simp: list_eq_iff_nth_eq prod_eq_iff)
  then have "(k, Inr x) \<in> set ?ks \<longleftrightarrow> (k, x) \<in> set items"
    unfolding items [symmetric] by force
  then show "(k, x) \<in> set items \<longleftrightarrow> (\<exists>kv\<in>set kvs. key kv = k \<and> r kv = Inr x)" by force
  show "\<exists>x. r kv = Inr x" if "kv \<in> set kvs" for kv
  proof -
    from that have "(key kv, r kv) \<in> set (map (\<lambda>i. (fst i, Inr (snd i))) items)" unfolding items by simp
    then show ?thesis by auto
  qed
qed

lemma canonicalize_plain:
  "canonicalize isoformat unordered path v = Inr c \<Longrightarrow> float_texts v \<Longrightarrow> plain c"
proof (induction v arbitrary: path c)
  case (VModel kvs)
  then obtain items where items: "c = CObject items" "rsequence_values (sort_key fst
       (map (\<lambda>kv. (fst kv, canonicalize isoformat unordered (path @ [fst kv]) (snd kv))) kvs)) = Inr items"
    by auto
  have "plain x" if "(k, x) \<in> set items" for k x
  proof -
    from that object_items(1) [OF items(2)] obtain kv where kv: "kv \<in> set kvs"
      "canonicalize isoformat unordered (path @ [fst kv]) (snd kv) = Inr x" by blast
    with VModel(1) [OF kv(1) snds.intros kv(2)] VModel(3) show ?thesis by (auto simp: list_all_iff prod_eq_iff)
  qed
  with items(1) show ?case by (auto simp: list_all_iff)
next
  case (VMapping kvs)
  then obtain items where items: "c = CObject items" "rsequence_values (sort_key fst
       (map (\<lambda>kv. (the (fst kv), canonicalize isoformat unordered (path @ [the (fst kv)]) (snd kv))) kvs)) = Inr items"
    by (auto split: if_splits)
  have "plain x" if "(k, x) \<in> set items" for k x
  proof -
    from that object_items(1) [OF items(2)] obtain kv where kv: "kv \<in> set kvs"
      "canonicalize isoformat unordered (path @ [the (fst kv)]) (snd kv) = Inr x" by blast
    with VMapping(1) [OF kv(1) snds.intros kv(2)] VMapping(3) show ?thesis by (auto simp: list_all_iff prod_eq_iff)
  qed
  with items(1) show ?case by (auto simp: list_all_iff)
next
  case (VSequence vs)
  then obtain items where items: "map (canonicalize isoformat unordered (path @ [ustr ''[]''])) vs = map Inr items"
    "c = CList (if path \<in> set unordered then sort_key dumps items else items)"
    by (auto simp: rsequence_eq)
  have "plain x" if "x \<in> set items" for x
  proof -
    from that have "Inr x \<in> set (map (canonicalize isoformat unordered (path @ [ustr ''[]''])) vs)"
      unfolding items(1) by simp
    with VSequence show ?thesis by (auto simp: list_all_iff)
  qed
  with items(2) show ?case by (auto simp: list_all_iff)
next
  case (VSet vs)
  then obtain items where items: "map (canonicalize isoformat unordered (path @ [ustr ''{}''])) vs = map Inr items"
    "c = CList (sort_key dumps items)"
    by (auto simp: rsequence_eq)
  have "plain x" if "x \<in> set items" for x
  proof -
    from that have "Inr x \<in> set (map (canonicalize isoformat unordered (path @ [ustr ''{}''])) vs)"
      unfolding items(1) by simp
    with VSet show ?thesis by (auto simp: list_all_iff)
  qed
  with items(2) show ?case by (auto simp: list_all_iff)
qed (auto simp: float_text_def is_digit_def split: if_splits option.splits)

end
