(* ===== verification/Command_Fingerprints.thy ===== *)
theory Command_Fingerprints
  imports Json_Text Service
begin

text \<open>
  The fingerprint tells commands apart: the bytes that are hashed for a command determine all
  of its fields.
\<close>

definition request_bytes ::
  "(datetime \<Rightarrow> pystr) \<Rightarrow> json_path list \<Rightarrow> pyval \<Rightarrow> bytes result" where
  "request_bytes isoformat unordered payload =
     rthen (canonicalize isoformat unordered [] payload) (\<lambda>c. utf8_encode (dumps c))"

lemma fingerprint_of_bytes:
  "compute_request_fingerprint sha isoformat unordered payload =
     rthen (request_bytes isoformat unordered payload) (\<lambda>b. Inr (sha b))"
  by (simp add: compute_request_fingerprint_def request_bytes_def rthen_assoc)

lemma bytes_determine_form:
  assumes "request_bytes isoformat unordered v = Inr b" "request_bytes isoformat unordered w = Inr b"
    "float_texts v" "float_texts w"
  shows "\<exists>c d. canonicalize isoformat unordered [] v = Inr c \<and> canonicalize isoformat unordered [] w = Inr d
    \<and> sorted_form c = sorted_form d"
proof -
  from assms(1,2) obtain c d where cd: "canonicalize isoformat unordered [] v = Inr c"
    "canonicalize isoformat unordered [] w = Inr d" "utf8_encode (dumps c) = Inr b" "utf8_encode (dumps d) = Inr b"
    by (auto simp: request_bytes_def)
  from dumps_inject [OF canonicalize_plain [OF cd(1) assms(3)] canonicalize_plain [OF cd(2) assms(4)]
      utf8_encode_inject [OF cd(3,4)]] cd(1,2)
  show ?thesis by blast
qed

section \<open>The fields of a model\<close>

lemma sorted_form_entries:
  "sorted_form (CObject items) = sorted_form (CObject items') \<Longrightarrow> (k, x) \<in> set items \<Longrightarrow>
     \<exists>y. (k, y) \<in> set items' \<and> sorted_form x = sorted_form y"
proof -
  let ?f = "\<lambda>kv. (fst kv, sorted_form (snd kv))"
  assume eq: "sorted_form (CObject items) = sorted_form (CObject items')" and x: "(k, x) \<in> set items"
  from eq have "set (sort_key fst (map ?f items)) = set (sort_key fst (map ?f items'))" by simp
  then have "?f ` set items = ?f ` set items'" by simp
  moreover from x have "(k, sorted_form x) \<in> ?f ` set items" by force
  ultimately obtain kv where "kv \<in> set items'" "(k, sorted_form x) = ?f kv" by auto
  then show ?thesis by (intro exI [of _ "snd kv"]) auto
qed

lemma model_field:
  assumes canonical: "canonicalize isoformat unordered [] (VModel kvs) = Inr c"
      "canonicalize isoformat unordered [] (VModel kws) = Inr d" "sorted_form c = sorted_form d"
    and field: "(k, v) \<in> set kvs" "(k, w) \<in> set kws" "distinct (map fst kws)"
  shows "\<exists>x y. canonicalize isoformat unordered [k] v = Inr x \<and> canonicalize isoformat unordered [k] w = Inr y
    \<and> sorted_form x = sorted_form y"
proof -
  let ?r = "\<lambda>kv. canonicalize isoformat unordered ([] @ [fst kv]) (snd kv)"
  from canonical(1) obtain items where items: "c = CObject items"
    "rsequence_values (sort_key fst (map (\<lambda>kv. (fst kv, ?r kv)) kvs)) = Inr items" by auto
  from canonical(2) obtain items' where items': "d = CObject items'"
    "rsequence_values (sort_key fst (map (\<lambda>kv. (fst kv, ?r kv)) kws)) = Inr items'" by auto
  from object_items(2) [OF items(2) field(1)] obtain x where x: "canonicalize isoformat unordered [k] v = Inr x" by auto
  with object_items(1) [OF items(2), of k x] field(1) have "(k, x) \<in> set items" by force
  with sorted_form_entries canonical(3) items(1) items'(1) obtain y where
    y: "(k, y) \<in> set items'" "sorted_form x = sorted_form y" by blast
  from object_items(1) [OF items'(2), of k y] y(1) obtain kw where kw: "kw \<in> set kws" "fst kw = k" "?r kw = Inr y"
    by auto
  with field(2,3) have "kw = (k, w)" by (metis eq_key_imp_eq_value prod.collapse)
  with kw(3) x y(2) show ?thesis by auto
qed

text \<open>Scalars that a field can hold, and the values with the same canonical form.\<close>

definition same_value :: "(datetime \<Rightarrow> pystr) \<Rightarrow> json_path \<Rightarrow> pyval \<Rightarrow> pyval \<Rightarrow> bool" where
  "same_value isoformat path v w \<longleftrightarrow>
     (\<exists>x y. canonicalize isoformat [] path v = Inr x \<and> canonicalize isoformat [] path w = Inr y
        \<and> sorted_form x = sorted_form y)"

lemma same_scalar:
  "same_value isoformat path (VUUID u) (VUUID u') \<longleftrightarrow> u = u'"
  "same_value isoformat path (VInt i) (VInt i') \<longleftrightarrow> i = i'"
  "same_value isoformat path (dump_text t) (dump_text t') \<longleftrightarrow> t = t'"
  "inj isoformat \<Longrightarrow> same_value isoformat path (VDateTime (Some d)) (VDateTime (Some d')) \<longleftrightarrow> d = d'"
  by (auto simp: same_value_def dump_text_def inj_eq split: option.splits)

lemma same_member:
  "inj value_of \<Longrightarrow> same_value isoformat path (dump_member value_of m) (dump_member value_of m') \<longleftrightarrow> m = m'"
  by (auto simp: same_value_def dump_member_def inj_eq split: option.splits)

lemma enum_values_inj: "inj theme_value" "inj locale_value" "inj scope_value"
proof -
  show "inj theme_value"
  proof (rule injI)
    fix x y assume "theme_value x = theme_value y" then show "x = y" by (cases x; cases y) auto
  qed
  show "inj locale_value"
  proof (rule injI)
    fix x y assume "locale_value x = locale_value y" then show "x = y" by (cases x; cases y) auto
  qed
  show "inj scope_value"
  proof (rule injI)
    fix x y assume "scope_value x = scope_value y" then show "x = y" by (cases x; cases y) auto
  qed
qed

lemmas same_simps = same_scalar same_member enum_values_inj

section \<open>Commands\<close>

lemma command_float_texts: "float_texts (dump_command c)"
  by (cases c) (simp_all add: dump_model_def dump_text_def dump_member_def split: option.splits)

lemma dump_field:
  "dump_command c = dump_model fs \<Longrightarrow> dump_command c' = dump_model gs \<Longrightarrow>
   request_bytes isoformat [] (dump_command c) = Inr b \<Longrightarrow> request_bytes isoformat [] (dump_command c') = Inr b \<Longrightarrow>
   (n, v) \<in> set fs \<Longrightarrow> (n, w) \<in> set gs \<Longrightarrow> distinct (map fst gs) \<Longrightarrow> same_value isoformat [ustr n] v w"
proof -
  assume dump: "dump_command c = dump_model fs" "dump_command c' = dump_model gs"
    and bytes: "request_bytes isoformat [] (dump_command c) = Inr b" "request_bytes isoformat [] (dump_command c') = Inr b"
    and field: "(n, v) \<in> set fs" "(n, w) \<in> set gs" "distinct (map fst gs)"
  let ?m = "map (\<lambda>kv. (ustr (fst kv), snd kv))"
  from bytes_determine_form [OF bytes command_float_texts command_float_texts] obtain x y where
    "canonicalize isoformat [] [] (VModel (?m fs)) = Inr x" "canonicalize isoformat [] [] (VModel (?m gs)) = Inr y"
    "sorted_form x = sorted_form y"
    unfolding dump dump_model_def by blast
  moreover have "(ustr n, v) \<in> set (?m fs)" "(ustr n, w) \<in> set (?m gs)" using field by force+
  moreover have "map fst (?m gs) = map ustr (map fst gs)" by simp
  then have "distinct (map fst (?m gs))" using field(3) by (simp add: distinct_map inj_on_def)
  ultimately show ?thesis using model_field unfolding same_value_def by blast
qed

lemma bytes_determine_command:
  assumes iso: "inj isoformat" and same: "class_of c = class_of c'"
    and b: "request_bytes isoformat [] (dump_command c) = Inr b" "request_bytes isoformat [] (dump_command c') = Inr b"
  shows "c = c'"
proof (cases c)
  case (CreateDefault d)
  with same obtain d' where c': "c' = CreateDefault d'" by (cases c') auto
  note field = dump_field [OF dump_command.simps(1) dump_command.simps(1) b [unfolded CreateDefault c'],
      simplified same_simps iso]
  from field [of "''user_id''"] field [of "''registered_at''"] iso CreateDefault c' show ?thesis
    by (simp add: same_simps)
next
  case (UpdateProfile d)
  with same obtain d' where c': "c' = UpdateProfile d'" by (cases c') auto
  note field = dump_field [OF dump_command.simps(2) dump_command.simps(2) b [unfolded UpdateProfile c']]
  from field [of "''user_id''"] field [of "''expected_version''"] field [of "''display_name''"]
    field [of "''bio''"] field [of "''username''"] UpdateProfile c' show ?thesis
    by (simp add: same_simps)
next
  case (UpdateAvatar d)
  with same obtain d' where c': "c' = UpdateAvatar d'" by (cases c') auto
  note field = dump_field [OF dump_command.simps(3) dump_command.simps(3) b [unfolded UpdateAvatar c']]
  from field [of "''user_id''"] field [of "''expected_version''"] field [of "''avatar_key''"] UpdateAvatar c'
  show ?thesis by (simp add: same_simps)
next
  case (UpdateSettings d)
  with same obtain d' where c': "c' = UpdateSettings d'" by (cases c') auto
  note field = dump_field [OF dump_command.simps(4) dump_command.simps(4) b [unfolded UpdateSettings c']]
  from field [of "''user_id''"] field [of "''expected_version''"] field [of "''theme''"] field [of "''locale''"]
    field [of "''timezone''"] field [of "''who_can_see_avatar''"] field [of "''who_can_find_by_username''"]
    field [of "''who_can_see_bio''"] UpdateSettings c'
  show ?thesis by (simp add: same_simps)
next
  case (ResetSettings d)
  with same obtain d' where c': "c' = ResetSettings d'" by (cases c') auto
  note field = dump_field [OF dump_command.simps(5) dump_command.simps(5) b [unfolded ResetSettings c']]
  from field [of "''user_id''"] field [of "''expected_version''"] ResetSettings c'
  show ?thesis by (simp add: same_simps)
qed

text \<open>
  C17. The fingerprint tells requests apart. If two commands of one class have the same
  fingerprint, then they are equal in every field, or SHA-256 has given one digest to the
  two different texts that were hashed for them. The texts of instants are asked to be different.
\<close>

theorem commands_told_apart:
  assumes "inj isoformat" "class_of c = class_of c'"
    and "compute_request_fingerprint sha isoformat [] (dump_command c) = Inr fp"
    and "compute_request_fingerprint sha isoformat [] (dump_command c') = Inr fp"
  shows "\<exists>x y. request_bytes isoformat [] (dump_command c) = Inr x
    \<and> request_bytes isoformat [] (dump_command c') = Inr y \<and> sha x = sha y \<and> (x = y \<longleftrightarrow> c = c')"
  using assms bytes_determine_command [OF assms(1,2)] by (auto simp: fingerprint_of_bytes)

definition sample_reset :: "int \<Rightarrow> command" where
  "sample_reset v = ResetSettings \<lparr>rs_user_id = 7, rs_expected_version = v\<rparr>"

theorem commands_told_apart_witness:
  "\<exists>x y. request_bytes int_text [] (dump_command (sample_reset 1)) = Inr x
    \<and> request_bytes int_text [] (dump_command (sample_reset 2)) = Inr y \<and> x \<noteq> y"
proof -
  have "compute_request_fingerprint (\<lambda>_. [9]) int_text [] (dump_command (sample_reset 1)) = Inr [9]"
    "compute_request_fingerprint (\<lambda>_. [9]) int_text [] (dump_command (sample_reset 2)) = Inr [9]"
    unfolding sample_reset_def by code_simp+
  from commands_told_apart [OF _ _ this] show ?thesis
    by (simp add: inj_def sample_reset_def)
qed

end
