(* ===== verification/Startup.thy ===== *)
theory Startup
  imports Access_Tokens Coordinator_Results
begin

text \<open>
  How the service comes up: logging (\<open>src/src/app/core/logging.py\<close>), what the container builds from
  the settings (\<open>src/src/app/infrastructure/di\<close>), both assemblies of the command bus
  (\<open>infrastructure/di/commands.py\<close>), and the lifespan of the application
  (\<open>src/src/app/entrypoints/http/main.py\<close>).
\<close>

section \<open>Logging\<close>

text \<open>\<open>logging.getLevelNamesMapping()\<close>\<close>

definition level_names :: "(pystr \<times> int) list" where
  "level_names = map (\<lambda>(n, l). (ustr n, l))
     [(''CRITICAL'', 50), (''FATAL'', 50), (''ERROR'', 40), (''WARN'', 30), (''WARNING'', 30),
      (''INFO'', 20), (''DEBUG'', 10), (''NOTSET'', 0)]"

definition log_level_number :: "AppSettings \<Rightarrow> int result" where
  "log_level_number settings =
     (case map_of level_names (log_level settings) of None \<Rightarrow> Inl ValueError | Some l \<Rightarrow> Inr l)"

definition set_if_absent :: "pystr \<Rightarrow> pystr \<Rightarrow> (pystr \<times> pystr) list \<Rightarrow> (pystr \<times> pystr) list" where
  "set_if_absent k v d = (if map_of d k = None then d @ [(k, v)] else d)"

definition add_service_context :: "AppSettings \<Rightarrow> (pystr \<times> pystr) list \<Rightarrow> (pystr \<times> pystr) list" where
  "add_service_context settings event_dict =
     set_if_absent (ustr ''environment'') (environment settings)
       (set_if_absent (ustr ''version'') (app_version settings)
         (set_if_absent (ustr ''service'') (service_name settings) event_dict))"

record logger =
  logger_handlers :: "pystr list"
  propagate :: bool
  logger_level :: int

text \<open>The loop over the existing loggers, at the end of \<open>setup_logging\<close>.\<close>

definition configure_logger :: "AppSettings \<Rightarrow> int \<Rightarrow> pystr \<times> logger \<Rightarrow> pystr \<times> logger" where
  "configure_logger settings level item =
     (fst item, (snd item)\<lparr>logger_handlers := [], propagate := True,
        logger_level := (if fst item \<in> set (mute_loggers settings) then max level 30 else level)\<rparr>)"

section \<open>What the container builds from the settings\<close>

record engine_options =
  engine_url :: pystr
  pool_size :: int
  max_overflow :: int
  pool_timeout :: int
  pool_pre_ping :: bool
  isolation_level :: string
  command_timeout :: int
  hide_parameters :: bool

text \<open>
  \<open>create_async_engine\<close> and \<open>Redis.from_url\<close> read the URL they are given, and raise for one
  they cannot use: an unknown scheme or dialect, or a part that cannot be read.
\<close>

record client_library =
  engine_error :: "pystr \<Rightarrow> exn option"
  redis_error :: "pystr \<Rightarrow> exn option"

definition client_of :: "exn option \<Rightarrow> 'a \<Rightarrow> 'a result" where
  "client_of e c = (case e of None \<Rightarrow> Inr c | Some x \<Rightarrow> Inl x)"

definition provide_engine :: "client_library \<Rightarrow> PostgresSettings \<Rightarrow> engine_options result" where
  "provide_engine clients settings =
     rthen (postgres_url settings) (\<lambda>t.
     client_of (engine_error clients t) \<lparr>engine_url = t, pool_size = database_pool_size settings, max_overflow = database_max_overflow settings,
       pool_timeout = database_pool_timeout settings, pool_pre_ping = True,
       isolation_level = ''READ COMMITTED'', command_timeout = database_command_timeout settings,
       hide_parameters = True\<rparr>)"

record redis_options =
  client_url :: pystr
  decode_responses :: bool
  client_max_connections :: int
  client_socket_timeout :: int
  client_connect_timeout :: int
  client_health_check_interval :: int

definition provide_redis :: "client_library \<Rightarrow> RedisSettings \<Rightarrow> redis_options result" where
  "provide_redis clients settings =
     (case redis_url settings of
        None \<Rightarrow> Inl AssertionError
      | Some t \<Rightarrow> client_of (redis_error clients t) \<lparr>client_url = t, decode_responses = False,
          client_max_connections = max_connections settings, client_socket_timeout = socket_timeout settings,
          client_connect_timeout = socket_connect_timeout settings,
          client_health_check_interval = health_check_interval settings\<rparr>)"

definition provide_circuit_breaker :: "IdempotencySettings \<Rightarrow> breaker result" where
  "provide_circuit_breaker settings = breaker_new (cb_failures settings) (cb_recovery_seconds settings)"

text \<open>The client, hash and libraries of the hot store are \<open>cfg\<close>; its namespace comes from the settings.\<close>

definition provide_hot_store :: "'d hot_config \<Rightarrow> RedisSettings \<Rightarrow> 'd hot_config result" where
  "provide_hot_store cfg settings = hot_store_new (cfg\<lparr>key_namespace := redis_key_namespace settings\<rparr>)"

text \<open>
  The coordinator is made from the hot store, over a client and a circuit breaker, and from the
  durable execution, over a session of the engine.
\<close>

definition provide_coordinator ::
  "client_library \<Rightarrow> 'd hot_config \<Rightarrow> PostgresSettings \<Rightarrow> RedisSettings \<Rightarrow> IdempotencySettings \<Rightarrow>
   'd link guarded coordinator result" where
  "provide_coordinator clients cfg ps rs is =
     rthen (provide_redis clients rs) (\<lambda>_.
     rthen (provide_circuit_breaker is) (\<lambda>_.
     rthen (provide_hot_store cfg rs) (\<lambda>store.
     rthen (provide_engine clients ps) (\<lambda>_. Inr (container_coordinator store)))))"

definition provide_registry ::
  "(pystr \<Rightarrow> bool) \<Rightarrow> adapters \<Rightarrow> IdempotencySettings \<Rightarrow> (command, command_result) registry result" where
  "provide_registry zone_ok a settings =
     container_registry zone_ok a (idem_lease_seconds settings) (idem_result_ttl_seconds settings)"

text \<open>\<open>build_command_bus\<close>: the same parts, assembled without the container over a given hot store.\<close>

definition build_command_bus ::
  "(pystr \<Rightarrow> bool) \<Rightarrow> adapters \<Rightarrow> (bytes \<Rightarrow> bytes) \<Rightarrow> (datetime \<Rightarrow> pystr) \<Rightarrow> 'h hot_port \<Rightarrow>
   IdempotencyPolicy \<Rightarrow> IdempotencyPolicy \<Rightarrow>
   (command \<Rightarrow> CommandContext option \<Rightarrow> ResultMode option \<Rightarrow>
    ('h coordination, exn, command_result option) proc) result" where
  "build_command_bus zone_ok a sha isoformat port mutation_policy provisioning_policy =
     rthen (build_command_registry zone_ok a (Some mutation_policy) (Some provisioning_policy)) (\<lambda>registry.
     Inr (bus_dispatch sha isoformat
       \<lparr>coord_hot_store = port, durable_execution = Some transactional\<rparr> registry))"

section \<open>The lifespan of the application\<close>

record application =
  app_ready :: bool
  api_version :: pystr
  settings_cache :: "Settings option"
  root_level :: int
  loggers :: "(pystr \<times> logger) list"
  container_open :: bool

definition create_app :: "(pystr \<times> logger) list \<Rightarrow> application" where
  "create_app existing = \<lparr>app_ready = False, api_version = ustr ''0.1.0'', settings_cache = None,
     root_level = 30, loggers = existing, container_open = True\<rparr>"

text \<open>A raise of the settings and of logging is an exception of the base language for the lifespan.\<close>

definition app_settings_of :: "settings_library \<Rightarrow> (application, token_error, Settings) proc" where
  "app_settings_of lib app =
     (case get_settings lib (settings_cache app) of
        (Inl e, c) \<Rightarrow> (Inl (OtherError e), app\<lparr>settings_cache := c\<rparr>)
      | (Inr s, c) \<Rightarrow> (Inr s, app\<lparr>settings_cache := c\<rparr>))"

definition setup_logging :: "AppSettings \<Rightarrow> (application, token_error, unit) proc" where
  "setup_logging settings app =
     (case log_level_number settings of
        Inl e \<Rightarrow> (Inl (OtherError e), app)
      | Inr level \<Rightarrow>
          (Inr (), app\<lparr>root_level := level, loggers := map (configure_logger settings level) (loggers app)\<rparr>))"

text \<open>Up to the \<open>yield\<close>; the verifier stays with the container.\<close>

definition lifespan_body ::
  "settings_library \<Rightarrow> 'k jwt_library \<Rightarrow> (application, token_error, 'k verifier option) proc" where
  "lifespan_body lib tokens =
     sthen (app_settings_of lib) (\<lambda>s.
     sthen (setup_logging (app_settings s)) (\<lambda>_.
     sthen (\<lambda>app. (Inr (), app\<lparr>api_version := app_version (app_settings s)\<rparr>)) (\<lambda>_.
     sthen (app_settings_of lib) (\<lambda>s.
     sthen (slift (provide_verifier tokens (jwt_settings s))) (\<lambda>v app.
     (Inr v, app\<lparr>app_ready := True\<rparr>))))))"

text \<open>The \<open>finally\<close>.\<close>

definition lifespan_shutdown :: "application \<Rightarrow> application" where
  "lifespan_shutdown app = app\<lparr>app_ready := False, container_open := False\<rparr>"

definition lifespan_startup ::
  "settings_library \<Rightarrow> 'k jwt_library \<Rightarrow> (application, token_error, 'k verifier option) proc" where
  "lifespan_startup lib tokens app =
     (case lifespan_body lib tokens app of
        (Inl e, app') \<Rightarrow> (Inl e, lifespan_shutdown app')
      | (Inr v, app') \<Rightarrow> (Inr v, app'))"

section \<open>Ready\<close>

lemma lifespan_body_Inr:
  assumes "lifespan_body lib tokens app = (Inr v, app')" "settings_cache app = None"
  shows "\<exists>s level. Settings_new lib = Inr s \<and> log_level_number (app_settings s) = Inr level
    \<and> provide_verifier tokens (jwt_settings s) = Inr v
    \<and> app' = app\<lparr>app_ready := True, api_version := app_version (app_settings s), settings_cache := Some s,
        root_level := level, loggers := map (configure_logger (app_settings s) level) (loggers app)\<rparr>"
  using assms
  by (cases app) (auto simp: lifespan_body_def sthen_eq_Inr setup_logging_def app_settings_of_def get_settings_def
      split: sum.splits)

text \<open>
  C38. The service calls itself ready only when it is configured. After the start of the lifespan, \<open>/health/ready\<close>
  answers 200 exactly if the start succeeded. Then the settings in use are usable, the level of
  the log is one that logging knows and every logger has it, the muted ones at least that of
  warnings, and there is a verifier exactly if keys are configured, built from them. If the start
  raises, the probe answers 503 and the container is closed; and so it is after the end.
\<close>

theorem ready_means_configured:
  assumes "lifespan_startup lib tokens (create_app existing) = (r, app)"
  shows "(http_status (ready (app_ready app)) = 200 \<longleftrightarrow> (\<exists>v. r = Inr v))
    \<and> (\<forall>v. r = Inr v \<longrightarrow> (\<exists>s level. settings_cache app = Some s \<and> usable_settings lib s
         \<and> (log_level (app_settings s), level) \<in> set level_names \<and> root_level app = level
         \<and> map fst (loggers app) = map fst existing
         \<and> (\<forall>name l. (name, l) \<in> set (loggers app) \<longrightarrow> logger_handlers l = [] \<and> propagate l \<and> level \<le> logger_level l
              \<and> (name \<in> set (mute_loggers (app_settings s)) \<longrightarrow> 30 \<le> logger_level l))
         \<and> (v = None \<longleftrightarrow> public_keys (jwt_settings s) = [])
         \<and> (\<forall>w. v = Some w \<longrightarrow> verifier_new tokens (jwt_settings s) = Inr w)))
    \<and> (\<forall>e. r = Inl e \<longrightarrow> http_status (ready (app_ready app)) = 503 \<and> \<not> container_open app)
    \<and> http_status (ready (app_ready (lifespan_shutdown app))) = 503"
proof (cases r)
  case (Inl e)
  with assms show ?thesis
    by (auto simp: lifespan_startup_def lifespan_shutdown_def ready_def split: prod.splits sum.splits)
next
  case (Inr v)
  with assms have body: "lifespan_body lib tokens (create_app existing) = (Inr v, app)"
    by (auto simp: lifespan_startup_def split: prod.splits sum.splits)
  from lifespan_body_Inr [OF body] obtain s level where s: "Settings_new lib = Inr s"
    "log_level_number (app_settings s) = Inr level" "provide_verifier tokens (jwt_settings s) = Inr v"
    "app = (create_app existing)\<lparr>app_ready := True, api_version := app_version (app_settings s), settings_cache := Some s,
        root_level := level, loggers := map (configure_logger (app_settings s) level) existing\<rparr>"
    by (auto simp: create_app_def)
  from settings_validated [of lib] s(1) have "usable_settings lib s" by simp
  moreover have "(log_level (app_settings s), level) \<in> set level_names"
    using s(2) by (auto simp: log_level_number_def split: option.splits dest: map_of_SomeD)
  moreover have "v = None \<longleftrightarrow> public_keys (jwt_settings s) = []" "\<forall>w. v = Some w \<longrightarrow> verifier_new tokens (jwt_settings s) = Inr w"
    using s(3) by (auto simp: provide_verifier_def split: if_splits)
  moreover have "map fst (loggers app) = map fst existing"
    using s(4) by (simp add: configure_logger_def comp_def)
  moreover have "\<forall>name l. (name, l) \<in> set (loggers app) \<longrightarrow> logger_handlers l = [] \<and> propagate l \<and> level \<le> logger_level l
      \<and> (name \<in> set (mute_loggers (app_settings s)) \<longrightarrow> 30 \<le> logger_level l)"
    using s(4) by (auto simp: configure_logger_def)
  ultimately show ?thesis using Inr s(4)
    by (auto simp: ready_def lifespan_shutdown_def)
qed

section \<open>Commands\<close>

lemma build_command_registry_run:
  "mode policy = HOT_DURABLE \<Longrightarrow> \<exists>reg. build_command_registry zone_ok a (Some policy) (Some policy) = Inr reg"
  using register_commands_run [of zone_ok a policy policy] by (auto simp: build_command_registry_def chosen_policy_def)

text \<open>
  C40. Which usable settings give a service that can execute commands. The registry of the
  commands can be built exactly if results are kept for 300 seconds or more, although every positive
  lifetime is accepted by the settings. The engine can be built exactly if SQLAlchemy takes the URL of
  the database, and it is given that URL. The coordinator of a request can be built exactly if,
  besides, the namespace of its keys is not empty and redis-py takes the URL of the hot store, of which
  the settings check neither. With a registry and a coordinator, the bus of the container is the bus that
  \<open>build_command_bus\<close> assembles by itself from the same hot store and policies.
\<close>

theorem container_builds_exactly:
  assumes "usable_settings lib s"
  shows "((\<exists>reg. provide_registry zone_ok a (idempotency_settings s) = Inr reg)
        \<longleftrightarrow> 300 \<le> idem_result_ttl_seconds (idempotency_settings s))
    \<and> (\<exists>url hot. postgres_url (postgres_settings s) = Inr url \<and> database_url_ok lib (postgres_settings s) url
        \<and> redis_url (redis_settings s) = Some hot
        \<and> ((\<exists>options. provide_engine clients (postgres_settings s) = Inr options \<and> engine_url options = url)
            \<longleftrightarrow> engine_error clients url = None)
        \<and> ((\<exists>c. provide_coordinator clients cfg (postgres_settings s) (redis_settings s) (idempotency_settings s) = Inr c)
            \<longleftrightarrow> redis_key_namespace (redis_settings s) \<noteq> [] \<and> redis_error clients hot = None
              \<and> engine_error clients url = None))
    \<and> (\<forall>reg c. provide_registry zone_ok a (idempotency_settings s) = Inr reg \<longrightarrow>
         provide_coordinator clients cfg (postgres_settings s) (redis_settings s) (idempotency_settings s) = Inr c \<longrightarrow>
         (\<exists>policy. build_command_bus zone_ok a sha isoformat (coord_hot_store c) policy policy
            = Inr (bus_dispatch sha isoformat c reg)))"
proof -
  let ?p = "postgres_settings s" and ?i = "idempotency_settings s" and ?r = "redis_settings s"
  from assms have pos: "0 < idem_lease_seconds ?i" "0 < idem_result_ttl_seconds ?i" "0 < cb_failures ?i"
      "0 < cb_recovery_seconds ?i"
    by (auto simp: usable_settings_def Let_def)
  from assms obtain url hot where url: "postgres_url ?p = Inr url" "database_url_ok lib ?p url" "redis_url ?r = Some hot"
    by (auto simp: usable_settings_def Let_def)
  from pos(1,2) have registry: "(\<exists>reg. provide_registry zone_ok a ?i = Inr reg) \<longleftrightarrow> 300 \<le> idem_result_ttl_seconds ?i"
    by (auto intro: build_command_registry_run simp: provide_registry_def container_registry_def policy_new_def)
  have engine: "(\<exists>options. provide_engine clients ?p = Inr options \<and> engine_url options = url)
      \<longleftrightarrow> engine_error clients url = None"
    using url(1) by (simp add: provide_engine_def client_of_def split: option.split)
  from pos(3,4) url have coordinator: "provide_coordinator clients cfg ?p ?r ?i = Inr c
      \<longleftrightarrow> redis_key_namespace ?r \<noteq> [] \<and> redis_error clients hot = None \<and> engine_error clients url = None
        \<and> c = container_coordinator (cfg\<lparr>key_namespace := redis_key_namespace ?r\<rparr>)" for c
    by (auto simp: provide_coordinator_def provide_redis_def provide_engine_def client_of_def
        provide_circuit_breaker_def breaker_new_def provide_hot_store_def hot_store_new_def split: option.splits)
  have "\<exists>policy. build_command_bus zone_ok a sha isoformat (coord_hot_store c) policy policy
      = Inr (bus_dispatch sha isoformat c reg)"
    if "provide_registry zone_ok a ?i = Inr reg" "provide_coordinator clients cfg ?p ?r ?i = Inr c" for reg c
  proof -
    from that(1) obtain policy where "build_command_registry zone_ok a (Some policy) (Some policy) = Inr reg"
      by (auto simp: provide_registry_def container_registry_def)
    moreover have "\<lparr>coord_hot_store = coord_hot_store c, durable_execution = Some transactional\<rparr> = c"
      using that(2) coordinator by (simp add: container_coordinator_def)
    ultimately show ?thesis by (intro exI [of _ policy]) (simp add: build_command_bus_def)
  qed
  note bus = this
  have "(\<exists>c. provide_coordinator clients cfg ?p ?r ?i = Inr c)
      \<longleftrightarrow> redis_key_namespace ?r \<noteq> [] \<and> redis_error clients hot = None \<and> engine_error clients url = None"
    using coordinator by simp
  then have "\<exists>url hot. postgres_url ?p = Inr url \<and> database_url_ok lib ?p url \<and> redis_url ?r = Some hot
      \<and> ((\<exists>options. provide_engine clients ?p = Inr options \<and> engine_url options = url)
          \<longleftrightarrow> engine_error clients url = None)
      \<and> ((\<exists>c. provide_coordinator clients cfg ?p ?r ?i = Inr c)
          \<longleftrightarrow> redis_key_namespace ?r \<noteq> [] \<and> redis_error clients hot = None \<and> engine_error clients url = None)"
    by (intro exI [of _ url] exI [of _ hot] conjI url engine)
  then show ?thesis by (intro conjI registry allI impI bus)
qed

end
