(* ===== verification/Startup_Witnesses.thy ===== *)
theory Startup_Witnesses
  imports Startup Service_Witnesses
begin

text \<open>The start of the service with the sample environment of \<open>Configuration\<close>.\<close>

definition sample_loggers :: "(pystr \<times> logger) list" where
  "sample_loggers = [(ustr ''uvicorn.access'', \<lparr>logger_handlers = [ustr ''stream''], propagate = False, logger_level = 0\<rparr>)]"

lemma sample_start:
  "\<exists>app. lifespan_startup (environ_library sample_environ) sample_jwt (create_app sample_loggers) = (Inr None, app)"
proof -
  from sample_settings obtain s where "Settings_new (environ_library sample_environ) = Inr s"
    "log_level (app_settings s) = ustr ''INFO''" "public_keys (jwt_settings s) = []" by blast
  then show ?thesis
    by (simp add: lifespan_startup_def lifespan_body_def app_settings_of_def get_settings_def create_app_def sthen_def
        setup_logging_def log_level_number_def level_names_def provide_verifier_def)
qed

text \<open>Clients that take every URL.\<close>

definition sample_clients :: client_library where
  "sample_clients = \<lparr>engine_error = (\<lambda>_. None), redis_error = (\<lambda>_. None)\<rparr>"

theorem ready_means_configured_witness:
  "\<exists>app s. lifespan_startup (environ_library sample_environ) sample_jwt (create_app sample_loggers) = (Inr None, app)
    \<and> http_status (ready (app_ready app)) = 200 \<and> settings_cache app = Some s
    \<and> usable_settings (environ_library sample_environ) s"
proof -
  from sample_start obtain app where
    run: "lifespan_startup (environ_library sample_environ) sample_jwt (create_app sample_loggers) = (Inr None, app)" ..
  from ready_means_configured [OF run] run show ?thesis by blast
qed

theorem container_builds_exactly_witness:
  "\<exists>s reg c. Settings_new (environ_library sample_environ) = Inr s
    \<and> provide_registry (\<lambda>_. True) sample_adapters (idempotency_settings s) = Inr reg
    \<and> provide_coordinator sample_clients memory_config (postgres_settings s) (redis_settings s) (idempotency_settings s)
        = Inr c"
proof -
  from sample_settings obtain s where s: "Settings_new (environ_library sample_environ) = Inr s"
    "idem_result_ttl_seconds (idempotency_settings s) = 86400" "redis_key_namespace (redis_settings s) \<noteq> []" by blast
  with settings_validated [of "environ_library sample_environ"]
  have "usable_settings (environ_library sample_environ) s" by simp
  from container_builds_exactly [OF this, where zone_ok = "\<lambda>_. True" and a = sample_adapters and cfg = memory_config
      and clients = sample_clients] s
  show ?thesis by (auto simp: sample_clients_def)
qed

end
