(* ===== verification/Migrations.thy ===== *)
theory Migrations
  imports Durable_Store
begin

text \<open>
  The schema of the database, twice: as the migration \<open>src/alembic/versions/0001_profile_storage.py\<close>
  creates it, and as SQLAlchemy derives it from the mapped classes (\<open>ProfileORM\<close>, \<open>SettingsORM\<close>,
  \<open>IdempotencyRecordORM\<close>), which the repositories are written against.
\<close>

section \<open>Schemas\<close>

datatype sql_type =
    Uuid
  | Varchar nat
  | TextType
  | LargeBinary nat
  | SmallInteger
  | IntegerType
  | BigInteger
  | BooleanType
  | Timestamp
  | JSONB

record column =
  column_name :: string
  column_type :: sql_type
  nullable :: bool
  server_default :: "string option"

datatype table_constraint =
    CheckConstraint string string
  | PrimaryKeyConstraint "string list" "string option"
  | UniqueConstraint "string list" string

text \<open>The name of a constraint in its table; \<open><table>_pkey\<close> is the name PostgreSQL gives.\<close>

fun constraint_label :: "string \<Rightarrow> table_constraint \<Rightarrow> string" where
  "constraint_label table (CheckConstraint expr name) = name"
| "constraint_label table (PrimaryKeyConstraint cols (Some name)) = name"
| "constraint_label table (PrimaryKeyConstraint cols None) = table @ ''_pkey''"
| "constraint_label table (UniqueConstraint cols name) = name"

fun is_check :: "table_constraint \<Rightarrow> bool" where
  "is_check (CheckConstraint expr name) = True"
| "is_check c = False"

record table_schema =
  table_name :: string
  columns :: "column list"
  constraints :: "table_constraint list"

record index_schema =
  index_name :: string
  index_table :: string
  index_columns :: "string list"
  index_unique :: bool

record schema =
  tables :: "table_schema list"
  indexes :: "index_schema list"

definition empty_schema :: schema where
  "empty_schema = \<lparr>tables = [], indexes = []\<rparr>"

section \<open>The operations of a migration\<close>

text \<open>
  Tables, indexes and the indexes behind primary keys and unique constraints share one space of
  names. PostgreSQL refuses a second relation of a name, and to change what is not there.
\<close>

definition backing_indexes :: "table_schema \<Rightarrow> string list" where
  "backing_indexes t = map (constraint_label (table_name t)) (filter (Not \<circ> is_check) (constraints t))"

definition relation_names :: "schema \<Rightarrow> string list" where
  "relation_names s = map table_name (tables s) @ map index_name (indexes s)
     @ concat (map backing_indexes (tables s))"

definition create_table :: "string \<Rightarrow> column list \<Rightarrow> table_constraint list \<Rightarrow> (schema, string, unit) proc" where
  "create_table name cols cons s =
     (let t = \<lparr>table_name = name, columns = cols, constraints = cons\<rparr> in
      if list_ex (\<lambda>n. n \<in> set (relation_names s)) (name # backing_indexes t)
        then (Inl ''DuplicateTable'', s)
      else (Inr (), s\<lparr>tables := tables s @ [t]\<rparr>))"

definition create_index :: "string \<Rightarrow> string \<Rightarrow> string list \<Rightarrow> bool \<Rightarrow> (schema, string, unit) proc" where
  "create_index name table cols uniq s =
     (if name \<in> set (relation_names s) then (Inl ''DuplicateTable'', s)
      else (case filter (\<lambda>t. table_name t = table) (tables s) of
          [] \<Rightarrow> (Inl ''UndefinedTable'', s)
        | t # _ \<Rightarrow>
            if set cols \<subseteq> column_name ` set (columns t)
              then (Inr (), s\<lparr>indexes := indexes s @ [\<lparr>index_name = name, index_table = table,
                index_columns = cols, index_unique = uniq\<rparr>]\<rparr>)
            else (Inl ''UndefinedColumn'', s)))"

text \<open>A table takes its indexes with it.\<close>

definition drop_table :: "string \<Rightarrow> (schema, string, unit) proc" where
  "drop_table name s =
     (if name \<notin> table_name ` set (tables s) then (Inl ''UndefinedTable'', s)
      else (Inr (), s\<lparr>tables := filter (\<lambda>t. table_name t \<noteq> name) (tables s),
        indexes := filter (\<lambda>i. index_table i \<noteq> name) (indexes s)\<rparr>))"

definition drop_index :: "string \<Rightarrow> (schema, string, unit) proc" where
  "drop_index name s =
     (if name \<notin> index_name ` set (indexes s) then (Inl ''UndefinedObject'', s)
      else (Inr (), s\<lparr>indexes := filter (\<lambda>i. index_name i \<noteq> name) (indexes s)\<rparr>))"

section \<open>The migration\<close>

abbreviation required :: "string \<Rightarrow> sql_type \<Rightarrow> column" where
  "required name ty \<equiv> \<lparr>column_name = name, column_type = ty, nullable = False, server_default = None\<rparr>"

abbreviation optional :: "string \<Rightarrow> sql_type \<Rightarrow> column" where
  "optional name ty \<equiv> \<lparr>column_name = name, column_type = ty, nullable = True, server_default = None\<rparr>"

abbreviation defaulted :: "string \<Rightarrow> sql_type \<Rightarrow> string \<Rightarrow> column" where
  "defaulted name ty dflt \<equiv> \<lparr>column_name = name, column_type = ty, nullable = False, server_default = Some dflt\<rparr>"

definition create_idempotency_records :: "(schema, string, unit) proc" where
  "create_idempotency_records = create_table ''idempotency_records''
     [required ''id'' Uuid, required ''subject_id'' (Varchar 255), required ''operation'' (Varchar 100),
      required ''key_digest'' (LargeBinary 32), required ''request_fingerprint'' (LargeBinary 32),
      defaulted ''fingerprint_version'' SmallInteger ''1'', required ''result_type'' (Varchar 100),
      optional ''result_payload'' JSONB, defaulted ''result_version'' IntegerType ''1'',
      optional ''resource_type'' (Varchar 100), optional ''resource_id'' (Varchar 255),
      optional ''resource_version'' IntegerType, defaulted ''created_at'' Timestamp ''now()'',
      defaulted ''completed_at'' Timestamp ''now()'', required ''expires_at'' Timestamp]
     [CheckConstraint ''(result_type = 'completion' AND result_payload IS NULL AND resource_type IS NULL AND resource_id IS NULL AND resource_version IS NULL) OR (result_type <> 'completion' AND (result_payload IS NOT NULL OR (resource_type IS NOT NULL AND resource_id IS NOT NULL)))''
        ''ck_idempotency_records_replayable_result'',
      CheckConstraint ''(resource_type IS NULL AND resource_id IS NULL) OR (resource_type IS NOT NULL AND resource_id IS NOT NULL)''
        ''ck_idempotency_records_resource_pair'',
      CheckConstraint ''completed_at >= created_at'' ''ck_idempotency_records_completion_time'',
      CheckConstraint ''expires_at > completed_at'' ''ck_idempotency_records_expiration'',
      CheckConstraint ''fingerprint_version > 0'' ''ck_idempotency_records_fingerprint_version'',
      CheckConstraint ''octet_length(key_digest) = 32'' ''ck_idempotency_records_key_digest_sha256'',
      CheckConstraint ''octet_length(request_fingerprint) = 32'' ''ck_idempotency_records_request_fingerprint_sha256'',
      CheckConstraint ''resource_version IS NULL OR (resource_type IS NOT NULL AND resource_id IS NOT NULL AND resource_version > 0)''
        ''ck_idempotency_records_resource_version'',
      CheckConstraint ''result_version > 0'' ''ck_idempotency_records_result_version'',
      PrimaryKeyConstraint [''id''] None,
      UniqueConstraint [''subject_id'', ''operation'', ''key_digest''] ''uq_idempotency_records_identity'']"

definition create_profiles :: "(schema, string, unit) proc" where
  "create_profiles = create_table ''profiles''
     [required ''user_id'' Uuid, optional ''username'' (Varchar 32), required ''display_name'' (Varchar 64),
      optional ''bio'' (Varchar 255), optional ''avatar_key'' TextType, required ''status'' (Varchar 8),
      required ''is_verified'' BooleanType, required ''version'' BigInteger, required ''created_at'' Timestamp,
      optional ''updated_at'' Timestamp]
     [CheckConstraint ''status IN ('ACTIVE', 'DISABLED', 'BLOCKED')'' ''ck_profiles_status'',
      CheckConstraint (''username IS NULL OR username ~ '^[a-z0-9_]{3,32}$'' @ [CHR 0x27]) ''ck_profiles_username'',
      CheckConstraint ''bio IS NULL OR (length(bio) <= 255 AND position(chr(10) in bio) = 0 AND position(chr(13) in bio) = 0)''
        ''ck_profiles_bio'',
      CheckConstraint ''length(btrim(display_name)) BETWEEN 1 AND 64'' ''ck_profiles_display_name'',
      CheckConstraint ''updated_at IS NULL OR updated_at > created_at'' ''ck_profiles_timestamps'',
      CheckConstraint ''version > 0'' ''ck_profiles_version'',
      PrimaryKeyConstraint [''user_id''] (Some ''profiles_pkey''),
      UniqueConstraint [''username''] ''profiles_username_key'']"

definition create_user_settings :: "(schema, string, unit) proc" where
  "create_user_settings = create_table ''user_settings''
     [required ''user_id'' Uuid, required ''theme'' (Varchar 6), required ''locale'' (Varchar 2),
      required ''timezone'' TextType, required ''privacy'' JSONB, required ''version'' BigInteger,
      required ''created_at'' Timestamp, optional ''updated_at'' Timestamp]
     [CheckConstraint ''locale IN ('ru', 'en')'' ''ck_settings_locale'',
      CheckConstraint ''theme IN ('light', 'dark', 'system')'' ''ck_settings_theme'',
      CheckConstraint ''jsonb_typeof(privacy) = 'object' AND privacy ?& ARRAY['who_can_see_avatar', 'who_can_find_by_username', 'who_can_see_bio'] AND privacy - ARRAY['who_can_see_avatar', 'who_can_find_by_username', 'who_can_see_bio'] = '{}'::jsonb AND privacy->>'who_can_see_avatar' IN ('ALL', 'NOBODY') AND privacy->>'who_can_find_by_username' IN ('ALL', 'NOBODY') AND privacy->>'who_can_see_bio' IN ('ALL', 'NOBODY') AND NOT privacy @> '{\"who_can_see_avatar\": null}'::jsonb AND NOT privacy @> '{\"who_can_find_by_username\": null}'::jsonb AND NOT privacy @> '{\"who_can_see_bio\": null}'::jsonb''
        ''ck_settings_privacy'',
      CheckConstraint ''updated_at IS NULL OR updated_at > created_at'' ''ck_user_settings_timestamps'',
      CheckConstraint ''version > 0'' ''ck_user_settings_version'',
      PrimaryKeyConstraint [''user_id''] (Some ''user_settings_pkey'')]"

definition upgrade :: "(schema, string, unit) proc" where
  "upgrade =
     sthen create_idempotency_records (\<lambda>_.
     sthen (create_index ''ix_idempotency_records_expires_at'' ''idempotency_records''
       [''expires_at'', ''id''] False) (\<lambda>_.
     sthen create_profiles (\<lambda>_.
     create_user_settings)))"

definition downgrade :: "(schema, string, unit) proc" where
  "downgrade =
     sthen (drop_table ''user_settings'') (\<lambda>_.
     sthen (drop_table ''profiles'') (\<lambda>_.
     sthen (drop_index ''ix_idempotency_records_expires_at'') (\<lambda>_.
     drop_table ''idempotency_records'')))"

text \<open>\<open>env.py\<close> runs a migration in a transaction, which PostgreSQL rolls back with its tables.\<close>

definition migrate :: "(schema, string, unit) proc \<Rightarrow> (schema, string, unit) proc" where
  "migrate run_migrations s =
     (case run_migrations s of (Inl e, _) \<Rightarrow> (Inl e, s) | (Inr x, s') \<Rightarrow> (Inr x, s'))"

section \<open>The mapped classes\<close>

text \<open>
  One \<open>mapped_column\<close>: whether its annotation has \<open>| None\<close>, its type (\<open>Uuid\<close> for \<open>Mapped[UUID]\<close>
  without one), and the arguments the classes use.
\<close>

record mapped_column =
  attribute :: string
  or_none :: bool
  mapped_type :: sql_type
  nullable_arg :: "bool option"
  primary_key :: bool
  server_default_arg :: "string option"
  unique :: bool
  index :: bool

definition mapped :: "string \<Rightarrow> bool \<Rightarrow> sql_type \<Rightarrow> mapped_column" where
  "mapped name opt ty =
     \<lparr>attribute = name, or_none = opt, mapped_type = ty, nullable_arg = None, primary_key = False,
      server_default_arg = None, unique = False, index = False\<rparr>"

record mapped_class =
  tablename :: string
  table_args :: "table_constraint list"
  table_indexes :: "index_schema list"
  mapped_columns :: "mapped_column list"

definition ProfileORM :: mapped_class where
  "ProfileORM =
     \<lparr>tablename = ''profiles'',
      table_args =
        [CheckConstraint ''version > 0'' ''ck_profiles_version'',
         CheckConstraint ''updated_at IS NULL OR updated_at > created_at'' ''ck_profiles_timestamps'',
         CheckConstraint ''length(btrim(display_name)) BETWEEN 1 AND 64'' ''ck_profiles_display_name'',
         CheckConstraint (''bio IS NULL OR (length(bio) <= 255 AND position(chr(10) in bio) = 0 ''
           @ ''AND position(chr(13) in bio) = 0)'') ''ck_profiles_bio'',
         CheckConstraint (''username IS NULL OR username ~ '^[a-z0-9_]{3,32}$'' @ [CHR 0x27]) ''ck_profiles_username'',
         CheckConstraint ''status IN ('ACTIVE', 'DISABLED', 'BLOCKED')'' ''ck_profiles_status''],
      table_indexes = [],
      mapped_columns =
        [(mapped ''user_id'' False Uuid)\<lparr>primary_key := True\<rparr>,
         (mapped ''username'' True (Varchar 32))\<lparr>unique := True, index := True\<rparr>,
         mapped ''display_name'' False (Varchar 64), mapped ''bio'' True (Varchar 255),
         mapped ''avatar_key'' True TextType, mapped ''status'' False (Varchar 8),
         mapped ''is_verified'' False BooleanType, mapped ''version'' False BigInteger,
         mapped ''created_at'' False Timestamp, mapped ''updated_at'' True Timestamp]\<rparr>"

definition SettingsORM :: mapped_class where
  "SettingsORM =
     \<lparr>tablename = ''user_settings'',
      table_args =
        [CheckConstraint ''version > 0'' ''ck_user_settings_version'',
         CheckConstraint ''updated_at IS NULL OR updated_at > created_at'' ''ck_user_settings_timestamps'',
         CheckConstraint ''theme IN ('light', 'dark', 'system')'' ''ck_settings_theme'',
         CheckConstraint ''locale IN ('ru', 'en')'' ''ck_settings_locale'',
         CheckConstraint (''jsonb_typeof(privacy) = 'object' ''
           @ ''AND privacy ?& ARRAY['who_can_see_avatar', 'who_can_find_by_username', 'who_can_see_bio'] ''
           @ ''AND privacy - ARRAY['who_can_see_avatar', 'who_can_find_by_username', 'who_can_see_bio'] = '{}'::jsonb ''
           @ ''AND privacy->>'who_can_see_avatar' IN ('ALL', 'NOBODY') ''
           @ ''AND privacy->>'who_can_find_by_username' IN ('ALL', 'NOBODY') ''
           @ ''AND privacy->>'who_can_see_bio' IN ('ALL', 'NOBODY') ''
           @ ''AND NOT privacy @> '{\"who_can_see_avatar\": null}'::jsonb ''
           @ ''AND NOT privacy @> '{\"who_can_find_by_username\": null}'::jsonb ''
           @ ''AND NOT privacy @> '{\"who_can_see_bio\": null}'::jsonb'')
           ''ck_settings_privacy''],
      table_indexes = [],
      mapped_columns =
        [(mapped ''user_id'' False Uuid)\<lparr>primary_key := True\<rparr>,
         mapped ''theme'' False (Varchar 6), mapped ''locale'' False (Varchar 2),
         mapped ''timezone'' False TextType, mapped ''privacy'' False JSONB,
         mapped ''version'' False BigInteger, mapped ''created_at'' False Timestamp,
         mapped ''updated_at'' True Timestamp]\<rparr>"

definition IdempotencyRecordORM :: mapped_class where
  "IdempotencyRecordORM =
     \<lparr>tablename = ''idempotency_records'',
      table_args =
        [UniqueConstraint [''subject_id'', ''operation'', ''key_digest''] ''uq_idempotency_records_identity'',
         CheckConstraint ''octet_length(key_digest) = 32'' ''ck_idempotency_records_key_digest_sha256'',
         CheckConstraint ''octet_length(request_fingerprint) = 32'' ''ck_idempotency_records_request_fingerprint_sha256'',
         CheckConstraint ''fingerprint_version > 0'' ''ck_idempotency_records_fingerprint_version'',
         CheckConstraint ''result_version > 0'' ''ck_idempotency_records_result_version'',
         CheckConstraint ''(resource_type IS NULL AND resource_id IS NULL) OR (resource_type IS NOT NULL AND resource_id IS NOT NULL)''
           ''ck_idempotency_records_resource_pair'',
         CheckConstraint ''resource_version IS NULL OR (resource_type IS NOT NULL AND resource_id IS NOT NULL AND resource_version > 0)''
           ''ck_idempotency_records_resource_version'',
         CheckConstraint (''(result_type = 'completion' AND result_payload IS NULL ''
           @ ''AND resource_type IS NULL AND resource_id IS NULL ''
           @ ''AND resource_version IS NULL) OR ''
           @ ''(result_type <> 'completion' AND (result_payload IS NOT NULL ''
           @ ''OR (resource_type IS NOT NULL AND resource_id IS NOT NULL)))'')
           ''ck_idempotency_records_replayable_result'',
         CheckConstraint ''completed_at >= created_at'' ''ck_idempotency_records_completion_time'',
         CheckConstraint ''expires_at > completed_at'' ''ck_idempotency_records_expiration''],
      table_indexes =
        [\<lparr>index_name = ''ix_idempotency_records_expires_at'', index_table = ''idempotency_records'',
          index_columns = [''expires_at'', ''id''], index_unique = False\<rparr>],
      mapped_columns =
        [(mapped ''id'' False Uuid)\<lparr>primary_key := True\<rparr>,
         (mapped ''subject_id'' False (Varchar 255))\<lparr>nullable_arg := Some False\<rparr>,
         (mapped ''operation'' False (Varchar 100))\<lparr>nullable_arg := Some False\<rparr>,
         (mapped ''key_digest'' False (LargeBinary 32))\<lparr>nullable_arg := Some False\<rparr>,
         (mapped ''request_fingerprint'' False (LargeBinary 32))\<lparr>nullable_arg := Some False\<rparr>,
         (mapped ''fingerprint_version'' False SmallInteger)
           \<lparr>nullable_arg := Some False, server_default_arg := Some ''1''\<rparr>,
         (mapped ''result_type'' False (Varchar 100))\<lparr>nullable_arg := Some False\<rparr>,
         mapped ''result_payload'' True JSONB,
         (mapped ''result_version'' False IntegerType)
           \<lparr>nullable_arg := Some False, server_default_arg := Some ''1''\<rparr>,
         mapped ''resource_type'' True (Varchar 100),
         mapped ''resource_id'' True (Varchar 255),
         mapped ''resource_version'' True IntegerType,
         (mapped ''created_at'' False Timestamp)
           \<lparr>nullable_arg := Some False, server_default_arg := Some ''now()''\<rparr>,
         (mapped ''completed_at'' False Timestamp)
           \<lparr>nullable_arg := Some False, server_default_arg := Some ''now()''\<rparr>,
         (mapped ''expires_at'' False Timestamp)\<lparr>nullable_arg := Some False\<rparr>]\<rparr>"

text \<open>
  What SQLAlchemy makes of a mapped class: a column may be NULL when it says so, or else when its
  annotation does, and never in the primary key; a column with \<open>index=True\<close> gets an index
  \<open>ix_<table>_<column>\<close>, which is the one that enforces \<open>unique=True\<close>.
\<close>

definition column_of :: "mapped_column \<Rightarrow> column" where
  "column_of m =
     \<lparr>column_name = attribute m, column_type = mapped_type m,
      nullable = (if primary_key m then False
        else case nullable_arg m of Some b \<Rightarrow> b | None \<Rightarrow> or_none m),
      server_default = server_default_arg m\<rparr>"

definition metadata_table :: "mapped_class \<Rightarrow> table_schema" where
  "metadata_table c =
     \<lparr>table_name = tablename c, columns = map column_of (mapped_columns c),
      constraints = PrimaryKeyConstraint (map attribute (filter primary_key (mapped_columns c))) None
        # table_args c
        @ map (\<lambda>m. UniqueConstraint [attribute m] (tablename c @ ''_'' @ attribute m @ ''_key''))
            (filter (\<lambda>m. unique m \<and> \<not> index m) (mapped_columns c))\<rparr>"

definition metadata_indexes :: "mapped_class \<Rightarrow> index_schema list" where
  "metadata_indexes c = table_indexes c
     @ map (\<lambda>m. \<lparr>index_name = ''ix_'' @ tablename c @ ''_'' @ attribute m, index_table = tablename c,
         index_columns = [attribute m], index_unique = unique m\<rparr>)
         (filter index (mapped_columns c))"

definition metadata_schema :: schema where
  "metadata_schema =
     (let classes = [ProfileORM, SettingsORM, IdempotencyRecordORM] in
      \<lparr>tables = map metadata_table classes, indexes = concat (map metadata_indexes classes)\<rparr>)"

section \<open>Comparing schemas\<close>

text \<open>A table with its indexes.\<close>

definition table_view :: "schema \<Rightarrow> string \<Rightarrow> table_schema option \<times> index_schema list" where
  "table_view s name = (find (\<lambda>t. table_name t = name) (tables s), filter (\<lambda>i. index_table i = name) (indexes s))"

text \<open>The columns kept unique, each with the name under which a violation is reported.\<close>

fun key_of :: "string \<Rightarrow> table_constraint \<Rightarrow> (string \<times> string list) list" where
  "key_of table (CheckConstraint expr name) = []"
| "key_of table (PrimaryKeyConstraint cols name) = [(constraint_label table (PrimaryKeyConstraint cols name), cols)]"
| "key_of table (UniqueConstraint cols name) = [(name, cols)]"

fun unique_keys :: "table_schema option \<times> index_schema list \<Rightarrow> (string \<times> string list) list" where
  "unique_keys (None, ixs) = []"
| "unique_keys (Some t, ixs) = concat (map (key_of (table_name t)) (constraints t))
     @ map (\<lambda>i. (index_name i, index_columns i)) (filter index_unique ixs)"

fun checks :: "table_schema option \<times> index_schema list \<Rightarrow> table_constraint list" where
  "checks (None, ixs) = []"
| "checks (Some t, ixs) = filter is_check (constraints t)"

definition violation_names :: "schema \<Rightarrow> string \<Rightarrow> string list" where
  "violation_names s name =
     map (constraint_label name) (checks (table_view s name)) @ map fst (unique_keys (table_view s name))"

text \<open>The same columns, checks and unique keys, whatever the order and the names of the keys.\<close>

definition same_table :: "schema \<Rightarrow> schema \<Rightarrow> string \<Rightarrow> bool" where
  "same_table s s' name \<longleftrightarrow>
     (case (table_view s name, table_view s' name) of
        ((Some t, ixs), (Some t', ixs')) \<Rightarrow>
          columns t = columns t'
          \<and> set (checks (Some t, ixs)) = set (checks (Some t', ixs'))
          \<and> snd ` set (unique_keys (Some t, ixs)) = snd ` set (unique_keys (Some t', ixs'))
          \<and> set (filter (Not \<circ> index_unique) ixs) = set (filter (Not \<circ> index_unique) ixs')
      | _ \<Rightarrow> False)"

text \<open>An error of the database is none of a constraint, or one of a constraint the table has.\<close>

definition reported :: "schema \<Rightarrow> string \<Rightarrow> sql_error \<Rightarrow> bool" where
  "reported s table q \<longleftrightarrow>
     (case constraint_name q of
        None \<Rightarrow> sql_class q \<noteq> IntegrityError
      | Some n \<Rightarrow> n \<in> set (violation_names s table))"

text \<open>Every index belongs to a table.\<close>

definition well_linked :: "schema \<Rightarrow> bool" where
  "well_linked s \<longleftrightarrow> list_all (\<lambda>i. index_table i \<in> table_name ` set (tables s)) (indexes s)"

section \<open>What the migration does\<close>

definition created :: "(schema, string, unit) proc \<Rightarrow> table_schema" where
  "created p = last (tables (snd (p empty_schema)))"

lemma create_table_Inr:
  "create_table name cols cons s = (Inr x, s') \<longleftrightarrow>
     (let t = \<lparr>table_name = name, columns = cols, constraints = cons\<rparr> in
      list_all (\<lambda>n. n \<notin> set (relation_names s)) (name # backing_indexes t)
      \<and> s' = s\<lparr>tables := tables s @ [t]\<rparr>)"
  by (auto simp: create_table_def Let_def list_ex_iff list_all_iff)

lemma create_table_adds:
  assumes "create_table name cols cons s = (Inr x, s')"
  shows "s' = s\<lparr>tables := tables s @ [\<lparr>table_name = name, columns = cols, constraints = cons\<rparr>]\<rparr>"
    and "name \<notin> table_name ` set (tables s)" and "name \<notin> index_name ` set (indexes s)"
  using assms by (auto simp: create_table_Inr Let_def relation_names_def)

lemma created_create_table:
  "created (create_table name cols cons) = \<lparr>table_name = name, columns = cols, constraints = cons\<rparr>"
  by (simp add: created_def create_table_def empty_schema_def relation_names_def Let_def list_ex_iff)

lemmas creations = create_idempotency_records_def create_profiles_def create_user_settings_def

lemma created_names:
  "table_name (created create_idempotency_records) = ''idempotency_records''"
  "table_name (created create_profiles) = ''profiles''"
  "table_name (created create_user_settings) = ''user_settings''"
  by (simp_all add: creations created_create_table)

lemma creations_add:
  "create_idempotency_records s = (Inr x, s') \<Longrightarrow> s' = s\<lparr>tables := tables s @ [created create_idempotency_records]\<rparr>
     \<and> ''idempotency_records'' \<notin> table_name ` set (tables s)"
  "create_profiles s = (Inr x, s') \<Longrightarrow> s' = s\<lparr>tables := tables s @ [created create_profiles]\<rparr>
     \<and> ''profiles'' \<notin> table_name ` set (tables s)"
  "create_user_settings s = (Inr x, s') \<Longrightarrow> s' = s\<lparr>tables := tables s @ [created create_user_settings]\<rparr>
     \<and> ''user_settings'' \<notin> table_name ` set (tables s)"
  unfolding creations created_create_table by (auto dest: create_table_adds)

lemma create_index_adds:
  assumes "create_index name table cols uniq s = (Inr x, s')"
  shows "s' = s\<lparr>indexes := indexes s @ [\<lparr>index_name = name, index_table = table, index_columns = cols, index_unique = uniq\<rparr>]\<rparr>"
    and "name \<notin> index_name ` set (indexes s)"
  using assms by (auto simp: create_index_def relation_names_def split: if_splits list.splits)

abbreviation added_tables :: "table_schema list" where
  "added_tables \<equiv> [created create_idempotency_records, created create_profiles, created create_user_settings]"

abbreviation added_index :: index_schema where
  "added_index \<equiv> \<lparr>index_name = ''ix_idempotency_records_expires_at'', index_table = ''idempotency_records'',
     index_columns = [''expires_at'', ''id''], index_unique = False\<rparr>"

lemma upgrade_adds:
  assumes "migrate upgrade s = (Inr x, s')"
  shows "s' = \<lparr>tables = tables s @ added_tables, indexes = indexes s @ [added_index]\<rparr>"
    and "table_name ` set (tables s) \<inter> table_name ` set added_tables = {}"
    and "index_name added_index \<notin> index_name ` set (indexes s)"
proof -
  have up: "upgrade s = (Inr x, s')"
    using assms by (auto simp: migrate_def split: prod.splits sum.splits)
  from up obtain s1 s2 s3 x1 x2 x3 where
    runs: "create_idempotency_records s = (Inr x1, s1)"
      "create_index ''ix_idempotency_records_expires_at'' ''idempotency_records'' [''expires_at'', ''id''] False s1 = (Inr x2, s2)"
      "create_profiles s2 = (Inr x3, s3)" "create_user_settings s3 = (Inr x, s')"
    by (auto simp: upgrade_def sthen_eq_Inr)
  note adds = creations_add(1) [OF runs(1)] create_index_adds [OF runs(2)] creations_add(2) [OF runs(3)]
    creations_add(3) [OF runs(4)]
  from adds show "s' = \<lparr>tables = tables s @ added_tables, indexes = indexes s @ [added_index]\<rparr>"
    by (cases s) simp
  from adds show "table_name ` set (tables s) \<inter> table_name ` set added_tables = {}"
    "index_name added_index \<notin> index_name ` set (indexes s)"
    by (simp_all add: created_names)
qed

lemma filter_away: "x \<notin> f ` set xs \<Longrightarrow> filter (\<lambda>y. f y \<noteq> x) xs = xs" "x \<notin> f ` set xs \<Longrightarrow> filter (\<lambda>y. f y = x) xs = []"
  by (auto simp: filter_id_conv filter_empty_conv)

lemma no_foreign_index:
  "well_linked s \<Longrightarrow> t \<notin> table_name ` set (tables s) \<Longrightarrow> t \<notin> index_table ` set (indexes s)"
  unfolding well_linked_def list_all_iff by blast

lemma downgrade_removes:
  assumes "well_linked s" "table_name ` set (tables s) \<inter> table_name ` set added_tables = {}"
    and "index_name added_index \<notin> index_name ` set (indexes s)"
  shows "migrate downgrade \<lparr>tables = tables s @ added_tables, indexes = indexes s @ [added_index]\<rparr> = (Inr (), s)"
  using assms(2,3) no_foreign_index [OF assms(1), of "''profiles''"]
    no_foreign_index [OF assms(1), of "''user_settings''"]
    no_foreign_index [OF assms(1), of "''idempotency_records''"]
  by (simp add: migrate_def downgrade_def sthen_def drop_table_def drop_index_def created_names filter_away)

lemma find_none: "x \<notin> f ` set xs \<Longrightarrow> find (\<lambda>y. f y = x) xs = None"
  by (auto simp: find_None_iff)

lemma find_append: "find P (xs @ ys) = (case find P xs of None \<Rightarrow> find P ys | Some x \<Rightarrow> Some x)"
  by (induction xs) auto

text \<open>The new tables look the same whatever else the database holds.\<close>

lemma table_view_added:
  assumes "well_linked s" "name \<notin> table_name ` set (tables s)"
  shows "table_view \<lparr>tables = tables s @ ts, indexes = indexes s @ ixs\<rparr> name
    = table_view \<lparr>tables = ts, indexes = ixs\<rparr> name"
  using assms no_foreign_index [OF assms]
  by (simp add: table_view_def find_append find_none filter_away)

section \<open>The migrated tables and the mapped ones\<close>

lemmas comparison_simps = same_table_def table_view_def metadata_schema_def metadata_table_def
  metadata_indexes_def column_of_def mapped_def created_create_table Let_def

abbreviation fresh :: schema where
  "fresh \<equiv> \<lparr>tables = added_tables, indexes = [added_index]\<rparr>"

lemma fresh_profiles:
  "same_table fresh metadata_schema ''profiles''"
  by (simp add: comparison_simps ProfileORM_def SettingsORM_def IdempotencyRecordORM_def creations insert_commute del: set_filter)

lemma fresh_user_settings:
  "same_table fresh metadata_schema ''user_settings''"
  by (simp add: comparison_simps ProfileORM_def SettingsORM_def IdempotencyRecordORM_def creations insert_commute del: set_filter)

lemma fresh_idempotency_records:
  "same_table fresh metadata_schema ''idempotency_records''"
  by (simp add: comparison_simps ProfileORM_def SettingsORM_def IdempotencyRecordORM_def creations insert_commute del: set_filter)

lemma first_error_named:
  "first_error (map (\<lambda>(name, holds). if holds then None else Some (integrity_error name)) cs) = Some q
    \<Longrightarrow> \<exists>n \<in> fst ` set cs. q = integrity_error n"
  by (induction cs) (auto split: if_splits)

lemma check_all_reported:
  assumes "check_all cols cs = Some q" "fst ` set cs \<subseteq> set (violation_names s table)"
  shows "reported s table q"
proof (cases cols)
  case True
  with assms(1) obtain n where "n \<in> fst ` set cs" "q = integrity_error n"
    by (auto simp: check_all_def dest!: first_error_named)
  with assms(2) show ?thesis by (auto simp: reported_def integrity_error_def)
next
  case False
  with assms(1) have "q = data_error" by (simp add: check_all_def)
  then show ?thesis by (simp add: reported_def data_error_def)
qed

lemma violation_names_added:
  assumes "well_linked s" "name \<notin> table_name ` set (tables s)"
  shows "violation_names \<lparr>tables = tables s @ added_tables, indexes = indexes s @ [added_index]\<rparr> name
    = violation_names fresh name"
  by (simp add: violation_names_def table_view_added [OF assms])

lemma profile_names:
  "set (violation_names fresh ''profiles'') = {''ck_profiles_bio'', ''ck_profiles_display_name'',
     ''ck_profiles_status'', ''ck_profiles_timestamps'', ''ck_profiles_username'', ''ck_profiles_version'',
     ''profiles_pkey'', ''profiles_username_key''}"
  by (simp add: violation_names_def comparison_simps creations insert_commute del: set_filter)

lemma settings_names:
  "set (violation_names fresh ''user_settings'') = {''ck_settings_locale'', ''ck_settings_privacy'',
     ''ck_settings_theme'', ''ck_user_settings_timestamps'', ''ck_user_settings_version'', ''user_settings_pkey''}"
  by (simp add: violation_names_def comparison_simps creations insert_commute del: set_filter)

lemma record_names:
  "set (violation_names fresh ''idempotency_records'') = {''ck_idempotency_records_completion_time'',
     ''ck_idempotency_records_expiration'', ''ck_idempotency_records_fingerprint_version'',
     ''ck_idempotency_records_key_digest_sha256'', ''ck_idempotency_records_replayable_result'',
     ''ck_idempotency_records_request_fingerprint_sha256'', ''ck_idempotency_records_resource_pair'',
     ''ck_idempotency_records_resource_version'', ''ck_idempotency_records_result_version'',
     ''idempotency_records_pkey'', ''uq_idempotency_records_identity''}"
  by (simp add: violation_names_def comparison_simps creations insert_commute del: set_filter)

lemma metadata_names:
  "''ix_profiles_username'' \<in> set (violation_names metadata_schema ''profiles'')"
  "''profiles_username_key'' \<notin> set (violation_names metadata_schema ''profiles'')"
  by (simp_all add: violation_names_def comparison_simps ProfileORM_def SettingsORM_def
    IdempotencyRecordORM_def del: set_filter)

text \<open>Every error of the tables' model names a constraint that the migration creates.\<close>

lemma profile_errors_reported:
  assumes "set (violation_names s ''profiles'') = set (violation_names fresh ''profiles'')"
  shows "profile_check r = Some q \<Longrightarrow> reported s ''profiles'' q"
    and "profile_unique rows r = Some q \<Longrightarrow> reported s ''profiles'' q"
    and "reported s ''profiles'' (integrity_error (t_pkey profile_table))"
proof -
  show "reported s ''profiles'' q" if "profile_check r = Some q"
    using that unfolding profile_check_def
    by (rule check_all_reported) (simp add: assms profile_names)
  show "profile_unique rows r = Some q \<Longrightarrow> reported s ''profiles'' q"
    by (auto simp: assms profile_names profile_unique_def reported_def integrity_error_def split: if_splits)
  show "reported s ''profiles'' (integrity_error (t_pkey profile_table))"
    by (simp add: assms profile_names profile_table_def reported_def integrity_error_def)
qed

lemma settings_errors_reported:
  assumes "set (violation_names s ''user_settings'') = set (violation_names fresh ''user_settings'')"
  shows "settings_check r = Some q \<Longrightarrow> reported s ''user_settings'' q"
    and "reported s ''user_settings'' (integrity_error (t_pkey (settings_table zone_ok)))"
proof -
  show "reported s ''user_settings'' q" if "settings_check r = Some q"
    using that unfolding settings_check_def
    by (rule check_all_reported) (simp add: assms settings_names)
  show "reported s ''user_settings'' (integrity_error (t_pkey (settings_table zone_ok)))"
    by (simp add: assms settings_names settings_table_def reported_def integrity_error_def)
qed

lemma record_errors_reported:
  assumes "set (violation_names s ''idempotency_records'') = set (violation_names fresh ''idempotency_records'')"
    and "record_check r = Some q"
  shows "reported s ''idempotency_records'' q"
  using assms(2) unfolding record_check_def
  by (rule check_all_reported) (simp add: assms(1) record_names)

lemma same_table_added:
  assumes "well_linked s" "name \<notin> table_name ` set (tables s)"
  shows "same_table \<lparr>tables = tables s @ added_tables, indexes = indexes s @ [added_index]\<rparr> s' name
    = same_table fresh s' name"
  by (simp add: same_table_def table_view_added [OF assms])

section \<open>Properties\<close>

text \<open>
  C28. The migration creates what the code is written against. On any database whose indexes belong to
  tables, an upgrade that succeeds is undone by the downgrade; the three tables it creates have
  the columns, the checks, the unique keys and the other indexes of the mapped classes; and every
  error by which the tables' model refuses a row names a constraint that the migration creates.
  The name that tells a taken username, \<open>profiles_username_key\<close>, is one of them, but no
  constraint of the schema that the mapped classes declare.
\<close>

theorem migration_creates_the_mapped_tables:
  assumes "well_linked s" and "migrate upgrade s = (Inr x, s')"
  shows "migrate downgrade s' = (Inr (), s)
    \<and> list_all (same_table s' metadata_schema) [''profiles'', ''user_settings'', ''idempotency_records'']
    \<and> (\<forall>r rows q. profile_check r = Some q \<or> profile_unique rows r = Some q
         \<or> q = integrity_error (t_pkey profile_table) \<longrightarrow> reported s' ''profiles'' q)
    \<and> (\<forall>r zone_ok q. settings_check r = Some q
         \<or> q = integrity_error (t_pkey (settings_table zone_ok)) \<longrightarrow> reported s' ''user_settings'' q)
    \<and> (\<forall>r q. record_check r = Some q \<longrightarrow> reported s' ''idempotency_records'' q)
    \<and> ''profiles_username_key'' \<notin> set (violation_names metadata_schema ''profiles'')"
proof -
  note up = upgrade_adds [OF assms(2)]
  have new: "n \<notin> table_name ` set (tables s)"
    if "n \<in> {''profiles'', ''user_settings'', ''idempotency_records''}" for n
    using that up(2) by (elim insertE emptyE) (simp_all add: created_names)
  have names: "set (violation_names s' n) = set (violation_names fresh n)"
    if "n \<in> {''profiles'', ''user_settings'', ''idempotency_records''}" for n
    by (simp add: up(1) violation_names_added [OF assms(1) new [OF that]])
  have "migrate downgrade s' = (Inr (), s)"
    unfolding up(1) using assms(1) up(2,3) by (rule downgrade_removes)
  moreover have "list_all (same_table s' metadata_schema) [''profiles'', ''user_settings'', ''idempotency_records'']"
    by (simp add: up(1) same_table_added [OF assms(1) new] fresh_profiles fresh_user_settings fresh_idempotency_records)
  ultimately show ?thesis
    using profile_errors_reported [OF names] settings_errors_reported [OF names]
      record_errors_reported [OF names] metadata_names(2)
    by simp
qed

text \<open>A database with Alembic's table of versions only.\<close>

definition versioned_database :: schema where
  "versioned_database =
     \<lparr>tables = [\<lparr>table_name = ''alembic_version'', columns = [required ''version_num'' (Varchar 32)],
        constraints = [PrimaryKeyConstraint [''version_num''] (Some ''alembic_version_pkc'')]\<rparr>],
      indexes = []\<rparr>"

theorem migration_creates_the_mapped_tables_witness:
  "\<exists>s'. migrate upgrade versioned_database = (Inr (), s') \<and> migrate downgrade s' = (Inr (), versioned_database)
     \<and> reported s' ''profiles'' (integrity_error ''profiles_pkey'')"
proof -
  have "fst (migrate upgrade versioned_database) = Inr ()"
    by code_simp
  then obtain s' where up: "migrate upgrade versioned_database = (Inr (), s')"
    by (cases "migrate upgrade versioned_database") simp
  have "well_linked versioned_database" by (simp add: well_linked_def versioned_database_def)
  from migration_creates_the_mapped_tables [OF this up] up show ?thesis
    by (auto simp: profile_table_def)
qed

end
