(* ===== verification/Spec2Isabelle.thy ===== *)
theory Spec2Isabelle
  imports Query_Properties Http_Witnesses Failure_Witnesses Request_Log Protector Retry_Witnesses Command_Fingerprints
    Startup_Witnesses Migrations Metrics
begin

text \<open>
  A verification library for the user profile service (\<open>src/src/app\<close>), a Python service that
  keeps user profiles and settings in PostgreSQL and protects its commands from being executed
  twice, with Redis as a fast memory of recent requests.

  \<^bold>\<open>The program.\<close> An HTTP route (\<open>entrypoints/http\<close>) turns a request into a query or a command.
  Queries (\<open>application/queries\<close>) read through readers and mask what the privacy settings hide.
  A command goes to the bus (\<open>application/dispatching\<close>), which opens a scope with a session of
  its own and runs the command's handler (\<open>application/commands\<close>) through the idempotency
  middleware. The coordinator (\<open>application/idempotency/coordinator.py\<close>) claims a lease for the
  request's key in the hot store (\<open>infrastructure/idempotency/redis\<close>, behind a circuit breaker),
  then lets the transactional execution run the handler and write a replay record in one
  transaction (\<open>infrastructure/idempotency/postgres\<close>), and publishes the result. Handlers load an
  aggregate (\<open>domain/aggregates\<close>) through a repository, change it and save it under an
  optimistic lock.

  \<^bold>\<open>Conventions.\<close> A class is a record, an enumeration a datatype, an exception a value of
  \<open>exn\<close> (\<open>Errors\<close>); a base class of exceptions is a constructor, so that an \<open>except\<close> clause is a
  pattern. Pure code returns \<open>exn + 'a\<close>; code with effects is a \<open>proc\<close>, a function from a state
  to a result and a state (\<open>UPS_Prelude\<close>), so that what was done before a raise stays done.
  Python's \<open>str\<close> is its list of code points, \<open>int\<close> is \<open>int\<close>, a \<open>UUID\<close> is a 128 bit word, bytes are
  lists of 8 bit words, a \<open>datetime\<close> is its instant in microseconds. Everything a run evaluates is
  executable, and the witnesses evaluate it. There is no fuel anywhere: every function of the
  model is total; the only loop of the program, the heartbeat, is driven by the number of times
  it wakes up, which the state of the environment gives.

  \<^bold>\<open>The theories\<close>, bottom up.

  \<^item> \<open>UPS_Prelude\<close>, \<open>Errors\<close>: base types, the combinators and the exceptions.
  \<^item> \<open>Value_Objects\<close>, \<open>Aggregates\<close>, \<open>Privacy_DTO\<close>: \<open>domain/\<close> and \<open>application/dto\<close>. Validators with
    the invariant they establish, \<open>UserProfile\<close> and \<open>UserSettings\<close> with every operation over the
    locale \<open>versioned_aggregate\<close>, the privacy policy, and the public read model (C1).
  \<^item> \<open>Idem_Models\<close>, \<open>Encodings\<close>, \<open>Decimals\<close>, \<open>Base64\<close>: \<open>application/idempotency/models.py\<close> and
    \<open>policy.py\<close>, and the encodings of Python's library with their round trips.
  \<^item> \<open>Session\<close>: a session of the database and the unit of work (\<open>unit_of_work.py\<close>). What other
    sessions commit, and which round trips fail or lose their answer, is a script of events, so
    a theorem about a run is about every interleaving and every failure (C2).
  \<^item> \<open>Database\<close>, \<open>Ports\<close>, \<open>Tables\<close>, \<open>Schema\<close>: SQL on lists of rows, the generic repository and
    reader, their contracts as the locales \<open>reader_port\<close> and \<open>repository_port\<close> (provided by
    \<open>table_adapter\<close> and interpreted on both tables), the columns and constraints of the ORM
    models and the facts that valid aggregates satisfy them and survive the trip (C23, C24).
  \<^item> \<open>Commands\<close>, \<open>Command_Properties\<close>, \<open>Command_Witnesses\<close>, \<open>Usernames\<close>: the five handlers; no
    lost updates, their exact effect, provisioning, unique usernames (C3, C18, C19, C20).
  \<^item> \<open>Queries\<close>, \<open>Query_Properties\<close>: the six query handlers; batch and search are exact, and a
    hidden username looks absent (C9, C21, C22).
  \<^item> \<open>Durable_Store\<close>, \<open>Durable_Execution\<close>, \<open>Operations\<close>, \<open>Exactly_Once\<close> and its witnesses:
    the replay records and the transactional execution, a client of the locale \<open>durable_store\<close>;
    effect and record are committed together or not at all, a repetition replays, and each
    handler meets what the execution asks of an operation (C4, C5).
  \<^item> \<open>Circuit_Breaker\<close>: the breaker as a step relation over interleaved calls (C13, C31).
  \<^item> \<open>Redis\<close>, \<open>Hot_Store\<close>, \<open>Hot_Lease\<close>, \<open>Hot_Runs\<close>, \<open>Hot_Adapter\<close> and their
    witnesses: the four Lua scripts over the commands of Redis (the locales \<open>redis_server\<close> and
    \<open>redis_world\<close>, interpreted on a server in memory), the abstract lease machine they refine,
    the adapter with its keys, its JSON and its failures (C11, C12, C25, C26, C27).
  \<^item> \<open>Guarded_Store\<close>: the circuit-breaking decorator over any hot store (C32).
  \<^item> \<open>Coordinator\<close>, \<open>Coordinator_Properties\<close>, \<open>Coordinator_Results\<close>, \<open>Coordinator_Witnesses\<close>: the
    coordinator; over any hot store it cannot break atomicity, and what it returns is published,
    live and belongs to the request (C14, C15; locale \<open>coordinated_stores\<close>).
  \<^item> \<open>Metrics\<close>: the Prometheus counters (\<open>idempotency_metrics.py\<close>) over what the coordinator
    observes, by a small Hoare logic for observations: a call adds at most one degradation and one
    outcome, a returned result is counted once, and what is counted is what the caller saw (C29).
  \<^item> \<open>Fingerprint\<close>, \<open>Json_Text\<close>, \<open>Command_Fingerprints\<close>: the canonical form, its JSON text and the
    fingerprint of a request. The order of mappings and sets does not matter, the text
    determines the form, and so the fingerprint tells commands apart (C17, C33).
  \<^item> \<open>Dispatch\<close>, \<open>Dispatch_Properties\<close>: codec, registry, middleware, execution and bus; stored
    results read back, registries are well formed (C34, C35; locale \<open>result_adapter\<close>).
  \<^item> \<open>Service\<close>, \<open>Service_Properties\<close>, \<open>Service_Witnesses\<close>, \<open>Service_Retries\<close>, \<open>Retry_Witnesses\<close>: the
    commands of the service on the bus of the container (\<open>infrastructure/di/commands.py\<close>), the
    atomicity of a dispatch, the composition of everything below it, and what a dispatch that
    is repeated does (C6, C8).
  \<^item> \<open>Protector\<close>: the AES-GCM envelopes of stored results (\<open>stored_result_protector.py\<close>), which are
    not connected to the pipeline (C36).
  \<^item> \<open>Http\<close>, \<open>Http_Properties\<close>: dependencies, bodies, routes and exception handlers; entity
    tags are versions (C37).
  \<^item> \<open>Access_Tokens\<close>: the verifier of access tokens (\<open>entrypoints/http/security/verifier.py\<close>) and the
    routes behind it (C10).
  \<^item> \<open>Failures\<close>, \<open>Failure_Witnesses\<close>: why the commands fail. The locale \<open>failing_port\<close> extends the
    contract of a repository by what its failures mean and is interpreted on both repositories;
    an error of a command is true at some moment of the call and has a response (C30).
  \<^item> \<open>Http_Requests\<close>, \<open>Http_Witnesses\<close>: a patch from its headers to the database. The dependencies of
    the two routes that change what a user owns are composed with the verifier, the bus of the
    container and everything below it; a patch changes only what its token and its tag allow (C7).
  \<^item> \<open>Request_Id\<close>, \<open>Request_Id_Properties\<close>: the middleware around the application. The application
    is a tree of messages that goes on according to what the network answers (C16).
  \<^item> \<open>Request_Log\<close>: the lines its observer writes (\<open>request_lifecycle.py\<close>).
  \<^item> \<open>Configuration\<close>: the settings (\<open>core/settings\<close>), every field and validator (C39). A URL that
    is assembled from components is not read again, so it need not be one of the driver.
  \<^item> \<open>Startup\<close>, \<open>Startup_Witnesses\<close>: logging, what the container builds from the settings
    (\<open>infrastructure/di\<close>), both assemblies of the command bus and the lifespan of the application
    (\<open>entrypoints/http/main.py\<close>); the clients of Redis and of the database may refuse their URLs
    (C38, C40).
  \<^item> \<open>Migrations\<close>: the schema twice, as the migration (\<open>alembic/versions\<close>) creates it and as the
    mapped classes declare it; the two agree but for the name that tells a taken username (C28).

  \<^bold>\<open>Parameters.\<close> What is not in the repository is an argument: the commands of Redis, SHA-256,
  the texts of floats and instants, which time zones exist, pydantic's type adapters and its
  reading of variables, the JSON library, SQLAlchemy's and redis-py's URLs, PyJWT and the cryptography
  library. Hypotheses about them are stated in the theorems
  that need them and are met in the witnesses. PostgreSQL is modelled as far as the code relies
  on it: READ COMMITTED visibility, constraints, aborted transactions, commits that succeed or
  fail with or without an answer. What other sessions do between two statements is arbitrary,
  except where a theorem says that they keep the soundness of the records or the uniqueness of
  rows.

  \<^bold>\<open>Not modelled.\<close> The rendering of log lines, the configuration of structlog, the providers
  that only call constructors, \<open>MutableEntity.mark_updated\<close>, which no aggregate uses because the
  versioned one overrides it, and how Alembic's environment chooses its connection. FastAPI's
  resolution of dependencies and reading of bodies is framework code: the routes are modelled
  from validated parameters on. The rest of the
  sources is imports, type annotations, overloads and protocols, which have no behaviour; the
  contracts of the protocols are the locales.
\<close>

end
